(* ===== verification/Kv_Store.thy ===== *)
theory Kv_Store
  imports Bridge_Prelude
begin

text \<open>
  The contract's persistent collections. A \<open>cw_storage_plus::Map\<close> is an ordered map from
  keys to values; its documented operations are \<open>load\<close>, \<open>save\<close>, \<open>remove\<close>, \<open>has\<close>,
  \<open>clear\<close> and \<open>range\<close> in ascending key order. It is represented by the list of its entries
  in strictly ascending key order, which fixes the order \<open>range\<close> returns, makes equality of
  two maps equality of their contents, and lets sums over all entries be computed.
  An \<open>IndexedMap\<close> with a \<open>UniqueIndex\<close> adds a uniqueness check on \<open>save\<close> and a search by
  index value; an \<open>Item\<close> is an optional value.
  The laws the clients rely on are the locales \<open>kv_contract\<close> and \<open>kv_ordered\<close>.
\<close>

section \<open>Entry lists\<close>

fun put_entry :: "'k::linorder \<Rightarrow> 'v \<Rightarrow> ('k \<times> 'v) list \<Rightarrow> ('k \<times> 'v) list" where
  "put_entry k v [] = [(k, v)]"
| "put_entry k v (e # es) =
     (if fst e < k then e # put_entry k v es
      else if fst e = k then (k, v) # es
      else (k, v) # e # es)"

abbreviation ascending :: "('k::linorder \<times> 'v) list \<Rightarrow> bool" where
  "ascending es \<equiv> sorted_wrt (<) (map fst es)"

lemma put_entry_keys: "fst ` set (put_entry k v es) = insert k (fst ` set es)"
  by (induction es) auto

lemma put_entry_ascending: "ascending es \<Longrightarrow> ascending (put_entry k v es)"
proof (induction es)
  case Nil
  then show ?case by simp
next
  case (Cons e es)
  have keys: "set (map fst (put_entry k v es)) = insert k (set (map fst es))"
    using put_entry_keys [of k v es] by simp
  from Cons.prems have tl: "ascending es" and hd: "\<forall>x \<in> set (map fst es). fst e < x"
    by auto
  from Cons.IH tl have IH: "ascending (put_entry k v es)" by simp
  consider "fst e < k" | "fst e = k" | "k < fst e" using linorder_less_linear by blast
  then show ?case
  proof cases
    case 1
    then have "\<forall>x \<in> set (map fst (put_entry k v es)). fst e < x" using hd keys by auto
    with 1 IH show ?thesis by simp
  next
    case 2
    with tl hd show ?thesis by auto
  next
    case 3
    then have "\<forall>x \<in> set (map fst (e # es)). k < x" using hd by (auto intro: less_trans)
    with 3 Cons.prems show ?thesis by (auto simp: not_less_iff_gr_or_eq)
  qed
qed

lemma map_of_put_entry: "map_of (put_entry k v es) = (map_of es)(k \<mapsto> v)"
  by (induction es) (auto simp: fun_eq_iff)

lemma ascending_filter: "ascending es \<Longrightarrow> ascending (filter P es)"
  by (induction es) auto

lemma ascending_distinct: "ascending es \<Longrightarrow> distinct (map fst es)"
  by (induction es) auto

lemma map_of_remove_entry:
  "map_of (filter (\<lambda>e. fst e \<noteq> k) es) = (map_of es)(k := None)"
  by (induction es) (auto simp: fun_eq_iff)

lemma ascending_eqI:
  assumes "ascending es" and "ascending fs" and "map_of es = map_of fs"
  shows "es = fs"
proof (rule map_sorted_distinct_set_unique [where f = fst])
  have d: "distinct (map fst es)" "distinct (map fst fs)"
    using assms(1,2) by (simp_all add: ascending_distinct)
  then show "distinct (map fst es)" and "distinct (map fst fs)" by simp_all
  show "sorted (map fst es)" and "sorted (map fst fs)"
    using assms(1,2) by (auto simp: strict_sorted_iff)
  show eq: "set es = set fs"
    using map_of_eq_Some_iff [OF d(1)] map_of_eq_Some_iff [OF d(2)] assms(3) by auto
  show "inj_on fst (set es \<union> set fs)"
    using d eq by (simp add: distinct_map)
qed

section \<open>The store type and its operations\<close>

typedef (overloaded) ('k::linorder, 'v) kv = "{es :: ('k \<times> 'v) list. ascending es}"
  morphisms kv_entries Abs_kv
  by (rule exI [of _ "[]"]) simp

setup_lifting type_definition_kv

lift_definition kv_empty :: "('k::linorder, 'v) kv" is "[]" by simp

lift_definition kv_save :: "'k::linorder \<Rightarrow> 'v \<Rightarrow> ('k, 'v) kv \<Rightarrow> ('k, 'v) kv" is put_entry
  by (rule put_entry_ascending)

lift_definition kv_remove :: "'k::linorder \<Rightarrow> ('k, 'v) kv \<Rightarrow> ('k, 'v) kv"
  is "\<lambda>k. filter (\<lambda>e. fst e \<noteq> k)" by (rule ascending_filter)

lift_definition kv_map :: "('v \<Rightarrow> 'w) \<Rightarrow> ('k::linorder, 'v) kv \<Rightarrow> ('k, 'w) kv"
  is "\<lambda>f. map (\<lambda>e. (fst e, f (snd e)))" by (simp add: comp_def)

definition kv_load :: "'k::linorder \<Rightarrow> ('k, 'v) kv \<Rightarrow> 'v option" where
  "kv_load k m = map_of (kv_entries m) k"

definition kv_has :: "'k::linorder \<Rightarrow> ('k, 'v) kv \<Rightarrow> bool" where
  "kv_has k m \<longleftrightarrow> kv_load k m \<noteq> None"

definition kv_sum :: "('k::linorder \<Rightarrow> 'v \<Rightarrow> nat) \<Rightarrow> ('k, 'v) kv \<Rightarrow> nat" where
  "kv_sum f m = sum_list (map (\<lambda>e. f (fst e) (snd e)) (kv_entries m))"

text \<open>\<open>idx.item(v)\<close> of a unique index, and \<open>save\<close> of an indexed map.\<close>

definition kv_find :: "('v \<Rightarrow> bool) \<Rightarrow> ('k::linorder, 'v) kv \<Rightarrow> ('k \<times> 'v) option" where
  "kv_find P m = find (\<lambda>e. P (snd e)) (kv_entries m)"

definition index_item :: "('v \<Rightarrow> 'i) \<Rightarrow> 'i \<Rightarrow> ('k::linorder, 'v) kv \<Rightarrow> ('k \<times> 'v) option" where
  "index_item idx i m = kv_find (\<lambda>v. idx v = i) m"

definition index_free :: "('v \<Rightarrow> 'i) \<Rightarrow> 'k \<Rightarrow> 'v \<Rightarrow> ('k::linorder, 'v) kv \<Rightarrow> bool" where
  "index_free idx k v m \<longleftrightarrow> index_item idx (idx v) (kv_remove k m) = None"

instantiation kv :: (linorder, equal) equal
begin

definition equal_kv :: "('a, 'b) kv \<Rightarrow> ('a, 'b) kv \<Rightarrow> bool" where
  "equal_kv m n \<longleftrightarrow> kv_entries m = kv_entries n"

instance
  by standard (simp add: equal_kv_def kv_entries_inject)

end

section \<open>The contracts of the store\<close>

locale kv_contract =
  fixes empty :: 'm
    and load :: "'k \<Rightarrow> 'm \<Rightarrow> 'v option"
    and save :: "'k \<Rightarrow> 'v \<Rightarrow> 'm \<Rightarrow> 'm"
    and remove :: "'k \<Rightarrow> 'm \<Rightarrow> 'm"
  assumes load_empty: "load k empty = None"
    and load_save: "load k (save k' v m) = (if k = k' then Some v else load k m)"
    and load_remove: "load k (remove k' m) = (if k = k' then None else load k m)"
    and extensional: "(\<And>k. load k m = load k n) \<Longrightarrow> m = n"
begin

lemma save_overwrite: "save k v (save k w m) = save k v m"
  by (rule extensional) (simp add: load_save)

lemma save_commute: "k \<noteq> k' \<Longrightarrow> save k v (save k' w m) = save k' w (save k v m)"
  by (rule extensional) (simp add: load_save)

lemma save_same: "load k m = Some v \<Longrightarrow> save k v m = m"
  by (rule extensional) (simp add: load_save)

lemma remove_save: "load k m = None \<Longrightarrow> remove k (save k v m) = m"
  by (rule extensional) (simp add: load_save load_remove)

lemma remove_absent: "load k m = None \<Longrightarrow> remove k m = m"
  by (rule extensional) (simp add: load_remove)

lemma save_remove: "save k v (remove k m) = save k v m"
  by (rule extensional) (simp add: load_save load_remove)

end

locale kv_ordered = kv_contract empty load save remove
  for empty :: 'm
    and load :: "'k::linorder \<Rightarrow> 'm \<Rightarrow> 'v option"
    and save :: "'k \<Rightarrow> 'v \<Rightarrow> 'm \<Rightarrow> 'm"
    and remove :: "'k \<Rightarrow> 'm \<Rightarrow> 'm" +
  fixes entries :: "'m \<Rightarrow> ('k \<times> 'v) list"
  assumes entries_ascending: "ascending (entries m)"
    and entries_load: "(k, v) \<in> set (entries m) \<longleftrightarrow> load k m = Some v"
begin

lemma entries_distinct: "distinct (map fst (entries m))"
  using entries_ascending by (rule ascending_distinct)

lemma entries_empty: "entries empty = []"
proof (cases "entries empty")
  case Nil
  then show ?thesis by simp
next
  case (Cons e es)
  then have "(fst e, snd e) \<in> set (entries empty)" by simp
  then show ?thesis by (simp only: entries_load load_empty) simp
qed

text \<open>Entries beyond a key: what an exclusive lower bound of \<open>range\<close> selects.\<close>

lemma after_key_entries:
  "(k, v) \<in> set (filter (\<lambda>e. b < fst e) (entries m)) \<longleftrightarrow> b < k \<and> load k m = Some v"
  by (auto simp: entries_load)

end

lemma kv_entries_ascending: "ascending (kv_entries m)"
  using kv_entries [of m] by simp

lemma kv_entries_distinct: "distinct (map fst (kv_entries m))"
  by (rule ascending_distinct [OF kv_entries_ascending])

interpretation kv: kv_ordered kv_empty kv_load kv_save kv_remove kv_entries
proof unfold_locales
  show "kv_load k kv_empty = None" for k :: 'a
    by (simp add: kv_load_def kv_empty.rep_eq)
  show "kv_load k (kv_save k' v m) = (if k = k' then Some v else kv_load k m)"
    for k k' :: 'a and v :: 'b and m
    by (simp add: kv_load_def kv_save.rep_eq map_of_put_entry)
  show "kv_load k (kv_remove k' m) = (if k = k' then None else kv_load k m)"
    for k k' :: 'a and m :: "('a, 'b) kv"
    by (simp add: kv_load_def kv_remove.rep_eq map_of_remove_entry)
  show "m = n" if "\<And>k. kv_load k m = kv_load k n" for m n :: "('a, 'b) kv"
    using that ascending_eqI [OF kv_entries_ascending [of m] kv_entries_ascending [of n]]
    by (simp add: kv_load_def fun_eq_iff kv_entries_inject)
  show "ascending (kv_entries m)" for m :: "('a, 'b) kv"
    by (rule kv_entries_ascending)
  show "(k, v) \<in> set (kv_entries m) \<longleftrightarrow> kv_load k m = Some v" for k :: 'a and v :: 'b and m
    by (simp add: kv_load_def kv_entries_distinct)
qed

lemmas kv_laws [simp] = kv.load_empty kv.load_save kv.load_remove

lemma kv_has_laws [simp]:
  "\<not> kv_has k kv_empty"
  "kv_has k (kv_save k' v m) \<longleftrightarrow> k = k' \<or> kv_has k m"
  "kv_has k (kv_remove k' m) \<longleftrightarrow> k \<noteq> k' \<and> kv_has k m"
  by (auto simp: kv_has_def)

lemma kv_load_map [simp]: "kv_load k (kv_map f m) = map_option f (kv_load k m)"
proof -
  have "map_of (map (\<lambda>e. (fst e, f (snd e))) es) k = map_option f (map_of es k)" for es
    by (induction es) auto
  then show ?thesis by (simp add: kv_load_def kv_map.rep_eq)
qed

lemma kv_load_in_entries: "kv_load k m = Some v \<Longrightarrow> (k, v) \<in> set (kv_entries m)"
  by (simp add: kv.entries_load)

section \<open>Searching by index\<close>

lemma kv_find_Some:
  assumes "kv_find P m = Some (k, v)"
  shows "kv_load k m = Some v \<and> P v"
  using find_eq_SomeD [OF assms [unfolded kv_find_def]] by (simp add: kv.entries_load)

lemma kv_find_None: "kv_find P m = None \<longleftrightarrow> (\<forall>k v. kv_load k m = Some v \<longrightarrow> \<not> P v)"
  by (auto simp: kv_find_def find_None_iff kv.entries_load [symmetric])

lemma index_item_Some:
  "index_item idx i m = Some (k, v) \<Longrightarrow> kv_load k m = Some v \<and> idx v = i"
  unfolding index_item_def by (rule kv_find_Some)

lemma index_item_None:
  "index_item idx i m = None \<longleftrightarrow> (\<forall>k v. kv_load k m = Some v \<longrightarrow> idx v \<noteq> i)"
  by (simp add: index_item_def kv_find_None)

lemma index_free_iff:
  "index_free idx k v m \<longleftrightarrow> (\<forall>k' v'. kv_load k' m = Some v' \<longrightarrow> k' \<noteq> k \<longrightarrow> idx v' \<noteq> idx v)"
  by (auto simp: index_free_def index_item_None)

text \<open>An index is unique when no two keys hold values with the same index value.\<close>

definition index_unique :: "('v \<Rightarrow> 'i) \<Rightarrow> ('k::linorder, 'v) kv \<Rightarrow> bool" where
  "index_unique idx m \<longleftrightarrow>
     (\<forall>k v k' v'. kv_load k m = Some v \<longrightarrow> kv_load k' m = Some v' \<longrightarrow> idx v = idx v' \<longrightarrow> k = k')"

lemma index_unique_empty [simp]: "index_unique idx kv_empty"
  by (simp add: index_unique_def)

lemma index_unique_save:
  assumes "index_unique idx m" and "index_free idx k v m"
  shows "index_unique idx (kv_save k v m)"
  using assms unfolding index_unique_def index_free_iff kv.load_save
  by (smt (verit) option.inject)

lemma index_item_unique:
  assumes "index_unique idx m" and "kv_load k m = Some v"
  shows "index_item idx (idx v) m = Some (k, v)"
proof (cases "index_item idx (idx v) m")
  case None
  with assms(2) show ?thesis by (auto simp: index_item_None)
next
  case (Some e)
  obtain k' v' where e: "e = (k', v')" by (cases e)
  with index_item_Some [of idx "idx v" m k' v'] Some
  have *: "kv_load k' m = Some v'" "idx v' = idx v" by simp_all
  with assms have "k' = k" unfolding index_unique_def by blast
  with * assms(2) Some e show ?thesis by simp
qed

section \<open>Sums over all entries\<close>

lemma sum_put_entry:
  "ascending es \<Longrightarrow>
   sum_list (map g (put_entry k v es)) + (case map_of es k of None \<Rightarrow> 0 | Some w \<Rightarrow> g (k, w))
     = sum_list (map g es) + (g (k, v) :: nat)"
proof (induction es)
  case Nil
  then show ?case by simp
next
  case (Cons e es)
  have notin: "map_of es (fst e) = None"
    using Cons.prems ascending_distinct [of "e # es"] by (auto simp: map_of_eq_None_iff)
  consider "fst e < k" | "fst e = k" | "k < fst e" using linorder_less_linear by blast
  then show ?case
  proof cases
    case 1
    with Cons show ?thesis by (cases e) auto
  next
    case 2
    then show ?thesis by (cases e) auto
  next
    case 3
    then have "k \<notin> fst ` set es" using Cons.prems by auto
    then have "map_of es k = None" by (simp add: map_of_eq_None_iff)
    with 3 show ?thesis by (cases e) auto
  qed
qed

lemma kv_sum_save:
  "kv_sum f (kv_save k v m) + (case kv_load k m of None \<Rightarrow> 0 | Some w \<Rightarrow> f k w)
     = kv_sum f m + f k v"
  using sum_put_entry [OF kv_entries_ascending [of m], of "\<lambda>e. f (fst e) (snd e)" k v]
  by (simp add: kv_sum_def kv_save.rep_eq kv_load_def split: option.splits)

lemma kv_sum_save_new: "kv_load k m = None \<Longrightarrow> kv_sum f (kv_save k v m) = kv_sum f m + f k v"
  using kv_sum_save [of f k v m] by simp

lemma kv_sum_empty [simp]: "kv_sum f kv_empty = 0"
  by (simp add: kv_sum_def kv_empty.rep_eq)

lemma kv_sum_remove:
  "kv_sum f (kv_remove k m) + (case kv_load k m of None \<Rightarrow> 0 | Some w \<Rightarrow> f k w) = kv_sum f m"
proof (cases "kv_load k m")
  case None
  then show ?thesis by (simp add: kv.remove_absent)
next
  case (Some w)
  have "kv_save k w (kv_remove k m) = m"
    using Some by (simp add: kv.save_remove kv.save_same)
  with kv_sum_save_new [of k "kv_remove k m" f w] Some show ?thesis by simp
qed

lemma kv_sum_cong:
  assumes "\<And>k v. kv_load k m = Some v \<Longrightarrow> f k v = g k v"
  shows "kv_sum f m = kv_sum g m"
proof -
  have "map (\<lambda>e. f (fst e) (snd e)) (kv_entries m) = map (\<lambda>e. g (fst e) (snd e)) (kv_entries m)"
    by (rule map_cong) (auto intro!: assms simp flip: kv.entries_load)
  then show ?thesis by (simp only: kv_sum_def)
qed

lemma kv_sum_map: "kv_sum f (kv_map h m) = kv_sum (\<lambda>k v. f k (h v)) m"
  by (simp add: kv_sum_def kv_map.rep_eq comp_def)

lemma kv_sum_ge: "kv_load k m = Some v \<Longrightarrow> f k v \<le> kv_sum f m"
  using kv_sum_remove [of f k m] by simp

text \<open>A sum depends on the keys and the values they hold.\<close>

lemma kv_sum_conv: "kv_sum f m = (\<Sum>k \<in> {k. kv_load k m \<noteq> None}. f k (the (kv_load k m)))"
proof -
  let ?ks = "map fst (kv_entries m)"
  have keys: "{k. kv_load k m \<noteq> None} = set ?ks"
    by (force simp: kv_load_def map_of_eq_None_iff)
  have "map (\<lambda>e. f (fst e) (snd e)) (kv_entries m) = map (\<lambda>k. f k (the (kv_load k m))) ?ks"
    by (auto simp: kv.entries_load)
  then have "kv_sum f m = sum_list (map (\<lambda>k. f k (the (kv_load k m))) ?ks)"
    by (simp only: kv_sum_def)
  also have "\<dots> = (\<Sum>k \<in> set ?ks. f k (the (kv_load k m)))"
    by (rule sum_list_distinct_conv_sum_set) (rule kv_entries_distinct)
  finally show ?thesis unfolding keys .
qed

lemma kv_sum_eq:
  assumes "\<And>k. (kv_load k m = None) = (kv_load k n = None)"
    and "\<And>k v w. kv_load k m = Some v \<Longrightarrow> kv_load k n = Some w \<Longrightarrow> f k v = g k w"
  shows "kv_sum f m = kv_sum g n"
  unfolding kv_sum_conv
proof (rule sum.cong)
  show "{k. kv_load k m \<noteq> None} = {k. kv_load k n \<noteq> None}" using assms(1) by auto
  fix k assume "k \<in> {k. kv_load k n \<noteq> None}"
  then show "f k (the (kv_load k m)) = g k (the (kv_load k n))"
    using assms(1) [of k] assms(2) [of k] by auto
qed

text \<open>Counting the entries that satisfy a predicate.\<close>

definition kv_count :: "('v \<Rightarrow> bool) \<Rightarrow> ('k::linorder, 'v) kv \<Rightarrow> nat" where
  "kv_count P m = kv_sum (\<lambda>k v. if P v then 1 else 0) m"

lemma kv_count_empty [simp]: "kv_count P kv_empty = 0"
  by (simp add: kv_count_def)

lemma kv_count_save_new:
  "kv_load k m = None \<Longrightarrow> kv_count P (kv_save k v m) = kv_count P m + (if P v then 1 else 0)"
  by (simp add: kv_count_def kv_sum_save_new)

lemma kv_count_save_same:
  "kv_load k m = Some w \<Longrightarrow> P w = P v \<Longrightarrow> kv_count P (kv_save k v m) = kv_count P m"
  using kv_sum_save [of "\<lambda>k v. if P v then 1 else 0" k v m] by (simp add: kv_count_def)

lemma kv_count_remove:
  "kv_load k m = Some v \<Longrightarrow>
   kv_count P (kv_remove k m) = kv_count P m - (if P v then 1 else 0)"
  using kv_sum_remove [of "\<lambda>k v. if P v then 1 else 0" k m] by (auto simp: kv_count_def)

lemma kv_count_pos: "kv_load k m = Some v \<Longrightarrow> P v \<Longrightarrow> 0 < kv_count P m"
  using kv_sum_ge [of k m v "\<lambda>k v. if P v then 1 else 0"] by (simp add: kv_count_def)

lemma kv_count_zero: "kv_count P m = 0 \<longleftrightarrow> (\<forall>k v. kv_load k m = Some v \<longrightarrow> \<not> P v)"
proof
  assume "kv_count P m = 0"
  then show "\<forall>k v. kv_load k m = Some v \<longrightarrow> \<not> P v" using kv_count_pos by fastforce
next
  assume "\<forall>k v. kv_load k m = Some v \<longrightarrow> \<not> P v"
  then have "kv_count P m = kv_sum (\<lambda>_ _. 0) m"
    unfolding kv_count_def by (intro kv_sum_cong) auto
  then show "kv_count P m = 0" by (simp add: kv_sum_def)
qed

lemma kv_count_eq:
  assumes "\<And>k. (kv_load k m = None) = (kv_load k n = None)"
    and "\<And>k v w. kv_load k m = Some v \<Longrightarrow> kv_load k n = Some w \<Longrightarrow> P v = P w"
  shows "kv_count P m = kv_count P n"
  unfolding kv_count_def using assms by (intro kv_sum_eq) auto

lemma kv_count_map: "(\<And>v. P (h v) = P v) \<Longrightarrow> kv_count P (kv_map h m) = kv_count P m"
  by (simp add: kv_count_def kv_sum_map)

end
