(* ===== verification/Bridge_Errors.thy ===== *)
theory Bridge_Errors
  imports Kv_Store
begin

text \<open>
  The errors of the contract (\<open>error.rs\<close>), the result type of every operation, and the loads
  and saves that can fail.
\<close>

section \<open>Errors\<close>

datatype std_error = StdNotFound | StdGenericErr string

datatype overflow_operation = OverflowAdd | OverflowSub | OverflowMul

datatype payment_error = MultipleDenoms | MissingDenom string | ExtraDenom string | NoFunds | NonPayable

datatype (plugins only: code size) contract_error =
    Std std_error
  | Ownership string
  | OverflowError overflow_operation
  | DivideByZeroError
  | Payment payment_error
  | InvalidThreshold
  | InvalidXRPLAddress string
  | DuplicatedRelayer
  | CosmosTokenAlreadyRegistered string
  | XRPLTokenAlreadyRegistered string string
  | RegistrationFailure
  | UnauthorizedSender
  | TokenNotRegistered
  | OperationAlreadyExecuted
  | EvidenceAlreadyProvided
  | InvalidAmount
  | InvalidUsedTicketSequenceThreshold
  | NoAvailableTickets
  | LastTicketReserved
  | StillHaveAvailableTickets
  | PendingTicketUpdate
  | InvalidTransactionResultEvidence
  | InvalidSuccessfulTransactionResultEvidence
  | InvalidFailedTransactionResultEvidence
  | InvalidTicketAllocationEvidence
  | PendingOperationNotFound
  | PendingOperationAlreadyExists
  | SignatureAlreadyProvided
  | InvalidTicketSequenceToAllocate
  | InvalidXRPLCurrency
  | TokenNotEnabled
  | XRPLTokenNotInactive
  | AmountSentIsZeroAfterTruncation
  | MaximumBridgedAmountReached
  | InvalidSendingPrecision
  | InvalidDecimals
  | InvalidOperationResult
  | CannotCoverBridgingFees
  | TokenStateIsImmutable
  | InvalidTargetTokenState
  | InvalidTargetMaxHoldingAmount
  | PendingRefundNotFound
  | NotEnoughFeesToClaim string u128
  | TooManyRelayers
  | BridgeHalted
  | RotateKeysOngoing
  | OperationVersionMismatch
  | ProhibitedAddress
  | DeliverAmountIsProhibited
  | InvalidDeliverAmount
  | InvalidSignatureLength
  | InvalidXRPLAmount
  | InvalidDenom
  | UnknownReplyId u64

text \<open>
  A call fails with a \<open>ContractError\<close> or by a panic (an arithmetic overflow under
  \<open>overflow-checks\<close>, \<open>unwrap\<close> of a missing value). In both cases the chain discards every
  write of the transaction, so a failure carries no state.
\<close>

datatype failure = Err contract_error | Panic

type_synonym 'a result = "failure + 'a"

abbreviation fail :: "contract_error \<Rightarrow> 'a result" where
  "fail e \<equiv> Inl (Err e)"

text \<open>\<open>map_err(|_| e)\<close>: every error becomes \<open>e\<close>; a panic is no error.\<close>

definition map_err :: "contract_error \<Rightarrow> 'a result \<Rightarrow> 'a result" where
  "map_err e m = (case m of Inl (Err _) \<Rightarrow> fail e | _ \<Rightarrow> m)"

lemma map_err_eq_Inr [result_simps]: "map_err e m = Inr x \<longleftrightarrow> m = Inr x"
  by (auto simp: map_err_def split: sum.splits failure.splits)

lemma map_err_simps [simp]:
  "map_err e (Inr x) = Inr x" "map_err e (fail e') = fail e" "map_err e (Inl Panic) = Inl Panic"
  by (simp_all add: map_err_def)

definition from_std :: "std_error + 'a \<Rightarrow> 'a result" where
  "from_std m = (case m of Inl e \<Rightarrow> fail (Std e) | Inr x \<Rightarrow> Inr x)"

lemma from_std_eq_Inr [result_simps]: "from_std m = Inr x \<longleftrightarrow> m = Inr x"
  by (simp add: from_std_def split: sum.splits)

lemma from_std_simps [simp]: "from_std (Inr x) = Inr x" "from_std (Inl e) = fail (Std e)"
  by (simp_all add: from_std_def)

text \<open>\<open>load\<close> of an item or of a map entry: an error when it is absent.\<close>

definition item_load :: "'a option \<Rightarrow> 'a result" where
  "item_load v = (case v of None \<Rightarrow> fail (Std StdNotFound) | Some x \<Rightarrow> Inr x)"

lemma item_load_eq_Inr [result_simps]: "item_load v = Inr x \<longleftrightarrow> v = Some x"
  by (auto simp: item_load_def split: option.splits)

lemma item_load_simps [simp]: "item_load (Some x) = Inr x" "item_load None = fail (Std StdNotFound)"
  by (simp_all add: item_load_def)

text \<open>\<open>IndexedMap::save\<close> with a unique index.\<close>

definition index_save ::
  "('v \<Rightarrow> 'i) \<Rightarrow> 'k::linorder \<Rightarrow> 'v \<Rightarrow> ('k, 'v) kv \<Rightarrow> ('k, 'v) kv result" where
  "index_save idx k v m =
     (if index_free idx k v m then Inr (kv_save k v m)
      else fail (Std (StdGenericErr ''Violates unique constraint on index'')))"

lemma index_save_eq_Inr [result_simps]:
  "index_save idx k v m = Inr m' \<longleftrightarrow> index_free idx k v m \<and> m' = kv_save k v m"
  by (auto simp: index_save_def)

end
