(* ===== verification/Bridge_Types.thy ===== *)
theory Bridge_Types
  imports Bridge_Errors
begin

text \<open>
  The data of the contract: \<open>relayer.rs\<close>, \<open>signatures.rs\<close>,
  \<open>operation.rs\<close>, \<open>evidence.rs\<close> and \<open>state.rs\<close> (structs, enums and the storage layout),
  the messages the contract emits, and the record \<open>platform\<close> of the functions the contract
  calls and does not define.
  A Rust struct is a record whose field names carry a short prefix of the struct's name; an
  enum is a datatype with the source's constructors.
\<close>

section \<open>Addresses and coins\<close>

datatype addr = Addr (as_str: string)

instantiation addr :: linorder
begin

definition less_eq_addr :: "addr \<Rightarrow> addr \<Rightarrow> bool" where
  "less_eq_addr a b \<longleftrightarrow> as_str a \<le> as_str b"

definition less_addr :: "addr \<Rightarrow> addr \<Rightarrow> bool" where
  "less_addr a b \<longleftrightarrow> as_str a < as_str b"

instance
  by standard (auto simp: less_eq_addr_def less_addr_def addr.expand)

end

lemma addr_order_simps [simp]:
  "Addr a \<le> Addr b \<longleftrightarrow> a \<le> b" "Addr a < Addr b \<longleftrightarrow> a < b"
  by (simp_all add: less_eq_addr_def less_addr_def)

record coin =
  c_denom :: string
  c_amount :: u128

definition coin_of :: "u128 \<Rightarrow> string \<Rightarrow> coin" where
  "coin_of a d = \<lparr>c_denom = d, c_amount = a\<rparr>"

lemma coin_of_simps [simp]: "c_denom (coin_of a d) = d" "c_amount (coin_of a d) = a"
  by (simp_all add: coin_of_def)

record cw20_coin =
  w_address :: string
  w_amount :: u128

section \<open>Relayers, signatures, operations, evidences\<close>

record relayer =
  rl_cosmos_address :: addr
  rl_xrpl_address :: string
  rl_xrpl_pub_key :: string

record signature =
  sg_relayer_cosmos_address :: addr
  sg_signature :: string

datatype operation_type =
    AllocateTickets u32
  | TrustSet string string u128
  | RotateKeys "relayer list" u32
  | CosmosToXRPLTransfer string string u128 "u128 option" addr string

record operation =
  op_id :: string
  op_version :: u64
  op_ticket_sequence :: "u64 option"
  op_account_sequence :: "u64 option"
  op_signatures :: "signature list"
  op_operation_type :: operation_type
  op_xrpl_base_fee :: u64

datatype transaction_result = Accepted | Rejected | Invalid

datatype operation_result = TicketsAllocation "u64 list option"

datatype evidence =
    XRPLToCosmosTransfer string string string u128 addr "string option"
  | XRPLTransactionResult "string option" "u64 option" "u64 option" transaction_result
      "operation_result option"

section \<open>Configuration and tokens\<close>

datatype bridge_state = Active | Halted

record config =
  cf_relayers :: "relayer list"
  cf_evidence_threshold :: u32
  cf_used_ticket_sequence_threshold :: u32
  cf_trust_set_limit_amount :: u128
  cf_bridge_xrpl_address :: string
  cf_bridge_state :: bridge_state
  cf_xrpl_base_fee :: u64
  cf_token_factory_addr :: addr
  cf_rate_limit_addr :: "addr option"
  cf_osor_entry_point :: "addr option"

datatype token_state = Enabled | Disabled | Processing | Inactive

record xrpl_token =
  xt_issuer :: string
  xt_currency :: string
  xt_cosmos_denom :: string
  xt_sending_precision :: i32
  xt_max_holding_amount :: u128
  xt_state :: token_state
  xt_bridging_fee :: u128

record cosmos_token =
  ct_denom :: string
  ct_decimals :: u32
  ct_xrpl_currency :: string
  ct_sending_precision :: i32
  ct_max_holding_amount :: u128
  ct_state :: token_state
  ct_bridging_fee :: u128

record pending_refund =
  pr_address :: addr
  pr_id :: string
  pr_xrpl_tx_hash :: "string option"
  pr_coin :: coin

record temp_universal_swap =
  tu_recovery_address :: string
  tu_return_amount :: coin

section \<open>Storage\<close>

text \<open>
  One field per storage constant of \<open>state.rs\<close>, named like it; an \<open>Item\<close> is an option, so a
  contract that was never instantiated is the state \<open>empty_storage\<close>. The last two fields are
  the items that the libraries \<open>cw2\<close> (name and version of the contract) and \<open>cw_ownable\<close>
  (opaque bytes) keep in the same storage.
\<close>

record storage =
  CONFIG :: "config option"
  TX_EVIDENCES :: "(string, addr list) kv"
  PROCESSED_TXS :: "(string, unit) kv"
  COSMOS_TOKENS :: "(string, cosmos_token) kv"
  XRPL_TOKENS :: "(string, xrpl_token) kv"
  AVAILABLE_TICKETS :: "u64 list option"
  USED_TICKETS_COUNTER :: "u32 option"
  PENDING_OPERATIONS :: "(u64, operation) kv"
  PENDING_TICKET_UPDATE :: "bool option"
  PENDING_REFUNDS :: "(addr \<times> string, pending_refund) kv"
  FEES_COLLECTED :: "(addr, coin list) kv"
  FEE_REMAINDERS :: "(string, u128) kv"
  PENDING_ROTATE_KEYS :: "bool option"
  PROHIBITED_XRPL_ADDRESSES :: "(string, unit) kv"
  TEMP_UNIVERSAL_SWAP :: "temp_universal_swap option"
  CONTRACT_INFO :: "(string \<times> string) option"
  OWNERSHIP :: bytes

definition empty_storage :: storage where
  "empty_storage =
     \<lparr>CONFIG = None, TX_EVIDENCES = kv_empty, PROCESSED_TXS = kv_empty,
      COSMOS_TOKENS = kv_empty, XRPL_TOKENS = kv_empty, AVAILABLE_TICKETS = None,
      USED_TICKETS_COUNTER = None, PENDING_OPERATIONS = kv_empty,
      PENDING_TICKET_UPDATE = None, PENDING_REFUNDS = kv_empty, FEES_COLLECTED = kv_empty,
      FEE_REMAINDERS = kv_empty, PENDING_ROTATE_KEYS = None,
      PROHIBITED_XRPL_ADDRESSES = kv_empty, TEMP_UNIVERSAL_SWAP = None,
      CONTRACT_INFO = None, OWNERSHIP = []\<rparr>"

datatype (plugins only: code size) top_key =
    TopConfig | TopTxEvidences | TopProcessedTxs | TopCosmosTokens | TopXRPLTokens
  | TopUsedXRPLCurrenciesForCosmosTokens | TopAvailableTickets | TopUsedTickets
  | TopPendingOperations | TopPendingTicketUpdate | TopPendingRefunds | TopFeesCollected
  | TopFeeRemainders | TopPendingRotateKeys | TopProhibitedXRPLAddresses

fun top_key_as_str :: "top_key \<Rightarrow> string" where
  "top_key_as_str TopConfig = ''1''"
| "top_key_as_str TopTxEvidences = ''2''"
| "top_key_as_str TopProcessedTxs = ''3''"
| "top_key_as_str TopCosmosTokens = ''4''"
| "top_key_as_str TopXRPLTokens = ''5''"
| "top_key_as_str TopUsedXRPLCurrenciesForCosmosTokens = ''6''"
| "top_key_as_str TopAvailableTickets = ''7''"
| "top_key_as_str TopUsedTickets = ''8''"
| "top_key_as_str TopPendingOperations = ''9''"
| "top_key_as_str TopPendingTicketUpdate = ''a''"
| "top_key_as_str TopPendingRefunds = ''b''"
| "top_key_as_str TopFeesCollected = ''c''"
| "top_key_as_str TopFeeRemainders = ''d''"
| "top_key_as_str TopPendingRotateKeys = ''e''"
| "top_key_as_str TopProhibitedXRPLAddresses = ''f''"

section \<open>Authorisation\<close>

datatype (plugins only: code size) contract_actions =
    CA_Instantiation | CA_CreateCosmosToken | CA_MintCosmosToken | CA_RegisterCosmosToken
  | CA_RegisterXRPLToken | CA_RecoverTickets | CA_RecoverXRPLTokenRegistration
  | CA_SaveEvidence | CA_SaveSignature | CA_SendToXRPL | CA_ClaimFees | CA_UpdateXRPLToken
  | CA_UpdateCosmosToken | CA_UpdateXRPLBaseFee | CA_UpdateProhibitedXRPLAddresses
  | CA_ClaimRefunds | CA_HaltBridge | CA_ResumeBridge | CA_RotateKeys
  | CA_CancelPendingOperation | CA_UpdateUsedTicketSequenceThreshold | CA_AddRateLimit
  | CA_RemoveRateLimit | CA_ResetRateLimitQuota

datatype user_type = Owner | Relayer

fun is_authorized :: "user_type \<Rightarrow> contract_actions \<Rightarrow> bool" where
  "is_authorized u CA_Instantiation = True"
| "is_authorized u CA_RegisterCosmosToken = (u = Owner)"
| "is_authorized u CA_RegisterXRPLToken = (u = Owner)"
| "is_authorized u CA_SaveEvidence = (u = Relayer)"
| "is_authorized u CA_RecoverTickets = (u = Owner)"
| "is_authorized u CA_CreateCosmosToken = (u = Owner)"
| "is_authorized u CA_MintCosmosToken = (u = Owner)"
| "is_authorized u CA_RecoverXRPLTokenRegistration = (u = Owner)"
| "is_authorized u CA_SaveSignature = (u = Relayer)"
| "is_authorized u CA_SendToXRPL = True"
| "is_authorized u CA_ClaimFees = (u = Relayer)"
| "is_authorized u CA_UpdateXRPLToken = (u = Owner)"
| "is_authorized u CA_UpdateCosmosToken = (u = Owner)"
| "is_authorized u CA_UpdateXRPLBaseFee = (u = Owner)"
| "is_authorized u CA_UpdateProhibitedXRPLAddresses = (u = Owner)"
| "is_authorized u CA_ClaimRefunds = True"
| "is_authorized u CA_HaltBridge = (u = Owner \<or> u = Relayer)"
| "is_authorized u CA_ResumeBridge = (u = Owner)"
| "is_authorized u CA_RotateKeys = (u = Owner)"
| "is_authorized u CA_CancelPendingOperation = (u = Owner)"
| "is_authorized u CA_UpdateUsedTicketSequenceThreshold = (u = Owner)"
| "is_authorized u CA_AddRateLimit = (u = Owner)"
| "is_authorized u CA_RemoveRateLimit = (u = Owner)"
| "is_authorized u CA_ResetRateLimitQuota = (u = Owner)"

fun action_as_str :: "contract_actions \<Rightarrow> string" where
  "action_as_str CA_Instantiation = ''bridge_instantiation''"
| "action_as_str CA_CreateCosmosToken = ''create_cosmos_token''"
| "action_as_str CA_MintCosmosToken = ''mint_cosmos_token''"
| "action_as_str CA_RegisterCosmosToken = ''register_cosmos_token''"
| "action_as_str CA_RegisterXRPLToken = ''register_xrpl_token''"
| "action_as_str CA_RecoverTickets = ''recover_tickets''"
| "action_as_str CA_RecoverXRPLTokenRegistration = ''recover_xrpl_token_registration''"
| "action_as_str CA_SaveEvidence = ''save_evidence''"
| "action_as_str CA_SaveSignature = ''save_signature''"
| "action_as_str CA_SendToXRPL = ''send_to_xrpl''"
| "action_as_str CA_ClaimFees = ''claim_fees''"
| "action_as_str CA_ClaimRefunds = ''claim_refunds''"
| "action_as_str CA_UpdateXRPLToken = ''update_xrpl_token''"
| "action_as_str CA_UpdateCosmosToken = ''update_cosmos_token''"
| "action_as_str CA_UpdateXRPLBaseFee = ''update_xrpl_base_fee''"
| "action_as_str CA_UpdateProhibitedXRPLAddresses = ''update_invalid_xrpl_addresses''"
| "action_as_str CA_HaltBridge = ''halt_bridge''"
| "action_as_str CA_ResumeBridge = ''resume_bridge''"
| "action_as_str CA_RotateKeys = ''rotate_keys''"
| "action_as_str CA_CancelPendingOperation = ''cancel_pending_operation''"
| "action_as_str CA_UpdateUsedTicketSequenceThreshold = ''update_used_ticket_sequence_threshold''"
| "action_as_str CA_AddRateLimit = ''add_rate_limit''"
| "action_as_str CA_RemoveRateLimit = ''remove_rate_limit''"
| "action_as_str CA_ResetRateLimitQuota = ''reset_rate_limit_quota''"

section \<open>Messages the contract emits\<close>

text \<open>
  \<open>wasm_execute(addr, &msg, funds)\<close> is the constructor \<open>WasmExecute\<close> over the message it
  would serialise; the quota of a rate limit is passed through unread, as opaque bytes.
\<close>

type_synonym quota_msg = bytes

record packet =
  pk_channel :: string
  pk_denom :: string
  pk_amount :: u128

datatype tokenfactory_msg =
    CreateDenom string
  | MintTokens string u128 string
  | BurnTokens string u128 string

datatype rate_limit_msg =
    SendPacket packet
  | RecvPacket packet
  | UndoSend packet
  | AddPath string string "quota_msg list"
  | RemovePath string string
  | ResetPathQuota string string string

datatype entry_point_msg = UniversalSwap string

datatype wasm_payload =
    TokenFactory tokenfactory_msg
  | RateLimiter rate_limit_msg
  | EntryPoint entry_point_msg

datatype cosmos_msg =
    WasmExecute string wasm_payload "coin list"
  | BankSend string "coin list"

datatype reply_on = ReplyNever | ReplyError

record sub_msg =
  sm_id :: u64
  sm_msg :: cosmos_msg
  sm_reply_on :: reply_on

record response =
  rs_messages :: "sub_msg list"
  rs_attributes :: "(string \<times> string) list"

definition response_new :: response where
  "response_new = \<lparr>rs_messages = [], rs_attributes = []\<rparr>"

definition add_attribute :: "string \<Rightarrow> string \<Rightarrow> response \<Rightarrow> response" where
  "add_attribute k v r = r\<lparr>rs_attributes := rs_attributes r @ [(k, v)]\<rparr>"

definition add_submessages :: "sub_msg list \<Rightarrow> response \<Rightarrow> response" where
  "add_submessages ms r = r\<lparr>rs_messages := rs_messages r @ ms\<rparr>"

definition plain_msg :: "cosmos_msg \<Rightarrow> sub_msg" where
  "plain_msg m = \<lparr>sm_id = 0, sm_msg = m, sm_reply_on = ReplyNever\<rparr>"

definition reply_on_error :: "cosmos_msg \<Rightarrow> u64 \<Rightarrow> sub_msg" where
  "reply_on_error m i = \<lparr>sm_id = i, sm_msg = m, sm_reply_on = ReplyError\<rparr>"

definition add_messages :: "cosmos_msg list \<Rightarrow> response \<Rightarrow> response" where
  "add_messages ms = add_submessages (map plain_msg ms)"

definition add_message :: "cosmos_msg \<Rightarrow> response \<Rightarrow> response" where
  "add_message m = add_messages [m]"

definition add_attributes :: "(string \<times> string) list \<Rightarrow> response \<Rightarrow> response" where
  "add_attributes kvs r = r\<lparr>rs_attributes := rs_attributes r @ kvs\<rparr>"

lemma response_simps [simp]:
  "rs_messages (add_attributes kvs r) = rs_messages r"
  "rs_attributes (add_attributes kvs r) = rs_attributes r @ kvs"
  "rs_messages response_new = []" "rs_attributes response_new = []"
  "rs_messages (add_attribute k v r) = rs_messages r"
  "rs_attributes (add_attribute k v r) = rs_attributes r @ [(k, v)]"
  "rs_messages (add_submessages ss r) = rs_messages r @ ss"
  "rs_attributes (add_submessages ss r) = rs_attributes r"
  "rs_messages (add_messages ms r) = rs_messages r @ map plain_msg ms"
  "rs_attributes (add_messages ms r) = rs_attributes r"
  "rs_messages (add_message m r) = rs_messages r @ [plain_msg m]"
  "rs_attributes (add_message m r) = rs_attributes r"
  by (simp_all add: response_new_def add_attribute_def add_attributes_def add_submessages_def add_messages_def
      add_message_def)

section \<open>The platform\<close>

text \<open>
  What the contract calls and does not define: the chain's address validation and bank queries,
  the crates \<open>bs58\<close> (with Ripple's alphabet), \<open>sha2\<close>, \<open>cw_utils::one_coin\<close> and
  \<open>cw_ownable\<close>, JSON serialisation of an evidence, and hexadecimal printing of
  \<open>HexBinary\<close>. No property assumes more of them than a named hypothesis says.
\<close>

type_synonym ownable_action = bytes

record env =
  ev_height :: u64
  ev_time_seconds :: u64
  ev_contract_address :: addr

record platform =
  addr_validate :: "string \<Rightarrow> std_error + addr"
  bs58_decode :: "string \<Rightarrow> bytes option"
  sha256_digest :: "bytes \<Rightarrow> bytes"
  to_hex :: "bytes \<Rightarrow> string"
  to_json_vec :: "evidence \<Rightarrow> std_error + bytes"
  one_coin :: "coin list \<Rightarrow> payment_error + coin"
  initialize_owner :: "string \<Rightarrow> std_error + bytes"
  is_owner :: "bytes \<Rightarrow> addr \<Rightarrow> std_error + bool"
  ownable_update :: "bytes \<Rightarrow> env \<Rightarrow> addr \<Rightarrow> ownable_action \<Rightarrow> string + bytes"
  ownership_attributes :: "bytes \<Rightarrow> (string \<times> string) list"
  get_ownership :: "bytes \<Rightarrow> std_error + bytes"
  query_supply :: "string \<Rightarrow> std_error + u128"
  query_balance :: "addr \<Rightarrow> string \<Rightarrow> std_error + u128"

record message_info =
  mi_sender :: addr
  mi_funds :: "coin list"

definition as_bytes :: "string \<Rightarrow> bytes" where
  "as_bytes s = map (\<lambda>c. word_of_nat (char_code c)) s"

end
