(* ===== verification/Checked_Arith.thy ===== *)
theory Checked_Arith
  imports Bridge_Errors
begin

text \<open>
  The arithmetic the contract uses on \<open>Uint128\<close>, \<open>u64\<close>, \<open>u32\<close> and \<open>i32\<close>: the checked
  operations of \<open>Uint128\<close>, which return an error, and Rust's plain operators, which panic on
  overflow (the release profile sets \<open>overflow-checks\<close>). Each operation has one inversion
  lemma that states a successful result as an equation of natural numbers.
\<close>

definition checked_add :: "u128 \<Rightarrow> u128 \<Rightarrow> u128 result" where
  "checked_add a b =
     (if unat a + unat b < 2 ^ 128 then Inr (a + b) else fail (OverflowError OverflowAdd))"

definition checked_sub :: "u128 \<Rightarrow> u128 \<Rightarrow> u128 result" where
  "checked_sub a b = (if b \<le> a then Inr (a - b) else fail (OverflowError OverflowSub))"

definition checked_mul :: "u128 \<Rightarrow> u128 \<Rightarrow> u128 result" where
  "checked_mul a b =
     (if unat a * unat b < 2 ^ 128 then Inr (a * b) else fail (OverflowError OverflowMul))"

definition checked_div :: "u128 \<Rightarrow> u128 \<Rightarrow> u128 result" where
  "checked_div a b = (if b = 0 then fail DivideByZeroError else Inr (a div b))"

definition panic_add :: "'a::len word \<Rightarrow> 'a word \<Rightarrow> 'a word result" where
  "panic_add a b = (if unat a + unat b < 2 ^ LENGTH('a) then Inr (a + b) else Inl Panic)"

definition panic_sub :: "'a::len word \<Rightarrow> 'a word \<Rightarrow> 'a word result" where
  "panic_sub a b = (if b \<le> a then Inr (a - b) else Inl Panic)"

definition saturating_sub :: "'a::len word \<Rightarrow> 'a word \<Rightarrow> 'a word" where
  "saturating_sub a b = (if b \<le> a then a - b else 0)"

text \<open>\<open>10u128.pow(e)\<close>\<close>

definition pow10_u128 :: "nat \<Rightarrow> u128 result" where
  "pow10_u128 e = (if (10::nat) ^ e < 2 ^ 128 then Inr (10 ^ e) else Inl Panic)"

text \<open>\<open>a - b\<close> on \<open>i32\<close>, and \<open>unsigned_abs\<close>.\<close>

definition sub_i32 :: "i32 \<Rightarrow> i32 \<Rightarrow> i32 result" where
  "sub_i32 a b =
     (let d = sint a - sint b in
      if - (2 ^ 31) \<le> d \<and> d < 2 ^ 31 then Inr (word_of_int d) else Inl Panic)"

definition unsigned_abs :: "i32 \<Rightarrow> nat" where
  "unsigned_abs a = nat \<bar>sint a\<bar>"

section \<open>Inversion\<close>

lemma checked_add_eq_Inr [result_simps]: "checked_add a b = Inr c \<longleftrightarrow> unat c = unat a + unat b"
proof -
  have "unat c < 2 ^ 128" using unsigned_less [of c] by simp
  moreover have "unat a + unat b < 2 ^ 128 \<Longrightarrow> unat (a + b) = unat a + unat b"
    using unat_add_lem [of a b] by simp
  ultimately show ?thesis
    by (auto simp: checked_add_def word_unat_eq_iff)
qed

lemma checked_sub_eq_Inr [result_simps]: "checked_sub a b = Inr c \<longleftrightarrow> unat a = unat c + unat b"
  by (auto simp: checked_sub_def word_unat_eq_iff unat_sub word_le_nat_alt)

lemma checked_mul_eq_Inr [result_simps]: "checked_mul a b = Inr c \<longleftrightarrow> unat c = unat a * unat b"
proof -
  have "unat c < 2 ^ 128" using unsigned_less [of c] by simp
  moreover have "unat a * unat b < 2 ^ 128 \<Longrightarrow> unat (a * b) = unat a * unat b"
    using unat_mult_lem [of a b] by simp
  ultimately show ?thesis
    by (auto simp: checked_mul_def word_unat_eq_iff)
qed

lemma checked_div_eq_Inr [result_simps]:
  "checked_div a b = Inr c \<longleftrightarrow> unat b \<noteq> 0 \<and> unat c = unat a div unat b"
proof (cases "b = 0")
  case True
  then show ?thesis by (simp add: checked_div_def)
next
  case False
  then have "unat b \<noteq> 0" by (simp add: unat_eq_0)
  with False show ?thesis
    by (auto simp: checked_div_def word_unat_eq_iff [of _ c] word_unat_eq_iff [of c] unat_div)
qed

lemma panic_add_eq_Inr [result_simps]:
  "panic_add a b = Inr c \<longleftrightarrow> unat c = unat a + unat b" for a :: "'a::len word"
proof (cases "unat a + unat b < 2 ^ LENGTH('a)")
  case True
  then have "unat (a + b) = unat a + unat b" using unat_add_lem [of a b] by simp
  with True show ?thesis by (auto simp: panic_add_def word_unat_eq_iff)
next
  case False
  moreover have "unat c < 2 ^ LENGTH('a)" by (rule unsigned_less)
  ultimately have "unat c \<noteq> unat a + unat b" by (metis (full_types))
  with False show ?thesis by (simp add: panic_add_def)
qed

lemma panic_sub_eq_Inr [result_simps]: "panic_sub a b = Inr c \<longleftrightarrow> unat a = unat c + unat b"
  by (auto simp: panic_sub_def word_unat_eq_iff unat_sub word_le_nat_alt)

lemma unat_saturating_sub [simp]: "unat (saturating_sub a b) = unat a - unat b"
  by (auto simp: saturating_sub_def unat_sub word_le_nat_alt)

lemma unat_pow10: "(10::nat) ^ e < 2 ^ 128 \<Longrightarrow> unat (10 ^ e :: u128) = 10 ^ e"
proof -
  assume "(10::nat) ^ e < 2 ^ 128"
  moreover have "(10 ^ e :: u128) = word_of_nat (10 ^ e)" by simp
  ultimately show ?thesis by (simp only: unat_of_nat) simp
qed

lemma pow10_u128_eq_Inr [result_simps]: "pow10_u128 e = Inr p \<longleftrightarrow> unat p = 10 ^ e"
proof -
  have "unat p < 2 ^ 128" using unsigned_less [of p] by simp
  then show ?thesis
    by (auto simp: pow10_u128_def word_unat_eq_iff unat_pow10)
qed

lemma pow10_fits: "(10::nat) ^ e < 2 ^ 128 \<longleftrightarrow> e \<le> 38"
proof
  show "(10::nat) ^ e < 2 ^ 128 \<Longrightarrow> e \<le> 38"
  proof (rule ccontr)
    assume "(10::nat) ^ e < 2 ^ 128" and "\<not> e \<le> 38"
    then have "(10::nat) ^ 39 \<le> 10 ^ e" by (intro power_increasing) auto
    with \<open>10 ^ e < 2 ^ 128\<close> show False by simp
  qed
next
  assume "e \<le> 38"
  then have "(10::nat) ^ e \<le> 10 ^ 38" by (intro power_increasing) auto
  also have "\<dots> < 2 ^ 128" by simp
  finally show "(10::nat) ^ e < 2 ^ 128" .
qed

lemma pow10_u128_ok: "e \<le> 38 \<Longrightarrow> pow10_u128 e = Inr (10 ^ e)"
  unfolding pow10_u128_def by (simp only: pow10_fits if_True)

lemma pow10_u128_panic: "38 < e \<Longrightarrow> pow10_u128 e = Inl Panic"
  unfolding pow10_u128_def pow10_fits by simp

lemma ex_pow10_u128: "(\<exists>p :: u128. unat p = 10 ^ e \<and> P (10 ^ e)) \<longleftrightarrow> e \<le> 38 \<and> P (10 ^ e)"
  by (metis pow10_u128_eq_Inr pow10_u128_ok pow10_u128_panic not_le sum.distinct(1))

lemma unat_of_nat_u128: "n < 2 ^ 128 \<Longrightarrow> unat (word_of_nat n :: u128) = n"
  by (simp add: unat_of_nat)

lemma u128_bound: "unat (a :: u128) < 2 ^ 128"
  using unsigned_less [of a] by simp

lemma sub_i32_abs [result_simps]:
  "sub_i32 a b = Inr d \<longleftrightarrow>
     - (2 ^ 31) \<le> sint a - sint b \<and> sint a - sint b < 2 ^ 31 \<and> sint d = sint a - sint b"
proof -
  have *: "sint (word_of_int x :: i32) = x" if "- (2 ^ 31) \<le> x" "x < 2 ^ 31" for x :: int
    using that by (simp add: signed_of_int signed_take_bit_int_eq_self)
  show ?thesis
  proof (cases "- (2 ^ 31) \<le> sint a - sint b \<and> sint a - sint b < 2 ^ 31")
    case True
    then have "sint (word_of_int (sint a - sint b) :: i32) = sint a - sint b"
      by (intro *) simp_all
    then have "word_of_int (sint a - sint b) = d \<longleftrightarrow> sint d = sint a - sint b"
      by (metis signed_word_eqI)
    with True show ?thesis by (simp add: sub_i32_def Let_def)
  next
    case False
    then show ?thesis by (auto simp: sub_i32_def Let_def)
  qed
qed

lemmas checked_arith_defs =
  checked_add_def checked_sub_def checked_mul_def checked_div_def panic_add_def panic_sub_def
  pow10_u128_def sub_i32_def unsigned_abs_def saturating_sub_def

end
