(* ===== verification/Pending_Operations.thy ===== *)
theory Pending_Operations
  imports Bridge_Types Checked_Arith
begin

text \<open>
  The queue of pending operations and the pending refunds (\<open>operation.rs\<close>): creation of an
  operation, the check that halting allows it, and the refunds a rejected transfer leaves for
  its sender.
\<close>

section \<open>Operations\<close>

fun operation_type_as_str :: "operation_type \<Rightarrow> string" where
  "operation_type_as_str (AllocateTickets _) = ''allocate_tickets''"
| "operation_type_as_str (TrustSet _ _ _) = ''trust_set''"
| "operation_type_as_str (RotateKeys _ _) = ''rotate_keys''"
| "operation_type_as_str (CosmosToXRPLTransfer _ _ _ _ _ _) = ''cosmos_to_xrpl_transfer''"

definition check_operation_exists :: "storage \<Rightarrow> u64 \<Rightarrow> operation result" where
  "check_operation_exists s operation_id =
     map_err PendingOperationNotFound (item_load (kv_load operation_id (PENDING_OPERATIONS s)))"

definition check_valid_operation_if_halt :: "storage \<Rightarrow> config \<Rightarrow> operation_type \<Rightarrow> unit result" where
  "check_valid_operation_if_halt s config operation_type =
     (if cf_bridge_state config = Halted then
        (case operation_type of
           RotateKeys _ _ \<Rightarrow>
             and_then (item_load (PENDING_ROTATE_KEYS s)) (\<lambda>pending.
             if \<not> pending then fail BridgeHalted else Inr ())
         | AllocateTickets _ \<Rightarrow> Inr ()
         | _ \<Rightarrow> fail BridgeHalted)
      else Inr ())"

text \<open>\<open>ticket_sequence.unwrap_or_else(|| account_sequence.unwrap())\<close>\<close>

definition sequence_or :: "u64 option \<Rightarrow> u64 option \<Rightarrow> u64 result" where
  "sequence_or a b = (case a of Some n \<Rightarrow> Inr n | None \<Rightarrow> (case b of Some n \<Rightarrow> Inr n | None \<Rightarrow> Inl Panic))"

definition operation_unique_id :: "u64 \<Rightarrow> u64 \<Rightarrow> string" where
  "operation_unique_id timestamp operation_id =
     show_nat (unat timestamp) @ ''-'' @ show_nat (unat operation_id)"

definition create_pending_operation ::
  "storage \<Rightarrow> u64 \<Rightarrow> u64 option \<Rightarrow> u64 option \<Rightarrow> operation_type \<Rightarrow> storage result" where
  "create_pending_operation s timestamp ticket_sequence account_sequence operation_type =
     and_then (item_load (CONFIG s)) (\<lambda>config.
     and_then (check_valid_operation_if_halt s config operation_type) (\<lambda>_.
     and_then (sequence_or ticket_sequence account_sequence) (\<lambda>operation_id.
     let operation =
       \<lparr>op_id = operation_unique_id timestamp operation_id,
        op_version = 1,
        op_ticket_sequence = ticket_sequence,
        op_account_sequence = account_sequence,
        op_signatures = [],
        op_operation_type = operation_type,
        op_xrpl_base_fee = cf_xrpl_base_fee config\<rparr> in
     if kv_has operation_id (PENDING_OPERATIONS s) then fail PendingOperationAlreadyExists
     else Inr (s\<lparr>PENDING_OPERATIONS := kv_save operation_id operation (PENDING_OPERATIONS s)\<rparr>))))"

definition store_pending_refund ::
  "storage \<Rightarrow> string \<Rightarrow> string option \<Rightarrow> addr \<Rightarrow> coin \<Rightarrow> storage result" where
  "store_pending_refund s pending_operation_id xrpl_tx_hash receiver coin =
     (let pending_refund =
        \<lparr>pr_address = receiver, pr_id = pending_operation_id, pr_xrpl_tx_hash = xrpl_tx_hash,
         pr_coin = coin\<rparr>
      in Inr (s\<lparr>PENDING_REFUNDS :=
           kv_save (receiver, pending_operation_id) pending_refund (PENDING_REFUNDS s)\<rparr>))"

definition remove_pending_refund :: "storage \<Rightarrow> addr \<Rightarrow> string \<Rightarrow> (coin \<times> storage) result" where
  "remove_pending_refund s sender pending_refund_id =
     and_then
       (map_err PendingRefundNotFound
          (item_load (kv_load (sender, pending_refund_id) (PENDING_REFUNDS s)))) (\<lambda>pending_refund.
     Inr (pr_coin pending_refund,
          s\<lparr>PENDING_REFUNDS := kv_remove (sender, pending_refund_id) (PENDING_REFUNDS s)\<rparr>))"

section \<open>Properties\<close>

fun halt_allows :: "operation_type \<Rightarrow> bool option \<Rightarrow> bool" where
  "halt_allows (AllocateTickets _) pending = True"
| "halt_allows (RotateKeys _ _) pending = (pending = Some True)"
| "halt_allows (TrustSet _ _ _) pending = False"
| "halt_allows (CosmosToXRPLTransfer _ _ _ _ _ _) pending = False"

lemma check_valid_operation_if_halt_ok [result_simps]:
  "check_valid_operation_if_halt s config ty = Inr u \<longleftrightarrow>
     cf_bridge_state config = Active \<or> halt_allows ty (PENDING_ROTATE_KEYS s)"
proof (cases "cf_bridge_state config")
  case Active
  then show ?thesis by (simp add: check_valid_operation_if_halt_def)
next
  case Halted
  then show ?thesis
    by (cases ty) (auto simp: check_valid_operation_if_halt_def result_simps)
qed

lemma create_pending_operation_ok:
  assumes "create_pending_operation s ts ticket account ty = Inr s'"
  obtains cfg oid where "CONFIG s = Some cfg" and "sequence_or ticket account = Inr oid"
    and "cf_bridge_state cfg = Active \<or> halt_allows ty (PENDING_ROTATE_KEYS s)"
    and "kv_load oid (PENDING_OPERATIONS s) = None"
    and "s' = s\<lparr>PENDING_OPERATIONS := kv_save oid
      \<lparr>op_id = operation_unique_id ts oid, op_version = 1, op_ticket_sequence = ticket,
       op_account_sequence = account, op_signatures = [], op_operation_type = ty,
       op_xrpl_base_fee = cf_xrpl_base_fee cfg\<rparr> (PENDING_OPERATIONS s)\<rparr>"
  using assms
  by (auto simp: create_pending_operation_def Let_def and_then_eq_Inr if_Inl_eq_Inr item_load_eq_Inr
      check_valid_operation_if_halt_ok kv_has_def)

lemma sequence_or_ticket [simp]: "sequence_or (Some t) a = Inr t"
  by (simp add: sequence_or_def)

lemma sequence_or_account [simp]: "sequence_or None (Some a) = Inr a"
  by (simp add: sequence_or_def)

text \<open>The identifier of an operation determines the block time and the operation's number.\<close>

lemma dash_not_digit: "\<not> is_ascii_digit CHR ''-''"
  by (simp add: is_ascii_digit_def char_code_def)

lemma operation_unique_id_inject:
  "operation_unique_id t i = operation_unique_id t' i' \<longleftrightarrow> t = t' \<and> i = i'"
proof
  assume eq: "operation_unique_id t i = operation_unique_id t' i'"
  have tw: "takeWhile is_ascii_digit (show_nat n @ CHR ''-'' # r) = show_nat n" for n r
    by (simp add: takeWhile_append dash_not_digit show_nat_digits)
  from eq have "show_nat (unat t) = show_nat (unat t')"
    unfolding operation_unique_id_def append_Cons append_Nil by (metis tw)
  then have "t = t'" by (simp add: word_unat_eq_iff)
  with eq have "show_nat (unat i) = show_nat (unat i')" by (simp add: operation_unique_id_def)
  then have "i = i'" by (simp add: word_unat_eq_iff)
  with \<open>t = t'\<close> show "t = t' \<and> i = i'" by simp
qed simp

text \<open>The coins of the pending refunds.\<close>

definition refunds_owed :: "string \<Rightarrow> storage \<Rightarrow> nat" where
  "refunds_owed d s =
     kv_sum (\<lambda>_ r. if c_denom (pr_coin r) = d then unat (c_amount (pr_coin r)) else 0) (PENDING_REFUNDS s)"

lemma store_pending_refund_owed:
  assumes "store_pending_refund s pid h a c = Inr s'" and "kv_load (a, pid) (PENDING_REFUNDS s) = None"
  shows "refunds_owed d s' = refunds_owed d s + (if c_denom c = d then unat (c_amount c) else 0)"
  using assms
  by (auto simp: store_pending_refund_def Let_def refunds_owed_def kv_sum_save_new)

lemma remove_pending_refund_owed:
  assumes "remove_pending_refund s a pid = Inr (c, s')"
  shows "refunds_owed d s = refunds_owed d s' + (if c_denom c = d then unat (c_amount c) else 0)"
    and "s' = s\<lparr>PENDING_REFUNDS := kv_remove (a, pid) (PENDING_REFUNDS s)\<rparr>"
proof -
  from assms obtain r where r: "kv_load (a, pid) (PENDING_REFUNDS s) = Some r" "c = pr_coin r"
    and s': "s' = s\<lparr>PENDING_REFUNDS := kv_remove (a, pid) (PENDING_REFUNDS s)\<rparr>"
    by (auto simp: remove_pending_refund_def result_simps)
  show "s' = s\<lparr>PENDING_REFUNDS := kv_remove (a, pid) (PENDING_REFUNDS s)\<rparr>" by (rule s')
  show "refunds_owed d s = refunds_owed d s' + (if c_denom c = d then unat (c_amount c) else 0)"
    using kv_sum_remove [of "\<lambda>_ r. if c_denom (pr_coin r) = d then unat (c_amount (pr_coin r)) else 0"
        "(a, pid)" "PENDING_REFUNDS s", symmetric] r
    by (simp add: refunds_owed_def s')
qed

text \<open>Every refund is stored under the address it belongs to and its own identifier.\<close>

definition refund_keys :: "(addr \<times> string, pending_refund) kv \<Rightarrow> bool" where
  "refund_keys m \<longleftrightarrow> (\<forall>k rf. kv_load k m = Some rf \<longrightarrow> k = (pr_address rf, pr_id rf))"

lemma refund_keys_simps [simp]:
  "refund_keys kv_empty"
  "refund_keys m \<Longrightarrow> refund_keys (kv_save (pr_address rf, pr_id rf) rf m)"
  "refund_keys m \<Longrightarrow> refund_keys (kv_remove k m)"
  by (simp_all add: refund_keys_def)

end
