(* ===== verification/Tickets.thy ===== *)
theory Tickets
  imports Pending_Operations
begin

text \<open>
  XRPL tickets (\<open>tickets.rs\<close>): the queue of available tickets, the last of which is reserved
  for allocating new ones, the counter of used tickets that triggers an allocation, and the
  confirmation of an allocation.
\<close>

section \<open>Operations\<close>

definition reserve_ticket :: "storage \<Rightarrow> (u64 \<times> storage) result" where
  "reserve_ticket s =
     and_then (item_load (AVAILABLE_TICKETS s)) (\<lambda>available_tickets.
     (case available_tickets of
        [] \<Rightarrow> fail NoAvailableTickets
      | ticket_to_update # rest \<Rightarrow> Inr (ticket_to_update, s\<lparr>AVAILABLE_TICKETS := Some rest\<rparr>)))"

definition allocate_ticket :: "storage \<Rightarrow> (u64 \<times> storage) result" where
  "allocate_ticket s =
     and_then (item_load (AVAILABLE_TICKETS s)) (\<lambda>available_tickets.
     if available_tickets = [] then fail NoAvailableTickets
     else if length available_tickets \<le> 1 then fail LastTicketReserved
     else reserve_ticket s)"

definition register_used_ticket :: "storage \<Rightarrow> u64 \<Rightarrow> (bool \<times> storage) result" where
  "register_used_ticket s timestamp =
     and_then (item_load (USED_TICKETS_COUNTER s)) (\<lambda>used_tickets.
     and_then (item_load (CONFIG s)) (\<lambda>config.
     and_then (panic_add used_tickets 1) (\<lambda>used_tickets_1.
     let s = s\<lparr>USED_TICKETS_COUNTER := Some used_tickets_1\<rparr> in
     and_then
       (if used_tickets_1 \<ge> cf_used_ticket_sequence_threshold config
        then and_then (item_load (PENDING_TICKET_UPDATE s)) (\<lambda>pending. Inr (\<not> pending))
        else Inr False) (\<lambda>must_allocate.
     if must_allocate then
       (case reserve_ticket s of
          Inr (ticket_to_update, s) \<Rightarrow>
            and_then
              (create_pending_operation s timestamp (Some ticket_to_update) None
                 (AllocateTickets (cf_used_ticket_sequence_threshold config))) (\<lambda>s.
            Inr (True, s\<lparr>PENDING_TICKET_UPDATE := Some True\<rparr>))
        | Inl e \<Rightarrow> if e = Err NoAvailableTickets then Inr (False, s) else Inl e)
     else Inr (True, s)))))"

definition handle_ticket_allocation_confirmation ::
  "storage \<Rightarrow> u64 list option \<Rightarrow> transaction_result \<Rightarrow> storage result" where
  "handle_ticket_allocation_confirmation s tickets transaction_result =
     (let s = s\<lparr>PENDING_TICKET_UPDATE := Some False\<rparr> in
      if transaction_result = Accepted then
        (case tickets of
           None \<Rightarrow> fail InvalidTicketSequenceToAllocate
         | Some tickets \<Rightarrow>
             and_then (item_load (AVAILABLE_TICKETS s)) (\<lambda>available_tickets.
             let tickets_len = word_of_nat (length tickets);
                 s = s\<lparr>AVAILABLE_TICKETS := Some (available_tickets @ tickets)\<rparr> in
             and_then (item_load (USED_TICKETS_COUNTER s)) (\<lambda>used_tickets.
             Inr (s\<lparr>USED_TICKETS_COUNTER := Some (saturating_sub used_tickets tickets_len)\<rparr>))))
      else Inr s)"

definition return_ticket :: "storage \<Rightarrow> u64 \<Rightarrow> storage result" where
  "return_ticket s ticket =
     and_then (item_load (AVAILABLE_TICKETS s)) (\<lambda>available_tickets.
     Inr (s\<lparr>AVAILABLE_TICKETS := Some (ticket # available_tickets)\<rparr>))"

section \<open>The contract of a ticket pool\<close>

text \<open>
  What the handlers rely on: a reserved ticket leaves the front of the pool and a returned ticket
  goes back there, with nothing else changed. Tickets are then neither lost nor duplicated.
\<close>

locale ticket_pool =
  fixes pool :: "'s \<Rightarrow> 't list"
    and reserve :: "'s \<Rightarrow> 'e + ('t \<times> 's)"
    and give_back :: "'s \<Rightarrow> 't \<Rightarrow> 'e + 's"
    and set_pool :: "'t list \<Rightarrow> 's \<Rightarrow> 's"
  assumes reserve_pool: "reserve s = Inr (t, s') \<Longrightarrow> pool s = t # pool s' \<and> s' = set_pool (pool s') s"
    and give_back_pool: "give_back s t = Inr s' \<Longrightarrow> pool s' = t # pool s \<and> s' = set_pool (pool s') s"
    and set_pool_twice: "set_pool xs (set_pool ys s) = set_pool xs s"
    and set_pool_same: "reserve s = Inr r \<Longrightarrow> set_pool (pool s) s = s"
begin

lemma reserve_give_back:
  assumes "reserve s = Inr (t, s')" and "give_back s' t = Inr s''"
  shows "s'' = s"
proof -
  from reserve_pool [OF assms(1)] have p: "pool s = t # pool s'" "s' = set_pool (pool s') s" by auto
  from give_back_pool [OF assms(2)] have "s'' = set_pool (t # pool s') s'" by auto
  also have "\<dots> = set_pool (pool s) (set_pool (pool s') s)" using p by simp
  also have "\<dots> = s" using set_pool_same [OF assms(1)] by (simp only: set_pool_twice)
  finally show ?thesis .
qed

lemma reserve_in_pool: "reserve s = Inr (t, s') \<Longrightarrow> t \<in> set (pool s)"
  using reserve_pool by (metis list.set_intros(1))

lemma reserve_distinct:
  assumes "reserve s = Inr (t, s')" and "distinct (pool s)"
  shows "distinct (pool s') \<and> t \<notin> set (pool s')"
  using reserve_pool [OF assms(1)] assms(2) by auto

lemma give_back_distinct:
  assumes "give_back s t = Inr s'" and "distinct (pool s)" and "t \<notin> set (pool s)"
  shows "distinct (pool s')"
  using give_back_pool [OF assms(1)] assms(2,3) by auto

end

definition ticket_queue :: "storage \<Rightarrow> u64 list" where
  "ticket_queue s = (case AVAILABLE_TICKETS s of None \<Rightarrow> [] | Some ts \<Rightarrow> ts)"

definition set_ticket_queue :: "u64 list \<Rightarrow> storage \<Rightarrow> storage" where
  "set_ticket_queue ts s = s\<lparr>AVAILABLE_TICKETS := Some ts\<rparr>"

lemma reserve_ticket_ok [result_simps]:
  "reserve_ticket s = Inr (t, s') \<longleftrightarrow>
     (\<exists>rest. AVAILABLE_TICKETS s = Some (t # rest) \<and> s' = s\<lparr>AVAILABLE_TICKETS := Some rest\<rparr>)"
  by (cases "AVAILABLE_TICKETS s") (auto simp: reserve_ticket_def split: list.splits)

lemma return_ticket_ok [result_simps]:
  "return_ticket s t = Inr s' \<longleftrightarrow>
     (\<exists>ts. AVAILABLE_TICKETS s = Some ts \<and> s' = s\<lparr>AVAILABLE_TICKETS := Some (t # ts)\<rparr>)"
  by (auto simp: return_ticket_def result_simps)

interpretation pool: ticket_pool ticket_queue reserve_ticket return_ticket set_ticket_queue
proof unfold_locales
  fix s s' t
  show "reserve_ticket s = Inr (t, s') \<Longrightarrow> ticket_queue s = t # ticket_queue s' \<and> s' = set_ticket_queue (ticket_queue s') s"
    by (auto simp: reserve_ticket_ok ticket_queue_def set_ticket_queue_def)
  show "return_ticket s t = Inr s' \<Longrightarrow> ticket_queue s' = t # ticket_queue s \<and> s' = set_ticket_queue (ticket_queue s') s"
    by (auto simp: return_ticket_ok ticket_queue_def set_ticket_queue_def)
next
  fix s xs ys
  show "set_ticket_queue xs (set_ticket_queue ys s) = set_ticket_queue xs s" by (simp add: set_ticket_queue_def)
next
  fix s r
  show "reserve_ticket s = Inr r \<Longrightarrow> set_ticket_queue (ticket_queue s) s = s"
    by (cases r) (auto simp: reserve_ticket_ok ticket_queue_def set_ticket_queue_def)
qed

section \<open>Properties\<close>

lemma allocate_ticket_ok [result_simps]:
  "allocate_ticket s = Inr (t, s') \<longleftrightarrow>
     (\<exists>rest. AVAILABLE_TICKETS s = Some (t # rest) \<and> rest \<noteq> [] \<and>
        s' = s\<lparr>AVAILABLE_TICKETS := Some rest\<rparr>)"
  by (auto simp: allocate_ticket_def result_simps Suc_le_eq)

text \<open>The four outcomes of registering a used ticket.\<close>

lemma register_used_ticket_cases:
  assumes "register_used_ticket s ts = Inr (ok, s')"
  obtains used cfg n where "USED_TICKETS_COUNTER s = Some used" "CONFIG s = Some cfg"
      "unat n = unat used + 1"
    and "(ok \<and> s' = s\<lparr>USED_TICKETS_COUNTER := Some n\<rparr> \<and>
           (n < cf_used_ticket_sequence_threshold cfg \<or> PENDING_TICKET_UPDATE s = Some True)) \<or>
         (\<not> ok \<and> s' = s\<lparr>USED_TICKETS_COUNTER := Some n\<rparr> \<and> AVAILABLE_TICKETS s = Some [] \<and>
           n \<ge> cf_used_ticket_sequence_threshold cfg \<and> PENDING_TICKET_UPDATE s = Some False) \<or>
         (\<exists>t rest s1. ok \<and> n \<ge> cf_used_ticket_sequence_threshold cfg \<and>
           PENDING_TICKET_UPDATE s = Some False \<and> AVAILABLE_TICKETS s = Some (t # rest) \<and>
           create_pending_operation
             (s\<lparr>USED_TICKETS_COUNTER := Some n, AVAILABLE_TICKETS := Some rest\<rparr>) ts (Some t) None
             (AllocateTickets (cf_used_ticket_sequence_threshold cfg)) = Inr s1 \<and>
           s' = s1\<lparr>PENDING_TICKET_UPDATE := Some True\<rparr>)"
proof -
  from assms obtain used cfg n must where
    *: "USED_TICKETS_COUNTER s = Some used" "CONFIG s = Some cfg" "unat n = unat used + 1"
    and must: "(if n \<ge> cf_used_ticket_sequence_threshold cfg
        then and_then (item_load (PENDING_TICKET_UPDATE (s\<lparr>USED_TICKETS_COUNTER := Some n\<rparr>)))
          (\<lambda>pending. Inr (\<not> pending))
        else Inr False) = Inr must"
    and rest: "(if must then
       (case reserve_ticket (s\<lparr>USED_TICKETS_COUNTER := Some n\<rparr>) of
          Inr (t, s) \<Rightarrow>
            and_then (create_pending_operation s ts (Some t) None
                 (AllocateTickets (cf_used_ticket_sequence_threshold cfg))) (\<lambda>s.
            Inr (True, s\<lparr>PENDING_TICKET_UPDATE := Some True\<rparr>))
        | Inl e \<Rightarrow> if e = Err NoAvailableTickets
                  then Inr (False, s\<lparr>USED_TICKETS_COUNTER := Some n\<rparr>) else Inl e)
     else Inr (True, s\<lparr>USED_TICKETS_COUNTER := Some n\<rparr>)) = Inr (ok, s')"
    unfolding register_used_ticket_def Let_def
    by (simp only: and_then_eq_Inr item_load_eq_Inr panic_add_eq_Inr unsigned_1) blast
  show ?thesis
  proof (cases must)
    case False
    with must have "n < cf_used_ticket_sequence_threshold cfg \<or> PENDING_TICKET_UPDATE s = Some True"
      by (auto simp: result_simps not_le split: if_splits)
    with False rest * that show ?thesis by auto
  next
    case True
    with must have g: "n \<ge> cf_used_ticket_sequence_threshold cfg" "PENDING_TICKET_UPDATE s = Some False"
      by (auto simp: result_simps split: if_splits)
    show ?thesis
    proof (cases "AVAILABLE_TICKETS s")
      case None
      with True rest show ?thesis by (simp add: reserve_ticket_def)
    next
      case (Some av)
      with True rest g * that show ?thesis
        by (cases av) (auto simp: reserve_ticket_def and_then_eq_Inr)
    qed
  qed
qed

lemma handle_ticket_allocation_frame:
  assumes "handle_ticket_allocation_confirmation s ts res = Inr s'"
  shows "\<exists>av used. s' = s\<lparr>PENDING_TICKET_UPDATE := Some False, AVAILABLE_TICKETS := av, USED_TICKETS_COUNTER := used\<rparr> \<and>
    (AVAILABLE_TICKETS s \<noteq> None \<longrightarrow> av \<noteq> None) \<and> (USED_TICKETS_COUNTER s \<noteq> None \<longrightarrow> used \<noteq> None)"
proof (cases "res = Accepted")
  case True
  with assms show ?thesis
    by (auto simp: handle_ticket_allocation_confirmation_def Let_def and_then_eq_Inr item_load_eq_Inr
        split: option.splits)
next
  case False
  with assms have "s' = s\<lparr>PENDING_TICKET_UPDATE := Some False\<rparr>"
    by (simp add: handle_ticket_allocation_confirmation_def)
  then have "s' = s\<lparr>PENDING_TICKET_UPDATE := Some False, AVAILABLE_TICKETS := AVAILABLE_TICKETS s,
    USED_TICKETS_COUNTER := USED_TICKETS_COUNTER s\<rparr>" by simp
  then show ?thesis by blast
qed

end
