(* ===== verification/Addresses.thy ===== *)
theory Addresses
  imports Bridge_Types
begin

text \<open>
  XRPL addresses (\<open>address.rs\<close>): format (base58, length, version byte, double SHA-256
  checksum) and the list of prohibited addresses.
\<close>

definition checksum :: "platform \<Rightarrow> bytes \<Rightarrow> bytes" where
  "checksum p data = sha256_digest p (sha256_digest p data)"

definition validate_xrpl_address_format :: "platform \<Rightarrow> string \<Rightarrow> unit result" where
  "validate_xrpl_address_format p address =
     (case bs58_decode p address of
        None \<Rightarrow> fail (InvalidXRPLAddress address)
      | Some data \<Rightarrow>
          if length data \<noteq> 25 \<or> data ! 0 \<noteq> 0 then fail (InvalidXRPLAddress address)
          else if length (checksum p (take 21 data)) < 4 then Inl Panic
          else if take 4 (checksum p (take 21 data)) \<noteq> drop 21 data
          then fail (InvalidXRPLAddress address)
          else Inr ())"

definition validate_xrpl_address_is_not_prohibited :: "storage \<Rightarrow> string \<Rightarrow> unit result" where
  "validate_xrpl_address_is_not_prohibited s address =
     (if kv_has address (PROHIBITED_XRPL_ADDRESSES s) then fail ProhibitedAddress else Inr ())"

definition validate_xrpl_address :: "platform \<Rightarrow> storage \<Rightarrow> string \<Rightarrow> unit result" where
  "validate_xrpl_address p s address =
     and_then (validate_xrpl_address_format p address) (\<lambda>_.
     and_then (validate_xrpl_address_is_not_prohibited s address) (\<lambda>_. Inr ()))"

lemma validate_xrpl_address_format_ok [result_simps]:
  "validate_xrpl_address_format p address = Inr u \<longleftrightarrow>
     (\<exists>data. bs58_decode p address = Some data \<and> length data = 25 \<and> data ! 0 = 0 \<and>
        4 \<le> length (checksum p (take 21 data)) \<and> take 4 (checksum p (take 21 data)) = drop 21 data)"
  by (auto simp: validate_xrpl_address_format_def split: option.splits)

lemma validate_xrpl_address_ok [result_simps]:
  "validate_xrpl_address p s address = Inr u \<longleftrightarrow>
     validate_xrpl_address_format p address = Inr () \<and> \<not> kv_has address (PROHIBITED_XRPL_ADDRESSES s)"
  by (auto simp: validate_xrpl_address_def validate_xrpl_address_is_not_prohibited_def and_then_eq_Inr
      if_Inl_eq_Inr)

end
