(* ===== verification/Relayers.thy ===== *)
theory Relayers
  imports Addresses
begin

text \<open>
  The relayer set (\<open>relayer.rs\<close>): validation of a proposed set, membership, and the
  confirmation of a key rotation, which replaces the set and forgets all collected evidences.
\<close>

section \<open>Operations\<close>

definition MAX_RELAYERS :: nat where "MAX_RELAYERS = 32"

text \<open>The loop over the relayers, with the three sets of values seen so far.\<close>

fun validate_relayers_loop ::
  "platform \<Rightarrow> storage \<Rightarrow> string list \<Rightarrow> string list \<Rightarrow> addr list \<Rightarrow> relayer list \<Rightarrow> unit result" where
  "validate_relayers_loop p s set_xrpl_addresses set_xrpl_pubkeys set_cosmos_addresses [] = Inr ()"
| "validate_relayers_loop p s set_xrpl_addresses set_xrpl_pubkeys set_cosmos_addresses (relayer # relayers) =
     and_then (from_std (addr_validate p (as_str (rl_cosmos_address relayer)))) (\<lambda>_.
     and_then (validate_xrpl_address p s (rl_xrpl_address relayer)) (\<lambda>_.
     if rl_xrpl_address relayer \<in> set set_xrpl_addresses then fail DuplicatedRelayer
     else if rl_xrpl_pub_key relayer \<in> set set_xrpl_pubkeys then fail DuplicatedRelayer
     else if rl_cosmos_address relayer \<in> set set_cosmos_addresses then fail DuplicatedRelayer
     else validate_relayers_loop p s (rl_xrpl_address relayer # set_xrpl_addresses)
            (rl_xrpl_pub_key relayer # set_xrpl_pubkeys)
            (rl_cosmos_address relayer # set_cosmos_addresses) relayers))"

definition validate_relayers :: "platform \<Rightarrow> storage \<Rightarrow> relayer list \<Rightarrow> u32 \<Rightarrow> unit result" where
  "validate_relayers p s relayers evidence_threshold =
     (if evidence_threshold = 0 \<or> unat evidence_threshold > length relayers then fail InvalidThreshold
      else if length relayers > MAX_RELAYERS then fail TooManyRelayers
      else validate_relayers_loop p s [] [] [] relayers)"

definition is_relayer :: "storage \<Rightarrow> addr \<Rightarrow> bool result" where
  "is_relayer s sender =
     and_then (item_load (CONFIG s)) (\<lambda>config.
     Inr (list_ex (\<lambda>r. rl_cosmos_address r = sender) (cf_relayers config)))"

definition handle_rotate_keys_confirmation ::
  "storage \<Rightarrow> relayer list \<Rightarrow> u32 \<Rightarrow> transaction_result \<Rightarrow> storage result" where
  "handle_rotate_keys_confirmation s relayers new_evidence_threshold transaction_result =
     and_then
       (if transaction_result = Accepted then
          and_then (item_load (CONFIG s)) (\<lambda>config.
          Inr (s\<lparr>CONFIG := Some (config\<lparr>cf_relayers := relayers,
                                   cf_evidence_threshold := new_evidence_threshold\<rparr>),
                 TX_EVIDENCES := kv_empty\<rparr>))
        else Inr s) (\<lambda>s.
     Inr (s\<lparr>PENDING_ROTATE_KEYS := Some False\<rparr>))"

section \<open>Properties\<close>

definition addresses_valid :: "platform \<Rightarrow> storage \<Rightarrow> relayer \<Rightarrow> bool" where
  "addresses_valid p s r \<longleftrightarrow>
     (\<exists>a. addr_validate p (as_str (rl_cosmos_address r)) = Inr a) \<and>
     validate_xrpl_address p s (rl_xrpl_address r) = Inr ()"

lemma validate_relayers_loop_ok:
  "validate_relayers_loop p s xs ks cs rs = Inr () \<longleftrightarrow>
     (\<forall>r \<in> set rs. addresses_valid p s r) \<and>
     distinct (map rl_xrpl_address rs) \<and> set (map rl_xrpl_address rs) \<inter> set xs = {} \<and>
     distinct (map rl_xrpl_pub_key rs) \<and> set (map rl_xrpl_pub_key rs) \<inter> set ks = {} \<and>
     distinct (map rl_cosmos_address rs) \<and> set (map rl_cosmos_address rs) \<inter> set cs = {}"
proof (induction rs arbitrary: xs ks cs)
  case Nil
  then show ?case by simp
next
  case (Cons r rs)
  show ?case
    by (simp add: and_then_eq_Inr from_std_eq_Inr if_Inl_eq_Inr Cons.IH addresses_valid_def) blast
qed

lemma validate_relayers_ok [result_simps]:
  "validate_relayers p s rs t = Inr () \<longleftrightarrow>
     0 < unat t \<and> unat t \<le> length rs \<and> length rs \<le> 32 \<and>
     (\<forall>r \<in> set rs. addresses_valid p s r) \<and> distinct (map rl_xrpl_address rs) \<and>
     distinct (map rl_xrpl_pub_key rs) \<and> distinct (map rl_cosmos_address rs)"
  by (auto simp: validate_relayers_def validate_relayers_loop_ok MAX_RELAYERS_def if_Inl_eq_Inr
      unat_gt_0)

definition relayer_addresses :: "storage \<Rightarrow> addr list" where
  "relayer_addresses s = (case CONFIG s of None \<Rightarrow> [] | Some c \<Rightarrow> map rl_cosmos_address (cf_relayers c))"

lemma is_relayer_ok [result_simps]:
  "is_relayer s a = Inr b \<longleftrightarrow> CONFIG s \<noteq> None \<and> b = (a \<in> set (relayer_addresses s))"
  by (auto simp: is_relayer_def relayer_addresses_def and_then_eq_Inr item_load_eq_Inr list_ex_iff)

end
