(* ===== verification/Amounts.thy ===== *)
theory Amounts
  imports Checked_Arith
begin

text \<open>
  The arithmetic of bridged amounts (the helpers at the end of \<open>contract.rs\<close> and
  \<open>amount_after_bridge_fees\<close> of \<open>fees.rs\<close>): truncation to the sending precision,
  conversion between decimals, both combined with the bridging fee, and the check that an amount
  is representable on the XRPL.
\<close>

section \<open>Constants and operations\<close>

definition MIN_SENDING_PRECISION :: int where "MIN_SENDING_PRECISION = -15"
definition MAX_SENDING_PRECISION :: int where "MAX_SENDING_PRECISION = 15"
definition MAX_COSMOS_TOKEN_DECIMALS :: u32 where "MAX_COSMOS_TOKEN_DECIMALS = 100"
definition XRP_DECIMALS :: u32 where "XRP_DECIMALS = 6"
definition XRPL_TOKENS_DECIMALS :: u32 where "XRPL_TOKENS_DECIMALS = 15"
definition XRPL_MAX_TRUNCATED_AMOUNT_LENGTH :: nat where "XRPL_MAX_TRUNCATED_AMOUNT_LENGTH = 16"

lemmas amount_consts =
  MIN_SENDING_PRECISION_def MAX_SENDING_PRECISION_def MAX_COSMOS_TOKEN_DECIMALS_def
  XRP_DECIMALS_def XRPL_TOKENS_DECIMALS_def XRPL_MAX_TRUNCATED_AMOUNT_LENGTH_def

definition validate_cosmos_token_decimals :: "u32 \<Rightarrow> unit result" where
  "validate_cosmos_token_decimals decimals =
     (if decimals > MAX_COSMOS_TOKEN_DECIMALS then fail InvalidDecimals else Inr ())"

definition validate_sending_precision :: "i32 \<Rightarrow> u32 \<Rightarrow> unit result" where
  "validate_sending_precision sending_precision decimals =
     (if \<not> (MIN_SENDING_PRECISION \<le> sint sending_precision \<and>
            sint sending_precision \<le> MAX_SENDING_PRECISION)
      then fail InvalidSendingPrecision
      else if sint sending_precision > sint decimals then fail InvalidSendingPrecision
      else Inr ())"

definition amount_after_bridge_fees :: "u128 \<Rightarrow> u128 \<Rightarrow> u128 result" where
  "amount_after_bridge_fees amount bridging_fee =
     map_err CannotCoverBridgingFees (checked_sub amount bridging_fee)"

definition truncate_amount :: "i32 \<Rightarrow> u32 \<Rightarrow> u128 \<Rightarrow> (u128 \<times> u128) result" where
  "truncate_amount sending_precision decimals amount =
     and_then (sub_i32 decimals sending_precision) (\<lambda>exponent.
     and_then (pow10_u128 (unsigned_abs exponent)) (\<lambda>p.
     and_then (checked_div amount p) (\<lambda>amount_to_send.
     if amount_to_send = 0 then fail AmountSentIsZeroAfterTruncation else
     and_then (pow10_u128 (unsigned_abs exponent)) (\<lambda>p.
     and_then (checked_mul amount_to_send p) (\<lambda>truncated_amount.
     and_then (checked_sub amount truncated_amount) (\<lambda>remainder.
     Inr (truncated_amount, remainder)))))))"

definition convert_amount_decimals :: "u32 \<Rightarrow> u32 \<Rightarrow> u128 \<Rightarrow> u128 result" where
  "convert_amount_decimals from_decimals to_decimals amount =
     (if from_decimals < to_decimals then
        and_then (pow10_u128 (unat (saturating_sub to_decimals from_decimals))) (\<lambda>p.
        checked_mul amount p)
      else if from_decimals > to_decimals then
        and_then (pow10_u128 (unat (saturating_sub from_decimals to_decimals))) (\<lambda>p.
        checked_div amount p)
      else Inr amount)"

definition convert_and_truncate_amount ::
  "i32 \<Rightarrow> u32 \<Rightarrow> u32 \<Rightarrow> u128 \<Rightarrow> u128 \<Rightarrow> (u128 \<times> u128) result" where
  "convert_and_truncate_amount sending_precision from_decimals to_decimals amount bridging_fee =
     and_then (convert_amount_decimals from_decimals to_decimals amount) (\<lambda>converted_amount.
     and_then (amount_after_bridge_fees converted_amount bridging_fee) (\<lambda>amount_after_fees.
     and_then (truncate_amount sending_precision to_decimals amount_after_fees)
       (\<lambda>(truncated_amount, remainder). Inr (truncated_amount, remainder))))"

definition truncate_and_convert_amount ::
  "i32 \<Rightarrow> u32 \<Rightarrow> u32 \<Rightarrow> u128 \<Rightarrow> u128 \<Rightarrow> (u128 \<times> u128) result" where
  "truncate_and_convert_amount sending_precision from_decimals to_decimals amount bridging_fee =
     and_then (amount_after_bridge_fees amount bridging_fee) (\<lambda>amount_after_fees.
     and_then (truncate_amount sending_precision from_decimals amount_after_fees)
       (\<lambda>(truncated_amount, remainder).
     and_then (convert_amount_decimals from_decimals to_decimals truncated_amount)
       (\<lambda>converted_amount. Inr (converted_amount, remainder))))"

definition trim_end_zeros :: "string \<Rightarrow> string" where
  "trim_end_zeros s = rev (dropWhile (\<lambda>c. c = CHR ''0'') (rev s))"

definition validate_xrpl_amount :: "u128 \<Rightarrow> unit result" where
  "validate_xrpl_amount amount =
     (if length (trim_end_zeros (show_nat (unat amount))) > XRPL_MAX_TRUNCATED_AMOUNT_LENGTH
      then fail InvalidXRPLAmount else Inr ())"

section \<open>Truncation\<close>

text \<open>The decimal exponent that separates a token's decimals from its sending precision.\<close>

definition truncation_exponent :: "i32 \<Rightarrow> u32 \<Rightarrow> nat" where
  "truncation_exponent sp dec = nat \<bar>sint dec - sint sp\<bar>"

definition exponent_in_range :: "i32 \<Rightarrow> u32 \<Rightarrow> bool" where
  "exponent_in_range sp dec \<longleftrightarrow>
     - (2 ^ 31) \<le> sint dec - sint sp \<and> sint dec - sint sp < 2 ^ 31 \<and> truncation_exponent sp dec \<le> 38"

lemma sub_i32_exponent:
  assumes "- (2 ^ 31) \<le> sint dec - sint sp" and "sint dec - sint sp < 2 ^ 31"
  obtains e where "sub_i32 dec sp = Inr e" and "unsigned_abs e = truncation_exponent sp dec"
proof -
  from assms obtain e where e: "sub_i32 dec sp = Inr e"
    by (auto simp: sub_i32_def Let_def)
  then have "sint e = sint dec - sint sp" by (simp add: sub_i32_abs)
  with e that show ?thesis by (simp add: unsigned_abs_def truncation_exponent_def)
qed

text \<open>Every outcome of \<open>truncate_amount\<close>, as a function of the exponent.\<close>

lemma truncate_amount_cases:
  "truncate_amount sp dec amount =
     (let e = truncation_exponent sp dec in
      if \<not> exponent_in_range sp dec then Inl Panic
      else if unat amount < 10 ^ e then fail AmountSentIsZeroAfterTruncation
      else Inr (word_of_nat (unat amount div 10 ^ e * 10 ^ e), word_of_nat (unat amount mod 10 ^ e)))"
proof (cases "- (2 ^ 31) \<le> sint dec - sint sp \<and> sint dec - sint sp < 2 ^ 31")
  case False
  then have "sub_i32 dec sp = Inl Panic" by (auto simp: sub_i32_def Let_def)
  with False show ?thesis by (auto simp: truncate_amount_def exponent_in_range_def Let_def)
next
  case True
  then obtain ex where ex: "sub_i32 dec sp = Inr ex" "unsigned_abs ex = truncation_exponent sp dec"
    using sub_i32_exponent by blast
  define e where "e = truncation_exponent sp dec"
  show ?thesis
  proof (cases "e \<le> 38")
    case False
    then have "pow10_u128 e = Inl Panic" by (simp add: pow10_u128_panic)
    with False ex show ?thesis
      by (simp add: truncate_amount_def exponent_in_range_def e_def)
  next
    case e38: True
    define p :: u128 where "p = 10 ^ e"
    define q where "q = amount div p"
    have p10: "pow10_u128 e = Inr p" using e38 by (simp add: p_def pow10_u128_ok)
    have up: "unat p = 10 ^ e" using p10 by (simp add: pow10_u128_eq_Inr)
    then have "p \<noteq> 0" by (metis power_not_zero unat_0 zero_neq_numeral)
    then have dv: "checked_div amount p = Inr q" by (simp add: checked_div_def q_def)
    have uq: "unat q = unat amount div 10 ^ e" by (simp add: q_def unat_div up)
    have q0: "q = 0 \<longleftrightarrow> unat amount < 10 ^ e"
      by (simp add: unat_eq_0 [symmetric] uq div_eq_0_iff)
    have le: "unat q * unat p \<le> unat amount" by (simp add: uq up)
    then have "unat q * unat p < 2 ^ 128" using u128_bound by (rule le_less_trans)
    then have ml: "checked_mul q p = Inr (q * p)" by (simp add: checked_mul_def)
    then have um: "unat (q * p) = unat amount div 10 ^ e * 10 ^ e"
      by (simp add: checked_mul_eq_Inr uq up)
    have "q * p \<le> amount" using le by (simp add: word_le_nat_alt um uq up)
    then have sb: "checked_sub amount (q * p) = Inr (amount - q * p)" by (simp add: checked_sub_def)
    then have ur: "unat (amount - q * p) = unat amount mod 10 ^ e"
      using div_mult_mod_eq [of "unat amount" "10 ^ e"] by (simp add: checked_sub_eq_Inr um)
    have wq: "word_of_nat (unat amount div 10 ^ e * 10 ^ e) = q * p"
      unfolding um [symmetric] by simp
    have wr: "word_of_nat (unat amount mod 10 ^ e) = amount - q * p"
      unfolding ur [symmetric] by simp
    have ir: "exponent_in_range sp dec" using True e38 by (simp add: exponent_in_range_def e_def)
    have "truncate_amount sp dec amount =
        (if q = 0 then fail AmountSentIsZeroAfterTruncation else Inr (q * p, amount - q * p))"
      by (simp add: truncate_amount_def ex p10 [unfolded e_def] dv ml sb)
    then show ?thesis
      unfolding Let_def e_def [symmetric] wq wr using q0 ir by simp
  qed
qed

lemma truncate_amount_ok:
  assumes "truncate_amount sp dec amount = Inr (t, r)"
  shows "unat t + unat r = unat amount" and "0 < unat t"
    and "10 ^ truncation_exponent sp dec dvd unat t" and "unat r < 10 ^ truncation_exponent sp dec"
    and "exponent_in_range sp dec"
proof -
  define e where "e = truncation_exponent sp dec"
  have bound: "unat amount < 2 ^ 128" using unsigned_less [of amount] by simp
  from assms have *: "exponent_in_range sp dec" "\<not> unat amount < 10 ^ e"
    "t = word_of_nat (unat amount div 10 ^ e * 10 ^ e)" "r = word_of_nat (unat amount mod 10 ^ e)"
    by (auto simp: truncate_amount_cases e_def Let_def split: if_splits)
  have "unat amount div 10 ^ e * 10 ^ e \<le> unat amount" by simp
  then have "unat amount div 10 ^ e * 10 ^ e < 2 ^ 128" using bound by (rule le_less_trans)
  then have t: "unat t = unat amount div 10 ^ e * 10 ^ e"
    unfolding *(3) by (rule unat_of_nat_u128)
  have "unat amount mod 10 ^ e \<le> unat amount" by simp
  then have "unat amount mod 10 ^ e < 2 ^ 128" using bound by (rule le_less_trans)
  then have r: "unat r = unat amount mod 10 ^ e"
    unfolding *(4) by (rule unat_of_nat_u128)
  show "exponent_in_range sp dec" by fact
  show "unat t + unat r = unat amount" unfolding t r by (rule div_mult_mod_eq)
  show "10 ^ truncation_exponent sp dec dvd unat t" by (simp add: t e_def)
  show "unat r < 10 ^ truncation_exponent sp dec" by (simp add: r e_def)
  have "unat amount div 10 ^ e \<noteq> 0" using *(2) by (simp add: div_eq_0_iff)
  then show "0 < unat t" by (simp add: t)
qed

lemma amount_after_bridge_fees_eq_Inr [result_simps]:
  "amount_after_bridge_fees amount fee = Inr a \<longleftrightarrow> unat amount = unat a + unat fee"
  by (simp add: amount_after_bridge_fees_def result_simps)

section \<open>Conversion between decimals\<close>

lemma pow10_then:
  "and_then (pow10_u128 e) f = Inr c \<longleftrightarrow> e \<le> 38 \<and> f (10 ^ e) = Inr c"
  by (cases "e \<le> 38") (simp_all add: pow10_u128_ok pow10_u128_panic)

lemma unat_pow10_u128: "e \<le> 38 \<Longrightarrow> unat (10 ^ e :: u128) = 10 ^ e"
  using pow10_u128_ok [of e] by (simp add: pow10_u128_eq_Inr)

lemma convert_amount_decimals_up:
  assumes "unat from \<le> unat to"
  shows "convert_amount_decimals from to a = Inr c \<longleftrightarrow>
    unat to - unat from \<le> 38 \<and> unat c = unat a * 10 ^ (unat to - unat from)"
proof (cases "from = to")
  case True
  then show ?thesis unfolding convert_amount_decimals_def by (auto simp: word_unat_eq_iff [of a c])
next
  case False
  with assms have "from < to" by (auto simp: word_less_nat_alt word_unat_eq_iff)
  then show ?thesis
    by (auto simp: convert_amount_decimals_def pow10_then checked_mul_eq_Inr unat_pow10_u128)
qed

lemma convert_amount_decimals_down:
  assumes "unat to \<le> unat from"
  shows "convert_amount_decimals from to a = Inr c \<longleftrightarrow>
    unat from - unat to \<le> 38 \<and> unat c = unat a div 10 ^ (unat from - unat to)"
proof (cases "from = to")
  case True
  then show ?thesis unfolding convert_amount_decimals_def by (auto simp: word_unat_eq_iff [of a c])
next
  case False
  with assms have "to < from" by (auto simp: word_less_nat_alt word_unat_eq_iff)
  then show ?thesis
    by (auto simp: convert_amount_decimals_def pow10_then checked_div_eq_Inr unat_pow10_u128)
qed

text \<open>What the two validations guarantee about a registered token.\<close>

lemma validate_sending_precision_ok [result_simps]:
  "validate_sending_precision sp dec = Inr u \<longleftrightarrow>
     -15 \<le> sint sp \<and> sint sp \<le> 15 \<and> sint sp \<le> sint dec"
  by (auto simp: validate_sending_precision_def amount_consts)

lemma sint_small_u32: "unat (dec :: u32) < 2 ^ 31 \<Longrightarrow> sint dec = int (unat dec)"
proof -
  assume "unat dec < 2 ^ 31"
  then have "int (unat dec) < int (2 ^ 31)" by (simp only: of_nat_less_iff)
  then have "uint dec < 2 ^ 31" by simp
  moreover have "- (2 ^ 31) \<le> uint dec" by (rule order_trans [of _ 0]) simp_all
  ultimately have "signed_take_bit 31 (uint dec) = uint dec" by (simp add: signed_take_bit_int_eq_self)
  then show ?thesis by (simp add: sint_uint)
qed

lemma truncation_exponent_valid:
  assumes "validate_sending_precision sp dec = Inr u" and "unat dec < 2 ^ 31"
  shows "int (truncation_exponent sp dec) = int (unat dec) - sint sp"
  using assms by (simp add: truncation_exponent_def sint_small_u32 result_simps)

text \<open>
  The refund of a rejected transfer converts the amount of the pending operation back to the
  token's decimals. Nothing is lost: with a valid sending precision the truncated amount is a
  multiple of the unit that the conversion divides by.
\<close>

lemma convert_back:
  assumes "convert_amount_decimals dec 15 t = Inr c"
    and "10 ^ e dvd unat t" and "unat dec \<le> 15 + e"
  shows "convert_amount_decimals 15 dec c = Inr t"
proof (cases "unat dec \<le> 15")
  case True
  with assms(1) have "15 - unat dec \<le> 38" "unat c = unat t * 10 ^ (15 - unat dec)"
    by (simp_all add: convert_amount_decimals_up)
  with True show ?thesis by (simp add: convert_amount_decimals_down)
next
  case False
  define k where "k = unat dec - 15"
  from False assms(1) have k: "k \<le> 38" "unat c = unat t div 10 ^ k"
    by (simp_all add: convert_amount_decimals_down k_def)
  have "k \<le> e" using assms(3) by (simp add: k_def)
  then have "(10::nat) ^ k dvd 10 ^ e" by (rule le_imp_power_dvd)
  then have "10 ^ k dvd unat t" using assms(2) by (rule dvd_trans)
  with k False show ?thesis by (simp add: convert_amount_decimals_up k_def)
qed

section \<open>Amounts the XRPL can represent\<close>

lemma trim_end_snoc:
  "trim_end_zeros (s @ [c]) = (if c = CHR ''0'' then trim_end_zeros s else s @ [c])"
  by (simp add: trim_end_zeros_def)

lemma digit_char_0_iff: "d < 10 \<Longrightarrow> digit_char d = CHR ''0'' \<longleftrightarrow> d = 0"
proof -
  assume "d < 10"
  have "digit_char 0 = CHR ''0''" by code_simp
  then show ?thesis using digit_char_inject [OF \<open>d < 10\<close>, of 0] by simp
qed

text \<open>The significant part of a number: its decimal digits without trailing zeros.\<close>

fun significant :: "nat \<Rightarrow> nat" where
  "significant n = (if n = 0 then 0 else if n mod 10 = 0 then significant (n div 10) else n)"

declare significant.simps [simp del]

lemma trim_show_nat:
  "0 < n \<Longrightarrow> trim_end_zeros (show_nat n) = show_nat (significant n)"
proof (induction n rule: significant.induct)
  case (1 n)
  show ?case
  proof (cases "n < 10")
    case True
    with "1.prems" show ?thesis
      using trim_end_snoc [of "[]" "digit_char n"]
      by (simp add: show_nat.simps [of n] significant.simps [of n] digit_char_0_iff)
  next
    case False
    then have *: "show_nat n = show_nat (n div 10) @ [digit_char (n mod 10)]"
      by (simp add: show_nat.simps [of n])
    show ?thesis
    proof (cases "n mod 10 = 0")
      case True
      with "1.IH" "1.prems" False show ?thesis
        by (simp add: * trim_end_snoc digit_char_0_iff significant.simps [of n])
    next
      case mod: False
      with False show ?thesis
        by (simp add: * trim_end_snoc digit_char_0_iff significant.simps [of n])
    qed
  qed
qed

lemma significant_spec: "\<exists>k. n = significant n * 10 ^ k"
proof (induction n rule: significant.induct)
  case (1 n)
  show ?case
  proof (cases "n = 0 \<or> n mod 10 \<noteq> 0")
    case True
    then have "n = significant n * 10 ^ 0" by (auto simp: significant.simps [of n])
    then show ?thesis by blast
  next
    case False
    with "1.IH" obtain k where k: "n div 10 = significant (n div 10) * 10 ^ k" by auto
    from False have "n = n div 10 * 10" by auto
    then have "n = significant n * 10 ^ Suc k"
      using k False by (simp add: significant.simps [of n])
    then show ?thesis by blast
  qed
qed

lemma significant_le: "n = m * 10 ^ k \<Longrightarrow> significant n \<le> m"
proof (induction k arbitrary: n)
  case 0
  then show ?case
  proof (cases "n = 0")
    case False
    obtain j where "n = significant n * 10 ^ j" using significant_spec by blast
    then have "significant n * 1 \<le> n" by (metis le_refl mult_le_mono one_le_numeral one_le_power)
    with 0 show ?thesis by simp
  qed (simp add: significant.simps)
next
  case (Suc k)
  show ?case
  proof (cases "n = 0")
    case False
    from Suc.prems have "n mod 10 = 0" "n div 10 = m * 10 ^ k" by simp_all
    with False Suc.IH [of "n div 10"] show ?thesis by (simp add: significant.simps [of n])
  qed (simp add: significant.simps)
qed

lemma validate_xrpl_amount_iff:
  "validate_xrpl_amount a = Inr () \<longleftrightarrow> (\<exists>m k. unat a = m * 10 ^ k \<and> m < 10 ^ 16)"
proof (cases "unat a = 0")
  case True
  then have "validate_xrpl_amount a = Inr ()"
    by (simp add: validate_xrpl_amount_def amount_consts show_nat.simps trim_end_zeros_def)
  moreover have "unat a = 0 * 10 ^ 0 \<and> (0::nat) < 10 ^ 16" using True by simp
  ultimately show ?thesis by blast
next
  case False
  then have "validate_xrpl_amount a = Inr () \<longleftrightarrow> significant (unat a) < 10 ^ 16"
    using length_show_nat_le [of 16 "significant (unat a)"]
    by (auto simp: validate_xrpl_amount_def amount_consts trim_show_nat)
  also have "\<dots> \<longleftrightarrow> (\<exists>m k. unat a = m * 10 ^ k \<and> m < 10 ^ 16)"
    using significant_spec [of "unat a"] significant_le [of "unat a"] le_less_trans by blast
  finally show ?thesis .
qed

end
