(* ===== verification/Tokens.thy ===== *)
theory Tokens
  imports Bridge_Types Amounts
begin

text \<open>
  The token registry's helpers: \<open>token.rs\<close> (keys, denoms and the update of a token's fields)
  and the validation of currencies and denoms in \<open>contract.rs\<close>.
\<close>

section \<open>Constants and operations\<close>

definition XRP_SYMBOL :: string where "XRP_SYMBOL = ''XRP''"
definition XRP_SUBUNIT :: string where "XRP_SUBUNIT = ''factory''"
definition XRP_CURRENCY :: string where "XRP_CURRENCY = ''XRP''"
definition XRP_ISSUER :: string where "XRP_ISSUER = ''rrrrrrrrrrrrrrrrrrrrrhoLvTp''"
definition XRP_DEFAULT_SENDING_PRECISION :: i32 where "XRP_DEFAULT_SENDING_PRECISION = 6"
definition XRP_DEFAULT_MAX_HOLDING_AMOUNT :: u128 where
  "XRP_DEFAULT_MAX_HOLDING_AMOUNT = 10 ^ (16 - unat XRP_DEFAULT_SENDING_PRECISION + unat XRP_DECIMALS)"
definition XRP_DEFAULT_FEE :: u128 where "XRP_DEFAULT_FEE = 0"
definition COSMOS_CURRENCY_PREFIX :: string where "COSMOS_CURRENCY_PREFIX = ''cosmos''"
definition XRPL_DENOM_PREFIX :: string where "XRPL_DENOM_PREFIX = ''xrpl''"
definition ALLOWED_CURRENCY_SYMBOLS :: "char list" where
  "ALLOWED_CURRENCY_SYMBOLS = ''?!@#$%^&*<>(){}[]|''"
definition MIN_DENOM_LENGTH :: nat where "MIN_DENOM_LENGTH = 3"
definition MAX_DENOM_LENGTH :: nat where "MAX_DENOM_LENGTH = 128"
definition DENOM_SPECIAL_CHARACTERS :: "char list" where "DENOM_SPECIAL_CHARACTERS = ''/:._-''"

definition full_denom :: "addr \<Rightarrow> string \<Rightarrow> string" where
  "full_denom a subdenom = XRP_SUBUNIT @ ''/'' @ as_str a @ ''/'' @ subdenom"

definition build_xrpl_token_key :: "string \<Rightarrow> string \<Rightarrow> string" where
  "build_xrpl_token_key issuer currency = issuer @ currency"

definition is_token_xrp :: "string \<Rightarrow> string \<Rightarrow> bool" where
  "is_token_xrp issuer currency \<longleftrightarrow> issuer = XRP_ISSUER \<and> currency = XRP_CURRENCY"

text \<open>The setters take the current value of the field and return the new one.\<close>

definition set_token_state :: "token_state \<Rightarrow> token_state option \<Rightarrow> token_state result" where
  "set_token_state state target =
     (case target of
        None \<Rightarrow> Inr state
      | Some target_state \<Rightarrow>
          if state = Inactive \<or> state = Processing then fail TokenStateIsImmutable
          else if target_state = Inactive \<or> target_state = Processing
          then fail InvalidTargetTokenState
          else Inr target_state)"

definition set_token_sending_precision :: "i32 \<Rightarrow> i32 option \<Rightarrow> u32 \<Rightarrow> i32 result" where
  "set_token_sending_precision sending_precision target decimals =
     (case target of
        None \<Rightarrow> Inr sending_precision
      | Some target_sending_precision \<Rightarrow>
          and_then (validate_sending_precision target_sending_precision decimals) (\<lambda>_.
          Inr target_sending_precision))"

definition set_token_bridging_fee :: "u128 \<Rightarrow> u128 option \<Rightarrow> u128 result" where
  "set_token_bridging_fee bridging_fee target =
     (case target of None \<Rightarrow> Inr bridging_fee | Some target_bridging_fee \<Rightarrow> Inr target_bridging_fee)"

definition set_token_max_holding_amount :: "u128 \<Rightarrow> u128 \<Rightarrow> u128 option \<Rightarrow> u128 result" where
  "set_token_max_holding_amount current_bridged_amount max_holding_amount target =
     (case target of
        None \<Rightarrow> Inr max_holding_amount
      | Some target_max_holding_amount \<Rightarrow>
          if current_bridged_amount > target_max_holding_amount
          then fail InvalidTargetMaxHoldingAmount
          else Inr target_max_holding_amount)"

definition validate_xrpl_currency :: "string \<Rightarrow> unit result" where
  "validate_xrpl_currency currency =
     (if length currency = 3 then
        if currency = ''XRP'' then fail InvalidXRPLCurrency
        else if \<not> list_all (\<lambda>c. is_ascii_alphanumeric c \<or> c \<in> set ALLOWED_CURRENCY_SYMBOLS) currency
        then fail InvalidXRPLCurrency
        else Inr ()
      else if length currency = 40 then
        if take 2 currency = ''00'' then fail InvalidXRPLCurrency
        else if \<not> list_all (\<lambda>c. is_ascii_hexdigit c \<and> (is_ascii_digit c \<or> is_ascii_uppercase c)) currency
        then fail InvalidXRPLCurrency
        else Inr ()
      else fail InvalidXRPLCurrency)"

definition validate_cosmos_denom :: "string \<Rightarrow> unit result" where
  "validate_cosmos_denom denom =
     (if length denom < MIN_DENOM_LENGTH \<or> length denom > MAX_DENOM_LENGTH then fail InvalidDenom
      else if \<not> list_all is_ascii_alphabetic (take 1 denom) then fail InvalidDenom
      else if \<not> list_all (\<lambda>c. is_ascii_alphanumeric c \<or> c \<in> set DENOM_SPECIAL_CHARACTERS) (drop 1 denom)
      then fail InvalidDenom
      else Inr ())"

text \<open>\<open>format!("{:0<40}", ..)\<close> fills with \<open>0\<close> on the right up to 40 characters.\<close>

definition pad_right :: "nat \<Rightarrow> string \<Rightarrow> string" where
  "pad_right n s = s @ replicate (n - length s) CHR ''0''"

definition convert_currency_to_xrpl_hexadecimal :: "platform \<Rightarrow> string \<Rightarrow> string" where
  "convert_currency_to_xrpl_hexadecimal p currency =
     to_uppercase (pad_right 40 (to_hex p (as_bytes currency)))"

lemmas token_consts =
  XRP_SYMBOL_def XRP_SUBUNIT_def XRP_CURRENCY_def XRP_ISSUER_def XRP_DEFAULT_SENDING_PRECISION_def
  XRP_DEFAULT_MAX_HOLDING_AMOUNT_def XRP_DEFAULT_FEE_def COSMOS_CURRENCY_PREFIX_def
  XRPL_DENOM_PREFIX_def ALLOWED_CURRENCY_SYMBOLS_def MIN_DENOM_LENGTH_def MAX_DENOM_LENGTH_def
  DENOM_SPECIAL_CHARACTERS_def

section \<open>Keys\<close>

text \<open>
  A valid currency has 3 or 40 characters, so the concatenation of issuer and currency determines
  both unless two issuers differ by 37 characters, more than XRPL addresses can.
\<close>

lemma validate_xrpl_currency_length:
  "validate_xrpl_currency c = Inr u \<Longrightarrow> length c = 3 \<or> length c = 40"
  by (auto simp: validate_xrpl_currency_def split: if_splits)

lemma token_key_lengths_inject:
  assumes "length c = 3 \<or> length c = 40" and "length c' = 3 \<or> length c' = 40"
    and "25 \<le> length i" "length i \<le> 35" and "25 \<le> length i'" "length i' \<le> 35"
    and "build_xrpl_token_key i c = build_xrpl_token_key i' c'"
  shows "i = i' \<and> c = c'"
proof -
  from assms(7) have *: "i @ c = i' @ c'" by (simp add: build_xrpl_token_key_def)
  then have "length i + length c = length i' + length c'" by (metis length_append)
  with assms(1-6) have "length i = length i'" by auto
  with * show ?thesis by simp
qed

lemma token_key_inject:
  assumes "validate_xrpl_currency c = Inr ()" and "validate_xrpl_currency c' = Inr ()"
    and "25 \<le> length i" "length i \<le> 35" and "25 \<le> length i'" "length i' \<le> 35"
    and "build_xrpl_token_key i c = build_xrpl_token_key i' c'"
  shows "i = i' \<and> c = c'"
  by (rule token_key_lengths_inject [OF assms(1,2) [THEN validate_xrpl_currency_length] assms(3-7)])

section \<open>Generated currencies\<close>

text \<open>Two hexadecimal digits per byte, most significant first, in lower case.\<close>

definition hex_digit :: "nat \<Rightarrow> char" where
  "hex_digit d = (if d < 10 then char_of (48 + d) else char_of (87 + d))"

definition hex_of_bytes :: "bytes \<Rightarrow> string" where
  "hex_of_bytes bs = concat (map (\<lambda>b. [hex_digit (unat b div 16), hex_digit (unat b mod 16)]) bs)"

lemma length_hex_of_bytes [simp]: "length (hex_of_bytes bs) = 2 * length bs"
  by (induction bs) (auto simp: hex_of_bytes_def)

lemma hex_of_bytes_append: "hex_of_bytes (as @ bs) = hex_of_bytes as @ hex_of_bytes bs"
  by (simp add: hex_of_bytes_def)

lemma upper_hex_digit:
  "d < 16 \<Longrightarrow> is_ascii_hexdigit (upper_char (hex_digit d)) \<and>
     (is_ascii_digit (upper_char (hex_digit d)) \<or> is_ascii_uppercase (upper_char (hex_digit d)))"
proof -
  assume "d < 16"
  then have "char_code (hex_digit d) = (if d < 10 then 48 + d else 87 + d)"
    by (auto simp: hex_digit_def char_code_def of_char_of)
  with \<open>d < 16\<close> show ?thesis
    by (auto simp: is_ascii_hexdigit_def is_ascii_digit_def is_ascii_uppercase_def
        is_ascii_lowercase_def char_code_upper)
qed

lemma upper_hex_of_bytes:
  "list_all (\<lambda>c. is_ascii_hexdigit c \<and> (is_ascii_digit c \<or> is_ascii_uppercase c))
     (to_uppercase (hex_of_bytes bs))"
proof (induction bs)
  case Nil
  then show ?case by (simp add: hex_of_bytes_def to_uppercase_def)
next
  case (Cons b bs)
  have "unat b < 256" using unsigned_less [of b] by simp
  then have "unat b div 16 < 16" and "unat b mod 16 < 16" by simp_all
  with Cons show ?case
    by (simp add: hex_of_bytes_def to_uppercase_def upper_hex_digit)
qed

lemma upper_zeros:
  "list_all (\<lambda>c. is_ascii_hexdigit c \<and> (is_ascii_digit c \<or> is_ascii_uppercase c))
     (to_uppercase (replicate n CHR ''0''))"
  by (induction n) (simp_all add: to_uppercase_def upper_char_def is_ascii_hexdigit_def
      is_ascii_digit_def is_ascii_lowercase_def char_code_def)

text \<open>
  The currency generated for a Cosmos originated token is the hexadecimal form of \<open>cosmos\<close>
  followed by ten characters, filled up to 40 characters: always a valid XRPL currency.
\<close>

lemma generated_currency_valid:
  assumes "\<And>bs. to_hex p bs = hex_of_bytes bs" and "length h = 10"
  shows "validate_xrpl_currency (convert_currency_to_xrpl_hexadecimal p (COSMOS_CURRENCY_PREFIX @ h)) = Inr ()"
proof -
  let ?hx = "hex_of_bytes (as_bytes (COSMOS_CURRENCY_PREFIX @ h))"
  let ?c = "to_uppercase (pad_right 40 ?hx)"
  have split: "?c = to_uppercase ?hx @ to_uppercase (replicate 8 CHR ''0'')"
    using assms(2) by (simp add: pad_right_def to_uppercase_def as_bytes_def token_consts)
  then have len: "length ?c = 40" using assms(2) by (simp add: as_bytes_def token_consts)
  have "take 2 ?c = to_uppercase (hex_of_bytes (as_bytes ''c''))"
    unfolding split by (simp add: as_bytes_def hex_of_bytes_def to_uppercase_def token_consts)
  also have "\<dots> = ''63''" by code_simp
  finally have "take 2 ?c \<noteq> ''00''" by simp
  moreover have "list_all (\<lambda>c. is_ascii_hexdigit c \<and> (is_ascii_digit c \<or> is_ascii_uppercase c)) ?c"
    unfolding split by (simp only: list_all_append upper_hex_of_bytes upper_zeros)
  ultimately show ?thesis
    using len by (simp add: validate_xrpl_currency_def convert_currency_to_xrpl_hexadecimal_def assms(1))
qed

end
