(* ===== verification/Operations.thy ===== *)
theory Operations
  imports Tickets Relayers Tokens
begin

text \<open>
  The outcome of a pending operation (\<open>handle_operation\<close> and its handlers in
  \<open>operation.rs\<close>): ticket allocation, trust set, key rotation and transfer to the XRPL. A
  transfer that was not accepted leaves a refund for its sender; the ticket of an operation that
  was never executed goes back to the pool.
\<close>

section \<open>Operations\<close>

definition CHANNEL :: string where "CHANNEL = ''channel-0''"

definition handle_trust_set_confirmation ::
  "storage \<Rightarrow> string \<Rightarrow> string \<Rightarrow> transaction_result \<Rightarrow> storage result" where
  "handle_trust_set_confirmation s issuer currency transaction_result =
     (let key = build_xrpl_token_key issuer currency in
      and_then (map_err TokenNotRegistered (item_load (kv_load key (XRPL_TOKENS s)))) (\<lambda>token.
      let token = token\<lparr>xt_state := (if transaction_result = Accepted then Enabled else Inactive)\<rparr> in
      and_then (index_save xt_cosmos_denom key token (XRPL_TOKENS s)) (\<lambda>m.
      Inr (s\<lparr>XRPL_TOKENS := m\<rparr>))))"

definition undo_send_msgs :: "config \<Rightarrow> string \<Rightarrow> u128 \<Rightarrow> cosmos_msg list" where
  "undo_send_msgs config key amount =
     (case cf_rate_limit_addr config of
        None \<Rightarrow> []
      | Some rate_limit_addr \<Rightarrow>
          [WasmExecute (as_str rate_limit_addr)
             (RateLimiter (UndoSend \<lparr>pk_channel = CHANNEL, pk_denom = key, pk_amount = amount\<rparr>)) []])"

definition handle_cosmos_to_xrpl_transfer_confirmation ::
  "storage \<Rightarrow> transaction_result \<Rightarrow> string option \<Rightarrow> u64 \<Rightarrow> addr \<Rightarrow> addr \<Rightarrow> response \<Rightarrow>
   (cosmos_msg list \<times> response \<times> storage) result" where
  "handle_cosmos_to_xrpl_transfer_confirmation s transaction_result tx_hash operation_id
       token_factory_addr burn_addr response =
     and_then (map_err PendingOperationNotFound
       (item_load (kv_load operation_id (PENDING_OPERATIONS s)))) (\<lambda>pending_operation.
     (case op_operation_type pending_operation of
        CosmosToXRPLTransfer issuer currency amount max_amount sender recipient \<Rightarrow>
          let key = build_xrpl_token_key issuer currency in
          (case kv_load key (XRPL_TOKENS s) of
             Some xrpl_token \<Rightarrow>
               let amount_sent = (case max_amount of Some m \<Rightarrow> m | None \<Rightarrow> amount) in
               if transaction_result = Accepted then
                 Inr ([], add_message
                   (WasmExecute (as_str token_factory_addr)
                      (TokenFactory (BurnTokens (xt_cosmos_denom xrpl_token) amount_sent (as_str burn_addr)))
                      []) response, s)
               else
                 and_then (store_pending_refund s (op_id pending_operation) tx_hash sender
                   (coin_of amount_sent (xt_cosmos_denom xrpl_token))) (\<lambda>s.
                 and_then (item_load (CONFIG s)) (\<lambda>config.
                 Inr (undo_send_msgs config key amount_sent, response, s)))
           | None \<Rightarrow>
               if transaction_result \<noteq> Accepted then
                 (case index_item ct_xrpl_currency currency (COSMOS_TOKENS s) of
                    Some (_, token) \<Rightarrow>
                      (case max_amount of
                         None \<Rightarrow> Inl Panic
                       | Some max_amount \<Rightarrow>
                           and_then (convert_amount_decimals XRPL_TOKENS_DECIMALS (ct_decimals token) max_amount)
                             (\<lambda>amount_to_send_back.
                           and_then (store_pending_refund s (op_id pending_operation) tx_hash sender
                             (coin_of amount_to_send_back (ct_denom token))) (\<lambda>s.
                           and_then (item_load (CONFIG s)) (\<lambda>config.
                           Inr (undo_send_msgs config key amount_to_send_back, response, s)))))
                  | None \<Rightarrow> fail TokenNotRegistered)
               else Inr ([], response, s))
      | _ \<Rightarrow> fail InvalidOperationResult))"

definition handle_operation ::
  "storage \<Rightarrow> operation \<Rightarrow> operation_result option \<Rightarrow> transaction_result \<Rightarrow> string option \<Rightarrow> u64 \<Rightarrow>
   u64 option \<Rightarrow> addr \<Rightarrow> addr \<Rightarrow> response \<Rightarrow> (cosmos_msg list \<times> response \<times> storage) result" where
  "handle_operation s operation operation_result transaction_result tx_hash operation_id
       ticket_sequence token_factory_addr burn_addr response =
     and_then
       (case op_operation_type operation of
          AllocateTickets _ \<Rightarrow>
            (case operation_result of
               Some (TicketsAllocation tickets) \<Rightarrow>
                 and_then (handle_ticket_allocation_confirmation s tickets transaction_result) (\<lambda>s.
                 Inr ([], response, s))
             | None \<Rightarrow> fail InvalidOperationResult)
        | TrustSet issuer currency _ \<Rightarrow>
            and_then (handle_trust_set_confirmation s issuer currency transaction_result) (\<lambda>s.
            Inr ([], response, s))
        | RotateKeys new_relayers new_evidence_threshold \<Rightarrow>
            and_then (handle_rotate_keys_confirmation s new_relayers new_evidence_threshold
              transaction_result) (\<lambda>s.
            Inr ([], response, s))
        | CosmosToXRPLTransfer _ _ _ _ _ _ \<Rightarrow>
            handle_cosmos_to_xrpl_transfer_confirmation s transaction_result tx_hash operation_id
              token_factory_addr burn_addr response) (\<lambda>(msgs, response, s).
     let s = s\<lparr>PENDING_OPERATIONS := kv_remove operation_id (PENDING_OPERATIONS s)\<rparr> in
     and_then
       (case ticket_sequence of
          Some ticket \<Rightarrow> if transaction_result = Invalid then return_ticket s ticket else Inr s
        | None \<Rightarrow> Inr s) (\<lambda>s.
     Inr (msgs, response, s)))"

section \<open>Settlement of a transfer\<close>

text \<open>
  \<open>refund_coin\<close> is the coin that goes back to the sender when the transfer is not accepted: the
  amount sent in the denom of a token issued on the XRPL, or the amount converted back to the
  decimals of a token issued on Cosmos.
\<close>

definition transfer_sender :: "operation_type \<Rightarrow> addr option" where
  "transfer_sender ty = (case ty of CosmosToXRPLTransfer _ _ _ _ sender _ \<Rightarrow> Some sender | _ \<Rightarrow> None)"

definition transfer_key :: "operation_type \<Rightarrow> string option" where
  "transfer_key ty =
     (case ty of CosmosToXRPLTransfer issuer currency _ _ _ _ \<Rightarrow> Some (build_xrpl_token_key issuer currency)
      | _ \<Rightarrow> None)"

definition refund_coin :: "storage \<Rightarrow> operation_type \<Rightarrow> coin option" where
  "refund_coin s ty =
     (case ty of
        CosmosToXRPLTransfer issuer currency amount max_amount _ _ \<Rightarrow>
          (case kv_load (build_xrpl_token_key issuer currency) (XRPL_TOKENS s) of
             Some token \<Rightarrow>
               Some (coin_of (case max_amount of Some m \<Rightarrow> m | None \<Rightarrow> amount) (xt_cosmos_denom token))
           | None \<Rightarrow>
               (case (index_item ct_xrpl_currency currency (COSMOS_TOKENS s), max_amount) of
                  (Some (_, token), Some m) \<Rightarrow>
                    (case convert_amount_decimals XRPL_TOKENS_DECIMALS (ct_decimals token) m of
                       Inr back \<Rightarrow> Some (coin_of back (ct_denom token))
                     | Inl _ \<Rightarrow> None)
                | _ \<Rightarrow> None))
      | _ \<Rightarrow> None)"

definition burn_msgs :: "storage \<Rightarrow> addr \<Rightarrow> addr \<Rightarrow> operation_type \<Rightarrow> cosmos_msg list" where
  "burn_msgs s token_factory_addr burn_addr ty =
     (case (transfer_key ty, refund_coin s ty) of
        (Some key, Some coin) \<Rightarrow>
          if kv_has key (XRPL_TOKENS s)
          then [WasmExecute (as_str token_factory_addr)
                  (TokenFactory (BurnTokens (c_denom coin) (c_amount coin) (as_str burn_addr))) []]
          else []
      | _ \<Rightarrow> [])"

lemma transfer_accepted:
  assumes "handle_cosmos_to_xrpl_transfer_confirmation s Accepted h oid tf b resp = Inr (m, r, s')"
    and "kv_load oid (PENDING_OPERATIONS s) = Some op"
  shows "m = [] \<and> s' = s \<and> r = add_messages (burn_msgs s tf b (op_operation_type op)) resp"
proof (cases "op_operation_type op")
  case (CosmosToXRPLTransfer i c a mx sender rcp)
  have "add_messages [] resp = resp" by (simp add: add_messages_def add_submessages_def)
  then show ?thesis
    using assms CosmosToXRPLTransfer
    by (cases "kv_load (build_xrpl_token_key i c) (XRPL_TOKENS s)")
      (auto simp: handle_cosmos_to_xrpl_transfer_confirmation_def burn_msgs_def transfer_key_def
        refund_coin_def kv_has_def add_message_def split: option.split)
qed (use assms in \<open>simp_all add: handle_cosmos_to_xrpl_transfer_confirmation_def\<close>)

lemma transfer_refused:
  assumes "handle_cosmos_to_xrpl_transfer_confirmation s res h oid tf b resp = Inr (m, r, s')"
    and "res \<noteq> Accepted" and "kv_load oid (PENDING_OPERATIONS s) = Some op"
  obtains coin key sender cfg where "refund_coin s (op_operation_type op) = Some coin"
    and "transfer_key (op_operation_type op) = Some key" and "transfer_sender (op_operation_type op) = Some sender"
    and "CONFIG s = Some cfg" and "m = undo_send_msgs cfg key (c_amount coin)" and "r = resp"
    and "s' = s\<lparr>PENDING_REFUNDS := kv_save (sender, op_id op)
      \<lparr>pr_address = sender, pr_id = op_id op, pr_xrpl_tx_hash = h, pr_coin = coin\<rparr> (PENDING_REFUNDS s)\<rparr>"
proof (cases "op_operation_type op")
  case ty: (CosmosToXRPLTransfer i c a mx sender rcp)
  let ?key = "build_xrpl_token_key i c"
  note [simp] = handle_cosmos_to_xrpl_transfer_confirmation_def refund_coin_def transfer_key_def
    transfer_sender_def store_pending_refund_def
  show thesis
  proof (cases "kv_load ?key (XRPL_TOKENS s)")
    case (Some tok)
    then obtain cfg where "CONFIG s = Some cfg"
      using assms ty by (auto simp: and_then_eq_Inr item_load_eq_Inr Let_def)
    with Some show thesis
      using assms ty by (intro that [where cfg = cfg]) (auto simp: and_then_eq_Inr item_load_eq_Inr Let_def)
  next
    case None
    then obtain k tok where tok: "index_item ct_xrpl_currency c (COSMOS_TOKENS s) = Some (k, tok)"
      using assms ty by (auto split: option.splits)
    with None obtain mv bk cfg where mx: "mx = Some mv" "CONFIG s = Some cfg"
      "convert_amount_decimals XRPL_TOKENS_DECIMALS (ct_decimals tok) mv = Inr bk"
      using assms ty by (auto simp: and_then_eq_Inr item_load_eq_Inr split: option.splits)
    show thesis
      by (rule that [of "coin_of bk (ct_denom tok)" ?key sender cfg])
        (use assms ty None tok mx in \<open>auto simp: and_then_eq_Inr item_load_eq_Inr Let_def\<close>)
  qed
qed (use assms in \<open>simp_all add: handle_cosmos_to_xrpl_transfer_confirmation_def\<close>)

lemma transfer_confirmation_frame:
  assumes "handle_cosmos_to_xrpl_transfer_confirmation s res h oid tf b resp = Inr (m, r, s')"
  shows "\<exists>x. s' = s\<lparr>PENDING_REFUNDS := x\<rparr> \<and> (refund_keys (PENDING_REFUNDS s) \<longrightarrow> refund_keys x)"
proof -
  obtain op where op: "kv_load oid (PENDING_OPERATIONS s) = Some op"
    using assms by (auto simp: handle_cosmos_to_xrpl_transfer_confirmation_def and_then_eq_Inr
        map_err_eq_Inr item_load_eq_Inr)
  show ?thesis
  proof (cases "res = Accepted")
    case True
    with assms op have "s' = s" using transfer_accepted by blast
    then have "s' = s\<lparr>PENDING_REFUNDS := PENDING_REFUNDS s\<rparr>" by simp
    then show ?thesis by blast
  next
    case False
    from assms False op show ?thesis
    proof (rule transfer_refused)
      fix coin key sender cfg
      let ?rf = "\<lparr>pr_address = sender, pr_id = op_id op, pr_xrpl_tx_hash = h, pr_coin = coin\<rparr>"
      assume "s' = s\<lparr>PENDING_REFUNDS := kv_save (sender, op_id op) ?rf (PENDING_REFUNDS s)\<rparr>"
      then show ?thesis using refund_keys_simps(2) [of "PENDING_REFUNDS s" ?rf] by auto
    qed
  qed
qed

section \<open>The stages of an outcome\<close>

text \<open>The storage without a pending operation.\<close>

abbreviation drop_operation :: "u64 \<Rightarrow> storage \<Rightarrow> storage" where
  "drop_operation oid s \<equiv> s\<lparr>PENDING_OPERATIONS := kv_remove oid (PENDING_OPERATIONS s)\<rparr>"

fun is_transfer :: "operation_type \<Rightarrow> bool" where
  "is_transfer (CosmosToXRPLTransfer _ _ _ _ _ _) = True"
| "is_transfer _ = False"

text \<open>The stages of \<open>handle_operation\<close>: the handler of the type, removal, return of the ticket.\<close>

definition released :: "u64 \<Rightarrow> u64 option \<Rightarrow> transaction_result \<Rightarrow> storage \<Rightarrow> storage \<Rightarrow> bool" where
  "released oid tick res s1 s' \<longleftrightarrow>
     (case tick of
        Some t \<Rightarrow> if res = Invalid then return_ticket (drop_operation oid s1) t else Inr (drop_operation oid s1)
      | None \<Rightarrow> Inr (drop_operation oid s1)) = Inr s'"

lemma handle_operation_cases:
  assumes "handle_operation s op ores res h oid tick tf b resp = Inr (m, r, s')"
  obtains (allocation) n ts s1 where "op_operation_type op = AllocateTickets n" "m = []" "r = resp"
      "handle_ticket_allocation_confirmation s ts res = Inr s1" "released oid tick res s1 s'"
      "ores = Some (TicketsAllocation ts)"
    | (trust_set) i c n s1 where "op_operation_type op = TrustSet i c n" "m = []" "r = resp"
      "handle_trust_set_confirmation s i c res = Inr s1" "released oid tick res s1 s'"
    | (rotation) rs t s1 where "op_operation_type op = RotateKeys rs t" "m = []" "r = resp"
      "handle_rotate_keys_confirmation s rs t res = Inr s1" "released oid tick res s1 s'"
    | (transfer) s1 where "is_transfer (op_operation_type op)"
      "handle_cosmos_to_xrpl_transfer_confirmation s res h oid tf b resp = Inr (m, r, s1)"
      "released oid tick res s1 s'"
proof -
  from assms obtain s1 where
    a: "(case op_operation_type op of
          AllocateTickets _ \<Rightarrow>
            (case ores of
               Some (TicketsAllocation tickets) \<Rightarrow>
                 and_then (handle_ticket_allocation_confirmation s tickets res) (\<lambda>s. Inr ([], resp, s))
             | None \<Rightarrow> fail InvalidOperationResult)
        | TrustSet issuer currency _ \<Rightarrow>
            and_then (handle_trust_set_confirmation s issuer currency res) (\<lambda>s. Inr ([], resp, s))
        | RotateKeys new_relayers new_evidence_threshold \<Rightarrow>
            and_then (handle_rotate_keys_confirmation s new_relayers new_evidence_threshold res) (\<lambda>s.
            Inr ([], resp, s))
        | CosmosToXRPLTransfer _ _ _ _ _ _ \<Rightarrow>
            handle_cosmos_to_xrpl_transfer_confirmation s res h oid tf b resp) = Inr (m, r, s1)"
    and b: "released oid tick res s1 s'"
    unfolding handle_operation_def Let_def released_def
    by (auto simp only: and_then_eq_Inr split_paired_Ex prod.case prod.inject sum.inject)
  show thesis
  proof (cases "op_operation_type op")
    case (AllocateTickets n)
    with a b show thesis
      by (auto simp: and_then_eq_Inr split: option.splits operation_result.splits intro: allocation)
  next
    case (TrustSet i c n)
    with a b show thesis by (auto simp: and_then_eq_Inr intro: trust_set)
  next
    case (RotateKeys rs t)
    with a b show thesis by (auto simp: and_then_eq_Inr intro: rotation)
  next
    case (CosmosToXRPLTransfer i c am mx sn rc)
    with a b show thesis by (auto intro: transfer)
  qed
qed

end
