(* ===== verification/Signatures.thy ===== *)
theory Signatures
  imports Pending_Operations
begin

text \<open>
  Signatures of pending operations (\<open>signatures.rs\<close>): each relayer signs the current version of
  an operation once.
\<close>

definition MAX_SIGNATURE_LENGTH :: nat where "MAX_SIGNATURE_LENGTH = 200"

definition validate_signature :: "string \<Rightarrow> unit result" where
  "validate_signature signature =
     (if length signature > MAX_SIGNATURE_LENGTH then fail InvalidSignatureLength else Inr ())"

definition add_signature :: "storage \<Rightarrow> u64 \<Rightarrow> u64 \<Rightarrow> addr \<Rightarrow> string \<Rightarrow> storage result" where
  "add_signature s operation_id operation_version sender signature =
     and_then (validate_signature signature) (\<lambda>_.
     and_then
       (map_err PendingOperationNotFound
          (item_load (kv_load operation_id (PENDING_OPERATIONS s)))) (\<lambda>pending_operation.
     if operation_version \<noteq> op_version pending_operation then fail OperationVersionMismatch else
     and_then (item_load (CONFIG s)) (\<lambda>config.
     and_then (check_valid_operation_if_halt s config (op_operation_type pending_operation)) (\<lambda>_.
     let signatures = op_signatures pending_operation in
     if list_ex (\<lambda>sg. sg_relayer_cosmos_address sg = sender) signatures
     then fail SignatureAlreadyProvided
     else
       let signatures = signatures @
             [\<lparr>sg_relayer_cosmos_address = sender, sg_signature = signature\<rparr>] in
       Inr (s\<lparr>PENDING_OPERATIONS :=
              kv_save operation_id (pending_operation\<lparr>op_signatures := signatures\<rparr>)
                (PENDING_OPERATIONS s)\<rparr>)))))"

definition signers :: "operation \<Rightarrow> addr list" where
  "signers op = map sg_relayer_cosmos_address (op_signatures op)"

lemma add_signature_ok:
  assumes "add_signature s oid ver sender sig = Inr s'"
  obtains op cfg where "kv_load oid (PENDING_OPERATIONS s) = Some op" and "CONFIG s = Some cfg"
    and "ver = op_version op" and "length sig \<le> 200" and "sender \<notin> set (signers op)"
    and "cf_bridge_state cfg = Active \<or> halt_allows (op_operation_type op) (PENDING_ROTATE_KEYS s)"
    and "s' = s\<lparr>PENDING_OPERATIONS := kv_save oid
      (op\<lparr>op_signatures := op_signatures op @
        [\<lparr>sg_relayer_cosmos_address = sender, sg_signature = sig\<rparr>]\<rparr>) (PENDING_OPERATIONS s)\<rparr>"
  using assms
  by (auto simp: add_signature_def validate_signature_def MAX_SIGNATURE_LENGTH_def Let_def
      signers_def list_ex_iff result_simps)

end
