(* ===== verification/Evidences.thy ===== *)
theory Evidences
  imports Bridge_Types
begin

text \<open>
  Evidences (\<open>evidence.rs\<close>): validation, the hash under which equal evidences are collected, and
  the vote count that makes a relayer's evidence the deciding one.
\<close>

section \<open>Operations\<close>

fun transaction_result_as_str :: "transaction_result \<Rightarrow> string" where
  "transaction_result_as_str Accepted = ''transaction_accepted''"
| "transaction_result_as_str Rejected = ''transaction_rejected''"
| "transaction_result_as_str Invalid = ''transaction_invalid''"

definition hash_bytes :: "platform \<Rightarrow> bytes \<Rightarrow> string" where
  "hash_bytes p bs = to_hex p (sha256_digest p bs)"

definition get_hash :: "platform \<Rightarrow> evidence \<Rightarrow> string result" where
  "get_hash p e = and_then (from_std (to_json_vec p e)) (\<lambda>to_hash_bytes. Inr (hash_bytes p to_hash_bytes))"

fun get_tx_hash :: "evidence \<Rightarrow> string result" where
  "get_tx_hash (XRPLToCosmosTransfer tx_hash _ _ _ _ _) = Inr (to_uppercase tx_hash)"
| "get_tx_hash (XRPLTransactionResult tx_hash _ _ _ _) =
     (case tx_hash of None \<Rightarrow> Inl Panic | Some h \<Rightarrow> Inr (to_uppercase h))"

fun is_operation_valid :: "evidence \<Rightarrow> bool" where
  "is_operation_valid (XRPLToCosmosTransfer _ _ _ _ _ _) = True"
| "is_operation_valid (XRPLTransactionResult _ _ _ transaction_result _) = (transaction_result \<noteq> Invalid)"

fun validate_basic :: "evidence \<Rightarrow> unit result" where
  "validate_basic (XRPLToCosmosTransfer _ _ _ amount _ _) =
     (if amount = 0 then fail InvalidAmount else Inr ())"
| "validate_basic (XRPLTransactionResult tx_hash account_sequence ticket_sequence transaction_result operation_result) =
     (if (account_sequence = None \<and> ticket_sequence = None) \<or>
         (account_sequence \<noteq> None \<and> ticket_sequence \<noteq> None)
      then fail InvalidTransactionResultEvidence
      else if transaction_result \<noteq> Invalid \<and> tx_hash = None
      then fail InvalidSuccessfulTransactionResultEvidence
      else if transaction_result = Invalid \<and> tx_hash \<noteq> None
      then fail InvalidFailedTransactionResultEvidence
      else
        (case operation_result of
           Some (TicketsAllocation tickets) \<Rightarrow>
             if (transaction_result = Invalid \<or> transaction_result = Rejected) \<and> tickets \<noteq> None
             then fail InvalidTicketAllocationEvidence
             else if transaction_result = Accepted \<and> (tickets = None \<or> tickets = Some [])
             then fail InvalidTicketAllocationEvidence
             else Inr ()
         | None \<Rightarrow> Inr ()))"

definition handle_evidence :: "platform \<Rightarrow> storage \<Rightarrow> addr \<Rightarrow> evidence \<Rightarrow> (bool \<times> storage) result" where
  "handle_evidence p s sender evidence =
     (let operation_valid = is_operation_valid evidence in
      and_then
        (if operation_valid
         then and_then (get_tx_hash evidence) (\<lambda>h. Inr (kv_has h (PROCESSED_TXS s)))
         else Inr False) (\<lambda>already_executed.
      if already_executed then fail OperationAlreadyExecuted else
      and_then (get_hash p evidence) (\<lambda>evidence_hash.
      and_then
        (case kv_load evidence_hash (TX_EVIDENCES s) of
           Some stored_evidences \<Rightarrow>
             if sender \<in> set stored_evidences then fail EvidenceAlreadyProvided
             else Inr (stored_evidences @ [sender])
         | None \<Rightarrow> Inr [sender]) (\<lambda>evidences.
      and_then (item_load (CONFIG s)) (\<lambda>config.
      if length evidences \<ge> unat (cf_evidence_threshold config) then
        and_then
          (if operation_valid then
             and_then (get_tx_hash evidence) (\<lambda>h.
             Inr (s\<lparr>PROCESSED_TXS := kv_save h () (PROCESSED_TXS s)\<rparr>))
           else Inr s) (\<lambda>s.
        if length evidences \<noteq> 1 then
          Inr (True, s\<lparr>TX_EVIDENCES := kv_remove evidence_hash (TX_EVIDENCES s)\<rparr>)
        else Inr (True, s))
      else Inr (False, s\<lparr>TX_EVIDENCES := kv_save evidence_hash evidences (TX_EVIDENCES s)\<rparr>))))))"

section \<open>Properties\<close>

definition votes :: "platform \<Rightarrow> storage \<Rightarrow> evidence \<Rightarrow> addr list" where
  "votes p s e =
     (case get_hash p e of Inl _ \<Rightarrow> []
      | Inr h \<Rightarrow> (case kv_load h (TX_EVIDENCES s) of None \<Rightarrow> [] | Some vs \<Rightarrow> vs))"

definition processed :: "storage \<Rightarrow> evidence \<Rightarrow> bool" where
  "processed s e \<longleftrightarrow> (\<exists>h. get_tx_hash e = Inr h \<and> kv_has h (PROCESSED_TXS s))"

definition processed_after :: "evidence \<Rightarrow> (string, unit) kv \<Rightarrow> (string, unit) kv" where
  "processed_after e m =
     (if is_operation_valid e then (case get_tx_hash e of Inl _ \<Rightarrow> m | Inr h \<Rightarrow> kv_save h () m) else m)"

lemma validate_basic_tx_hash:
  "validate_basic e = Inr () \<Longrightarrow> is_operation_valid e \<Longrightarrow> \<exists>h. get_tx_hash e = Inr h"
  by (cases e) (auto simp: result_simps split: option.splits)

text \<open>
  The three effects of an accepted evidence: the vote is recorded, or it is the deciding one, which
  marks a valid transaction as processed and drops the recorded votes.
\<close>

lemma handle_evidence_cases:
  assumes "handle_evidence p s sender e = Inr (reached, s')"
  obtains h cfg where "get_hash p e = Inr h" and "CONFIG s = Some cfg"
    and "sender \<notin> set (votes p s e)"
    and "is_operation_valid e \<Longrightarrow> \<not> processed s e"
    and "reached \<longleftrightarrow> unat (cf_evidence_threshold cfg) \<le> length (votes p s e) + 1"
    and "\<not> reached \<Longrightarrow> s' = s\<lparr>TX_EVIDENCES := kv_save h (votes p s e @ [sender]) (TX_EVIDENCES s)\<rparr>"
    and "is_operation_valid e \<Longrightarrow> \<exists>txh. get_tx_hash e = Inr txh"
    and "reached \<Longrightarrow> s' = s\<lparr>PROCESSED_TXS := processed_after e (PROCESSED_TXS s),
      TX_EVIDENCES := (if votes p s e = [] then TX_EVIDENCES s else kv_remove h (TX_EVIDENCES s))\<rparr>"
proof -
  from assms obtain h vs cfg where
    ae: "(if is_operation_valid e then and_then (get_tx_hash e) (\<lambda>h. Inr (kv_has h (PROCESSED_TXS s)))
         else Inr False) = Inr False"
    and h: "get_hash p e = Inr h"
    and vs: "(case kv_load h (TX_EVIDENCES s) of
           Some stored \<Rightarrow> if sender \<in> set stored then fail EvidenceAlreadyProvided else Inr (stored @ [sender])
         | None \<Rightarrow> Inr [sender]) = Inr vs"
    and cfg: "CONFIG s = Some cfg"
    and rest: "(if length vs \<ge> unat (cf_evidence_threshold cfg) then
        and_then
          (if is_operation_valid e then
             and_then (get_tx_hash e) (\<lambda>h. Inr (s\<lparr>PROCESSED_TXS := kv_save h () (PROCESSED_TXS s)\<rparr>))
           else Inr s) (\<lambda>s.
        if length vs \<noteq> 1 then Inr (True, s\<lparr>TX_EVIDENCES := kv_remove h (TX_EVIDENCES s)\<rparr>)
        else Inr (True, s))
      else Inr (False, s\<lparr>TX_EVIDENCES := kv_save h vs (TX_EVIDENCES s)\<rparr>)) = Inr (reached, s')"
    unfolding handle_evidence_def Let_def
    by (elim and_thenE, simp only: if_Inl_eq_Inr, elim conjE and_thenE)
      (simp only: item_load_eq_Inr simp_thms)
  have v: "votes p s e = (case kv_load h (TX_EVIDENCES s) of None \<Rightarrow> [] | Some vs \<Rightarrow> vs)"
    by (simp add: votes_def h)
  then have vs': "vs = votes p s e @ [sender]" and nv: "sender \<notin> set (votes p s e)"
    using vs by (auto simp: if_Inl_eq_Inr split: option.splits)
  have np: "is_operation_valid e \<Longrightarrow> \<not> processed s e"
    using ae by (auto simp: processed_def and_then_eq_Inr)
  show ?thesis
    using rest np nv h cfg ae
    by (intro that [of h cfg])
      (auto simp: vs' and_then_eq_Inr processed_after_def split: if_splits)
qed

end
