(* ===== verification/Fees.thy ===== *)
theory Fees
  imports Bridge_Types Checked_Arith
begin

text \<open>
  Fees (\<open>fees.rs\<close>): the bridging fee and the truncated remainder of a transfer are split among
  the relayers, what cannot be split evenly is kept for the next collection, and a relayer claims
  what was collected for it.
\<close>

section \<open>Operations\<close>

text \<open>\<open>find(|c| c.denom == fee.denom)\<close>, then \<open>+=\<close> on the coin found or a new coin.\<close>

fun credit_coin :: "string \<Rightarrow> u128 \<Rightarrow> coin list \<Rightarrow> coin list result" where
  "credit_coin d a [] = Inr [coin_of a d]"
| "credit_coin d a (c # cs) =
     (if c_denom c = d then
        and_then (panic_add (c_amount c) a) (\<lambda>x. Inr (c\<lparr>c_amount := x\<rparr> # cs))
      else and_then (credit_coin d a cs) (\<lambda>cs'. Inr (c # cs')))"

definition credit_relayer :: "string \<Rightarrow> u128 \<Rightarrow> relayer \<Rightarrow> storage \<Rightarrow> storage result" where
  "credit_relayer denom amount_for_each_relayer relayer s =
     (let fees_collected =
        (case kv_load (rl_cosmos_address relayer) (FEES_COLLECTED s) of None \<Rightarrow> [] | Some cs \<Rightarrow> cs)
      in and_then (credit_coin denom amount_for_each_relayer fees_collected) (\<lambda>fees_collected.
         Inr (s\<lparr>FEES_COLLECTED :=
           kv_save (rl_cosmos_address relayer) fees_collected (FEES_COLLECTED s)\<rparr>)))"

definition collect_fees :: "storage \<Rightarrow> coin \<Rightarrow> storage result" where
  "collect_fees s fee =
     (if c_amount fee \<noteq> 0 then
        and_then
          (case kv_load (c_denom fee) (FEE_REMAINDERS s) of
             Some fees_remainder \<Rightarrow> checked_add (c_amount fee) fees_remainder
           | None \<Rightarrow> Inr (c_amount fee)) (\<lambda>total_fee.
        and_then (item_load (CONFIG s)) (\<lambda>config.
        let relayers = cf_relayers config in
        and_then (checked_div total_fee (word_of_nat (length relayers))) (\<lambda>amount_for_each_relayer.
        and_then
          (if amount_for_each_relayer \<noteq> 0
           then for_each (credit_relayer (c_denom fee) amount_for_each_relayer) relayers s
           else Inr s) (\<lambda>s.
        and_then (checked_mul amount_for_each_relayer (word_of_nat (length relayers))) (\<lambda>split.
        and_then (checked_sub total_fee split) (\<lambda>remainder.
        Inr (s\<lparr>FEE_REMAINDERS := kv_save (c_denom fee) remainder (FEE_REMAINDERS s)\<rparr>)))))))
      else Inr s)"

definition handle_fee_collection ::
  "storage \<Rightarrow> u128 \<Rightarrow> string \<Rightarrow> u128 \<Rightarrow> (u128 \<times> storage) result" where
  "handle_fee_collection s bridging_fee token_denom remainder =
     and_then (checked_add bridging_fee remainder) (\<lambda>fee_collected.
     and_then (collect_fees s (coin_of fee_collected token_denom)) (\<lambda>s.
     Inr (fee_collected, s)))"

fun debit_coin :: "coin \<Rightarrow> coin list \<Rightarrow> coin list result" where
  "debit_coin c [] = fail (NotEnoughFeesToClaim (c_denom c) (c_amount c))"
| "debit_coin c (f # fs) =
     (if c_denom f = c_denom c \<and> c_amount f \<ge> c_amount c then
        and_then (panic_sub (c_amount f) (c_amount c)) (\<lambda>x. Inr (f\<lparr>c_amount := x\<rparr> # fs))
      else and_then (debit_coin c fs) (\<lambda>fs'. Inr (f # fs')))"

definition substract_relayer_fees :: "storage \<Rightarrow> addr \<Rightarrow> coin list \<Rightarrow> storage result" where
  "substract_relayer_fees s sender amounts =
     and_then (item_load (kv_load sender (FEES_COLLECTED s))) (\<lambda>fees_collected.
     and_then (for_each debit_coin amounts fees_collected) (\<lambda>fees_collected.
     Inr (s\<lparr>FEES_COLLECTED :=
       kv_save sender (filter (\<lambda>c. c_amount c \<noteq> 0) fees_collected) (FEES_COLLECTED s)\<rparr>)))"

section \<open>Accounting\<close>

text \<open>The amount of a denom in a list of coins, and the amounts the contract owes to relayers.\<close>

definition denom_total :: "string \<Rightarrow> coin list \<Rightarrow> nat" where
  "denom_total d cs = sum_list (map (\<lambda>c. if c_denom c = d then unat (c_amount c) else 0) cs)"

definition relayer_fees :: "addr \<Rightarrow> string \<Rightarrow> storage \<Rightarrow> nat" where
  "relayer_fees a d s = (case kv_load a (FEES_COLLECTED s) of None \<Rightarrow> 0 | Some cs \<Rightarrow> denom_total d cs)"

definition fees_owed :: "string \<Rightarrow> storage \<Rightarrow> nat" where
  "fees_owed d s = kv_sum (\<lambda>_ cs. denom_total d cs) (FEES_COLLECTED s)"

definition remainder_owed :: "string \<Rightarrow> storage \<Rightarrow> nat" where
  "remainder_owed d s = (case kv_load d (FEE_REMAINDERS s) of None \<Rightarrow> 0 | Some r \<Rightarrow> unat r)"

definition fee_pool :: "string \<Rightarrow> storage \<Rightarrow> nat" where
  "fee_pool d s = fees_owed d s + remainder_owed d s"

lemma denom_total_simps [simp]:
  "denom_total d [] = 0"
  "denom_total d (c # cs) = (if c_denom c = d then unat (c_amount c) else 0) + denom_total d cs"
  by (simp_all add: denom_total_def)

lemma denom_total_nonzero [simp]: "denom_total d (filter (\<lambda>c. c_amount c \<noteq> 0) cs) = denom_total d cs"
  by (induction cs) auto

lemma credit_coin_total:
  "credit_coin d a cs = Inr cs' \<Longrightarrow>
   denom_total d' cs' = denom_total d' cs + (if d' = d then unat a else 0)"
proof (induction cs arbitrary: cs')
  case Nil
  then show ?case by auto
next
  case (Cons c cs)
  then show ?case by (auto simp: result_simps split: if_splits)
qed

lemma debit_coin_total:
  "debit_coin c fs = Inr fs' \<Longrightarrow>
   denom_total d fs = denom_total d fs' + (if c_denom c = d then unat (c_amount c) else 0)"
proof (induction fs arbitrary: fs')
  case Nil
  then show ?case by simp
next
  case (Cons f fs)
  then show ?case by (auto simp: result_simps split: if_splits)
qed

lemma debit_coins_total:
  "for_each debit_coin amounts fs = Inr fs' \<Longrightarrow>
   denom_total d fs = denom_total d fs' + denom_total d amounts"
proof (induction amounts arbitrary: fs)
  case Nil
  then show ?case by simp
next
  case (Cons c amounts)
  then obtain fs1 where "debit_coin c fs = Inr fs1" "for_each debit_coin amounts fs1 = Inr fs'"
    by (auto simp: result_simps)
  with Cons.IH debit_coin_total [of c fs fs1 d] show ?case by auto
qed

text \<open>Crediting one relayer: what changes and what does not.\<close>

lemma credit_relayer_effect:
  assumes "credit_relayer d a r s = Inr s'"
  shows "\<exists>fc. s' = s\<lparr>FEES_COLLECTED := fc\<rparr>"
    and "fees_owed d' s' = fees_owed d' s + (if d' = d then unat a else 0)"
    and "relayer_fees x d' s' =
      relayer_fees x d' s + (if x = rl_cosmos_address r \<and> d' = d then unat a else 0)"
proof -
  define cs where
    "cs = (case kv_load (rl_cosmos_address r) (FEES_COLLECTED s) of None \<Rightarrow> [] | Some cs \<Rightarrow> cs)"
  from assms obtain cs' where cs': "credit_coin d a cs = Inr cs'"
    and s': "s' = s\<lparr>FEES_COLLECTED := kv_save (rl_cosmos_address r) cs' (FEES_COLLECTED s)\<rparr>"
    by (auto simp: credit_relayer_def cs_def Let_def result_simps)
  show "\<exists>fc. s' = s\<lparr>FEES_COLLECTED := fc\<rparr>" using s' by blast
  have tot: "denom_total d' cs' = denom_total d' cs + (if d' = d then unat a else 0)"
    by (rule credit_coin_total [OF cs'])
  show "fees_owed d' s' = fees_owed d' s + (if d' = d then unat a else 0)"
    using kv_sum_save [of "\<lambda>_ cs. denom_total d' cs" "rl_cosmos_address r" cs' "FEES_COLLECTED s"] tot
    by (auto simp: fees_owed_def s' cs_def split: option.splits)
  show "relayer_fees x d' s' =
      relayer_fees x d' s + (if x = rl_cosmos_address r \<and> d' = d then unat a else 0)"
    using tot by (auto simp: relayer_fees_def s' cs_def split: option.splits)
qed

lemma credit_relayers_effect:
  assumes "for_each (credit_relayer d a) rs s = Inr s'"
  shows "(\<exists>fc. s' = s\<lparr>FEES_COLLECTED := fc\<rparr>) \<and>
    fees_owed d' s' = fees_owed d' s + (if d' = d then length rs * unat a else 0) \<and>
    relayer_fees x d' s' = relayer_fees x d' s +
      (if d' = d then count_list (map rl_cosmos_address rs) x * unat a else 0)"
  using assms
proof (induction rs arbitrary: s)
  case Nil
  then show ?case by (auto intro: exI [of _ "FEES_COLLECTED s"])
next
  case (Cons r rs)
  then obtain s1 where 1: "credit_relayer d a r s = Inr s1"
    and 2: "for_each (credit_relayer d a) rs s1 = Inr s'"
    by (auto simp: and_then_eq_Inr)
  from Cons.IH [OF 2] credit_relayer_effect [OF 1] show ?case by auto
qed

section \<open>Collection and claim\<close>

definition relayer_count :: "storage \<Rightarrow> nat" where
  "relayer_count s = (case CONFIG s of None \<Rightarrow> 0 | Some c \<Rightarrow> length (cf_relayers c))"

definition times_listed :: "addr \<Rightarrow> storage \<Rightarrow> nat" where
  "times_listed x s =
     (case CONFIG s of None \<Rightarrow> 0 | Some c \<Rightarrow> count_list (map rl_cosmos_address (cf_relayers c)) x)"

lemma collect_fees_frame:
  assumes "collect_fees s fee = Inr s'"
  shows "\<exists>fc fr. s' = s\<lparr>FEES_COLLECTED := fc, FEE_REMAINDERS := fr\<rparr>"
proof (cases "c_amount fee = 0")
  case True
  with assms have "s' = s\<lparr>FEES_COLLECTED := FEES_COLLECTED s, FEE_REMAINDERS := FEE_REMAINDERS s\<rparr>"
    by (simp add: collect_fees_def)
  then show ?thesis by blast
next
  case False
  with assms obtain s1 fr each rs where
    "(if each \<noteq> 0 then for_each (credit_relayer (c_denom fee) each) rs s else Inr s) = Inr s1"
    and s': "s' = s1\<lparr>FEE_REMAINDERS := fr\<rparr>"
    by (auto simp: collect_fees_def Let_def and_then_eq_Inr)
  then have "\<exists>fc. s1 = s\<lparr>FEES_COLLECTED := fc\<rparr>"
    using credit_relayers_effect [of "c_denom fee" each rs s s1]
    by (cases "each = 0") (auto intro: exI [of _ "FEES_COLLECTED s"])
  with s' show ?thesis by auto
qed

text \<open>
  One collection: what is owed for the denom grows by exactly the fee, the new remainder is
  smaller than the number of relayers, and every listed relayer gets the same share.
\<close>

lemma collect_fees_effect:
  assumes "collect_fees s fee = Inr s'" and "c_amount fee \<noteq> 0" and "relayer_count s < 2 ^ 128"
  defines "tot_fee \<equiv> unat (c_amount fee) + remainder_owed (c_denom fee) s"
  shows "fees_owed d s' = fees_owed d s +
      (if d = c_denom fee then relayer_count s * (tot_fee div relayer_count s) else 0)"
    and "remainder_owed d s' = (if d = c_denom fee then tot_fee mod relayer_count s else remainder_owed d s)"
    and "relayer_fees x d s' = relayer_fees x d s +
      (if d = c_denom fee then times_listed x s * (tot_fee div relayer_count s) else 0)"
    and "0 < relayer_count s"
proof -
  from assms(1,2) obtain tf cfg each s1 split rem where
    tf: "(case kv_load (c_denom fee) (FEE_REMAINDERS s) of
       Some r \<Rightarrow> checked_add (c_amount fee) r | None \<Rightarrow> Inr (c_amount fee)) = Inr tf"
    and cfg: "CONFIG s = Some cfg"
    and each: "checked_div tf (word_of_nat (length (cf_relayers cfg))) = Inr each"
    and s1: "(if each \<noteq> 0 then for_each (credit_relayer (c_denom fee) each) (cf_relayers cfg) s
       else Inr s) = Inr s1"
    and split: "checked_mul each (word_of_nat (length (cf_relayers cfg))) = Inr split"
    and rem: "checked_sub tf split = Inr rem"
    and s': "s' = s1\<lparr>FEE_REMAINDERS := kv_save (c_denom fee) rem (FEE_REMAINDERS s1)\<rparr>"
    by (auto simp: collect_fees_def Let_def and_then_eq_Inr item_load_eq_Inr)
  define n where "n = length (cf_relayers cfg)"
  have n: "relayer_count s = n" by (simp add: relayer_count_def cfg n_def)
  have tl: "times_listed x s = count_list (map rl_cosmos_address (cf_relayers cfg)) x"
    by (simp add: times_listed_def cfg)
  have un: "unat (word_of_nat n :: u128) = n" using assms(3) n by (simp add: unat_of_nat_u128)
  have utf: "unat tf = tot_fee"
    using tf by (auto simp: tot_fee_def remainder_owed_def result_simps split: option.splits)
  have ueach: "unat each = tot_fee div n" and n0: "n \<noteq> 0"
    using each by (simp_all add: checked_div_eq_Inr utf un n_def [symmetric])
  have "unat split = tot_fee div n * n"
    using split by (simp add: checked_mul_eq_Inr ueach un n_def [symmetric])
  then have "tot_fee = unat rem + tot_fee div n * n"
    using rem by (simp add: checked_sub_eq_Inr utf)
  then have urem: "unat rem = tot_fee mod n"
    using div_mult_mod_eq [of tot_fee n] by linarith
  have eff: "(\<exists>fc. s1 = s\<lparr>FEES_COLLECTED := fc\<rparr>) \<and>
    fees_owed d s1 = fees_owed d s + (if d = c_denom fee then n * unat each else 0) \<and>
    relayer_fees x d s1 = relayer_fees x d s + (if d = c_denom fee then times_listed x s * unat each else 0)"
  proof (cases "each = 0")
    case True
    then show ?thesis using s1 by (auto intro: exI [of _ "FEES_COLLECTED s"])
  next
    case False
    with s1 have "for_each (credit_relayer (c_denom fee) each) (cf_relayers cfg) s = Inr s1" by simp
    from credit_relayers_effect [OF this] show ?thesis by (simp add: n_def tl)
  qed
  then have fr: "FEE_REMAINDERS s1 = FEE_REMAINDERS s" by auto
  show "fees_owed d s' = fees_owed d s +
      (if d = c_denom fee then relayer_count s * (tot_fee div relayer_count s) else 0)"
    using eff by (simp add: fees_owed_def s' n ueach)
  show "remainder_owed d s' = (if d = c_denom fee then tot_fee mod relayer_count s else remainder_owed d s)"
    by (simp add: remainder_owed_def s' fr urem n)
  show "relayer_fees x d s' = relayer_fees x d s +
      (if d = c_denom fee then times_listed x s * (tot_fee div relayer_count s) else 0)"
    using eff by (simp add: relayer_fees_def s' n ueach)
  show "0 < relayer_count s" using n0 n by simp
qed

lemma handle_fee_collection_pool:
  assumes "handle_fee_collection s fee d rem = Inr (c, s')" and "relayer_count s < 2 ^ 128"
  shows "unat c = unat fee + unat rem"
    and "fee_pool d' s' = fee_pool d' s + (if d' = d then unat c else 0)"
    and "\<exists>fc fr. s' = s\<lparr>FEES_COLLECTED := fc, FEE_REMAINDERS := fr\<rparr>"
proof -
  from assms(1) have c: "unat c = unat fee + unat rem"
    and col: "collect_fees s (coin_of c d) = Inr s'"
    by (auto simp: handle_fee_collection_def result_simps)
  show "unat c = unat fee + unat rem" by (rule c)
  show "\<exists>fc fr. s' = s\<lparr>FEES_COLLECTED := fc, FEE_REMAINDERS := fr\<rparr>"
    by (rule collect_fees_frame [OF col])
  show "fee_pool d' s' = fee_pool d' s + (if d' = d then unat c else 0)"
  proof (cases "c = 0")
    case True
    with col show ?thesis by (simp add: collect_fees_def)
  next
    case False
    then have nz: "c_amount (coin_of c d) \<noteq> 0" by simp
    from collect_fees_effect(1,2) [OF col nz assms(2), of d'] show ?thesis
      by (auto simp: fee_pool_def simp flip: mult.commute)
  qed
qed

lemma substract_relayer_fees_effect:
  assumes "substract_relayer_fees s sender amounts = Inr s'"
  shows "fees_owed d s = fees_owed d s' + denom_total d amounts"
    and "relayer_fees sender d s = relayer_fees sender d s' + denom_total d amounts"
    and "x \<noteq> sender \<Longrightarrow> relayer_fees x d s' = relayer_fees x d s"
    and "\<exists>fc. s' = s\<lparr>FEES_COLLECTED := fc\<rparr>"
proof -
  from assms obtain fs fs' where fs: "kv_load sender (FEES_COLLECTED s) = Some fs"
    and deb: "for_each debit_coin amounts fs = Inr fs'"
    and s': "s' = s\<lparr>FEES_COLLECTED :=
      kv_save sender (filter (\<lambda>c. c_amount c \<noteq> 0) fs') (FEES_COLLECTED s)\<rparr>"
    by (auto simp: substract_relayer_fees_def result_simps)
  have tot: "denom_total d fs = denom_total d fs' + denom_total d amounts"
    by (rule debit_coins_total [OF deb])
  show "fees_owed d s = fees_owed d s' + denom_total d amounts"
    using kv_sum_save [of "\<lambda>_ cs. denom_total d cs" sender
        "filter (\<lambda>c. c_amount c \<noteq> 0) fs'" "FEES_COLLECTED s"] fs tot
    by (simp add: fees_owed_def s')
  show "relayer_fees sender d s = relayer_fees sender d s' + denom_total d amounts"
    using tot fs by (simp add: relayer_fees_def s')
  show "x \<noteq> sender \<Longrightarrow> relayer_fees x d s' = relayer_fees x d s"
    by (simp add: relayer_fees_def s')
  show "\<exists>fc. s' = s\<lparr>FEES_COLLECTED := fc\<rparr>" using s' by blast
qed

end
