(* ===== verification/Contract_Admin.thy ===== *)
theory Contract_Admin
  imports Operations Signatures Evidences Fees
begin

text \<open>
  The handlers of \<open>contract.rs\<close> for the owner and the relayers: authorisation, halting, token
  registration and update, ticket recovery, signatures, fees, key rotation and cancellation. A
  handler takes the platform, the environment where the source reads it, and the storage, and
  returns the response with the new storage.
\<close>

section \<open>Constants\<close>

definition MAX_TICKETS :: u32 where "MAX_TICKETS = 250"

type_synonym outcome = "(response \<times> storage) result"

section \<open>Authorisation and bridge state\<close>

definition check_authorization :: "platform \<Rightarrow> storage \<Rightarrow> addr \<Rightarrow> contract_actions \<Rightarrow> unit result" where
  "check_authorization p s sender action =
     and_then (from_std (is_owner p (OWNERSHIP s) sender)) (\<lambda>owner.
     and_then (is_relayer s sender) (\<lambda>relayer.
     let user_types = (if owner then [Owner] else []) @ (if relayer then [Relayer] else []) in
     if \<not> list_ex (\<lambda>user_type. is_authorized user_type action) user_types
     then fail UnauthorizedSender else Inr ()))"

definition assert_bridge_active :: "storage \<Rightarrow> unit result" where
  "assert_bridge_active s =
     and_then (item_load (CONFIG s)) (\<lambda>config.
     if cf_bridge_state config \<noteq> Active then fail BridgeHalted else Inr ())"

definition update_bridge_state :: "storage \<Rightarrow> bridge_state \<Rightarrow> storage result" where
  "update_bridge_state s bridge_state =
     and_then (item_load (CONFIG s)) (\<lambda>config.
     Inr (s\<lparr>CONFIG := Some (config\<lparr>cf_bridge_state := bridge_state\<rparr>)\<rparr>))"

definition halt_bridge :: "platform \<Rightarrow> storage \<Rightarrow> addr \<Rightarrow> outcome" where
  "halt_bridge p s sender =
     and_then (check_authorization p s sender CA_HaltBridge) (\<lambda>_.
     and_then (assert_bridge_active s) (\<lambda>_.
     and_then (update_bridge_state s Halted) (\<lambda>s.
     Inr (add_attributes [(''action'', action_as_str CA_HaltBridge), (''sender'', as_str sender)]
       response_new, s))))"

definition resume_bridge :: "platform \<Rightarrow> storage \<Rightarrow> addr \<Rightarrow> outcome" where
  "resume_bridge p s sender =
     and_then (check_authorization p s sender CA_ResumeBridge) (\<lambda>_.
     and_then (item_load (PENDING_ROTATE_KEYS s)) (\<lambda>pending.
     if pending then fail RotateKeysOngoing else
     and_then (update_bridge_state s Active) (\<lambda>s.
     Inr (add_attributes [(''action'', action_as_str CA_ResumeBridge), (''sender'', as_str sender)]
       response_new, s))))"

definition update_ownership :: "platform \<Rightarrow> env \<Rightarrow> message_info \<Rightarrow> storage \<Rightarrow> ownable_action \<Rightarrow> outcome" where
  "update_ownership p e info s action =
     (case ownable_update p (OWNERSHIP s) e (mi_sender info) action of
        Inl err \<Rightarrow> fail (Ownership err)
      | Inr ownership \<Rightarrow>
          Inr (add_attributes ((''sender'', as_str (mi_sender info)) # ownership_attributes p ownership)
                 response_new, s\<lparr>OWNERSHIP := ownership\<rparr>))"

section \<open>Creating and registering tokens\<close>

definition mint_messages :: "addr \<Rightarrow> string \<Rightarrow> cw20_coin list \<Rightarrow> cosmos_msg list" where
  "mint_messages token_factory_addr denom initial_balances =
     map (\<lambda>initial_balance.
       WasmExecute (as_str token_factory_addr)
         (TokenFactory (MintTokens denom (w_amount initial_balance) (w_address initial_balance))) [])
       initial_balances"

definition create_cosmos_token ::
  "platform \<Rightarrow> message_info \<Rightarrow> storage \<Rightarrow> string \<Rightarrow> cw20_coin list \<Rightarrow> outcome" where
  "create_cosmos_token p info s subdenom initial_balances =
     and_then (check_authorization p s (mi_sender info) CA_CreateCosmosToken) (\<lambda>_.
     and_then (item_load (CONFIG s)) (\<lambda>config.
     let denom = full_denom (cf_token_factory_addr config) (to_uppercase subdenom);
         msgs = WasmExecute (as_str (cf_token_factory_addr config))
                  (TokenFactory (CreateDenom (to_uppercase subdenom))) (mi_funds info)
                # mint_messages (cf_token_factory_addr config) denom initial_balances in
     Inr (add_attributes [(''action'', action_as_str CA_CreateCosmosToken),
            (''sender'', as_str (mi_sender info)), (''denom'', denom)]
            (add_messages msgs response_new), s)))"

definition mint_cosmos_token ::
  "platform \<Rightarrow> storage \<Rightarrow> addr \<Rightarrow> string \<Rightarrow> cw20_coin list \<Rightarrow> outcome" where
  "mint_cosmos_token p s sender denom initial_balances =
     and_then (check_authorization p s sender CA_MintCosmosToken) (\<lambda>_.
     and_then
       (if initial_balances \<noteq> [] then
          and_then (item_load (CONFIG s)) (\<lambda>config.
          Inr (mint_messages (cf_token_factory_addr config) denom initial_balances))
        else Inr []) (\<lambda>msgs.
     Inr (add_attributes [(''action'', action_as_str CA_MintCosmosToken),
            (''sender'', as_str sender), (''denom'', denom)]
            (add_messages msgs response_new), s)))"

text \<open>\<open>hash_bytes(..)[0..10]\<close> panics on a shorter string.\<close>

definition hash_prefix :: "platform \<Rightarrow> string \<Rightarrow> string result" where
  "hash_prefix p to_hash =
     (let h = hash_bytes p (as_bytes to_hash) in if length h < 10 then Inl Panic else Inr (take 10 h))"

definition register_cosmos_token ::
  "platform \<Rightarrow> env \<Rightarrow> storage \<Rightarrow> addr \<Rightarrow> string \<Rightarrow> u32 \<Rightarrow> i32 \<Rightarrow> u128 \<Rightarrow> u128 \<Rightarrow> outcome" where
  "register_cosmos_token p e s sender denom decimals sending_precision max_holding_amount bridging_fee =
     and_then (check_authorization p s sender CA_RegisterCosmosToken) (\<lambda>_.
     and_then (assert_bridge_active s) (\<lambda>_.
     and_then (validate_cosmos_token_decimals decimals) (\<lambda>_.
     and_then (validate_sending_precision sending_precision decimals) (\<lambda>_.
     if kv_has denom (COSMOS_TOKENS s) then fail (CosmosTokenAlreadyRegistered denom) else
     and_then (validate_cosmos_denom denom) (\<lambda>_.
     and_then (hash_prefix p (denom @ show_nat (unat decimals) @ show_nat (unat (ev_time_seconds e))))
       (\<lambda>hex_string.
     let xrpl_currency = convert_currency_to_xrpl_hexadecimal p (COSMOS_CURRENCY_PREFIX @ hex_string) in
     and_then (validate_xrpl_currency xrpl_currency) (\<lambda>_.
     if index_item ct_xrpl_currency xrpl_currency (COSMOS_TOKENS s) \<noteq> None
     then fail RegistrationFailure else
     let token = \<lparr>ct_denom = denom, ct_decimals = decimals, ct_xrpl_currency = xrpl_currency,
           ct_sending_precision = sending_precision, ct_max_holding_amount = max_holding_amount,
           ct_state = Enabled, ct_bridging_fee = bridging_fee\<rparr> in
     and_then (index_save ct_xrpl_currency denom token (COSMOS_TOKENS s)) (\<lambda>m.
     Inr (add_attributes [(''action'', action_as_str CA_RegisterCosmosToken),
            (''sender'', as_str sender), (''denom'', denom), (''decimals'', show_nat (unat decimals)),
            (''xrpl_currency_for_denom'', xrpl_currency)] response_new,
          s\<lparr>COSMOS_TOKENS := m\<rparr>)))))))))"

definition register_xrpl_token ::
  "platform \<Rightarrow> env \<Rightarrow> message_info \<Rightarrow> storage \<Rightarrow> string \<Rightarrow> string \<Rightarrow> i32 \<Rightarrow> u128 \<Rightarrow> u128 \<Rightarrow> outcome" where
  "register_xrpl_token p e info s issuer currency sending_precision max_holding_amount bridging_fee =
     and_then (check_authorization p s (mi_sender info) CA_RegisterXRPLToken) (\<lambda>_.
     and_then (validate_xrpl_address p s issuer) (\<lambda>_.
     and_then (validate_xrpl_currency currency) (\<lambda>_.
     and_then (validate_sending_precision sending_precision XRPL_TOKENS_DECIMALS) (\<lambda>_.
     let key = build_xrpl_token_key issuer currency in
     if kv_has key (XRPL_TOKENS s) then fail (XRPLTokenAlreadyRegistered issuer currency) else
     and_then (hash_prefix p (issuer @ currency @ show_nat (unat (ev_time_seconds e)))) (\<lambda>hex_string.
     let subdenom = to_uppercase (XRPL_DENOM_PREFIX @ hex_string) in
     and_then (item_load (CONFIG s)) (\<lambda>config.
     let issue_msg = WasmExecute (as_str (cf_token_factory_addr config))
           (TokenFactory (CreateDenom subdenom)) (mi_funds info);
         denom = full_denom (cf_token_factory_addr config) subdenom in
     if kv_has denom (COSMOS_TOKENS s) then fail RegistrationFailure else
     let token = \<lparr>xt_issuer = issuer, xt_currency = currency, xt_cosmos_denom = denom,
           xt_sending_precision = sending_precision, xt_max_holding_amount = max_holding_amount,
           xt_state = Processing, xt_bridging_fee = bridging_fee\<rparr> in
     and_then (index_save xt_cosmos_denom key token (XRPL_TOKENS s)) (\<lambda>m.
     let s = s\<lparr>XRPL_TOKENS := m\<rparr> in
     and_then (allocate_ticket s) (\<lambda>(ticket, s).
     and_then (create_pending_operation s (ev_time_seconds e) (Some ticket) None
       (TrustSet issuer currency (cf_trust_set_limit_amount config))) (\<lambda>s.
     Inr (add_attributes [(''action'', action_as_str CA_RegisterXRPLToken),
            (''sender'', as_str (mi_sender info)), (''issuer'', issuer), (''currency'', currency),
            (''denom'', denom)] (add_message issue_msg response_new), s))))))))))"

definition recover_xrpl_token_registration ::
  "platform \<Rightarrow> storage \<Rightarrow> u64 \<Rightarrow> addr \<Rightarrow> string \<Rightarrow> string \<Rightarrow> outcome" where
  "recover_xrpl_token_registration p s timestamp sender issuer currency =
     and_then (check_authorization p s sender CA_RecoverXRPLTokenRegistration) (\<lambda>_.
     let key = build_xrpl_token_key issuer currency in
     and_then (map_err TokenNotRegistered (item_load (kv_load key (XRPL_TOKENS s)))) (\<lambda>token.
     if xt_state token \<noteq> Inactive then fail XRPLTokenNotInactive else
     let token = token\<lparr>xt_state := Processing\<rparr> in
     and_then (index_save xt_cosmos_denom key token (XRPL_TOKENS s)) (\<lambda>m.
     let s = s\<lparr>XRPL_TOKENS := m\<rparr> in
     and_then (item_load (CONFIG s)) (\<lambda>config.
     and_then (allocate_ticket s) (\<lambda>(ticket, s).
     and_then (create_pending_operation s timestamp (Some ticket) None
       (TrustSet issuer currency (cf_trust_set_limit_amount config))) (\<lambda>s.
     Inr (add_attributes [(''action'', action_as_str CA_RecoverXRPLTokenRegistration),
            (''sender'', as_str sender), (''issuer'', issuer), (''currency'', currency)]
            response_new, s)))))))"

section \<open>Updating tokens\<close>

definition update_xrpl_token ::
  "platform \<Rightarrow> storage \<Rightarrow> addr \<Rightarrow> string \<Rightarrow> string \<Rightarrow> token_state option \<Rightarrow> i32 option \<Rightarrow>
   u128 option \<Rightarrow> u128 option \<Rightarrow> outcome" where
  "update_xrpl_token p s sender issuer currency state sending_precision bridging_fee max_holding_amount =
     and_then (check_authorization p s sender CA_UpdateXRPLToken) (\<lambda>_.
     and_then (assert_bridge_active s) (\<lambda>_.
     let key = build_xrpl_token_key issuer currency in
     and_then (map_err TokenNotRegistered (item_load (kv_load key (XRPL_TOKENS s)))) (\<lambda>token.
     and_then (set_token_state (xt_state token) state) (\<lambda>new_state.
     let decimals = (if is_token_xrp issuer currency then XRP_DECIMALS else XRPL_TOKENS_DECIMALS) in
     and_then (set_token_sending_precision (xt_sending_precision token) sending_precision decimals)
       (\<lambda>new_precision.
     and_then (set_token_bridging_fee (xt_bridging_fee token) bridging_fee) (\<lambda>new_fee.
     and_then (from_std (query_supply p (xt_cosmos_denom token))) (\<lambda>current_bridged_amount.
     and_then (set_token_max_holding_amount current_bridged_amount (xt_max_holding_amount token)
       max_holding_amount) (\<lambda>new_max.
     let token = token\<lparr>xt_state := new_state, xt_sending_precision := new_precision,
           xt_bridging_fee := new_fee, xt_max_holding_amount := new_max\<rparr> in
     and_then (index_save xt_cosmos_denom key token (XRPL_TOKENS s)) (\<lambda>m.
     Inr (add_attributes [(''action'', action_as_str CA_UpdateXRPLToken),
            (''sender'', as_str sender), (''issuer'', issuer), (''currency'', currency)]
            response_new, s\<lparr>XRPL_TOKENS := m\<rparr>))))))))))"

definition update_cosmos_token ::
  "platform \<Rightarrow> env \<Rightarrow> storage \<Rightarrow> addr \<Rightarrow> string \<Rightarrow> token_state option \<Rightarrow> i32 option \<Rightarrow>
   u128 option \<Rightarrow> u128 option \<Rightarrow> outcome" where
  "update_cosmos_token p e s sender denom state sending_precision bridging_fee max_holding_amount =
     and_then (check_authorization p s sender CA_UpdateCosmosToken) (\<lambda>_.
     and_then (assert_bridge_active s) (\<lambda>_.
     and_then (map_err TokenNotRegistered (item_load (kv_load denom (COSMOS_TOKENS s)))) (\<lambda>token.
     and_then (set_token_state (ct_state token) state) (\<lambda>new_state.
     and_then (set_token_sending_precision (ct_sending_precision token) sending_precision (ct_decimals token))
       (\<lambda>new_precision.
     and_then (set_token_bridging_fee (ct_bridging_fee token) bridging_fee) (\<lambda>new_fee.
     and_then (from_std (query_balance p (ev_contract_address e) (ct_denom token)))
       (\<lambda>current_bridged_amount.
     and_then (set_token_max_holding_amount current_bridged_amount (ct_max_holding_amount token)
       max_holding_amount) (\<lambda>new_max.
     let token = token\<lparr>ct_state := new_state, ct_sending_precision := new_precision,
           ct_bridging_fee := new_fee, ct_max_holding_amount := new_max\<rparr> in
     and_then (index_save ct_xrpl_currency denom token (COSMOS_TOKENS s)) (\<lambda>m.
     Inr (add_attributes [(''action'', action_as_str CA_UpdateCosmosToken),
            (''sender'', as_str sender), (''denom'', denom)] response_new,
          s\<lparr>COSMOS_TOKENS := m\<rparr>))))))))))"

section \<open>Tickets, signatures and configuration\<close>

definition recover_tickets :: "platform \<Rightarrow> storage \<Rightarrow> u64 \<Rightarrow> addr \<Rightarrow> u64 \<Rightarrow> u32 option \<Rightarrow> outcome" where
  "recover_tickets p s timestamp sender account_sequence number_of_tickets =
     and_then (check_authorization p s sender CA_RecoverTickets) (\<lambda>_.
     and_then (item_load (AVAILABLE_TICKETS s)) (\<lambda>available_tickets.
     if available_tickets \<noteq> [] then fail StillHaveAvailableTickets else
     and_then (item_load (PENDING_TICKET_UPDATE s)) (\<lambda>pending_ticket_update.
     if pending_ticket_update then fail PendingTicketUpdate else
     let s = s\<lparr>PENDING_TICKET_UPDATE := Some True\<rparr> in
     and_then (item_load (USED_TICKETS_COUNTER s)) (\<lambda>used_tickets.
     let number_to_allocate = (case number_of_tickets of Some n \<Rightarrow> n | None \<Rightarrow> used_tickets) in
     and_then (item_load (CONFIG s)) (\<lambda>config.
     if number_to_allocate \<le> cf_used_ticket_sequence_threshold config \<or> number_to_allocate > MAX_TICKETS
     then fail InvalidTicketSequenceToAllocate else
     and_then (create_pending_operation s timestamp None (Some account_sequence)
       (AllocateTickets number_to_allocate)) (\<lambda>s.
     Inr (add_attributes [(''action'', action_as_str CA_RecoverTickets), (''sender'', as_str sender),
            (''account_sequence'', show_nat (unat account_sequence))] response_new, s)))))))"

definition save_signature :: "platform \<Rightarrow> storage \<Rightarrow> addr \<Rightarrow> u64 \<Rightarrow> u64 \<Rightarrow> string \<Rightarrow> outcome" where
  "save_signature p s sender operation_id operation_version signature =
     and_then (check_authorization p s sender CA_SaveSignature) (\<lambda>_.
     and_then (add_signature s operation_id operation_version sender signature) (\<lambda>s.
     Inr (add_attributes [(''action'', action_as_str CA_SaveSignature), (''sender'', as_str sender),
            (''operation_id'', show_nat (unat operation_id)), (''signature'', signature)]
            response_new, s)))"

text \<open>One iteration of the loop over all pending operations in \<open>update_xrpl_base_fee\<close>.\<close>

definition renew_operation :: "u64 \<Rightarrow> u64 \<times> operation \<Rightarrow> storage \<Rightarrow> storage result" where
  "renew_operation xrpl_base_fee entry s =
     (case entry of (k, operation) \<Rightarrow>
        and_then (panic_add (op_version operation) 1) (\<lambda>version.
        Inr (s\<lparr>PENDING_OPERATIONS :=
          kv_save k
            \<lparr>op_id = op_id operation, op_version = version,
             op_ticket_sequence = op_ticket_sequence operation,
             op_account_sequence = op_account_sequence operation,
             op_signatures = [], op_operation_type = op_operation_type operation,
             op_xrpl_base_fee = xrpl_base_fee\<rparr> (PENDING_OPERATIONS s)\<rparr>)))"

definition update_xrpl_base_fee :: "platform \<Rightarrow> storage \<Rightarrow> addr \<Rightarrow> u64 \<Rightarrow> outcome" where
  "update_xrpl_base_fee p s sender xrpl_base_fee =
     and_then (check_authorization p s sender CA_UpdateXRPLBaseFee) (\<lambda>_.
     and_then (item_load (CONFIG s)) (\<lambda>config.
     let s = s\<lparr>CONFIG := Some (config\<lparr>cf_xrpl_base_fee := xrpl_base_fee\<rparr>)\<rparr>;
         operations = kv_entries (PENDING_OPERATIONS s) in
     and_then (for_each (renew_operation xrpl_base_fee) operations s) (\<lambda>s.
     Inr (add_attributes [(''action'', action_as_str CA_UpdateXRPLBaseFee), (''sender'', as_str sender),
            (''new_xrpl_base_fee'', show_nat (unat xrpl_base_fee))] response_new, s))))"

definition update_used_ticket_sequence_threshold :: "platform \<Rightarrow> storage \<Rightarrow> addr \<Rightarrow> u32 \<Rightarrow> outcome" where
  "update_used_ticket_sequence_threshold p s sender used_ticket_sequence_threshold =
     and_then (check_authorization p s sender CA_UpdateUsedTicketSequenceThreshold) (\<lambda>_.
     and_then (item_load (CONFIG s)) (\<lambda>config.
     Inr (add_attributes [(''action'', action_as_str CA_UpdateUsedTicketSequenceThreshold),
            (''sender'', as_str sender),
            (''new_used_ticket_sequence_threshold'', show_nat (unat used_ticket_sequence_threshold))]
            response_new,
          s\<lparr>CONFIG := Some (config\<lparr>cf_used_ticket_sequence_threshold := used_ticket_sequence_threshold\<rparr>)\<rparr>)))"

definition add_prohibited_address :: "platform \<Rightarrow> string \<Rightarrow> storage \<Rightarrow> storage result" where
  "add_prohibited_address p address s =
     and_then (validate_xrpl_address_format p address) (\<lambda>_.
     Inr (s\<lparr>PROHIBITED_XRPL_ADDRESSES := kv_save address () (PROHIBITED_XRPL_ADDRESSES s)\<rparr>))"

definition update_prohibited_xrpl_addresses :: "platform \<Rightarrow> storage \<Rightarrow> addr \<Rightarrow> string list \<Rightarrow> outcome" where
  "update_prohibited_xrpl_addresses p s sender prohibited_xrpl_addresses =
     and_then (check_authorization p s sender CA_UpdateProhibitedXRPLAddresses) (\<lambda>_.
     let s = s\<lparr>PROHIBITED_XRPL_ADDRESSES := kv_empty\<rparr> in
     and_then (item_load (CONFIG s)) (\<lambda>config.
     let s = s\<lparr>PROHIBITED_XRPL_ADDRESSES :=
           kv_save (cf_bridge_xrpl_address config) () (PROHIBITED_XRPL_ADDRESSES s)\<rparr> in
     and_then (for_each (add_prohibited_address p) prohibited_xrpl_addresses s) (\<lambda>s.
     Inr (add_attributes [(''action'', action_as_str CA_UpdateProhibitedXRPLAddresses),
            (''sender'', as_str sender)] response_new, s))))"

section \<open>Claims\<close>

definition claim_relayer_fees :: "storage \<Rightarrow> addr \<Rightarrow> coin list \<Rightarrow> outcome" where
  "claim_relayer_fees s sender amounts =
     and_then (assert_bridge_active s) (\<lambda>_.
     if kv_load sender (FEES_COLLECTED s) = None then fail UnauthorizedSender else
     and_then (substract_relayer_fees s sender amounts) (\<lambda>s.
     Inr (add_message (BankSend (as_str sender) amounts)
            (add_attributes [(''action'', action_as_str CA_ClaimFees), (''sender'', as_str sender)]
               response_new), s)))"

definition claim_pending_refund :: "storage \<Rightarrow> addr \<Rightarrow> string \<Rightarrow> outcome" where
  "claim_pending_refund s sender pending_refund_id =
     and_then (assert_bridge_active s) (\<lambda>_.
     and_then (remove_pending_refund s sender pending_refund_id) (\<lambda>(coin, s).
     Inr (add_message (BankSend (as_str sender) [coin])
            (add_attributes [(''action'', action_as_str CA_ClaimRefunds), (''sender'', as_str sender)]
               response_new), s)))"

section \<open>Key rotation and cancellation\<close>

definition rotate_keys :: "platform \<Rightarrow> env \<Rightarrow> storage \<Rightarrow> addr \<Rightarrow> relayer list \<Rightarrow> u32 \<Rightarrow> outcome" where
  "rotate_keys p e s sender new_relayers new_evidence_threshold =
     and_then (check_authorization p s sender CA_RotateKeys) (\<lambda>_.
     and_then (item_load (PENDING_ROTATE_KEYS s)) (\<lambda>pending.
     if pending then fail RotateKeysOngoing else
     let s = s\<lparr>PENDING_ROTATE_KEYS := Some True\<rparr> in
     and_then (update_bridge_state s Halted) (\<lambda>s.
     and_then (validate_relayers p s new_relayers new_evidence_threshold) (\<lambda>_.
     and_then (allocate_ticket s) (\<lambda>(ticket, s).
     and_then (create_pending_operation s (ev_time_seconds e) (Some ticket) None
       (RotateKeys new_relayers new_evidence_threshold)) (\<lambda>s.
     Inr (add_attributes [(''action'', action_as_str CA_RotateKeys), (''sender'', as_str sender)]
            response_new, s)))))))"

definition cancel_pending_operation :: "platform \<Rightarrow> env \<Rightarrow> storage \<Rightarrow> addr \<Rightarrow> u64 \<Rightarrow> outcome" where
  "cancel_pending_operation p e s sender operation_id =
     and_then (check_authorization p s sender CA_CancelPendingOperation) (\<lambda>_.
     and_then (check_operation_exists s operation_id) (\<lambda>operation.
     let operation_result =
       (case op_operation_type operation of AllocateTickets _ \<Rightarrow> Some (TicketsAllocation None) | _ \<Rightarrow> None) in
     and_then (item_load (CONFIG s)) (\<lambda>config.
     and_then (handle_operation s operation operation_result Invalid None operation_id
       (op_ticket_sequence operation) (cf_token_factory_addr config) (ev_contract_address e) response_new)
       (\<lambda>(msgs, response, s).
     Inr (add_messages msgs
            (add_attributes [(''action'', action_as_str CA_CancelPendingOperation),
               (''sender'', as_str sender)] response), s)))))"

section \<open>Rate limits\<close>

definition execute_add_rate_limit ::
  "platform \<Rightarrow> message_info \<Rightarrow> storage \<Rightarrow> string \<Rightarrow> quota_msg list \<Rightarrow> outcome" where
  "execute_add_rate_limit p info s xrpl_denom quotas =
     and_then (check_authorization p s (mi_sender info) CA_AddRateLimit) (\<lambda>_.
     and_then (item_load (CONFIG s)) (\<lambda>config.
     (case cf_rate_limit_addr config of
        None \<Rightarrow> Inl Panic
      | Some a \<Rightarrow>
          Inr (add_message (WasmExecute (as_str a) (RateLimiter (AddPath CHANNEL xrpl_denom quotas)) [])
                 (add_attribute ''action'' (action_as_str CA_AddRateLimit) response_new), s))))"

definition execute_remove_rate_limit :: "platform \<Rightarrow> message_info \<Rightarrow> storage \<Rightarrow> string \<Rightarrow> outcome" where
  "execute_remove_rate_limit p info s xrpl_denom =
     and_then (check_authorization p s (mi_sender info) CA_RemoveRateLimit) (\<lambda>_.
     and_then (item_load (CONFIG s)) (\<lambda>config.
     (case cf_rate_limit_addr config of
        None \<Rightarrow> Inl Panic
      | Some a \<Rightarrow>
          Inr (add_message (WasmExecute (as_str a) (RateLimiter (RemovePath CHANNEL xrpl_denom)) [])
                 (add_attribute ''action'' (action_as_str CA_RemoveRateLimit) response_new), s))))"

definition execute_reset_rate_limit_quota ::
  "platform \<Rightarrow> message_info \<Rightarrow> storage \<Rightarrow> string \<Rightarrow> string \<Rightarrow> outcome" where
  "execute_reset_rate_limit_quota p info s xrpl_denom quota_id =
     and_then (check_authorization p s (mi_sender info) CA_ResetRateLimitQuota) (\<lambda>_.
     and_then (item_load (CONFIG s)) (\<lambda>config.
     (case cf_rate_limit_addr config of
        None \<Rightarrow> Inl Panic
      | Some a \<Rightarrow>
          Inr (add_message
                 (WasmExecute (as_str a) (RateLimiter (ResetPathQuota CHANNEL xrpl_denom quota_id)) [])
                 (add_attribute ''action'' (action_as_str CA_ResetRateLimitQuota) response_new), s))))"

section \<open>Inversion of the shared checks\<close>

lemma check_authorization_ok [result_simps]:
  "check_authorization p s a act = Inr u \<longleftrightarrow>
     CONFIG s \<noteq> None \<and> (\<exists>own. is_owner p (OWNERSHIP s) a = Inr own \<and>
       (own \<and> is_authorized Owner act \<or> a \<in> set (relayer_addresses s) \<and> is_authorized Relayer act))"
proof (cases "is_owner p (OWNERSHIP s) a")
  case (Inr own)
  then show ?thesis
    by (cases own; cases "a \<in> set (relayer_addresses s)")
      (simp_all add: check_authorization_def and_then_eq_Inr is_relayer_ok if_Inl_eq_Inr, blast+)
qed (simp add: check_authorization_def)

lemma assert_bridge_active_ok [result_simps]:
  "assert_bridge_active s = Inr u \<longleftrightarrow> (\<exists>c. CONFIG s = Some c \<and> cf_bridge_state c = Active)"
  by (auto simp: assert_bridge_active_def result_simps intro: bridge_state.exhaust)

lemma update_bridge_state_ok [result_simps]:
  "update_bridge_state s b = Inr s' \<longleftrightarrow>
     (\<exists>c. CONFIG s = Some c \<and> s' = s\<lparr>CONFIG := Some (c\<lparr>cf_bridge_state := b\<rparr>)\<rparr>)"
  by (auto simp: update_bridge_state_def result_simps)

end
