(* ===== verification/Contract_Transfer.thy ===== *)
theory Contract_Transfer
  imports Contract_Admin
begin

text \<open>
  The two transfer handlers of \<open>contract.rs\<close>: \<open>save_evidence\<close>, by which relayers report
  transfers to the bridge's XRPL account and results of the bridge's own XRPL transactions, and
  \<open>send_to_xrpl\<close>, by which users send coins to the XRPL. The branches of \<open>save_evidence\<close>
  are definitions of their own.
\<close>

section \<open>Messages\<close>

definition UNIVERSAL_SWAP_ERROR_ID :: u64 where "UNIVERSAL_SWAP_ERROR_ID = 1"

definition mint_msg :: "addr \<Rightarrow> string \<Rightarrow> u128 \<Rightarrow> addr \<Rightarrow> cosmos_msg" where
  "mint_msg token_factory_addr denom amount mint_to_address =
     WasmExecute (as_str token_factory_addr)
       (TokenFactory (MintTokens denom amount (as_str mint_to_address))) []"

definition is_universal_swap :: "config \<Rightarrow> string \<Rightarrow> bool" where
  "is_universal_swap config memo \<longleftrightarrow> memo \<noteq> [] \<and> cf_osor_entry_point config \<noteq> None"

definition universal_swap_msgs :: "config \<Rightarrow> string \<Rightarrow> u128 \<Rightarrow> string \<Rightarrow> sub_msg list" where
  "universal_swap_msgs config memo amount denom =
     (case cf_osor_entry_point config of
        None \<Rightarrow> []
      | Some osor_entry_point \<Rightarrow>
          if memo = [] then []
          else [reply_on_error
                  (WasmExecute (as_str osor_entry_point) (EntryPoint (UniversalSwap memo)) [coin_of amount denom])
                  UNIVERSAL_SWAP_ERROR_ID])"

text \<open>The amount of the packet is computed only when a rate limiter is configured.\<close>

definition recv_packet_msgs :: "config \<Rightarrow> string \<Rightarrow> u128 result \<Rightarrow> cosmos_msg list result" where
  "recv_packet_msgs config key packet_amount =
     (case cf_rate_limit_addr config of
        None \<Rightarrow> Inr []
      | Some rate_limit_addr \<Rightarrow>
          and_then packet_amount (\<lambda>amount.
          Inr [WasmExecute (as_str rate_limit_addr)
                 (RateLimiter (RecvPacket \<lparr>pk_channel = CHANNEL, pk_denom = key, pk_amount = amount\<rparr>)) []]))"

section \<open>Evidence of a transfer from the XRPL\<close>

text \<open>A token issued on the XRPL: the fee is minted for the contract, the rest for the recipient.\<close>

definition xrpl_originated_msgs ::
  "env \<Rightarrow> config \<Rightarrow> xrpl_token \<Rightarrow> u32 \<Rightarrow> string \<Rightarrow> u128 \<Rightarrow> u128 \<Rightarrow> u128 \<Rightarrow> addr \<Rightarrow> string \<Rightarrow>
   (cosmos_msg list \<times> sub_msg list) result" where
  "xrpl_originated_msgs e config token decimals key amount fee_collected amount_to_send recipient memo =
     (let fee_msgs =
        (if fee_collected \<noteq> 0
         then [mint_msg (cf_token_factory_addr config) (xt_cosmos_denom token) fee_collected
                 (ev_contract_address e)]
         else [])
      in if amount_to_send \<noteq> 0 then
           let recipient_to_mint =
             (if is_universal_swap config memo then ev_contract_address e else recipient) in
           and_then
             (recv_packet_msgs config key
                (and_then (truncate_amount (xt_sending_precision token) decimals amount)
                   (\<lambda>(truncated, _). Inr truncated))) (\<lambda>rate_msgs.
           Inr (fee_msgs @
                [mint_msg (cf_token_factory_addr config) (xt_cosmos_denom token) amount_to_send recipient_to_mint] @
                rate_msgs,
                universal_swap_msgs config memo amount_to_send (xt_cosmos_denom token)))
         else Inr (fee_msgs, []))"

definition receive_xrpl_originated ::
  "platform \<Rightarrow> env \<Rightarrow> storage \<Rightarrow> config \<Rightarrow> string \<Rightarrow> string \<Rightarrow> u128 \<Rightarrow> addr \<Rightarrow> string \<Rightarrow> bool \<Rightarrow>
   response \<Rightarrow> outcome" where
  "receive_xrpl_originated p e s config issuer currency amount recipient memo threshold_reached response =
     (let key = build_xrpl_token_key issuer currency in
      and_then (map_err TokenNotRegistered (item_load (kv_load key (XRPL_TOKENS s)))) (\<lambda>token.
      if xt_state token \<noteq> Enabled then fail TokenNotEnabled else
      let decimals = (if is_token_xrp (xt_issuer token) (xt_currency token)
                      then XRP_DECIMALS else XRPL_TOKENS_DECIMALS) in
      and_then (amount_after_bridge_fees amount (xt_bridging_fee token)) (\<lambda>amount_after_fees.
      and_then (truncate_amount (xt_sending_precision token) decimals amount_after_fees)
        (\<lambda>(amount_to_send, remainder).
      and_then (from_std (query_supply p (xt_cosmos_denom token))) (\<lambda>supply.
      and_then (checked_add amount supply) (\<lambda>new_supply.
      if new_supply > xt_max_holding_amount token then fail MaximumBridgedAmountReached else
      if threshold_reached then
        and_then (handle_fee_collection s (xt_bridging_fee token) (xt_cosmos_denom token) remainder)
          (\<lambda>(fee_collected, s).
        and_then (xrpl_originated_msgs e config token decimals key amount fee_collected amount_to_send
          recipient memo) (\<lambda>(msgs, sub_msgs).
        Inr (add_submessages sub_msgs (add_messages msgs response), s)))
      else Inr (response, s)))))))"

text \<open>A token issued on Cosmos: the coins the contract holds in escrow are sent out.\<close>

definition cosmos_originated_msgs ::
  "config \<Rightarrow> cosmos_token \<Rightarrow> string \<Rightarrow> u128 \<Rightarrow> u128 \<Rightarrow> addr \<Rightarrow> string \<Rightarrow>
   (cosmos_msg list \<times> sub_msg list) result" where
  "cosmos_originated_msgs config token key amount amount_to_send recipient memo =
     (let send_msgs =
        (if is_universal_swap config memo then []
         else [BankSend (as_str recipient) [coin_of amount_to_send (ct_denom token)]])
      in and_then
           (recv_packet_msgs config key
              (convert_amount_decimals XRPL_TOKENS_DECIMALS (ct_decimals token) amount)) (\<lambda>rate_msgs.
         Inr (send_msgs @ rate_msgs, universal_swap_msgs config memo amount_to_send (ct_denom token))))"

definition receive_cosmos_originated ::
  "storage \<Rightarrow> config \<Rightarrow> string \<Rightarrow> string \<Rightarrow> u128 \<Rightarrow> addr \<Rightarrow> string \<Rightarrow> bool \<Rightarrow> response \<Rightarrow> outcome" where
  "receive_cosmos_originated s config issuer currency amount recipient memo threshold_reached response =
     (case index_item ct_xrpl_currency currency (COSMOS_TOKENS s) of
        None \<Rightarrow> fail TokenNotRegistered
      | Some (_, token) \<Rightarrow>
          if ct_state token \<noteq> Enabled then fail TokenNotEnabled else
          and_then (convert_and_truncate_amount (ct_sending_precision token) XRPL_TOKENS_DECIMALS
            (ct_decimals token) amount (ct_bridging_fee token)) (\<lambda>(amount_to_send, remainder).
          if threshold_reached then
            and_then (handle_fee_collection s (ct_bridging_fee token) (ct_denom token) remainder)
              (\<lambda>(_, s).
            and_then (cosmos_originated_msgs config token (build_xrpl_token_key issuer currency) amount
              amount_to_send recipient memo) (\<lambda>(msgs, sub_msgs).
            Inr (add_submessages sub_msgs (add_messages msgs response), s)))
          else Inr (response, s)))"

definition receive_transfer ::
  "platform \<Rightarrow> env \<Rightarrow> storage \<Rightarrow> config \<Rightarrow> string \<Rightarrow> string \<Rightarrow> string \<Rightarrow> u128 \<Rightarrow> addr \<Rightarrow>
   string option \<Rightarrow> bool \<Rightarrow> response \<Rightarrow> outcome" where
  "receive_transfer p e s config tx_hash issuer currency amount recipient memo threshold_reached response =
     (if cf_bridge_state config = Halted then fail BridgeHalted else
      and_then (from_std (addr_validate p (as_str recipient))) (\<lambda>_.
      let memo = (case memo of Some m \<Rightarrow> m | None \<Rightarrow> []) in
      if recipient = ev_contract_address e then fail ProhibitedAddress else
      and_then
        (if issuer \<noteq> cf_bridge_xrpl_address config
         then receive_xrpl_originated p e s config issuer currency amount recipient memo
           threshold_reached response
         else receive_cosmos_originated s config issuer currency amount recipient memo
           threshold_reached response) (\<lambda>(response, s).
      Inr (add_attributes [(''hash'', tx_hash), (''issuer'', issuer), (''currency'', currency),
             (''amount'', show_nat (unat amount)), (''recipient'', as_str recipient),
             (''threshold_reached'', show_bool threshold_reached)] response, s))))"

section \<open>Evidence of a transaction result\<close>

definition account_sequence_allowed :: "operation_type \<Rightarrow> bool" where
  "account_sequence_allowed operation_type =
     (case operation_type of
        TrustSet _ _ _ \<Rightarrow> False
      | CosmosToXRPLTransfer _ _ _ _ _ _ \<Rightarrow> False
      | _ \<Rightarrow> True)"

definition apply_transaction_result ::
  "env \<Rightarrow> storage \<Rightarrow> config \<Rightarrow> operation \<Rightarrow> string option \<Rightarrow> u64 \<Rightarrow> u64 option \<Rightarrow> transaction_result \<Rightarrow>
   operation_result option \<Rightarrow> response \<Rightarrow> (cosmos_msg list \<times> response \<times> storage) result" where
  "apply_transaction_result e s config operation tx_hash operation_id ticket_sequence transaction_result
       operation_result response =
     and_then (handle_operation s operation operation_result transaction_result tx_hash operation_id
       ticket_sequence (cf_token_factory_addr config) (ev_contract_address e) response)
       (\<lambda>(messages, response, s).
     if transaction_result \<noteq> Invalid \<and> ticket_sequence \<noteq> None then
       and_then (register_used_ticket s (ev_time_seconds e)) (\<lambda>(success, s).
       Inr (messages,
            if \<not> success
            then add_attribute ''adding_ticket_allocation_operation_success'' (show_bool False) response
            else response, s))
     else Inr (messages, response, s))"

definition receive_transaction_result ::
  "env \<Rightarrow> storage \<Rightarrow> config \<Rightarrow> string option \<Rightarrow> u64 option \<Rightarrow> u64 option \<Rightarrow> transaction_result \<Rightarrow>
   operation_result option \<Rightarrow> bool \<Rightarrow> response \<Rightarrow> outcome" where
  "receive_transaction_result e s config tx_hash account_sequence ticket_sequence transaction_result
       operation_result threshold_reached response =
     and_then (sequence_or account_sequence ticket_sequence) (\<lambda>operation_id.
     and_then (check_operation_exists s operation_id) (\<lambda>operation.
     if \<not> account_sequence_allowed (op_operation_type operation) \<and> account_sequence \<noteq> None
     then fail InvalidTransactionResultEvidence else
     and_then
       (if threshold_reached
        then apply_transaction_result e s config operation tx_hash operation_id ticket_sequence
          transaction_result operation_result response
        else Inr ([], response, s)) (\<lambda>(messages, response, s).
     Inr (add_attributes (case tx_hash of Some h \<Rightarrow> [(''tx_hash'', h)] | None \<Rightarrow> [])
            (add_messages messages
              (add_attributes [(''operation_type'', operation_type_as_str (op_operation_type operation)),
                 (''operation_id'', show_nat (unat operation_id)),
                 (''transaction_result'', transaction_result_as_str transaction_result),
                 (''threshold_reached'', show_bool threshold_reached)] response)), s))))"

definition save_evidence :: "platform \<Rightarrow> env \<Rightarrow> storage \<Rightarrow> addr \<Rightarrow> evidence \<Rightarrow> outcome" where
  "save_evidence p e s sender evidence =
     and_then (check_authorization p s sender CA_SaveEvidence) (\<lambda>_.
     and_then (item_load (CONFIG s)) (\<lambda>config.
     and_then (validate_basic evidence) (\<lambda>_.
     and_then (handle_evidence p s sender evidence) (\<lambda>(threshold_reached, s).
     let response = add_attributes [(''action'', action_as_str CA_SaveEvidence),
           (''sender'', as_str sender)] response_new in
     (case evidence of
        XRPLToCosmosTransfer tx_hash issuer currency amount recipient memo \<Rightarrow>
          receive_transfer p e s config tx_hash issuer currency amount recipient memo
            threshold_reached response
      | XRPLTransactionResult tx_hash account_sequence ticket_sequence transaction_result
          operation_result \<Rightarrow>
          receive_transaction_result e s config tx_hash account_sequence ticket_sequence
            transaction_result operation_result threshold_reached response)))))"

section \<open>Sending to the XRPL\<close>

record transfer_plan =
  tp_issuer :: string
  tp_currency :: string
  tp_amount :: u128
  tp_max_amount :: "u128 option"
  tp_limit_amount :: u128

text \<open>What the branch for a token issued on the XRPL computes before the operation is created.\<close>

definition plan_xrpl_originated ::
  "storage \<Rightarrow> xrpl_token \<Rightarrow> u128 \<Rightarrow> u128 option \<Rightarrow> (transfer_plan \<times> storage) result" where
  "plan_xrpl_originated s xrpl_token funds_amount deliver_amount =
     (if xt_state xrpl_token \<noteq> Enabled then fail TokenNotEnabled else
      let issuer = xt_issuer xrpl_token; currency = xt_currency xrpl_token in
      if is_token_xrp issuer currency \<and> deliver_amount \<noteq> None then fail DeliverAmountIsProhibited else
      let decimals = (if is_token_xrp issuer currency then XRP_DECIMALS else XRPL_TOKENS_DECIMALS) in
      and_then (truncate_amount (xt_sending_precision xrpl_token) decimals funds_amount)
        (\<lambda>(increase_limit_amount, _).
      and_then (amount_after_bridge_fees funds_amount (xt_bridging_fee xrpl_token)) (\<lambda>amount_after_fees.
      and_then (truncate_amount (xt_sending_precision xrpl_token) decimals amount_after_fees)
        (\<lambda>(amount_to_send, remainder).
      and_then
        (case deliver_amount of
           Some deliver_amount \<Rightarrow>
             if deliver_amount > amount_after_fees then fail InvalidDeliverAmount else
             and_then (truncate_amount (xt_sending_precision xrpl_token) decimals deliver_amount)
               (\<lambda>(truncated_amount, _).
             Inr (truncated_amount, Some amount_to_send))
         | None \<Rightarrow>
             Inr (amount_to_send, if is_token_xrp issuer currency then None else Some amount_to_send))
        (\<lambda>(amount_to_send, max_amount).
      and_then (handle_fee_collection s (xt_bridging_fee xrpl_token) (xt_cosmos_denom xrpl_token) remainder)
        (\<lambda>(_, s).
      Inr (\<lparr>tp_issuer = issuer, tp_currency = currency, tp_amount = amount_to_send,
            tp_max_amount = max_amount, tp_limit_amount = increase_limit_amount\<rparr>, s)))))))"

definition plan_cosmos_originated ::
  "platform \<Rightarrow> env \<Rightarrow> storage \<Rightarrow> coin \<Rightarrow> u128 option \<Rightarrow> (transfer_plan \<times> storage) result" where
  "plan_cosmos_originated p e s funds deliver_amount =
     and_then (map_err TokenNotRegistered (item_load (kv_load (c_denom funds) (COSMOS_TOKENS s))))
       (\<lambda>cosmos_token.
     if ct_state cosmos_token \<noteq> Enabled then fail TokenNotEnabled else
     if deliver_amount \<noteq> None then fail DeliverAmountIsProhibited else
     and_then (item_load (CONFIG s)) (\<lambda>config.
     let decimals = ct_decimals cosmos_token in
     and_then (truncate_amount (ct_sending_precision cosmos_token) decimals (c_amount funds))
       (\<lambda>(increase_limit_amount, _).
     and_then (truncate_and_convert_amount (ct_sending_precision cosmos_token) decimals
       XRPL_TOKENS_DECIMALS (c_amount funds) (ct_bridging_fee cosmos_token))
       (\<lambda>(amount_to_send, remainder).
     and_then (handle_fee_collection s (ct_bridging_fee cosmos_token) (ct_denom cosmos_token) remainder)
       (\<lambda>(_, s).
     and_then (from_std (query_balance p (ev_contract_address e) (ct_denom cosmos_token))) (\<lambda>balance.
     if balance > ct_max_holding_amount cosmos_token then fail MaximumBridgedAmountReached else
     Inr (\<lparr>tp_issuer = cf_bridge_xrpl_address config, tp_currency = ct_xrpl_currency cosmos_token,
           tp_amount = amount_to_send, tp_max_amount = Some amount_to_send,
           tp_limit_amount = increase_limit_amount\<rparr>, s)))))))"

definition send_packet_msgs :: "config \<Rightarrow> string \<Rightarrow> u128 \<Rightarrow> cosmos_msg list" where
  "send_packet_msgs config key amount =
     (case cf_rate_limit_addr config of
        None \<Rightarrow> []
      | Some rate_limit_addr \<Rightarrow>
          [WasmExecute (as_str rate_limit_addr)
             (RateLimiter (SendPacket \<lparr>pk_channel = CHANNEL, pk_denom = key, pk_amount = amount\<rparr>)) []])"

definition coin_to_string :: "coin \<Rightarrow> string" where
  "coin_to_string c = show_nat (unat (c_amount c)) @ c_denom c"

definition from_payment :: "payment_error + 'a \<Rightarrow> 'a result" where
  "from_payment m = (case m of Inl err \<Rightarrow> fail (Payment err) | Inr x \<Rightarrow> Inr x)"

definition validate_plan :: "transfer_plan \<Rightarrow> unit result" where
  "validate_plan plan =
     and_then (validate_xrpl_amount (tp_amount plan)) (\<lambda>_.
     (case tp_max_amount plan of
        Some max_amount \<Rightarrow> validate_xrpl_amount max_amount
      | None \<Rightarrow> Inr ()))"

definition send_to_xrpl ::
  "platform \<Rightarrow> env \<Rightarrow> message_info \<Rightarrow> storage \<Rightarrow> string \<Rightarrow> u128 option \<Rightarrow> outcome" where
  "send_to_xrpl p e info s recipient deliver_amount =
     and_then (assert_bridge_active s) (\<lambda>_.
     and_then (from_payment (one_coin p (mi_funds info))) (\<lambda>funds.
     and_then (validate_xrpl_address p s recipient) (\<lambda>_.
     if (case deliver_amount of Some d \<Rightarrow> d > c_amount funds | None \<Rightarrow> False)
     then fail InvalidDeliverAmount else
     and_then
       (case index_item xt_cosmos_denom (c_denom funds) (XRPL_TOKENS s) of
          Some (_, xrpl_token) \<Rightarrow> plan_xrpl_originated s xrpl_token (c_amount funds) deliver_amount
        | None \<Rightarrow> plan_cosmos_originated p e s funds deliver_amount) (\<lambda>(plan, s).
     and_then (validate_plan plan) (\<lambda>_.
     let xrpl_denom = build_xrpl_token_key (tp_issuer plan) (tp_currency plan) in
     and_then (allocate_ticket s) (\<lambda>(ticket, s).
     and_then (create_pending_operation s (ev_time_seconds e) (Some ticket) None
       (CosmosToXRPLTransfer (tp_issuer plan) (tp_currency plan) (tp_amount plan) (tp_max_amount plan)
          (mi_sender info) recipient)) (\<lambda>s.
     and_then (item_load (CONFIG s)) (\<lambda>config.
     Inr (add_messages (send_packet_msgs config xrpl_denom (tp_limit_amount plan))
            (add_attributes [(''action'', action_as_str CA_SendToXRPL),
               (''sender'', as_str (mi_sender info)), (''recipient'', recipient),
               (''coin'', coin_to_string funds)] response_new), s)))))))))"

end
