(* ===== verification/Contract.thy ===== *)
theory Contract
  imports Contract_Transfer
begin

text \<open>
  The entry points \<open>instantiate\<close>, \<open>execute\<close>, \<open>reply\<close> (\<open>contract.rs\<close>) and
  \<open>migrate\<close> (\<open>migration.rs\<close>), with their messages (\<open>msg.rs\<close>). The two messages that
  exist only in test builds are left out.
\<close>

section \<open>Messages\<close>

record instantiate_msg =
  im_owner :: addr
  im_relayers :: "relayer list"
  im_evidence_threshold :: u32
  im_used_ticket_sequence_threshold :: u32
  im_trust_set_limit_amount :: u128
  im_bridge_xrpl_address :: string
  im_xrpl_base_fee :: u64
  im_token_factory_addr :: addr
  im_issue_token :: bool
  im_rate_limit_addr :: "addr option"
  im_osor_entry_point :: "addr option"

record migrate_msg =
  mg_relayers :: "relayer list"
  mg_evidence_threshold :: u32
  mg_used_ticket_sequence_threshold :: u32
  mg_trust_set_limit_amount :: u128
  mg_bridge_xrpl_address :: string
  mg_bridge_state :: bridge_state
  mg_xrpl_base_fee :: u64
  mg_token_factory_addr :: addr
  mg_rate_limit_addr :: "addr option"
  mg_osor_entry_point :: "addr option"

datatype (plugins only: code size) execute_msg =
    Msg_UpdateOwnership ownable_action
  | Msg_CreateCosmosToken string "cw20_coin list"
  | Msg_MintCosmosToken string "cw20_coin list"
  | Msg_RegisterCosmosToken string u32 i32 u128 u128
  | Msg_RegisterXRPLToken string string i32 u128 u128
  | Msg_RecoverTickets u64 "u32 option"
  | Msg_RecoverXRPLTokenRegistration string string
  | Msg_SaveSignature u64 u64 string
  | Msg_SaveEvidence evidence
  | Msg_SendToXRPL string "u128 option"
  | Msg_UpdateXRPLToken string string "token_state option" "i32 option" "u128 option" "u128 option"
  | Msg_UpdateCosmosToken string "token_state option" "i32 option" "u128 option" "u128 option"
  | Msg_UpdateXRPLBaseFee u64
  | Msg_ClaimRefund string
  | Msg_ClaimRelayerFees "coin list"
  | Msg_HaltBridge
  | Msg_ResumeBridge
  | Msg_RotateKeys "relayer list" u32
  | Msg_UpdateProhibitedXRPLAddresses "string list"
  | Msg_CancelPendingOperation u64
  | Msg_UpdateUsedTicketSequenceThreshold u32
  | Msg_AddRateLimit string "quota_msg list"
  | Msg_RemoveRateLimit string
  | Msg_ResetRateLimitQuota string string

section \<open>Instantiation\<close>

definition CONTRACT_NAME :: string where "CONTRACT_NAME = ''cw-xrpl''"
definition CONTRACT_VERSION :: string where "CONTRACT_VERSION = ''0.1.0''"

definition INITIAL_PROHIBITED_XRPL_ADDRESSES :: "string list" where
  "INITIAL_PROHIBITED_XRPL_ADDRESSES =
     [''rrrrrrrrrrrrrrrrrrrrrhoLvTp'',
      ''rrrrrrrrrrrrrrrrrrrrBZbvji'',
      ''rHb9CJAWyB4rj91VRWn96DkukG4bwdtyTh'',
      ''rrrrrrrrrrrrrrrrrNAMEtxvNvQ'',
      ''rrrrrrrrrrrrrrrrrrrn5RM1rHd'']"

definition xrp_token :: "addr \<Rightarrow> xrpl_token" where
  "xrp_token token_factory_addr =
     \<lparr>xt_issuer = XRP_ISSUER, xt_currency = XRP_CURRENCY,
      xt_cosmos_denom = full_denom token_factory_addr XRP_SYMBOL,
      xt_sending_precision = XRP_DEFAULT_SENDING_PRECISION,
      xt_max_holding_amount = XRP_DEFAULT_MAX_HOLDING_AMOUNT,
      xt_state = Enabled, xt_bridging_fee = XRP_DEFAULT_FEE\<rparr>"

definition initial_config :: "instantiate_msg \<Rightarrow> config" where
  "initial_config msg =
     \<lparr>cf_relayers = im_relayers msg, cf_evidence_threshold = im_evidence_threshold msg,
      cf_used_ticket_sequence_threshold = im_used_ticket_sequence_threshold msg,
      cf_trust_set_limit_amount = im_trust_set_limit_amount msg,
      cf_bridge_xrpl_address = im_bridge_xrpl_address msg, cf_bridge_state = Active,
      cf_xrpl_base_fee = im_xrpl_base_fee msg, cf_token_factory_addr = im_token_factory_addr msg,
      cf_rate_limit_addr = im_rate_limit_addr msg, cf_osor_entry_point = im_osor_entry_point msg\<rparr>"

definition instantiate :: "platform \<Rightarrow> message_info \<Rightarrow> storage \<Rightarrow> instantiate_msg \<Rightarrow> outcome" where
  "instantiate p info s msg =
     (let s = s\<lparr>CONTRACT_INFO := Some (CONTRACT_NAME, CONTRACT_VERSION)\<rparr> in
      and_then (from_std (addr_validate p (as_str (im_owner msg)))) (\<lambda>owner.
      and_then (from_std (initialize_owner p (as_str owner))) (\<lambda>ownership.
      let s = s\<lparr>OWNERSHIP := ownership,
                PROHIBITED_XRPL_ADDRESSES :=
                  fold (\<lambda>address. kv_save address ()) INITIAL_PROHIBITED_XRPL_ADDRESSES
                    (PROHIBITED_XRPL_ADDRESSES s)\<rparr>;
          s = s\<lparr>PROHIBITED_XRPL_ADDRESSES :=
                  kv_save (im_bridge_xrpl_address msg) () (PROHIBITED_XRPL_ADDRESSES s)\<rparr> in
      and_then (validate_relayers p s (im_relayers msg) (im_evidence_threshold msg)) (\<lambda>_.
      and_then (validate_xrpl_address_format p (im_bridge_xrpl_address msg)) (\<lambda>_.
      if im_used_ticket_sequence_threshold msg \<le> 1 \<or> im_used_ticket_sequence_threshold msg > MAX_TICKETS
      then fail InvalidUsedTicketSequenceThreshold else
      and_then (validate_xrpl_amount (im_trust_set_limit_amount msg)) (\<lambda>_.
      let config = initial_config msg;
          s = s\<lparr>USED_TICKETS_COUNTER := Some 0, PENDING_TICKET_UPDATE := Some False,
                PENDING_ROTATE_KEYS := Some False, AVAILABLE_TICKETS := Some [],
                CONFIG := Some config\<rparr>;
          response = add_attribute ''action'' (action_as_str CA_Instantiation) response_new;
          response =
            (if im_issue_token msg
             then add_message (WasmExecute (as_str (cf_token_factory_addr config))
                    (TokenFactory (CreateDenom XRP_SYMBOL)) (mi_funds info)) response
             else response) in
      and_then (index_save xt_cosmos_denom (build_xrpl_token_key XRP_ISSUER XRP_CURRENCY)
        (xrp_token (cf_token_factory_addr config)) (XRPL_TOKENS s)) (\<lambda>m.
      Inr (add_attributes [(''contract_name'', CONTRACT_NAME), (''contract_version'', CONTRACT_VERSION),
             (''owner'', as_str (im_owner msg)), (''sender'', as_str (mi_sender info))] response,
           s\<lparr>XRPL_TOKENS := m\<rparr>))))))))"

section \<open>Execution\<close>

fun execute :: "platform \<Rightarrow> env \<Rightarrow> message_info \<Rightarrow> storage \<Rightarrow> execute_msg \<Rightarrow> outcome" where
  "execute p e info s (Msg_CreateCosmosToken subdenom initial_balances) =
     create_cosmos_token p info s subdenom initial_balances"
| "execute p e info s (Msg_MintCosmosToken denom initial_balances) =
     mint_cosmos_token p s (mi_sender info) denom initial_balances"
| "execute p e info s (Msg_UpdateOwnership action) = update_ownership p e info s action"
| "execute p e info s (Msg_RegisterCosmosToken denom decimals sending_precision max_holding_amount bridging_fee) =
     register_cosmos_token p e s (mi_sender info) denom decimals sending_precision max_holding_amount bridging_fee"
| "execute p e info s (Msg_RegisterXRPLToken issuer currency sending_precision max_holding_amount bridging_fee) =
     register_xrpl_token p e info s issuer currency sending_precision max_holding_amount bridging_fee"
| "execute p e info s (Msg_SaveEvidence evidence) = save_evidence p e s (mi_sender info) evidence"
| "execute p e info s (Msg_RecoverTickets account_sequence number_of_tickets) =
     recover_tickets p s (ev_time_seconds e) (mi_sender info) account_sequence number_of_tickets"
| "execute p e info s (Msg_RecoverXRPLTokenRegistration issuer currency) =
     recover_xrpl_token_registration p s (ev_time_seconds e) (mi_sender info) issuer currency"
| "execute p e info s (Msg_SaveSignature operation_id operation_version signature) =
     save_signature p s (mi_sender info) operation_id operation_version signature"
| "execute p e info s (Msg_SendToXRPL recipient deliver_amount) =
     send_to_xrpl p e info s recipient deliver_amount"
| "execute p e info s (Msg_UpdateXRPLToken issuer currency state sending_precision bridging_fee max_holding_amount) =
     update_xrpl_token p s (mi_sender info) issuer currency state sending_precision bridging_fee max_holding_amount"
| "execute p e info s (Msg_UpdateCosmosToken denom state sending_precision bridging_fee max_holding_amount) =
     update_cosmos_token p e s (mi_sender info) denom state sending_precision bridging_fee max_holding_amount"
| "execute p e info s (Msg_UpdateXRPLBaseFee xrpl_base_fee) =
     update_xrpl_base_fee p s (mi_sender info) xrpl_base_fee"
| "execute p e info s (Msg_ClaimRefund pending_refund_id) =
     claim_pending_refund s (mi_sender info) pending_refund_id"
| "execute p e info s (Msg_ClaimRelayerFees amounts) = claim_relayer_fees s (mi_sender info) amounts"
| "execute p e info s Msg_HaltBridge = halt_bridge p s (mi_sender info)"
| "execute p e info s Msg_ResumeBridge = resume_bridge p s (mi_sender info)"
| "execute p e info s (Msg_RotateKeys new_relayers new_evidence_threshold) =
     rotate_keys p e s (mi_sender info) new_relayers new_evidence_threshold"
| "execute p e info s (Msg_UpdateProhibitedXRPLAddresses prohibited_xrpl_addresses) =
     update_prohibited_xrpl_addresses p s (mi_sender info) prohibited_xrpl_addresses"
| "execute p e info s (Msg_CancelPendingOperation operation_id) =
     cancel_pending_operation p e s (mi_sender info) operation_id"
| "execute p e info s (Msg_UpdateUsedTicketSequenceThreshold used_ticket_sequence_threshold) =
     update_used_ticket_sequence_threshold p s (mi_sender info) used_ticket_sequence_threshold"
| "execute p e info s (Msg_AddRateLimit xrpl_denom quotas) =
     execute_add_rate_limit p info s xrpl_denom quotas"
| "execute p e info s (Msg_RemoveRateLimit xrpl_denom) = execute_remove_rate_limit p info s xrpl_denom"
| "execute p e info s (Msg_ResetRateLimitQuota xrpl_denom quota_id) =
     execute_reset_rate_limit_quota p info s xrpl_denom quota_id"

section \<open>Replies and migration\<close>

record reply_msg =
  ry_id :: u64
  ry_result :: "string + unit" \<comment> \<open>\<open>Inl\<close> is \<open>SubMsgResult::Err\<close>\<close>

definition reply :: "storage \<Rightarrow> reply_msg \<Rightarrow> outcome" where
  "reply s r =
     (case ry_result r of
        Inl err \<Rightarrow>
          if ry_id r = UNIVERSAL_SWAP_ERROR_ID then
            and_then (item_load (TEMP_UNIVERSAL_SWAP s)) (\<lambda>universal_swap_data.
            Inr (add_message (BankSend (tu_recovery_address universal_swap_data)
                     [tu_return_amount universal_swap_data])
                   (add_attributes [(''action'', ''refund_universal_swap''),
                      (''error_trying_to_call_entrypoint_for_universal_swap'', err)] response_new),
                 s\<lparr>TEMP_UNIVERSAL_SWAP := None\<rparr>))
          else fail (UnknownReplyId (ry_id r))
      | Inr _ \<Rightarrow> Inr (response_new, s))"

definition migrate :: "storage \<Rightarrow> migrate_msg \<Rightarrow> outcome" where
  "migrate s msg =
     (let config =
        \<lparr>cf_relayers = mg_relayers msg, cf_evidence_threshold = mg_evidence_threshold msg,
         cf_used_ticket_sequence_threshold = mg_used_ticket_sequence_threshold msg,
         cf_trust_set_limit_amount = mg_trust_set_limit_amount msg,
         cf_bridge_xrpl_address = mg_bridge_xrpl_address msg, cf_bridge_state = Active,
         cf_xrpl_base_fee = mg_xrpl_base_fee msg, cf_token_factory_addr = mg_token_factory_addr msg,
         cf_rate_limit_addr = mg_rate_limit_addr msg, cf_osor_entry_point = mg_osor_entry_point msg\<rparr>;
          s = s\<lparr>CONFIG := Some config\<rparr> in
      and_then (item_load (CONTRACT_INFO s)) (\<lambda>(contract, version).
      if contract \<noteq> CONTRACT_NAME
      then fail (Std (StdGenericErr ''Can only upgrade from same contract type''))
      else Inr (response_new, s\<lparr>CONTRACT_INFO := Some (CONTRACT_NAME, CONTRACT_VERSION)\<rparr>)))"

end
