(* ===== verification/Queries.thy ===== *)
theory Queries
  imports Contract
begin

text \<open>
  The queries of \<open>contract.rs\<close>. A query is a function of the storage; the entry point
  serialises its answer, which is not modelled. The paginated queries share the definition
  \<open>page\<close>; the locale \<open>paginated\<close> states what a client of such a query relies on and shows
  that following \<open>last_key\<close> from page to page returns every entry once, in key order.
\<close>

section \<open>Pages\<close>

definition MAX_PAGE_LIMIT :: u32 where "MAX_PAGE_LIMIT = 250"

definition page_size :: "u32 option \<Rightarrow> nat" where
  "page_size limit = unat (min (case limit of Some l \<Rightarrow> l | None \<Rightarrow> MAX_PAGE_LIMIT) MAX_PAGE_LIMIT)"

definition after_bound :: "'k::linorder option \<Rightarrow> 'k \<Rightarrow> bool" where
  "after_bound start k = (case start of None \<Rightarrow> True | Some b \<Rightarrow> b < k)"

text \<open>\<open>range(start, None, Ascending).take(limit)\<close>, and the key of the last entry mapped.\<close>

definition page :: "'k::linorder option \<Rightarrow> u32 option \<Rightarrow> ('k, 'v) kv \<Rightarrow> ('k \<times> 'v) list" where
  "page start limit m = take (page_size limit) (filter (\<lambda>e. after_bound start (fst e)) (kv_entries m))"

definition last_key_of :: "('k \<times> 'v) list \<Rightarrow> 'k option" where
  "last_key_of es = (if es = [] then None else Some (fst (last es)))"

section \<open>Queries\<close>

definition query_config :: "storage \<Rightarrow> config result" where
  "query_config s = item_load (CONFIG s)"

definition query_bridge_state :: "storage \<Rightarrow> bridge_state result" where
  "query_bridge_state s = and_then (item_load (CONFIG s)) (\<lambda>config. Inr (cf_bridge_state config))"

definition query_xrpl_tokens ::
  "storage \<Rightarrow> string option \<Rightarrow> u32 option \<Rightarrow> string option \<times> xrpl_token list" where
  "query_xrpl_tokens s start_after_key limit =
     (let es = page start_after_key limit (XRPL_TOKENS s) in (last_key_of es, map snd es))"

definition query_xrpl_token :: "storage \<Rightarrow> string \<Rightarrow> xrpl_token result" where
  "query_xrpl_token s key = item_load (kv_load key (XRPL_TOKENS s))"

definition query_cosmos_tokens ::
  "storage \<Rightarrow> string option \<Rightarrow> u32 option \<Rightarrow> string option \<times> cosmos_token list" where
  "query_cosmos_tokens s start_after_key limit =
     (let es = page start_after_key limit (COSMOS_TOKENS s) in (last_key_of es, map snd es))"

definition query_cosmos_token :: "storage \<Rightarrow> string \<Rightarrow> cosmos_token result" where
  "query_cosmos_token s key = item_load (kv_load key (COSMOS_TOKENS s))"

definition query_pending_operations ::
  "storage \<Rightarrow> u64 option \<Rightarrow> u32 option \<Rightarrow> u64 option \<times> operation list" where
  "query_pending_operations s start_after_key limit =
     (let es = page start_after_key limit (PENDING_OPERATIONS s) in (last_key_of es, map snd es))"

definition query_available_tickets :: "storage \<Rightarrow> u64 list result" where
  "query_available_tickets s = item_load (AVAILABLE_TICKETS s)"

definition query_fees_collected :: "storage \<Rightarrow> addr \<Rightarrow> coin list" where
  "query_fees_collected s relayer_address =
     (case kv_load relayer_address (FEES_COLLECTED s) of None \<Rightarrow> [] | Some cs \<Rightarrow> cs)"

text \<open>
  The refunds of one address, through the index on the address. The bound is compared in the
  store's encoding of a composite key, where the first component is preceded by its length in two
  bytes.
\<close>

record refund_view =
  rv_id :: string
  rv_xrpl_tx_hash :: "string option"
  rv_coin :: coin

definition refund_view_of :: "pending_refund \<Rightarrow> refund_view" where
  "refund_view_of r = \<lparr>rv_id = pr_id r, rv_xrpl_tx_hash = pr_xrpl_tx_hash r, rv_coin = pr_coin r\<rparr>"

definition joined_key :: "addr \<times> string \<Rightarrow> string" where
  "joined_key k =
     (let a = as_str (fst k) in
      char_of (length a div 256) # char_of (length a mod 256) # a @ snd k)"

definition query_pending_refunds ::
  "storage \<Rightarrow> addr \<Rightarrow> (addr \<times> string) option \<Rightarrow> u32 option \<Rightarrow>
   (addr \<times> string) option \<times> refund_view list" where
  "query_pending_refunds s address start_after_key limit =
     (let es = take (page_size limit)
        (filter (\<lambda>e. after_bound (map_option joined_key start_after_key) (joined_key (fst e)))
          (filter (\<lambda>e. pr_address (snd e) = address) (kv_entries (PENDING_REFUNDS s))))
      in (last_key_of es, map (\<lambda>e. refund_view_of (snd e)) es))"

definition query_transaction_evidence :: "storage \<Rightarrow> string \<Rightarrow> string \<times> addr list" where
  "query_transaction_evidence s hash =
     (hash, case kv_load hash (TX_EVIDENCES s) of None \<Rightarrow> [] | Some vs \<Rightarrow> vs)"

definition query_transaction_evidences ::
  "storage \<Rightarrow> string option \<Rightarrow> u32 option \<Rightarrow> string option \<times> (string \<times> addr list) list" where
  "query_transaction_evidences s start_after_key limit =
     (let es = page start_after_key limit (TX_EVIDENCES s) in
      (last_key_of es, map (\<lambda>e. (fst e, snd e)) es))"

definition query_processed_tx :: "storage \<Rightarrow> string \<Rightarrow> bool" where
  "query_processed_tx s hash = kv_has hash (PROCESSED_TXS s)"

definition query_processed_txs ::
  "storage \<Rightarrow> string option \<Rightarrow> u32 option \<Rightarrow> string option \<times> string list" where
  "query_processed_txs s start_after_key limit =
     (let es = page start_after_key limit (PROCESSED_TXS s) in (last_key_of es, map fst es))"

definition query_prohibited_xrpl_addresses :: "storage \<Rightarrow> string list" where
  "query_prohibited_xrpl_addresses s = map fst (kv_entries (PROHIBITED_XRPL_ADDRESSES s))"

section \<open>The entry point\<close>

datatype (plugins only: code size) query_msg =
    Query_Config
  | Query_XRPLTokens "string option" "u32 option"
  | Query_XRPLToken string
  | Query_CosmosTokens "string option" "u32 option"
  | Query_CosmosToken string
  | Query_Ownership
  | Query_PendingOperations "u64 option" "u32 option"
  | Query_AvailableTickets
  | Query_FeesCollected addr
  | Query_PendingRefunds addr "(addr \<times> string) option" "u32 option"
  | Query_BridgeState
  | Query_TransactionEvidence string
  | Query_TransactionEvidences "string option" "u32 option"
  | Query_ProcessedTx string
  | Query_ProcessedTxs "string option" "u32 option"
  | Query_ProhibitedXRPLAddresses

datatype (plugins only: code size) query_response =
    Resp_Config config
  | Resp_XRPLTokens "string option \<times> xrpl_token list"
  | Resp_XRPLToken xrpl_token
  | Resp_CosmosTokens "string option \<times> cosmos_token list"
  | Resp_CosmosToken cosmos_token
  | Resp_Ownership bytes
  | Resp_PendingOperations "u64 option \<times> operation list"
  | Resp_AvailableTickets "u64 list"
  | Resp_FeesCollected "coin list"
  | Resp_PendingRefunds "(addr \<times> string) option \<times> refund_view list"
  | Resp_BridgeState bridge_state
  | Resp_TransactionEvidence "string \<times> addr list"
  | Resp_TransactionEvidences "string option \<times> (string \<times> addr list) list"
  | Resp_ProcessedTx bool
  | Resp_ProcessedTxs "string option \<times> string list"
  | Resp_ProhibitedXRPLAddresses "string list"

fun query :: "platform \<Rightarrow> storage \<Rightarrow> query_msg \<Rightarrow> query_response result" where
  "query p s Query_Config = and_then (query_config s) (\<lambda>r. Inr (Resp_Config r))"
| "query p s (Query_XRPLTokens start limit) = Inr (Resp_XRPLTokens (query_xrpl_tokens s start limit))"
| "query p s (Query_XRPLToken key) = and_then (query_xrpl_token s key) (\<lambda>r. Inr (Resp_XRPLToken r))"
| "query p s (Query_CosmosTokens start limit) = Inr (Resp_CosmosTokens (query_cosmos_tokens s start limit))"
| "query p s (Query_CosmosToken key) = and_then (query_cosmos_token s key) (\<lambda>r. Inr (Resp_CosmosToken r))"
| "query p s Query_Ownership = and_then (from_std (get_ownership p (OWNERSHIP s))) (\<lambda>r. Inr (Resp_Ownership r))"
| "query p s (Query_PendingOperations start limit) =
     Inr (Resp_PendingOperations (query_pending_operations s start limit))"
| "query p s Query_AvailableTickets = and_then (query_available_tickets s) (\<lambda>r. Inr (Resp_AvailableTickets r))"
| "query p s (Query_PendingRefunds address start limit) =
     Inr (Resp_PendingRefunds (query_pending_refunds s address start limit))"
| "query p s (Query_FeesCollected relayer_address) =
     Inr (Resp_FeesCollected (query_fees_collected s relayer_address))"
| "query p s Query_BridgeState = and_then (query_bridge_state s) (\<lambda>r. Inr (Resp_BridgeState r))"
| "query p s (Query_TransactionEvidence hash) =
     Inr (Resp_TransactionEvidence (query_transaction_evidence s hash))"
| "query p s (Query_TransactionEvidences start limit) =
     Inr (Resp_TransactionEvidences (query_transaction_evidences s start limit))"
| "query p s (Query_ProcessedTx hash) = Inr (Resp_ProcessedTx (query_processed_tx s hash))"
| "query p s (Query_ProcessedTxs start limit) = Inr (Resp_ProcessedTxs (query_processed_txs s start limit))"
| "query p s Query_ProhibitedXRPLAddresses =
     Inr (Resp_ProhibitedXRPLAddresses (query_prohibited_xrpl_addresses s))"

section \<open>Following the pages\<close>

text \<open>A client that asks for the page after \<open>last_key\<close> until a page has none.\<close>

fun follow_pages ::
  "('k option \<Rightarrow> u32 option \<Rightarrow> 'k option \<times> 'a list) \<Rightarrow> u32 option \<Rightarrow> nat \<Rightarrow> 'k option \<Rightarrow> 'a list option" where
  "follow_pages qry limit 0 start = None"
| "follow_pages qry limit (Suc n) start =
     (case qry start limit of
        (None, items) \<Rightarrow> Some items
      | (Some k, items) \<Rightarrow> map_option (\<lambda>rest. items @ rest) (follow_pages qry limit n (Some k)))"

lemma page_size_le: "page_size limit \<le> 250"
proof -
  have "min l (250 :: u32) \<le> 250" for l by simp
  then have "page_size limit \<le> unat (250 :: u32)"
    unfolding page_size_def MAX_PAGE_LIMIT_def word_le_nat_alt by blast
  then show ?thesis by simp
qed

lemma page_size_pos: "0 < page_size limit \<longleftrightarrow> limit \<noteq> Some 0"
  by (auto simp: page_size_def MAX_PAGE_LIMIT_def min_def word_le_nat_alt unat_gt_0 split: option.splits)

text \<open>
  The entries after a bound. The bound is compared as the store encodes keys, which the function
  \<open>enc\<close> does: the identity, or \<open>joined_key\<close> for a composite key.
\<close>

definition remaining :: "('k \<Rightarrow> 'e::linorder) \<Rightarrow> 'k option \<Rightarrow> ('k \<times> 'v) list \<Rightarrow> ('k \<times> 'v) list" where
  "remaining enc start es = filter (\<lambda>e. after_bound (map_option enc start) (enc (fst e))) es"

abbreviation ascending_by :: "('k \<Rightarrow> 'e::linorder) \<Rightarrow> ('k \<times> 'v) list \<Rightarrow> bool" where
  "ascending_by enc es \<equiv> sorted_wrt (\<lambda>x y. enc (fst x) < enc (fst y)) es"

lemma after_last_of_prefix:
  assumes "ascending_by enc (ts @ ds)" and "ts \<noteq> []"
  shows "filter (\<lambda>e. enc (fst (last ts)) < enc (fst e)) (ts @ ds) = ds"
proof -
  from assms(2) obtain us l where ts: "ts = us @ [l]" by (cases ts rule: rev_cases) auto
  from assms(1) have "\<forall>x \<in> set us. enc (fst x) < enc (fst l)" and "\<forall>y \<in> set ds. enc (fst l) < enc (fst y)"
    by (auto simp: ts sorted_wrt_append)
  then have "filter (\<lambda>e. enc (fst l) < enc (fst e)) us = []" and "filter (\<lambda>e. enc (fst l) < enc (fst e)) ds = ds"
    by (auto simp: filter_empty_conv intro!: filter_True)
  then show ?thesis by (simp add: ts)
qed

lemma remaining_after_take:
  assumes "ascending_by enc es" and "take n (remaining enc start es) \<noteq> []"
  shows "remaining enc (Some (fst (last (take n (remaining enc start es))))) es = drop n (remaining enc start es)"
proof -
  define rs where "rs = remaining enc start es"
  define k where "k = fst (last (take n rs))"
  have asc: "ascending_by enc rs" unfolding rs_def remaining_def using assms(1) by (rule sorted_wrt_filter)
  have nz: "take n rs \<noteq> []" using assms(2) by (simp add: rs_def)
  then have "last (take n rs) \<in> set (take n rs)" by (rule last_in_set)
  then have kin: "after_bound (map_option enc start) (enc k)"
    unfolding k_def rs_def remaining_def by (auto dest!: in_set_takeD)
  have "remaining enc (Some k) es = filter (\<lambda>e. enc k < enc (fst e)) rs"
    unfolding rs_def remaining_def filter_filter
    by (rule filter_cong) (use kin in \<open>auto simp: after_bound_def split: option.splits\<close>)
  also have "\<dots> = drop n rs"
    using after_last_of_prefix [of enc "take n rs" "drop n rs"] asc nz by (simp add: k_def)
  finally show ?thesis by (simp add: k_def rs_def)
qed

text \<open>
  The contract of a paginated query over a list of entries in the order of their encoded keys:
  \<open>view\<close> is what the query returns of an entry.
\<close>

locale paginated =
  fixes qry :: "'k option \<Rightarrow> u32 option \<Rightarrow> 'k option \<times> 'a list"
    and enc :: "'k \<Rightarrow> 'e::linorder"
    and entries :: "('k \<times> 'v) list"
    and view :: "'k \<times> 'v \<Rightarrow> 'a"
  assumes entries_ascending: "ascending_by enc entries"
    and qry_page: "qry start limit =
      (last_key_of (take (page_size limit) (remaining enc start entries)),
       map view (take (page_size limit) (remaining enc start entries)))"
begin

lemma follow_pages_remaining:
  assumes "0 < page_size limit" and "length (remaining enc start entries) < n"
  shows "follow_pages qry limit n start = Some (map view (remaining enc start entries))"
  using assms(2)
proof (induction n arbitrary: start)
  case 0
  then show ?case by simp
next
  case (Suc n)
  let ?rs = "remaining enc start entries" and ?n = "page_size limit"
  show ?case
  proof (cases "?rs = []")
    case True
    then show ?thesis by (simp add: qry_page last_key_of_def)
  next
    case False
    then have nz: "take ?n ?rs \<noteq> []" using assms(1) by simp
    let ?k = "fst (last (take ?n ?rs))"
    have rest: "remaining enc (Some ?k) entries = drop ?n ?rs"
      by (rule remaining_after_take [OF entries_ascending nz])
    have "0 < length ?rs" using False by (simp only: length_greater_0_conv not_False_eq_True)
    with Suc.prems assms(1) have "length (drop ?n ?rs) < n" unfolding length_drop by linarith
    then have "follow_pages qry limit n (Some ?k) = Some (map view (drop ?n ?rs))"
      using Suc.IH [of "Some ?k"] by (simp only: rest)
    moreover have "qry start limit = (Some ?k, map view (take ?n ?rs))"
      using nz by (simp only: qry_page last_key_of_def if_False)
    ultimately show ?thesis by (simp flip: map_append)
  qed
qed

lemma follow_all_pages:
  assumes "0 < page_size limit" and "length entries < n"
  shows "follow_pages qry limit n None = Some (map view entries)"
  using follow_pages_remaining [of limit None n] assms by (simp add: remaining_def after_bound_def)

lemma page_bounded: "length (snd (qry start limit)) \<le> 250"
  using page_size_le [of limit] by (simp add: qry_page)

end

lemma entries_ascending_by: "ascending_by (\<lambda>k. k) (kv_entries m)"
  using kv_entries_ascending [of m] by (simp add: sorted_wrt_map)

lemma page_remaining: "page start limit m = take (page_size limit) (remaining (\<lambda>k. k) start (kv_entries m))"
  by (simp add: page_def remaining_def option.map_ident)

interpretation xrpl_tokens: paginated "query_xrpl_tokens s" "\<lambda>k. k" "kv_entries (XRPL_TOKENS s)" snd for s
  by unfold_locales (simp_all add: entries_ascending_by query_xrpl_tokens_def page_remaining Let_def)

interpretation cosmos_tokens: paginated "query_cosmos_tokens s" "\<lambda>k. k" "kv_entries (COSMOS_TOKENS s)" snd for s
  by unfold_locales (simp_all add: entries_ascending_by query_cosmos_tokens_def page_remaining Let_def)

interpretation pending_operations: paginated "query_pending_operations s" "\<lambda>k. k" "kv_entries (PENDING_OPERATIONS s)" snd for s
  by unfold_locales (simp_all add: entries_ascending_by query_pending_operations_def page_remaining Let_def)

interpretation transaction_evidences:
  paginated "query_transaction_evidences s" "\<lambda>k. k" "kv_entries (TX_EVIDENCES s)" "\<lambda>e. (fst e, snd e)" for s
  by unfold_locales (simp_all add: entries_ascending_by query_transaction_evidences_def page_remaining Let_def)

interpretation processed_txs: paginated "query_processed_txs s" "\<lambda>k. k" "kv_entries (PROCESSED_TXS s)" fst for s
  by unfold_locales (simp_all add: entries_ascending_by query_processed_txs_def page_remaining Let_def)

section \<open>Refunds of one address\<close>

text \<open>
  The refunds of an address have keys with the same first component when every refund is stored
  under its own address and identifier; then the encoding of the keys keeps their order.
\<close>

definition refunds_of :: "addr \<Rightarrow> storage \<Rightarrow> ((addr \<times> string) \<times> pending_refund) list" where
  "refunds_of a s = filter (\<lambda>e. pr_address (snd e) = a) (kv_entries (PENDING_REFUNDS s))"

lemma append_less_append [simp]: "xs @ ys < xs @ zs \<longleftrightarrow> ys < (zs :: 'a::order list)"
  by (induction xs) auto

lemma joined_key_less: "joined_key (a, x) < joined_key (a, y) \<longleftrightarrow> x < y"
  by (simp add: joined_key_def Let_def)

lemma refunds_of_ascending:
  assumes "refund_keys (PENDING_REFUNDS s)"
  shows "ascending_by joined_key (refunds_of a s)"
proof -
  have asc: "ascending_by (\<lambda>k. k) (refunds_of a s)"
    unfolding refunds_of_def by (intro sorted_wrt_filter entries_ascending_by)
  have fst_a: "fst (fst e) = a" if "e \<in> set (refunds_of a s)" for e
  proof -
    from that have "(fst e, snd e) \<in> set (kv_entries (PENDING_REFUNDS s))" and a: "pr_address (snd e) = a"
      by (simp_all add: refunds_of_def)
    with assms have "fst e = (pr_address (snd e), pr_id (snd e))" unfolding kv.entries_load refund_keys_def by blast
    with a show ?thesis by simp
  qed
  have "joined_key (fst x) < joined_key (fst y)"
    if "x \<in> set (refunds_of a s)" and "y \<in> set (refunds_of a s)" and "fst x < fst y" for x y
    using fst_a [OF that(1)] fst_a [OF that(2)] that(3) joined_key_less [of a "snd (fst x)" "snd (fst y)"]
    by (cases "fst x"; cases "fst y") (simp add: less_prod_def)
  with asc show ?thesis by (rule sorted_wrt_mono_rel [rotated])
qed

lemma pending_refunds_paginated:
  assumes "refund_keys (PENDING_REFUNDS s)"
  shows "paginated (query_pending_refunds s a) joined_key (refunds_of a s) (\<lambda>e. refund_view_of (snd e))"
  using refunds_of_ascending [OF assms]
  by unfold_locales (simp_all add: query_pending_refunds_def remaining_def refunds_of_def Let_def)

lemmas pending_refunds_pages = paginated.follow_all_pages [OF pending_refunds_paginated]

lemma pending_refunds_bounded: "length (snd (query_pending_refunds s a start limit)) \<le> 250"
  using page_size_le [of limit] by (simp add: query_pending_refunds_def Let_def)

end
