(* ===== verification/Bridge_Machine.thy ===== *)
theory Bridge_Machine
  imports Contract
begin

text \<open>
  The bridge as a state machine. A handler of the contract is a composition of a few kinds of
  changes of the storage, each of which is atomic for the invariants of the bridge. The
  relation \<open>transition\<close> lists them; every successful call of the entry point \<open>execute\<close> is a
  sequence of transitions (\<open>execute_transitions\<close>), so an invariant is proved once per kind of
  change instead of once per handler.
\<close>

section \<open>Kinds of operations\<close>

fun is_allocation :: "operation_type \<Rightarrow> bool" where
  "is_allocation (AllocateTickets _) = True"
| "is_allocation _ = False"

fun is_rotation :: "operation_type \<Rightarrow> bool" where
  "is_rotation (RotateKeys _ _) = True"
| "is_rotation _ = False"

fun trust_set_key :: "operation_type \<Rightarrow> string option" where
  "trust_set_key (TrustSet issuer currency _) = Some (build_xrpl_token_key issuer currency)"
| "trust_set_key _ = None"

definition proposal_ok :: "relayer list \<Rightarrow> u32 \<Rightarrow> bool" where
  "proposal_ok rs t \<longleftrightarrow>
     0 < unat t \<and> unat t \<le> length rs \<and> length rs \<le> 32 \<and> distinct (map rl_xrpl_address rs) \<and>
     distinct (map rl_xrpl_pub_key rs) \<and> distinct (map rl_cosmos_address rs)"

text \<open>An operation that may be queued under a number, as \<open>create_pending_operation\<close> makes it.\<close>

definition queueable :: "storage \<Rightarrow> u64 \<Rightarrow> operation \<Rightarrow> bool" where
  "queueable s oid op \<longleftrightarrow>
     kv_load oid (PENDING_OPERATIONS s) = None \<and>
     ((op_ticket_sequence op = Some oid \<and> op_account_sequence op = None) \<or>
      (op_ticket_sequence op = None \<and> op_account_sequence op = Some oid \<and>
       is_allocation (op_operation_type op))) \<and>
     op_version op = 1 \<and> op_signatures op = [] \<and> (\<exists>ts. op_id op = operation_unique_id ts oid)"

definition precision_in_range :: "i32 \<Rightarrow> bool" where
  "precision_in_range sp \<longleftrightarrow> -15 \<le> sint sp \<and> sint sp \<le> 15"

definition token_states_adjustable :: "token_state \<Rightarrow> token_state \<Rightarrow> bool" where
  "token_states_adjustable old new \<longleftrightarrow>
     new = old \<or> (old \<in> {Enabled, Disabled} \<and> new \<in> {Enabled, Disabled})"

text \<open>An operation after a change of the base fee: a new version without signatures.\<close>

definition renewed :: "u64 \<Rightarrow> operation \<Rightarrow> operation \<Rightarrow> bool" where
  "renewed f op op' \<longleftrightarrow>
     op' = op\<lparr>op_version := op_version op', op_signatures := [], op_xrpl_base_fee := f\<rparr> \<and>
     unat (op_version op') = unat (op_version op) + 1"

text \<open>
  A change of the books only: the ticket pool and its counter, the refunds, the fees and the
  owner. The other fields, that the pool and the counter exist, and that refunds are stored under
  their own keys are kept.
\<close>

definition only_books :: "storage \<Rightarrow> storage \<Rightarrow> bool" where
  "only_books s s' \<longleftrightarrow>
     CONFIG s' = CONFIG s \<and> TX_EVIDENCES s' = TX_EVIDENCES s \<and> PROCESSED_TXS s' = PROCESSED_TXS s \<and>
     COSMOS_TOKENS s' = COSMOS_TOKENS s \<and> XRPL_TOKENS s' = XRPL_TOKENS s \<and>
     PENDING_OPERATIONS s' = PENDING_OPERATIONS s \<and> PENDING_TICKET_UPDATE s' = PENDING_TICKET_UPDATE s \<and>
     PENDING_ROTATE_KEYS s' = PENDING_ROTATE_KEYS s \<and>
     PROHIBITED_XRPL_ADDRESSES s' = PROHIBITED_XRPL_ADDRESSES s \<and>
     TEMP_UNIVERSAL_SWAP s' = TEMP_UNIVERSAL_SWAP s \<and> CONTRACT_INFO s' = CONTRACT_INFO s \<and>
     (AVAILABLE_TICKETS s \<noteq> None \<longrightarrow> AVAILABLE_TICKETS s' \<noteq> None) \<and>
     (USED_TICKETS_COUNTER s \<noteq> None \<longrightarrow> USED_TICKETS_COUNTER s' \<noteq> None) \<and>
     (refund_keys (PENDING_REFUNDS s) \<longrightarrow> refund_keys (PENDING_REFUNDS s'))"

text \<open>The fees and the refunds the contract owes are unchanged.\<close>

definition same_accounts :: "storage \<Rightarrow> storage \<Rightarrow> bool" where
  "same_accounts s s' \<longleftrightarrow>
     FEES_COLLECTED s' = FEES_COLLECTED s \<and> FEE_REMAINDERS s' = FEE_REMAINDERS s \<and>
     PENDING_REFUNDS s' = PENDING_REFUNDS s"

section \<open>Transitions\<close>

text \<open>
  The transitions of a call on a platform. With \<open>fin\<close> false, only the transitions that move no
  money: no fee, no refund and no transfer is added or removed.
\<close>

inductive transition :: "platform \<Rightarrow> bool \<Rightarrow> storage \<Rightarrow> storage \<Rightarrow> bool"
  for p :: platform and fin :: bool
where
  books:
    "only_books s s' \<Longrightarrow> fin \<or> same_accounts s s' \<Longrightarrow> transition p fin s s'"
| vote:
    "handle_evidence p s a ev = Inr (reached, s') \<Longrightarrow> a \<in> set (relayer_addresses s) \<Longrightarrow> transition p fin s s'"
| configure:
    "CONFIG s = Some c \<Longrightarrow> (b = Active \<longrightarrow> cf_bridge_state c = Active \<or> PENDING_ROTATE_KEYS s = Some False) \<Longrightarrow>
     transition p fin s (s\<lparr>CONFIG := Some (c\<lparr>cf_bridge_state := b, cf_used_ticket_sequence_threshold := t,
       cf_xrpl_base_fee := f\<rparr>)\<rparr>)"
| prohibit:
    "CONFIG s = Some c \<Longrightarrow> kv_has (cf_bridge_xrpl_address c) m \<Longrightarrow>
     transition p fin s (s\<lparr>PROHIBITED_XRPL_ADDRESSES := m\<rparr>)"
| renew:
    "(\<And>oid. (kv_load oid m = None) = (kv_load oid (PENDING_OPERATIONS s) = None)) \<Longrightarrow>
     (\<And>oid op op'. kv_load oid (PENDING_OPERATIONS s) = Some op \<Longrightarrow> kv_load oid m = Some op' \<Longrightarrow>
        renewed f op op') \<Longrightarrow>
     transition p fin s (s\<lparr>PENDING_OPERATIONS := m\<rparr>)"
| sign:
    "kv_load oid (PENDING_OPERATIONS s) = Some op \<Longrightarrow> sg_relayer_cosmos_address sg \<notin> set (signers op) \<Longrightarrow>
     length (sg_signature sg) \<le> 200 \<Longrightarrow>
     transition p fin s (s\<lparr>PENDING_OPERATIONS := kv_save oid (op\<lparr>op_signatures := op_signatures op @ [sg]\<rparr>)
       (PENDING_OPERATIONS s)\<rparr>)"
| add_cosmos_token:
    "kv_load (ct_denom tok) (COSMOS_TOKENS s) = None \<Longrightarrow> index_free ct_xrpl_currency (ct_denom tok) tok (COSMOS_TOKENS s) \<Longrightarrow>
     unat (ct_decimals tok) \<le> 100 \<Longrightarrow> validate_sending_precision (ct_sending_precision tok) (ct_decimals tok) = Inr () \<Longrightarrow>
     validate_xrpl_currency (ct_xrpl_currency tok) = Inr () \<Longrightarrow> ct_state tok = Enabled \<Longrightarrow>
     transition p fin s (s\<lparr>COSMOS_TOKENS := kv_save (ct_denom tok) tok (COSMOS_TOKENS s)\<rparr>)"
| adjust_cosmos_token:
    "kv_load d (COSMOS_TOKENS s) = Some old \<Longrightarrow> token_states_adjustable (ct_state old) st \<Longrightarrow>
     sp = ct_sending_precision old \<or> validate_sending_precision sp (ct_decimals old) = Inr () \<Longrightarrow>
     new = old\<lparr>ct_state := st, ct_sending_precision := sp, ct_bridging_fee := fee, ct_max_holding_amount := mx\<rparr> \<Longrightarrow>
     index_free ct_xrpl_currency d new (COSMOS_TOKENS s) \<Longrightarrow>
     transition p fin s (s\<lparr>COSMOS_TOKENS := kv_save d new (COSMOS_TOKENS s)\<rparr>)"
| adjust_xrpl_token:
    "kv_load key (XRPL_TOKENS s) = Some old \<Longrightarrow> token_states_adjustable (xt_state old) st \<Longrightarrow>
     sp = xt_sending_precision old \<or> precision_in_range sp \<Longrightarrow>
     new = old\<lparr>xt_state := st, xt_sending_precision := sp, xt_bridging_fee := fee, xt_max_holding_amount := mx\<rparr> \<Longrightarrow>
     index_free xt_cosmos_denom key new (XRPL_TOKENS s) \<Longrightarrow>
     transition p fin s (s\<lparr>XRPL_TOKENS := kv_save key new (XRPL_TOKENS s)\<rparr>)"
| queue_transfer:
    "queueable s oid op \<Longrightarrow> is_transfer (op_operation_type op) \<Longrightarrow>
     CONFIG s = Some c \<Longrightarrow> cf_bridge_state c = Active \<Longrightarrow> fin \<Longrightarrow>
     transition p fin s (s\<lparr>PENDING_OPERATIONS := kv_save oid op (PENDING_OPERATIONS s)\<rparr>)"
| queue_allocation:
    "queueable s oid op \<Longrightarrow> is_allocation (op_operation_type op) \<Longrightarrow> PENDING_TICKET_UPDATE s = Some False \<Longrightarrow>
     transition p fin s (s\<lparr>PENDING_OPERATIONS := kv_save oid op (PENDING_OPERATIONS s),
       PENDING_TICKET_UPDATE := Some True\<rparr>)"
| queue_rotation:
    "queueable s oid op \<Longrightarrow> op_operation_type op = RotateKeys rs t \<Longrightarrow> proposal_ok rs t \<Longrightarrow>
     PENDING_ROTATE_KEYS s = Some False \<Longrightarrow> CONFIG s = Some c \<Longrightarrow>
     transition p fin s (s\<lparr>PENDING_OPERATIONS := kv_save oid op (PENDING_OPERATIONS s),
       PENDING_ROTATE_KEYS := Some True, CONFIG := Some (c\<lparr>cf_bridge_state := Halted\<rparr>)\<rparr>)"
| queue_registration:
    "queueable s oid op \<Longrightarrow> op_operation_type op = TrustSet (xt_issuer tok) (xt_currency tok) limit \<Longrightarrow>
     key = build_xrpl_token_key (xt_issuer tok) (xt_currency tok) \<Longrightarrow> kv_load key (XRPL_TOKENS s) = None \<Longrightarrow>
     index_free xt_cosmos_denom key tok (XRPL_TOKENS s) \<Longrightarrow> xt_state tok = Processing \<Longrightarrow>
     precision_in_range (xt_sending_precision tok) \<Longrightarrow> validate_xrpl_address p s (xt_issuer tok) = Inr () \<Longrightarrow>
     validate_xrpl_currency (xt_currency tok) = Inr () \<Longrightarrow>
     transition p fin s (s\<lparr>PENDING_OPERATIONS := kv_save oid op (PENDING_OPERATIONS s),
       XRPL_TOKENS := kv_save key tok (XRPL_TOKENS s)\<rparr>)"
| queue_recovery:
    "queueable s oid op \<Longrightarrow> trust_set_key (op_operation_type op) = Some key \<Longrightarrow>
     kv_load key (XRPL_TOKENS s) = Some tok \<Longrightarrow> xt_state tok = Inactive \<Longrightarrow>
     index_free xt_cosmos_denom key (tok\<lparr>xt_state := Processing\<rparr>) (XRPL_TOKENS s) \<Longrightarrow>
     transition p fin s (s\<lparr>PENDING_OPERATIONS := kv_save oid op (PENDING_OPERATIONS s),
       XRPL_TOKENS := kv_save key (tok\<lparr>xt_state := Processing\<rparr>) (XRPL_TOKENS s)\<rparr>)"
| settle_transfer:
    "kv_load oid (PENDING_OPERATIONS s) = Some op \<Longrightarrow> is_transfer (op_operation_type op) \<Longrightarrow> fin \<Longrightarrow>
     transition p fin s (s\<lparr>PENDING_OPERATIONS := kv_remove oid (PENDING_OPERATIONS s)\<rparr>)"
| settle_allocation:
    "kv_load oid (PENDING_OPERATIONS s) = Some op \<Longrightarrow> is_allocation (op_operation_type op) \<Longrightarrow>
     transition p fin s (s\<lparr>PENDING_OPERATIONS := kv_remove oid (PENDING_OPERATIONS s),
       PENDING_TICKET_UPDATE := Some False\<rparr>)"
| settle_trust_set:
    "kv_load oid (PENDING_OPERATIONS s) = Some op \<Longrightarrow> trust_set_key (op_operation_type op) = Some key \<Longrightarrow>
     kv_load key (XRPL_TOKENS s) = Some tok \<Longrightarrow> st \<in> {Enabled, Inactive} \<Longrightarrow>
     index_free xt_cosmos_denom key (tok\<lparr>xt_state := st\<rparr>) (XRPL_TOKENS s) \<Longrightarrow>
     transition p fin s (s\<lparr>PENDING_OPERATIONS := kv_remove oid (PENDING_OPERATIONS s),
       XRPL_TOKENS := kv_save key (tok\<lparr>xt_state := st\<rparr>) (XRPL_TOKENS s)\<rparr>)"
| settle_rotation_accepted:
    "kv_load oid (PENDING_OPERATIONS s) = Some op \<Longrightarrow> op_operation_type op = RotateKeys rs t \<Longrightarrow>
     CONFIG s = Some c \<Longrightarrow>
     transition p fin s (s\<lparr>PENDING_OPERATIONS := kv_remove oid (PENDING_OPERATIONS s),
       PENDING_ROTATE_KEYS := Some False, TX_EVIDENCES := kv_empty,
       CONFIG := Some (c\<lparr>cf_relayers := rs, cf_evidence_threshold := t\<rparr>)\<rparr>)"
| settle_rotation_refused:
    "kv_load oid (PENDING_OPERATIONS s) = Some op \<Longrightarrow> is_rotation (op_operation_type op) \<Longrightarrow>
     transition p fin s (s\<lparr>PENDING_OPERATIONS := kv_remove oid (PENDING_OPERATIONS s),
       PENDING_ROTATE_KEYS := Some False\<rparr>)"

abbreviation transitions :: "platform \<Rightarrow> bool \<Rightarrow> storage \<Rightarrow> storage \<Rightarrow> bool" where
  "transitions p fin \<equiv> (transition p fin)\<^sup>*\<^sup>*"

lemma transitions_step: "transition p fin s s' \<Longrightarrow> transitions p fin s s'"
  by (rule r_into_rtranclp)

lemma transitions_then: "transitions p fin s s1 \<Longrightarrow> transition p fin s1 s' \<Longrightarrow> transitions p fin s s'"
  by (rule rtranclp.rtrancl_into_rtrancl)

lemma transitions_books: "only_books s s' \<Longrightarrow> fin \<or> same_accounts s s' \<Longrightarrow> transitions p fin s s'"
  by (intro transitions_step transition.books)

section \<open>Every handler is a sequence of transitions\<close>

lemma transitions_to: "transition p fin s t \<Longrightarrow> s' = t \<Longrightarrow> transitions p fin s s'"
  by (simp add: transitions_step)

lemma transitions_via: "transition p fin t u \<Longrightarrow> transitions p fin s t \<Longrightarrow> s' = u \<Longrightarrow> transitions p fin s s'"
  by (simp add: transitions_then)

lemma configure_state:
  assumes "CONFIG s = Some c" and "b = Active \<longrightarrow> cf_bridge_state c = Active \<or> PENDING_ROTATE_KEYS s = Some False"
  shows "transitions p fin s (s\<lparr>CONFIG := Some (c\<lparr>cf_bridge_state := b\<rparr>)\<rparr>)"
  using transition.configure [OF assms, where f = "cf_xrpl_base_fee c" and t = "cf_used_ticket_sequence_threshold c"]
  by (simp add: transitions_step)

lemma halt_bridge_transitions: "halt_bridge p s a = Inr (r, s') \<Longrightarrow> transitions p fin s s'"
  by (auto simp: halt_bridge_def result_simps intro: configure_state)

lemma resume_bridge_transitions: "resume_bridge p s a = Inr (r, s') \<Longrightarrow> transitions p fin s s'"
  by (auto simp: resume_bridge_def result_simps intro: configure_state)

lemma update_ownership_transitions: "update_ownership p e info s act = Inr (r, s') \<Longrightarrow> transitions p fin s s'"
  by (auto simp: update_ownership_def split: sum.splits simp: only_books_def same_accounts_def intro!: transitions_books)

lemma update_used_ticket_sequence_threshold_transitions:
  assumes "update_used_ticket_sequence_threshold p s a t = Inr (r, s')"
  shows "transitions p fin s s'"
proof -
  from assms obtain c where c: "CONFIG s = Some c"
    and s': "s' = s\<lparr>CONFIG := Some (c\<lparr>cf_used_ticket_sequence_threshold := t\<rparr>)\<rparr>"
    by (auto simp: update_used_ticket_sequence_threshold_def result_simps)
  with transition.configure [OF c, where b = "cf_bridge_state c" and f = "cf_xrpl_base_fee c" and t = t] show ?thesis
    by (simp add: transitions_step)
qed

lemma update_prohibited_transitions:
  assumes "update_prohibited_xrpl_addresses p s a l = Inr (r, s')"
  shows "transitions p fin s s'"
proof -
  from assms obtain c where c: "CONFIG s = Some c"
    and loop: "for_each (add_prohibited_address p) l
      (s\<lparr>PROHIBITED_XRPL_ADDRESSES := kv_save (cf_bridge_xrpl_address c) () kv_empty\<rparr>) = Inr s'"
    by (auto simp: update_prohibited_xrpl_addresses_def Let_def result_simps)
  have "\<exists>m. s' = s\<lparr>PROHIBITED_XRPL_ADDRESSES := m\<rparr> \<and> kv_has (cf_bridge_xrpl_address c) m"
    using loop
  proof (rule for_each_invariant)
    show "\<exists>m. s\<lparr>PROHIBITED_XRPL_ADDRESSES := kv_save (cf_bridge_xrpl_address c) () kv_empty\<rparr> =
        s\<lparr>PROHIBITED_XRPL_ADDRESSES := m\<rparr> \<and> kv_has (cf_bridge_xrpl_address c) m"
      by (rule exI [of _ "kv_save (cf_bridge_xrpl_address c) () kv_empty"]) simp
  qed (force simp: add_prohibited_address_def result_simps)
  then show ?thesis using c by (auto intro: transitions_step transition.prohibit)
qed

lemma claim_relayer_fees_transitions: "claim_relayer_fees s a amts = Inr (r, s') \<Longrightarrow> transitions p True s s'"
  using substract_relayer_fees_effect(4) [of s a amts]
  by (auto simp: claim_relayer_fees_def result_simps simp: only_books_def same_accounts_def intro!: transitions_books)

lemma claim_pending_refund_transitions: "claim_pending_refund s a i = Inr (r, s') \<Longrightarrow> transitions p True s s'"
  using remove_pending_refund_owed(2) [of s a i]
  by (auto simp: claim_pending_refund_def result_simps simp: only_books_def same_accounts_def intro!: transitions_books)


lemma create_with_ticket:
  assumes "create_pending_operation s ts (Some t) None ty = Inr s'"
  obtains op c where "queueable s t op" and "op_operation_type op = ty"
    and "s' = s\<lparr>PENDING_OPERATIONS := kv_save t op (PENDING_OPERATIONS s)\<rparr>"
    and "CONFIG s = Some c" and "cf_bridge_state c = Active \<or> halt_allows ty (PENDING_ROTATE_KEYS s)"
  using assms
proof (rule create_pending_operation_ok)
  fix cfg oid
  assume "sequence_or (Some t) None = Inr oid" and "CONFIG s = Some cfg"
    and "cf_bridge_state cfg = Active \<or> halt_allows ty (PENDING_ROTATE_KEYS s)"
    and "kv_load oid (PENDING_OPERATIONS s) = None"
    and "s' = s\<lparr>PENDING_OPERATIONS := kv_save oid
      \<lparr>op_id = operation_unique_id ts oid, op_version = 1, op_ticket_sequence = Some t,
       op_account_sequence = None, op_signatures = [], op_operation_type = ty,
       op_xrpl_base_fee = cf_xrpl_base_fee cfg\<rparr> (PENDING_OPERATIONS s)\<rparr>"
  then show thesis by (intro that) (auto simp: queueable_def)
qed

lemma create_with_account:
  assumes "create_pending_operation s ts None (Some a) (AllocateTickets n) = Inr s'"
  obtains op where "queueable s a op" and "op_operation_type op = AllocateTickets n"
    and "s' = s\<lparr>PENDING_OPERATIONS := kv_save a op (PENDING_OPERATIONS s)\<rparr>"
  using assms
proof (rule create_pending_operation_ok)
  fix cfg oid
  assume "sequence_or None (Some a) = Inr oid" and "kv_load oid (PENDING_OPERATIONS s) = None"
    and "s' = s\<lparr>PENDING_OPERATIONS := kv_save oid
      \<lparr>op_id = operation_unique_id ts oid, op_version = 1, op_ticket_sequence = None,
       op_account_sequence = Some a, op_signatures = [], op_operation_type = AllocateTickets n,
       op_xrpl_base_fee = cf_xrpl_base_fee cfg\<rparr> (PENDING_OPERATIONS s)\<rparr>"
  then show thesis by (intro that) (auto simp: queueable_def)
qed

lemma queueable_cong: "PENDING_OPERATIONS s = PENDING_OPERATIONS s' \<Longrightarrow> queueable s = queueable s'"
  by (simp add: queueable_def fun_eq_iff)

lemma recover_tickets_transitions:
  assumes "recover_tickets p s ts a acc n = Inr (r, s')"
  shows "transitions p fin s s'"
proof -
  from assms obtain k where f: "PENDING_TICKET_UPDATE s = Some False"
    and cr: "create_pending_operation (s\<lparr>PENDING_TICKET_UPDATE := Some True\<rparr>) ts None (Some acc)
      (AllocateTickets k) = Inr s'"
    by (auto simp: recover_tickets_def Let_def result_simps)
  from cr obtain op where op: "queueable (s\<lparr>PENDING_TICKET_UPDATE := Some True\<rparr>) acc op"
    "op_operation_type op = AllocateTickets k"
    and s': "s' = s\<lparr>PENDING_TICKET_UPDATE := Some True, PENDING_OPERATIONS := kv_save acc op (PENDING_OPERATIONS s)\<rparr>"
    by (rule create_with_account) simp
  from op(1) have "queueable s acc op" by (simp add: queueable_def)
  then have "transition p fin s (s\<lparr>PENDING_OPERATIONS := kv_save acc op (PENDING_OPERATIONS s),
      PENDING_TICKET_UPDATE := Some True\<rparr>)"
    using op(2) f by (intro transition.queue_allocation) auto
  then show ?thesis by (rule transitions_to) (simp add: s')
qed

lemma register_used_ticket_transitions:
  assumes "register_used_ticket s ts = Inr (ok, s')"
  shows "transitions p fin s s'"
  using assms
proof (rule register_used_ticket_cases)
  fix used cfg n
  assume "(ok \<and> s' = s\<lparr>USED_TICKETS_COUNTER := Some n\<rparr> \<and>
           (n < cf_used_ticket_sequence_threshold cfg \<or> PENDING_TICKET_UPDATE s = Some True)) \<or>
         (\<not> ok \<and> s' = s\<lparr>USED_TICKETS_COUNTER := Some n\<rparr> \<and> AVAILABLE_TICKETS s = Some [] \<and>
           n \<ge> cf_used_ticket_sequence_threshold cfg \<and> PENDING_TICKET_UPDATE s = Some False) \<or>
         (\<exists>t rest s1. ok \<and> n \<ge> cf_used_ticket_sequence_threshold cfg \<and>
           PENDING_TICKET_UPDATE s = Some False \<and> AVAILABLE_TICKETS s = Some (t # rest) \<and>
           create_pending_operation
             (s\<lparr>USED_TICKETS_COUNTER := Some n, AVAILABLE_TICKETS := Some rest\<rparr>) ts (Some t) None
             (AllocateTickets (cf_used_ticket_sequence_threshold cfg)) = Inr s1 \<and>
           s' = s1\<lparr>PENDING_TICKET_UPDATE := Some True\<rparr>)"
  then consider (counted) "s' = s\<lparr>USED_TICKETS_COUNTER := Some n\<rparr>"
    | (queued) t rest s1 where "PENDING_TICKET_UPDATE s = Some False"
      "create_pending_operation (s\<lparr>USED_TICKETS_COUNTER := Some n, AVAILABLE_TICKETS := Some rest\<rparr>) ts
        (Some t) None (AllocateTickets (cf_used_ticket_sequence_threshold cfg)) = Inr s1"
      "s' = s1\<lparr>PENDING_TICKET_UPDATE := Some True\<rparr>"
    by blast
  then show ?thesis
  proof cases
    case counted
    then show ?thesis by (intro transitions_books) (simp_all add: only_books_def same_accounts_def)
  next
    case queued
    let ?s = "s\<lparr>USED_TICKETS_COUNTER := Some n, AVAILABLE_TICKETS := Some rest\<rparr>"
    from queued(2) obtain op where op: "queueable ?s t op" "is_allocation (op_operation_type op)"
      and s1: "s1 = ?s\<lparr>PENDING_OPERATIONS := kv_save t op (PENDING_OPERATIONS ?s)\<rparr>"
      by (rule create_with_ticket) simp
    have "transitions p fin s ?s" by (intro transitions_books) (simp_all add: only_books_def same_accounts_def)
    moreover have "transition p fin ?s s'"
      unfolding queued(3) s1 using queued(1) op by (intro transition.queue_allocation) auto
    ultimately show ?thesis by (rule transitions_then)
  qed
qed

lemma unchanged_transitions:
  "create_cosmos_token p info s d bs = Inr (r, s') \<Longrightarrow> s' = s"
  "mint_cosmos_token p s a d bs = Inr (r, s') \<Longrightarrow> s' = s"
  "execute_add_rate_limit p info s d qs = Inr (r, s') \<Longrightarrow> s' = s"
  "execute_remove_rate_limit p info s d = Inr (r, s') \<Longrightarrow> s' = s"
  "execute_reset_rate_limit_quota p info s d q = Inr (r, s') \<Longrightarrow> s' = s"
  by (auto simp: create_cosmos_token_def mint_cosmos_token_def execute_add_rate_limit_def
      execute_remove_rate_limit_def execute_reset_rate_limit_quota_def Let_def and_then_eq_Inr
      split: option.splits)

lemma register_cosmos_token_transitions:
  assumes "register_cosmos_token p e s a d dec sp mx fee = Inr (r, s')"
  shows "transitions p fin s s'"
proof -
  from assms obtain cur tok where tok: "tok = \<lparr>ct_denom = d, ct_decimals = dec, ct_xrpl_currency = cur,
      ct_sending_precision = sp, ct_max_holding_amount = mx, ct_state = Enabled, ct_bridging_fee = fee\<rparr>"
    and "validate_cosmos_token_decimals dec = Inr ()" "validate_sending_precision sp dec = Inr ()"
    "\<not> kv_has d (COSMOS_TOKENS s)" "validate_xrpl_currency cur = Inr ()"
    "index_free ct_xrpl_currency d tok (COSMOS_TOKENS s)"
    and s': "s' = s\<lparr>COSMOS_TOKENS := kv_save d tok (COSMOS_TOKENS s)\<rparr>"
    unfolding register_cosmos_token_def Let_def
    by (simp only: and_then_eq_Inr if_Inl_eq_Inr index_save_eq_Inr prod.inject sum.inject) auto
  then have "transition p fin s (s\<lparr>COSMOS_TOKENS := kv_save (ct_denom tok) tok (COSMOS_TOKENS s)\<rparr>)"
    by (intro transition.add_cosmos_token)
      (auto simp: kv_has_def validate_cosmos_token_decimals_def MAX_COSMOS_TOKEN_DECIMALS_def
        if_Inl_eq_Inr word_less_nat_alt)
  then show ?thesis using s' tok by (intro transitions_to) auto
qed

lemma adjustable: "set_token_state st t = Inr st' \<Longrightarrow> token_states_adjustable st st'"
  by (cases st; cases st') (auto simp: set_token_state_def token_states_adjustable_def split: option.splits if_splits)

lemma set_precision_ok:
  "set_token_sending_precision sp t dec = Inr sp' \<Longrightarrow> sp' = sp \<or> validate_sending_precision sp' dec = Inr ()"
  by (auto simp: set_token_sending_precision_def and_then_eq_Inr split: option.splits)

lemma valid_precision_in_range: "validate_sending_precision sp dec = Inr u \<Longrightarrow> precision_in_range sp"
  by (simp add: validate_sending_precision_ok precision_in_range_def)

lemma update_xrpl_token_transitions:
  assumes "update_xrpl_token p s a i c st sp fee mx = Inr (r, s')"
  shows "transitions p fin s s'"
proof -
  let ?key = "build_xrpl_token_key i c"
  from assms obtain old new st' sp' fee' mx' dec where old: "kv_load ?key (XRPL_TOKENS s) = Some old"
    and st': "set_token_state (xt_state old) st = Inr st'"
    and sp': "set_token_sending_precision (xt_sending_precision old) sp dec = Inr sp'"
    and new: "new = old\<lparr>xt_state := st', xt_sending_precision := sp', xt_bridging_fee := fee', xt_max_holding_amount := mx'\<rparr>"
    and fr: "index_free xt_cosmos_denom ?key new (XRPL_TOKENS s)"
    and s': "s' = s\<lparr>XRPL_TOKENS := kv_save ?key new (XRPL_TOKENS s)\<rparr>"
    unfolding update_xrpl_token_def Let_def
    by (simp only: and_then_eq_Inr map_err_eq_Inr item_load_eq_Inr index_save_eq_Inr prod.inject sum.inject) blast
  have "sp' = xt_sending_precision old \<or> precision_in_range sp'"
    using set_precision_ok [OF sp'] valid_precision_in_range by blast
  from transition.adjust_xrpl_token [OF old adjustable [OF st'] this new fr] show ?thesis
    using s' by (rule transitions_to)
qed

lemma update_cosmos_token_transitions:
  assumes "update_cosmos_token p e s a d st sp fee mx = Inr (r, s')"
  shows "transitions p fin s s'"
proof -
  from assms obtain old new st' sp' fee' mx' where old: "kv_load d (COSMOS_TOKENS s) = Some old"
    and st': "set_token_state (ct_state old) st = Inr st'"
    and sp': "set_token_sending_precision (ct_sending_precision old) sp (ct_decimals old) = Inr sp'"
    and new: "new = old\<lparr>ct_state := st', ct_sending_precision := sp', ct_bridging_fee := fee', ct_max_holding_amount := mx'\<rparr>"
    and fr: "index_free ct_xrpl_currency d new (COSMOS_TOKENS s)"
    and s': "s' = s\<lparr>COSMOS_TOKENS := kv_save d new (COSMOS_TOKENS s)\<rparr>"
    unfolding update_cosmos_token_def Let_def
    by (simp only: and_then_eq_Inr map_err_eq_Inr item_load_eq_Inr index_save_eq_Inr prod.inject sum.inject) blast
  from transition.adjust_cosmos_token [OF old adjustable [OF st'] set_precision_ok [OF sp'] new fr]
  show ?thesis using s' by (rule transitions_to)
qed

lemma save_signature_transitions:
  assumes "save_signature p s a oid ver sig = Inr (r, s')"
  shows "transitions p fin s s'"
proof -
  from assms have "add_signature s oid ver a sig = Inr s'"
    by (auto simp: save_signature_def and_then_eq_Inr)
  then show ?thesis
    by (rule add_signature_ok) (auto intro!: transitions_step transition.sign)
qed

lemma renew_operation_ok:
  assumes "renew_operation f (k, op) s = Inr s'"
  obtains op' where "renewed f op op'" and "s' = s\<lparr>PENDING_OPERATIONS := kv_save k op' (PENDING_OPERATIONS s)\<rparr>"
proof -
  from assms obtain v where v: "unat v = unat (op_version op) + 1"
    and s': "s' = s\<lparr>PENDING_OPERATIONS := kv_save k
      \<lparr>op_id = op_id op, op_version = v, op_ticket_sequence = op_ticket_sequence op,
       op_account_sequence = op_account_sequence op, op_signatures = [],
       op_operation_type = op_operation_type op, op_xrpl_base_fee = f\<rparr> (PENDING_OPERATIONS s)\<rparr>"
    by (auto simp: renew_operation_def and_then_eq_Inr panic_add_eq_Inr)
  then show thesis
    by (intro that [of "op\<lparr>op_version := v, op_signatures := [], op_xrpl_base_fee := f\<rparr>"])
      (cases op; simp add: renewed_def)+
qed

lemma renew_operations:
  assumes "for_each (renew_operation f) es s = Inr s'" and "distinct (map fst es)"
  shows "\<exists>m. s' = s\<lparr>PENDING_OPERATIONS := m\<rparr> \<and>
    (\<forall>k. map_of es k = None \<longrightarrow> kv_load k m = kv_load k (PENDING_OPERATIONS s)) \<and>
    (\<forall>k op. map_of es k = Some op \<longrightarrow> (\<exists>op'. kv_load k m = Some op' \<and> renewed f op op'))"
  using assms
proof (induction es arbitrary: s)
  case Nil
  then show ?case by (auto intro!: exI [of _ "PENDING_OPERATIONS s'"])
next
  case (Cons e es)
  obtain k op where e: "e = (k, op)" by (cases e)
  from Cons.prems(1) obtain s1 where 1: "renew_operation f e s = Inr s1"
    and 2: "for_each (renew_operation f) es s1 = Inr s'"
    by (auto simp: and_then_eq_Inr)
  from 1 obtain op' where op': "renewed f op op'"
    and s1: "s1 = s\<lparr>PENDING_OPERATIONS := kv_save k op' (PENDING_OPERATIONS s)\<rparr>"
    unfolding e by (rule renew_operation_ok)
  from Cons.prems(2) have nk: "map_of es k = None" and "distinct (map fst es)"
    by (auto simp: e map_of_eq_None_iff)
  with Cons.IH [OF 2] obtain m where s': "s' = s1\<lparr>PENDING_OPERATIONS := m\<rparr>"
    and m: "\<forall>j. map_of es j = None \<longrightarrow> kv_load j m = kv_load j (PENDING_OPERATIONS s1)"
      "\<forall>j op. map_of es j = Some op \<longrightarrow> (\<exists>op'. kv_load j m = Some op' \<and> renewed f op op')"
    by auto
  show ?case
    by (intro exI [of _ m] conjI) (use m op' nk in \<open>auto simp: s' s1 e\<close>)
qed

lemma update_xrpl_base_fee_ok:
  assumes "update_xrpl_base_fee p s a f = Inr (r, s')"
  obtains c m where "CONFIG s = Some c"
    and "s' = s\<lparr>CONFIG := Some (c\<lparr>cf_xrpl_base_fee := f\<rparr>), PENDING_OPERATIONS := m\<rparr>"
    and "\<And>k. kv_load k (PENDING_OPERATIONS s) = None \<Longrightarrow> kv_load k m = None"
    and "\<And>k op. kv_load k (PENDING_OPERATIONS s) = Some op \<Longrightarrow> \<exists>op'. kv_load k m = Some op' \<and> renewed f op op'"
proof -
  from assms obtain c where c: "CONFIG s = Some c"
    and loop: "for_each (renew_operation f) (kv_entries (PENDING_OPERATIONS s))
      (s\<lparr>CONFIG := Some (c\<lparr>cf_xrpl_base_fee := f\<rparr>)\<rparr>) = Inr s'"
    by (auto simp: update_xrpl_base_fee_def Let_def and_then_eq_Inr item_load_eq_Inr)
  from renew_operations [OF loop kv_entries_distinct] show thesis
    by (auto simp: kv_load_def [of _ "PENDING_OPERATIONS s"] intro!: that [OF c])
qed

lemma update_xrpl_base_fee_transitions:
  assumes "update_xrpl_base_fee p s a f = Inr (r, s')"
  shows "transitions p fin s s'"
  using assms
proof (rule update_xrpl_base_fee_ok)
  fix c m
  assume c: "CONFIG s = Some c"
    and s': "s' = s\<lparr>CONFIG := Some (c\<lparr>cf_xrpl_base_fee := f\<rparr>), PENDING_OPERATIONS := m\<rparr>"
    and n: "\<And>k. kv_load k (PENDING_OPERATIONS s) = None \<Longrightarrow> kv_load k m = None"
    and r: "\<And>k op. kv_load k (PENDING_OPERATIONS s) = Some op \<Longrightarrow> \<exists>op'. kv_load k m = Some op' \<and> renewed f op op'"
  let ?s = "s\<lparr>CONFIG := Some (c\<lparr>cf_xrpl_base_fee := f\<rparr>)\<rparr>"
  have "transitions p fin s ?s"
    using transition.configure [OF c, where b = "cf_bridge_state c" and f = f and t = "cf_used_ticket_sequence_threshold c"]
    by (simp add: transitions_step)
  moreover have "transition p fin ?s (?s\<lparr>PENDING_OPERATIONS := m\<rparr>)"
  proof (rule transition.renew [where f = f])
    show "(kv_load oid m = None) = (kv_load oid (PENDING_OPERATIONS ?s) = None)" for oid
      using n [of oid] r [of oid] by (cases "kv_load oid (PENDING_OPERATIONS s)") auto
    show "renewed f op op'"
      if "kv_load oid (PENDING_OPERATIONS ?s) = Some op" and "kv_load oid m = Some op'" for oid op op'
      using r [of oid op] that by auto
  qed
  ultimately show ?thesis using s' by (simp add: transitions_then)
qed

lemma rotate_keys_transitions:
  assumes "rotate_keys p e s a rs t = Inr (r, s')"
  shows "transitions p fin s s'"
proof -
  from assms obtain c tick rest s1 where f: "PENDING_ROTATE_KEYS s = Some False" and c: "CONFIG s = Some c"
    and s1: "s1 = s\<lparr>PENDING_ROTATE_KEYS := Some True, CONFIG := Some (c\<lparr>cf_bridge_state := Halted\<rparr>)\<rparr>"
    and v: "validate_relayers p s1 rs t = Inr ()"
    and cr: "create_pending_operation (s1\<lparr>AVAILABLE_TICKETS := Some rest\<rparr>) (ev_time_seconds e) (Some tick) None
      (RotateKeys rs t) = Inr s'"
    unfolding rotate_keys_def Let_def
    by (auto simp: and_then_eq_Inr if_Inl_eq_Inr item_load_eq_Inr update_bridge_state_ok allocate_ticket_ok)
  have ok: "proposal_ok rs t" using v by (simp add: validate_relayers_ok proposal_ok_def)
  let ?s = "s\<lparr>AVAILABLE_TICKETS := Some rest\<rparr>"
  from cr obtain op where op: "queueable (s1\<lparr>AVAILABLE_TICKETS := Some rest\<rparr>) tick op"
    "op_operation_type op = RotateKeys rs t"
    and s': "s' = s1\<lparr>AVAILABLE_TICKETS := Some rest, PENDING_OPERATIONS := kv_save tick op (PENDING_OPERATIONS s)\<rparr>"
    by (rule create_with_ticket) (simp add: s1)
  have "queueable ?s tick op" using op(1) by (simp add: queueable_def s1)
  then have "transition p fin ?s (?s\<lparr>PENDING_OPERATIONS := kv_save tick op (PENDING_OPERATIONS ?s),
       PENDING_ROTATE_KEYS := Some True, CONFIG := Some (c\<lparr>cf_bridge_state := Halted\<rparr>)\<rparr>)"
    using op(2) ok f c by (intro transition.queue_rotation) auto
  moreover have "transitions p fin s ?s" by (intro transitions_books) (simp_all add: only_books_def same_accounts_def)
  ultimately show ?thesis by (rule transitions_via) (simp add: s' s1)
qed

lemma register_xrpl_token_ok:
  assumes "register_xrpl_token p e info s i c sp mx fee = Inr (r, s')"
  obtains d tok tick rest lim s1 where
    "tok = \<lparr>xt_issuer = i, xt_currency = c, xt_cosmos_denom = d, xt_sending_precision = sp,
      xt_max_holding_amount = mx, xt_state = Processing, xt_bridging_fee = fee\<rparr>"
    and "validate_sending_precision sp XRPL_TOKENS_DECIMALS = Inr ()"
    and "validate_xrpl_address p s i = Inr ()" and "validate_xrpl_currency c = Inr ()"
    and "kv_load (build_xrpl_token_key i c) (XRPL_TOKENS s) = None" and "\<not> kv_has d (COSMOS_TOKENS s)"
    and "index_free xt_cosmos_denom (build_xrpl_token_key i c) tok (XRPL_TOKENS s)"
    and "AVAILABLE_TICKETS s = Some (tick # rest)" and "rest \<noteq> []"
    and "s1 = s\<lparr>XRPL_TOKENS := kv_save (build_xrpl_token_key i c) tok (XRPL_TOKENS s), AVAILABLE_TICKETS := Some rest\<rparr>"
    and "create_pending_operation s1 (ev_time_seconds e) (Some tick) None (TrustSet i c lim) = Inr s'"
proof -
  let ?key = "build_xrpl_token_key i c"
  from assms obtain d tok tick lim s1 u1 u2 u3 where
    "tok = \<lparr>xt_issuer = i, xt_currency = c, xt_cosmos_denom = d, xt_sending_precision = sp,
      xt_max_holding_amount = mx, xt_state = Processing, xt_bridging_fee = fee\<rparr>"
    and "validate_sending_precision sp XRPL_TOKENS_DECIMALS = Inr u1"
    and "validate_xrpl_address p s i = Inr u2" and "validate_xrpl_currency c = Inr u3"
    and "\<not> kv_has ?key (XRPL_TOKENS s)" and "\<not> kv_has d (COSMOS_TOKENS s)"
    and "index_free xt_cosmos_denom ?key tok (XRPL_TOKENS s)"
    and al: "allocate_ticket (s\<lparr>XRPL_TOKENS := kv_save ?key tok (XRPL_TOKENS s)\<rparr>) = Inr (tick, s1)"
    and cr: "create_pending_operation s1 (ev_time_seconds e) (Some tick) None (TrustSet i c lim) = Inr s'"
    unfolding register_xrpl_token_def Let_def
    by (simp only: and_then_eq_Inr if_Inl_eq_Inr index_save_eq_Inr split_paired_Ex prod.case prod.inject sum.inject) auto
  moreover from al obtain rest where "AVAILABLE_TICKETS s = Some (tick # rest)" "rest \<noteq> []"
    "s1 = s\<lparr>XRPL_TOKENS := kv_save ?key tok (XRPL_TOKENS s), AVAILABLE_TICKETS := Some rest\<rparr>"
    by (auto simp: allocate_ticket_ok)
  ultimately show thesis using cr by (intro that [of tok d tick rest s1 lim]) (simp_all add: kv_has_def)
qed

lemma register_xrpl_token_transitions:
  assumes "register_xrpl_token p e info s i c sp mx fee = Inr (r, s')"
  shows "transitions p fin s s'"
  using assms
proof (rule register_xrpl_token_ok)
  let ?key = "build_xrpl_token_key i c"
  fix d tok tick rest lim s1
  assume tok: "tok = \<lparr>xt_issuer = i, xt_currency = c, xt_cosmos_denom = d, xt_sending_precision = sp,
      xt_max_holding_amount = mx, xt_state = Processing, xt_bridging_fee = fee\<rparr>"
    and sp: "validate_sending_precision sp XRPL_TOKENS_DECIMALS = Inr ()"
    and va: "validate_xrpl_address p s i = Inr ()" "validate_xrpl_currency c = Inr ()"
    and new: "kv_load ?key (XRPL_TOKENS s) = None"
    and fr: "index_free xt_cosmos_denom ?key tok (XRPL_TOKENS s)"
    and s1: "s1 = s\<lparr>XRPL_TOKENS := kv_save ?key tok (XRPL_TOKENS s), AVAILABLE_TICKETS := Some rest\<rparr>"
    and cr: "create_pending_operation s1 (ev_time_seconds e) (Some tick) None (TrustSet i c lim) = Inr s'"
  let ?s = "s\<lparr>AVAILABLE_TICKETS := Some rest\<rparr>"
  from cr obtain op where op: "queueable s1 tick op" "op_operation_type op = TrustSet i c lim"
    and s': "s' = s1\<lparr>PENDING_OPERATIONS := kv_save tick op (PENDING_OPERATIONS s)\<rparr>"
    by (rule create_with_ticket) (simp add: s1)
  have "transition p fin ?s (?s\<lparr>PENDING_OPERATIONS := kv_save tick op (PENDING_OPERATIONS ?s),
       XRPL_TOKENS := kv_save ?key tok (XRPL_TOKENS ?s)\<rparr>)"
  proof (rule transition.queue_registration)
    show "queueable ?s tick op" using op(1) by (simp add: queueable_def s1)
    show "op_operation_type op = TrustSet (xt_issuer tok) (xt_currency tok) lim" using op(2) tok by simp
    show "precision_in_range (xt_sending_precision tok)" using valid_precision_in_range [OF sp] tok by simp
    show "validate_xrpl_address p ?s (xt_issuer tok) = Inr ()" using va(1) tok by (simp add: validate_xrpl_address_ok)
  qed (use tok new fr va(2) in auto)
  moreover have "transitions p fin s ?s" by (intro transitions_books) (simp_all add: only_books_def same_accounts_def)
  ultimately show ?thesis by (rule transitions_via) (simp add: s' s1)
qed

lemma recover_xrpl_token_registration_ok:
  assumes "recover_xrpl_token_registration p s ts a i c = Inr (r, s')"
  obtains tok tick rest lim s1 where "kv_load (build_xrpl_token_key i c) (XRPL_TOKENS s) = Some tok"
    and "xt_state tok = Inactive"
    and "index_free xt_cosmos_denom (build_xrpl_token_key i c) (tok\<lparr>xt_state := Processing\<rparr>) (XRPL_TOKENS s)"
    and "s1 = s\<lparr>XRPL_TOKENS := kv_save (build_xrpl_token_key i c) (tok\<lparr>xt_state := Processing\<rparr>) (XRPL_TOKENS s),
      AVAILABLE_TICKETS := Some rest\<rparr>"
    and "create_pending_operation s1 ts (Some tick) None (TrustSet i c lim) = Inr s'"
proof -
  let ?key = "build_xrpl_token_key i c"
  from assms obtain tok tick lim s1 where "kv_load ?key (XRPL_TOKENS s) = Some tok" "xt_state tok = Inactive"
    "index_free xt_cosmos_denom ?key (tok\<lparr>xt_state := Processing\<rparr>) (XRPL_TOKENS s)"
    and al: "allocate_ticket (s\<lparr>XRPL_TOKENS := kv_save ?key (tok\<lparr>xt_state := Processing\<rparr>) (XRPL_TOKENS s)\<rparr>) = Inr (tick, s1)"
    and "create_pending_operation s1 ts (Some tick) None (TrustSet i c lim) = Inr s'"
    unfolding recover_xrpl_token_registration_def Let_def
    by (simp only: and_then_eq_Inr if_Inl_eq_Inr index_save_eq_Inr map_err_eq_Inr item_load_eq_Inr
        split_paired_Ex prod.case prod.inject sum.inject) auto
  moreover from al obtain rest where
    "s1 = s\<lparr>XRPL_TOKENS := kv_save ?key (tok\<lparr>xt_state := Processing\<rparr>) (XRPL_TOKENS s), AVAILABLE_TICKETS := Some rest\<rparr>"
    by (auto simp: allocate_ticket_ok)
  ultimately show thesis by (intro that)
qed

lemma recover_xrpl_token_registration_transitions:
  assumes "recover_xrpl_token_registration p s ts a i c = Inr (r, s')"
  shows "transitions p fin s s'"
  using assms
proof (rule recover_xrpl_token_registration_ok)
  let ?key = "build_xrpl_token_key i c"
  fix tok tick rest lim s1
  assume old: "kv_load ?key (XRPL_TOKENS s) = Some tok" and st: "xt_state tok = Inactive"
    and fr: "index_free xt_cosmos_denom ?key (tok\<lparr>xt_state := Processing\<rparr>) (XRPL_TOKENS s)"
    and s1: "s1 = s\<lparr>XRPL_TOKENS := kv_save ?key (tok\<lparr>xt_state := Processing\<rparr>) (XRPL_TOKENS s),
      AVAILABLE_TICKETS := Some rest\<rparr>"
    and cr: "create_pending_operation s1 ts (Some tick) None (TrustSet i c lim) = Inr s'"
  let ?s = "s\<lparr>AVAILABLE_TICKETS := Some rest\<rparr>"
  from cr obtain op where op: "queueable s1 tick op" "op_operation_type op = TrustSet i c lim"
    and s': "s' = s1\<lparr>PENDING_OPERATIONS := kv_save tick op (PENDING_OPERATIONS s)\<rparr>"
    by (rule create_with_ticket) (simp add: s1)
  have "transition p fin ?s (?s\<lparr>PENDING_OPERATIONS := kv_save tick op (PENDING_OPERATIONS ?s),
       XRPL_TOKENS := kv_save ?key (tok\<lparr>xt_state := Processing\<rparr>) (XRPL_TOKENS ?s)\<rparr>)"
  proof (rule transition.queue_recovery)
    show "queueable ?s tick op" using op(1) by (simp add: queueable_def s1)
    show "trust_set_key (op_operation_type op) = Some ?key" using op(2) by simp
  qed (use old st fr in auto)
  moreover have "transitions p fin s ?s" by (intro transitions_books) (simp_all add: only_books_def same_accounts_def)
  ultimately show ?thesis by (rule transitions_via) (simp add: s' s1)
qed

lemma settle_allocation_transitions:
  assumes "kv_load oid (PENDING_OPERATIONS s) = Some op" and "op_operation_type op = AllocateTickets n"
    and "handle_ticket_allocation_confirmation s ts res = Inr s1"
  shows "transitions p fin s (drop_operation oid s1)"
proof -
  from handle_ticket_allocation_frame [OF assms(3)] obtain av used where
    s1: "s1 = s\<lparr>PENDING_TICKET_UPDATE := Some False, AVAILABLE_TICKETS := av, USED_TICKETS_COUNTER := used\<rparr>"
    and k: "AVAILABLE_TICKETS s \<noteq> None \<longrightarrow> av \<noteq> None" "USED_TICKETS_COUNTER s \<noteq> None \<longrightarrow> used \<noteq> None"
    by blast
  let ?s = "s\<lparr>AVAILABLE_TICKETS := av, USED_TICKETS_COUNTER := used\<rparr>"
  have "transition p fin ?s (?s\<lparr>PENDING_OPERATIONS := kv_remove oid (PENDING_OPERATIONS ?s),
       PENDING_TICKET_UPDATE := Some False\<rparr>)"
    by (rule transition.settle_allocation) (use assms(1,2) in auto)
  moreover have "transitions p fin s ?s" by (rule transitions_books) (use k in \<open>simp_all add: only_books_def same_accounts_def\<close>)
  ultimately show ?thesis by (rule transitions_via) (simp add: s1)
qed

lemma settle_trust_set_transitions:
  assumes "kv_load oid (PENDING_OPERATIONS s) = Some op" and "op_operation_type op = TrustSet i c n"
    and "handle_trust_set_confirmation s i c res = Inr s1"
  shows "transitions p fin s (drop_operation oid s1)"
proof -
  let ?key = "build_xrpl_token_key i c" and ?st = "if res = Accepted then Enabled else Inactive"
  from assms(3) obtain tok where tok: "kv_load ?key (XRPL_TOKENS s) = Some tok"
    and fr: "index_free xt_cosmos_denom ?key (tok\<lparr>xt_state := ?st\<rparr>) (XRPL_TOKENS s)"
    and s1: "s1 = s\<lparr>XRPL_TOKENS := kv_save ?key (tok\<lparr>xt_state := ?st\<rparr>) (XRPL_TOKENS s)\<rparr>"
    unfolding handle_trust_set_confirmation_def Let_def
    by (simp only: and_then_eq_Inr map_err_eq_Inr item_load_eq_Inr index_save_eq_Inr) blast
  have "transition p fin s (s\<lparr>PENDING_OPERATIONS := kv_remove oid (PENDING_OPERATIONS s),
       XRPL_TOKENS := kv_save ?key (tok\<lparr>xt_state := ?st\<rparr>) (XRPL_TOKENS s)\<rparr>)"
    by (rule transition.settle_trust_set [OF assms(1) _ tok _ fr]) (auto simp: assms(2))
  then show ?thesis by (rule transitions_to) (simp add: s1)
qed

lemma settle_rotation_transitions:
  assumes "kv_load oid (PENDING_OPERATIONS s) = Some op" and "op_operation_type op = RotateKeys rs t"
    and "handle_rotate_keys_confirmation s rs t res = Inr s1"
  shows "transitions p fin s (drop_operation oid s1)"
proof (cases "res = Accepted")
  case True
  with assms(3) obtain c where c: "CONFIG s = Some c"
    and s1: "s1 = s\<lparr>CONFIG := Some (c\<lparr>cf_relayers := rs, cf_evidence_threshold := t\<rparr>),
      TX_EVIDENCES := kv_empty, PENDING_ROTATE_KEYS := Some False\<rparr>"
    by (auto simp: handle_rotate_keys_confirmation_def result_simps)
  from transition.settle_rotation_accepted [OF assms(1,2) c] show ?thesis
    by (rule transitions_to) (simp add: s1)
next
  case False
  with assms(3) have s1: "s1 = s\<lparr>PENDING_ROTATE_KEYS := Some False\<rparr>"
    by (auto simp: handle_rotate_keys_confirmation_def)
  have "transition p fin s (s\<lparr>PENDING_OPERATIONS := kv_remove oid (PENDING_OPERATIONS s), PENDING_ROTATE_KEYS := Some False\<rparr>)"
    by (rule transition.settle_rotation_refused [OF assms(1)]) (simp add: assms(2))
  then show ?thesis by (rule transitions_to) (simp add: s1)
qed

lemma settle_transfer_transitions:
  assumes "kv_load oid (PENDING_OPERATIONS s) = Some op" and "is_transfer (op_operation_type op)"
    and "handle_cosmos_to_xrpl_transfer_confirmation s res h oid tf b resp = Inr (m, r, s1)"
  shows "transitions p True s (drop_operation oid s1)"
proof -
  from transfer_confirmation_frame [OF assms(3)] obtain x where s1: "s1 = s\<lparr>PENDING_REFUNDS := x\<rparr>"
    and x: "refund_keys (PENDING_REFUNDS s) \<longrightarrow> refund_keys x" by blast
  have "transition p True s1 (drop_operation oid s1)"
    by (rule transition.settle_transfer) (use assms(1,2) s1 in auto)
  moreover have "transitions p True s s1" by (rule transitions_books) (use x in \<open>simp_all add: only_books_def s1\<close>)
  ultimately show ?thesis by (rule transitions_via) simp
qed

lemma released_transitions:
  assumes "transitions p fin s (drop_operation oid s1)" and "released oid tick res s1 s'"
  shows "transitions p fin s s'"
proof -
  from assms(2) have "only_books (drop_operation oid s1) s'" and "same_accounts (drop_operation oid s1) s'"
    by (auto simp: released_def only_books_def same_accounts_def return_ticket_ok split: option.splits if_splits)
  then have "transitions p fin (drop_operation oid s1) s'" by (simp add: transitions_books)
  with assms(1) show ?thesis by (rule rtranclp_trans)
qed

lemma handle_operation_transitions:
  assumes op: "kv_load oid (PENDING_OPERATIONS s) = Some op"
    and "handle_operation s op ores res h oid tick tf b resp = Inr (m, r, s')"
  shows "transitions p True s s'"
  using assms(2)
proof (cases rule: handle_operation_cases)
  case (allocation n ts s1)
  from settle_allocation_transitions [OF op allocation(1,4)] allocation(5) show ?thesis
    by (rule released_transitions)
next
  case (trust_set i c n s1)
  from settle_trust_set_transitions [OF op trust_set(1,4)] trust_set(5) show ?thesis
    by (rule released_transitions)
next
  case (rotation rs t s1)
  from settle_rotation_transitions [OF op rotation(1,4)] rotation(5) show ?thesis
    by (rule released_transitions)
next
  case (transfer s1)
  from settle_transfer_transitions [OF op transfer(1,2)] transfer(3) show ?thesis
    by (rule released_transitions)
qed

lemma check_operation_exists_ok [result_simps]:
  "check_operation_exists s oid = Inr op \<longleftrightarrow> kv_load oid (PENDING_OPERATIONS s) = Some op"
  by (simp add: check_operation_exists_def map_err_eq_Inr item_load_eq_Inr)

lemma cancel_pending_operation_transitions:
  assumes "cancel_pending_operation p e s a oid = Inr (r, s')"
  shows "transitions p True s s'"
proof -
  from assms obtain op ores m r0 and c :: config where "kv_load oid (PENDING_OPERATIONS s) = Some op"
    "handle_operation s op ores Invalid None oid (op_ticket_sequence op) (cf_token_factory_addr c)
      (ev_contract_address e) response_new = Inr (m, r0, s')"
    unfolding cancel_pending_operation_def Let_def
    by (simp only: and_then_eq_Inr check_operation_exists_ok split_paired_Ex prod.case prod.inject sum.inject) blast
  then show ?thesis by (rule handle_operation_transitions)
qed

section \<open>Evidences\<close>

lemma handle_fee_collection_books:
  assumes "handle_fee_collection s fee d rem = Inr (c, s')"
  shows "\<exists>fc fr. s' = s\<lparr>FEES_COLLECTED := fc, FEE_REMAINDERS := fr\<rparr>"
  using assms collect_fees_frame by (auto simp: handle_fee_collection_def and_then_eq_Inr)

lemma receive_xrpl_originated_frame:
  assumes "receive_xrpl_originated p e s c i cur am rcp memo reached resp = Inr (r, s')"
  shows "\<exists>fc fr. s' = s\<lparr>FEES_COLLECTED := fc, FEE_REMAINDERS := fr\<rparr>"
proof (cases reached)
  case True
  with assms obtain tok :: xrpl_token and rem fee
    where "handle_fee_collection s (xt_bridging_fee tok) (xt_cosmos_denom tok) rem = Inr (fee, s')"
    unfolding receive_xrpl_originated_def Let_def
    by (simp only: and_then_eq_Inr if_Inl_eq_Inr if_True split_paired_Ex prod.case prod.inject sum.inject) blast
  then show ?thesis by (rule handle_fee_collection_books)
next
  case False
  with assms have "s' = s"
    unfolding receive_xrpl_originated_def Let_def
    by (simp only: and_then_eq_Inr if_Inl_eq_Inr if_False split_paired_Ex prod.case prod.inject sum.inject) blast
  then have "s' = s\<lparr>FEES_COLLECTED := FEES_COLLECTED s, FEE_REMAINDERS := FEE_REMAINDERS s\<rparr>" by simp
  then show ?thesis by blast
qed

lemma receive_cosmos_originated_frame:
  assumes "receive_cosmos_originated s c i cur am rcp memo reached resp = Inr (r, s')"
  shows "\<exists>fc fr. s' = s\<lparr>FEES_COLLECTED := fc, FEE_REMAINDERS := fr\<rparr>"
proof -
  from assms obtain k tok where tok: "index_item ct_xrpl_currency cur (COSMOS_TOKENS s) = Some (k, tok)"
    by (auto simp: receive_cosmos_originated_def split: option.splits)
  show ?thesis
  proof (cases reached)
    case True
    with assms tok obtain rem fee where "handle_fee_collection s (ct_bridging_fee tok) (ct_denom tok) rem = Inr (fee, s')"
      by (auto simp: receive_cosmos_originated_def and_then_eq_Inr if_Inl_eq_Inr)
    then show ?thesis by (rule handle_fee_collection_books)
  next
    case False
    with assms tok have "s' = s"
      by (auto simp: receive_cosmos_originated_def and_then_eq_Inr if_Inl_eq_Inr)
    then have "s' = s\<lparr>FEES_COLLECTED := FEES_COLLECTED s, FEE_REMAINDERS := FEE_REMAINDERS s\<rparr>" by simp
    then show ?thesis by blast
  qed
qed

lemma receive_transfer_frame:
  assumes "receive_transfer p e s c h i cur am rcp memo reached resp = Inr (r, s')"
  shows "\<exists>fc fr. s' = s\<lparr>FEES_COLLECTED := fc, FEE_REMAINDERS := fr\<rparr>"
  using assms receive_xrpl_originated_frame receive_cosmos_originated_frame
  by (cases "i = cf_bridge_xrpl_address c") (fastforce simp: receive_transfer_def Let_def and_then_eq_Inr if_Inl_eq_Inr)+

lemma receive_transfer_transitions:
  assumes "receive_transfer p e s c h i cur am rcp memo reached resp = Inr (r, s')"
  shows "transitions p True s s'"
proof -
  have "only_books s s'" using receive_transfer_frame [OF assms] by (auto simp: only_books_def)
  then show ?thesis by (simp add: transitions_books)
qed

lemma receive_transaction_result_transitions:
  assumes "receive_transaction_result e s c h acc tick res ores reached resp = Inr (r, s')"
  shows "transitions p True s s'"
proof -
  from assms obtain oid op m r0 where op: "kv_load oid (PENDING_OPERATIONS s) = Some op"
    and ap: "(if reached then apply_transaction_result e s c op h oid tick res ores resp else Inr ([], resp, s)) = Inr (m, r0, s')"
    unfolding receive_transaction_result_def
    by (simp only: and_then_eq_Inr if_Inl_eq_Inr check_operation_exists_ok split_paired_Ex prod.case prod.inject sum.inject) blast
  show ?thesis
  proof (cases reached)
    case True
    with ap obtain m1 r1 s1 where ho: "handle_operation s op ores res h oid tick (cf_token_factory_addr c)
        (ev_contract_address e) resp = Inr (m1, r1, s1)"
      and rest: "s' = s1 \<or> (\<exists>ok. register_used_ticket s1 (ev_time_seconds e) = Inr (ok, s'))"
      by (auto simp: apply_transaction_result_def and_then_eq_Inr split: if_splits)
    from handle_operation_transitions [OF op ho] rest register_used_ticket_transitions show ?thesis
      by (metis rtranclp_trans)
  next
    case False
    with ap show ?thesis by simp
  qed
qed

lemma received_transitions:
  assumes "(case ev of
        XRPLToCosmosTransfer h i cur am rcp memo \<Rightarrow> receive_transfer p e s1 c h i cur am rcp memo reached resp
      | XRPLTransactionResult h acc tick res ores \<Rightarrow>
          receive_transaction_result e s1 c h acc tick res ores reached resp) = Inr (r, s')"
  shows "transitions p True s1 s'"
  using assms receive_transfer_transitions receive_transaction_result_transitions by (cases ev) auto

lemma save_evidence_transitions:
  assumes "save_evidence p e s a ev = Inr (r, s')"
  shows "transitions p True s s'"
proof -
  from assms obtain u c reached s1 resp where rel: "check_authorization p s a CA_SaveEvidence = Inr u"
    and v: "handle_evidence p s a ev = Inr (reached, s1)"
    and rest: "(case ev of
        XRPLToCosmosTransfer h i cur am rcp memo \<Rightarrow> receive_transfer p e s1 c h i cur am rcp memo reached resp
      | XRPLTransactionResult h acc tick res ores \<Rightarrow>
          receive_transaction_result e s1 c h acc tick res ores reached resp) = Inr (r, s')"
    unfolding save_evidence_def Let_def
    by (simp only: and_then_eq_Inr split_paired_Ex prod.case) blast
  from rel have "a \<in> set (relayer_addresses s)" by (simp add: check_authorization_ok)
  with v have "transitions p True s s1" by (intro transitions_step transition.vote)
  moreover have "transitions p True s1 s'" using rest by (rule received_transitions)
  ultimately show ?thesis by (rule rtranclp_trans)
qed

section \<open>Sending\<close>

lemma plan_xrpl_originated_frame:
  assumes "plan_xrpl_originated s tok am dl = Inr (plan, s')"
  shows "\<exists>fc fr. s' = s\<lparr>FEES_COLLECTED := fc, FEE_REMAINDERS := fr\<rparr>"
proof -
  from assms obtain rem fee where "handle_fee_collection s (xt_bridging_fee tok) (xt_cosmos_denom tok) rem = Inr (fee, s')"
    unfolding plan_xrpl_originated_def Let_def
    by (simp only: and_then_eq_Inr if_Inl_eq_Inr split_paired_Ex prod.case prod.inject sum.inject) blast
  then show ?thesis by (rule handle_fee_collection_books)
qed

lemma plan_cosmos_originated_frame:
  assumes "plan_cosmos_originated p e s funds dl = Inr (plan, s')"
  shows "\<exists>fc fr. s' = s\<lparr>FEES_COLLECTED := fc, FEE_REMAINDERS := fr\<rparr>"
proof -
  from assms obtain tok :: cosmos_token and rem fee
    where "handle_fee_collection s (ct_bridging_fee tok) (ct_denom tok) rem = Inr (fee, s')"
    unfolding plan_cosmos_originated_def Let_def
    by (simp only: and_then_eq_Inr if_Inl_eq_Inr split_paired_Ex prod.case prod.inject sum.inject) blast
  then show ?thesis by (rule handle_fee_collection_books)
qed

definition plan_transfer ::
  "platform \<Rightarrow> env \<Rightarrow> storage \<Rightarrow> coin \<Rightarrow> u128 option \<Rightarrow> (transfer_plan \<times> storage) result" where
  "plan_transfer p e s funds dl =
     (case index_item xt_cosmos_denom (c_denom funds) (XRPL_TOKENS s) of
        Some (_, tok) \<Rightarrow> plan_xrpl_originated s tok (c_amount funds) dl
      | None \<Rightarrow> plan_cosmos_originated p e s funds dl)"

lemma plan_transfer_frame:
  assumes "plan_transfer p e s funds dl = Inr (plan, s')"
  shows "\<exists>fc fr. s' = s\<lparr>FEES_COLLECTED := fc, FEE_REMAINDERS := fr\<rparr>"
  using assms plan_xrpl_originated_frame plan_cosmos_originated_frame
  by (auto simp: plan_transfer_def split: option.splits)

text \<open>The stages of \<open>send_to_xrpl\<close>.\<close>

lemma send_to_xrpl_ok:
  assumes "send_to_xrpl p e info s rcp dl = Inr (r, s')"
  obtains c funds plan s1 ticket rest where "CONFIG s = Some c" and "cf_bridge_state c = Active"
    and "one_coin p (mi_funds info) = Inr funds" and "validate_xrpl_address p s rcp = Inr ()"
    and "plan_transfer p e s funds dl = Inr (plan, s1)" and "validate_plan plan = Inr ()"
    and "AVAILABLE_TICKETS s1 = Some (ticket # rest)" and "rest \<noteq> []"
    and "create_pending_operation (s1\<lparr>AVAILABLE_TICKETS := Some rest\<rparr>) (ev_time_seconds e) (Some ticket) None
      (CosmosToXRPLTransfer (tp_issuer plan) (tp_currency plan) (tp_amount plan) (tp_max_amount plan)
        (mi_sender info) rcp) = Inr s'"
    and "r = add_messages (send_packet_msgs c (build_xrpl_token_key (tp_issuer plan) (tp_currency plan))
        (tp_limit_amount plan))
      (add_attributes [(''action'', action_as_str CA_SendToXRPL), (''sender'', as_str (mi_sender info)),
        (''recipient'', rcp), (''coin'', coin_to_string funds)] response_new)"
proof -
  from assms obtain c funds plan s1 ticket rest c' u u' where
    c: "CONFIG s = Some c" "cf_bridge_state c = Active"
    and *: "from_payment (one_coin p (mi_funds info)) = Inr funds" "validate_xrpl_address p s rcp = Inr u"
    "plan_transfer p e s funds dl = Inr (plan, s1)" "validate_plan plan = Inr u'"
    "AVAILABLE_TICKETS s1 = Some (ticket # rest)" "rest \<noteq> []"
    "create_pending_operation (s1\<lparr>AVAILABLE_TICKETS := Some rest\<rparr>) (ev_time_seconds e) (Some ticket) None
      (CosmosToXRPLTransfer (tp_issuer plan) (tp_currency plan) (tp_amount plan) (tp_max_amount plan)
        (mi_sender info) rcp) = Inr s'"
    and c': "CONFIG s' = Some c'"
    and r: "r = add_messages (send_packet_msgs c' (build_xrpl_token_key (tp_issuer plan) (tp_currency plan))
        (tp_limit_amount plan))
      (add_attributes [(''action'', action_as_str CA_SendToXRPL), (''sender'', as_str (mi_sender info)),
        (''recipient'', rcp), (''coin'', coin_to_string funds)] response_new)"
    unfolding send_to_xrpl_def plan_transfer_def [symmetric] Let_def
    by (simp only: and_then_eq_Inr if_Inl_eq_Inr assert_bridge_active_ok allocate_ticket_ok item_load_eq_Inr
        split_paired_Ex prod.case prod.inject sum.inject) blast
  from * have f: "one_coin p (mi_funds info) = Inr funds" by (simp add: from_payment_def split: sum.splits)
  have "CONFIG s' = CONFIG s1" using *(7) by (rule create_with_ticket) simp
  also have "\<dots> = CONFIG s" using plan_transfer_frame [OF *(3)] by auto
  finally have "c' = c" using c' c by simp
  show thesis by (rule that [OF c f _ *(3) _ *(5-7)]) (use *(2,4) r \<open>c' = c\<close> in simp_all)
qed

lemma send_to_xrpl_transitions:
  assumes "send_to_xrpl p e info s rcp dl = Inr (r, s')"
  shows "transitions p True s s'"
  using assms
proof (rule send_to_xrpl_ok)
  fix c funds plan s1 ticket rest
  assume c: "CONFIG s = Some c" "cf_bridge_state c = Active"
    and pl: "plan_transfer p e s funds dl = Inr (plan, s1)"
    and cr: "create_pending_operation (s1\<lparr>AVAILABLE_TICKETS := Some rest\<rparr>) (ev_time_seconds e) (Some ticket) None
      (CosmosToXRPLTransfer (tp_issuer plan) (tp_currency plan) (tp_amount plan) (tp_max_amount plan)
        (mi_sender info) rcp) = Inr s'"
  let ?s = "s1\<lparr>AVAILABLE_TICKETS := Some rest\<rparr>"
  have fr: "only_books s ?s" using plan_transfer_frame [OF pl] by (auto simp: only_books_def)
  from cr obtain op where op: "queueable ?s ticket op" "is_transfer (op_operation_type op)"
    and s': "s' = ?s\<lparr>PENDING_OPERATIONS := kv_save ticket op (PENDING_OPERATIONS ?s)\<rparr>"
    by (rule create_with_ticket) simp
  have "CONFIG ?s = Some c" using fr c(1) by (simp add: only_books_def)
  from transition.queue_transfer [OF op this c(2)] have "transition p True ?s s'" by (simp add: s')
  moreover have "transitions p True s ?s" using fr by (simp add: transitions_books)
  ultimately show ?thesis by (rule_tac transitions_then)
qed

section \<open>The entry point\<close>

lemmas handler_transitions =
  halt_bridge_transitions resume_bridge_transitions update_ownership_transitions
  update_used_ticket_sequence_threshold_transitions update_prohibited_transitions
  claim_relayer_fees_transitions claim_pending_refund_transitions recover_tickets_transitions
  register_cosmos_token_transitions update_xrpl_token_transitions update_cosmos_token_transitions
  save_signature_transitions update_xrpl_base_fee_transitions rotate_keys_transitions
  register_xrpl_token_transitions recover_xrpl_token_registration_transitions
  cancel_pending_operation_transitions save_evidence_transitions send_to_xrpl_transitions

lemma execute_transitions: "execute p e info s msg = Inr (r, s') \<Longrightarrow> transitions p True s s'"
  by (cases msg) (auto intro: handler_transitions dest!: unchanged_transitions)

end
