(* ===== verification/Reachability.thy ===== *)
theory Reachability
  imports Bridge_Prelude
begin

text \<open>
  State machines in general: reachable states, invariants and relations that every step respects.
  The locales are the obligations of a proof by induction over runs; the bridge's theories
  interpret them on the contract's steps.
\<close>

inductive reach :: "('s \<Rightarrow> bool) \<Rightarrow> ('s \<Rightarrow> 's \<Rightarrow> bool) \<Rightarrow> 's \<Rightarrow> bool"
  for init :: "'s \<Rightarrow> bool" and step :: "'s \<Rightarrow> 's \<Rightarrow> bool"
where
  reach_init: "init s \<Longrightarrow> reach init step s"
| reach_step: "reach init step s \<Longrightarrow> step s s' \<Longrightarrow> reach init step s'"

lemma reach_steps:
  assumes "reach init step s" and "step\<^sup>*\<^sup>* s s'"
  shows "reach init step s'"
  using assms(2,1) by (induction rule: rtranclp_induct) (auto intro: reach_step)

locale invariant_of =
  fixes init :: "'s \<Rightarrow> bool"
    and step :: "'s \<Rightarrow> 's \<Rightarrow> bool"
    and inv :: "'s \<Rightarrow> bool"
  assumes holds_initially: "init s \<Longrightarrow> inv s"
    and kept_by_step: "step s s' \<Longrightarrow> inv s \<Longrightarrow> inv s'"
begin

lemma holds_when_reached: "reach init step s \<Longrightarrow> inv s"
  by (induction rule: reach.induct) (auto intro: holds_initially kept_by_step)

lemma kept_by_steps: "step\<^sup>*\<^sup>* s s' \<Longrightarrow> inv s \<Longrightarrow> inv s'"
  by (induction rule: rtranclp_induct) (auto intro: kept_by_step)

end

text \<open>A reflexive and transitive relation that every step respects, such as growth of a set.\<close>

locale respected_by =
  fixes step :: "'s \<Rightarrow> 's \<Rightarrow> bool"
    and rel :: "'s \<Rightarrow> 's \<Rightarrow> bool"
  assumes rel_refl: "rel s s"
    and rel_trans: "rel s s' \<Longrightarrow> rel s' s'' \<Longrightarrow> rel s s''"
    and step_rel: "step s s' \<Longrightarrow> rel s s'"
begin

lemma steps_rel: "step\<^sup>*\<^sup>* s s' \<Longrightarrow> rel s s'"
  by (induction rule: rtranclp_induct) (auto intro: rel_refl rel_trans step_rel)

end

end
