(* ===== verification/Bridge_Invariants.thy ===== *)
theory Bridge_Invariants
  imports Bridge_Machine Reachability
begin

text \<open>
  The invariants of the bridge: every state that calls of \<open>execute\<close> and \<open>reply\<close> reach from a
  successful \<open>instantiate\<close> satisfies them, whatever the platform answers at each call. They are
  proved per transition of \<open>Bridge_Machine\<close>. A migration replaces the configuration without any
  check and is not a step here.
\<close>

section \<open>Runs of the contract\<close>

definition deployed :: "storage \<Rightarrow> bool" where
  "deployed s \<longleftrightarrow> (\<exists>p info msg r. instantiate p info empty_storage msg = Inr (r, s))"

inductive bridge_step :: "storage \<Rightarrow> storage \<Rightarrow> bool" where
  executed: "execute p e info s msg = Inr (r, s') \<Longrightarrow> bridge_step s s'"
| replied: "reply s rm = Inr (r, s') \<Longrightarrow> bridge_step s s'"

abbreviation reachable :: "storage \<Rightarrow> bool" where
  "reachable \<equiv> reach deployed bridge_step"

lemma reply_ok:
  assumes "reply s rm = Inr (r, s')"
  shows "s' = s \<or> s' = s\<lparr>TEMP_UNIVERSAL_SWAP := None\<rparr>"
  using assms by (auto simp: reply_def and_then_eq_Inr split: sum.splits if_splits)

text \<open>What an invariant of the bridge has to satisfy; \<open>reply\<close> changes one field only.\<close>

locale bridge_invariant =
  fixes inv :: "storage \<Rightarrow> bool"
  assumes inv_deployed: "deployed s \<Longrightarrow> inv s"
    and inv_transition: "transition p fin s s' \<Longrightarrow> inv s \<Longrightarrow> inv s'"
    and inv_reply: "inv s \<Longrightarrow> inv (s\<lparr>TEMP_UNIVERSAL_SWAP := None\<rparr>)"
begin

lemma inv_transitions: "transitions p fin s s' \<Longrightarrow> inv s \<Longrightarrow> inv s'"
  by (induction rule: rtranclp_induct) (auto intro: inv_transition)

lemma inv_execute: "execute p e info s msg = Inr (r, s') \<Longrightarrow> inv s \<Longrightarrow> inv s'"
  by (rule inv_transitions [OF execute_transitions])

end

sublocale bridge_invariant \<subseteq> invariant_of deployed bridge_step inv
proof unfold_locales
  fix s s'
  show "bridge_step s s' \<Longrightarrow> inv s \<Longrightarrow> inv s'"
    by (erule bridge_step.cases) (use inv_execute inv_reply reply_ok in blast)+
qed (rule inv_deployed)

text \<open>The state right after instantiation.\<close>

lemma instantiate_ok:
  assumes "instantiate p info empty_storage msg = Inr (r, s)"
  obtains own proh where
    "s = empty_storage\<lparr>CONTRACT_INFO := Some (CONTRACT_NAME, CONTRACT_VERSION), OWNERSHIP := own,
      PROHIBITED_XRPL_ADDRESSES := kv_save (im_bridge_xrpl_address msg) () proh,
      USED_TICKETS_COUNTER := Some 0, PENDING_TICKET_UPDATE := Some False,
      PENDING_ROTATE_KEYS := Some False, AVAILABLE_TICKETS := Some [],
      CONFIG := Some (initial_config msg),
      XRPL_TOKENS := kv_save (build_xrpl_token_key XRP_ISSUER XRP_CURRENCY)
        (xrp_token (im_token_factory_addr msg)) kv_empty\<rparr>"
    and "proposal_ok (im_relayers msg) (im_evidence_threshold msg)"
    and "validate_xrpl_address_format p (im_bridge_xrpl_address msg) = Inr ()"
    and "proh = fold (\<lambda>a. kv_save a ()) INITIAL_PROHIBITED_XRPL_ADDRESSES kv_empty"
    and "1 < im_used_ticket_sequence_threshold msg" "im_used_ticket_sequence_threshold msg \<le> 250"
    and "validate_xrpl_amount (im_trust_set_limit_amount msg) = Inr ()"
  using assms
  by (auto simp: instantiate_def Let_def and_then_eq_Inr if_Inl_eq_Inr index_save_eq_Inr
      validate_relayers_ok proposal_ok_def initial_config_def empty_storage_def MAX_TICKETS_def not_le not_less
      intro!: that)


lemma handle_evidence_frame:
  assumes "handle_evidence p s a ev = Inr (reached, s')"
  shows "\<exists>te pt. s' = s\<lparr>TX_EVIDENCES := te, PROCESSED_TXS := pt\<rparr>"
  using assms
proof (rule handle_evidence_cases)
  fix h
  assume "\<not> reached \<Longrightarrow> s' = s\<lparr>TX_EVIDENCES := kv_save h (votes p s ev @ [a]) (TX_EVIDENCES s)\<rparr>"
    and "reached \<Longrightarrow> s' = s\<lparr>PROCESSED_TXS := processed_after ev (PROCESSED_TXS s),
      TX_EVIDENCES := (if votes p s ev = [] then TX_EVIDENCES s else kv_remove h (TX_EVIDENCES s))\<rparr>"
  then have "s' = s\<lparr>TX_EVIDENCES := TX_EVIDENCES s', PROCESSED_TXS := PROCESSED_TXS s'\<rparr>"
    by (cases reached) auto
  then show ?thesis by blast
qed

section \<open>Pending operations and the relayer set\<close>

text \<open>
  An operation is stored under its ticket or account number, its signatures come from distinct
  relayers, and a proposed relayer set is a valid one; so is the current set.
\<close>

definition operation_ok :: "u64 \<Rightarrow> operation \<Rightarrow> bool" where
  "operation_ok oid op \<longleftrightarrow>
     ((op_ticket_sequence op = Some oid \<and> op_account_sequence op = None) \<or>
      (op_ticket_sequence op = None \<and> op_account_sequence op = Some oid \<and> is_allocation (op_operation_type op))) \<and>
     1 \<le> unat (op_version op) \<and> distinct (signers op) \<and>
     (\<forall>sg \<in> set (op_signatures op). length (sg_signature sg) \<le> 200) \<and>
     (\<exists>ts. op_id op = operation_unique_id ts oid) \<and>
     (\<forall>rs t. op_operation_type op = RotateKeys rs t \<longrightarrow> proposal_ok rs t)"

definition operations_ok :: "storage \<Rightarrow> bool" where
  "operations_ok s \<longleftrightarrow>
     (\<forall>oid op. kv_load oid (PENDING_OPERATIONS s) = Some op \<longrightarrow> operation_ok oid op) \<and>
     (\<forall>c. CONFIG s = Some c \<longrightarrow> proposal_ok (cf_relayers c) (cf_evidence_threshold c))"

lemma operations_okI:
  assumes "operations_ok s" and "CONFIG s' = CONFIG s"
    and "\<And>oid op. kv_load oid (PENDING_OPERATIONS s') = Some op \<Longrightarrow>
      kv_load oid (PENDING_OPERATIONS s) = Some op \<or> operation_ok oid op"
  shows "operations_ok s'"
  using assms unfolding operations_ok_def by metis

lemma queueable_operation_ok:
  assumes "queueable s oid op" and "\<And>rs t. op_operation_type op = RotateKeys rs t \<Longrightarrow> proposal_ok rs t"
  shows "operation_ok oid op"
  using assms by (auto simp: queueable_def operation_ok_def signers_def)

lemma renewed_operation_ok:
  assumes "renewed f op op'" and "operation_ok oid op"
  shows "operation_ok oid op'"
proof -
  from assms(1) obtain v where "op' = op\<lparr>op_version := v, op_signatures := [], op_xrpl_base_fee := f\<rparr>"
    and "unat v = unat (op_version op) + 1"
    unfolding renewed_def by blast
  with assms(2) show ?thesis by (simp add: operation_ok_def signers_def)
qed

lemma operations_ok_transition:
  assumes "transition p fin s s'" and "operations_ok s"
  shows "operations_ok s'"
  using assms(1)
proof (cases rule: transition.cases)
  case books
  with assms(2) show ?thesis by (simp add: operations_ok_def only_books_def)
next
  case vote
  from handle_evidence_frame [OF vote(1)] assms(2) show ?thesis by (auto simp: operations_ok_def)
next
  case (renew m f)
  have "operation_ok oid op'" if m: "kv_load oid m = Some op'" for oid op'
  proof -
    from m renew(2) [of oid] obtain op where op: "kv_load oid (PENDING_OPERATIONS s) = Some op"
      by (cases "kv_load oid (PENDING_OPERATIONS s)") auto
    with assms(2) have "operation_ok oid op" by (simp add: operations_ok_def)
    with renew(3) [OF op m] show ?thesis by (rule renewed_operation_ok)
  qed
  with renew(1) show ?thesis using assms(2) by (intro operations_okI [OF assms(2)]) auto
next
  case (sign oid op sg)
  from sign(2) assms(2) have "operation_ok oid op" by (simp add: operations_ok_def)
  with sign(3,4) have "operation_ok oid (op\<lparr>op_signatures := op_signatures op @ [sg]\<rparr>)"
    by (auto simp: operation_ok_def signers_def)
  with sign(1) show ?thesis by (intro operations_okI [OF assms(2)]) (auto split: if_splits)
next
  case (settle_rotation_accepted oid op rs t c)
  with assms(2) have "proposal_ok rs t" unfolding operations_ok_def operation_ok_def by blast
  with settle_rotation_accepted assms(2) show ?thesis by (auto simp: operations_ok_def split: if_splits)
qed (use assms(2) in \<open>auto simp: operations_ok_def intro: queueable_operation_ok split: if_splits\<close>)


lemma empty_storage_simps [simp]:
  "PENDING_OPERATIONS empty_storage = kv_empty" "TX_EVIDENCES empty_storage = kv_empty"
  "COSMOS_TOKENS empty_storage = kv_empty" "PROCESSED_TXS empty_storage = kv_empty"
  "TEMP_UNIVERSAL_SWAP empty_storage = None"
  by (simp_all add: empty_storage_def)

lemma operations_ok_deployed: "deployed s \<Longrightarrow> operations_ok s"
  unfolding deployed_def by (elim exE instantiate_ok) (simp add: operations_ok_def initial_config_def)

interpretation operations: bridge_invariant operations_ok
  using operations_ok_deployed operations_ok_transition
  by unfold_locales (blast | simp add: operations_ok_def)+

section \<open>Flags\<close>

text \<open>
  The two flags count the operations they announce: at most one ticket allocation and at most one
  key rotation is pending, exactly when the flag is set, and the bridge is halted while keys
  rotate.
\<close>

definition kind_count :: "(operation_type \<Rightarrow> bool) \<Rightarrow> (u64, operation) kv \<Rightarrow> nat" where
  "kind_count P m = kv_count (\<lambda>op. P (op_operation_type op)) m"

abbreviation pending_kind :: "(operation_type \<Rightarrow> bool) \<Rightarrow> storage \<Rightarrow> nat" where
  "pending_kind P s \<equiv> kind_count P (PENDING_OPERATIONS s)"

definition flags_ok :: "storage \<Rightarrow> bool" where
  "flags_ok s \<longleftrightarrow>
     CONFIG s \<noteq> None \<and> pending_kind is_allocation s \<le> 1 \<and> pending_kind is_rotation s \<le> 1 \<and>
     PENDING_TICKET_UPDATE s = Some (pending_kind is_allocation s = 1) \<and>
     PENDING_ROTATE_KEYS s = Some (pending_kind is_rotation s = 1) \<and>
     (\<forall>c. CONFIG s = Some c \<longrightarrow> pending_kind is_rotation s = 1 \<longrightarrow> cf_bridge_state c = Halted)"

lemma kinds_exclusive:
  "is_transfer ty \<Longrightarrow> \<not> is_allocation ty \<and> \<not> is_rotation ty"
  "is_allocation ty \<Longrightarrow> \<not> is_rotation ty"
  "trust_set_key ty = Some k \<Longrightarrow> \<not> is_allocation ty \<and> \<not> is_rotation ty"
  by (cases ty; simp)+

lemma kind_count_changes:
  "queueable s oid op \<Longrightarrow>
     kind_count P (kv_save oid op (PENDING_OPERATIONS s)) = pending_kind P s + of_bool (P (op_operation_type op))"
  "kv_load oid m = Some op \<Longrightarrow> kind_count P (kv_remove oid m) = kind_count P m - of_bool (P (op_operation_type op))"
  "kv_load oid m = Some op \<Longrightarrow> kind_count P (kv_save oid (op\<lparr>op_signatures := x\<rparr>) m) = kind_count P m"
  "kind_count P kv_empty = 0"
  by (simp_all add: kind_count_def kv_count_save_new queueable_def kv_count_remove kv_count_save_same)

lemma kind_count_pos:
  "kv_load oid m = Some op \<Longrightarrow> P (op_operation_type op) \<Longrightarrow> 0 < kind_count P m"
  unfolding kind_count_def by (rule kv_count_pos)

lemma renewed_type: "renewed f op op' \<Longrightarrow> op_operation_type op' = op_operation_type op"
  unfolding renewed_def by (metis operation.select_convs(6) operation.surjective operation.update_convs(2,5,7))

lemma kind_count_renew:
  assumes "\<And>oid. (kv_load oid m = None) = (kv_load oid m0 = None)"
    and "\<And>oid op op'. kv_load oid m0 = Some op \<Longrightarrow> kv_load oid m = Some op' \<Longrightarrow> renewed f op op'"
  shows "kind_count P m = kind_count P m0"
  unfolding kind_count_def
proof (rule kv_count_eq)
  fix k v w
  assume "kv_load k m = Some v" and "kv_load k m0 = Some w"
  then have "op_operation_type v = op_operation_type w" using assms(2) [of k w v] renewed_type by simp
  then show "P (op_operation_type v) = P (op_operation_type w)" by simp
qed (rule assms(1))

lemma flags_ok_transition:
  assumes "transition p fin s s'" and "flags_ok s"
  shows "flags_ok s'"
  using assms(1)
proof (cases rule: transition.cases)
  case books
  with assms(2) show ?thesis by (simp add: flags_ok_def only_books_def)
next
  case vote
  from handle_evidence_frame [OF vote(1)] assms(2) show ?thesis by (auto simp: flags_ok_def)
next
  case (renew m f)
  have "kind_count P m = pending_kind P s" for P using renew(2,3) by (rule kind_count_renew)
  with renew(1) assms(2) show ?thesis by (simp add: flags_ok_def)
next
  case (configure c b f t)
  with assms(2) show ?thesis by (cases b) (auto simp: flags_ok_def)
next
  case (settle_rotation_accepted oid op rs t c)
  with assms(2) kind_count_pos [OF settle_rotation_accepted(2), of is_rotation] show ?thesis
    by (auto simp: flags_ok_def kind_count_changes)
next
  case (settle_rotation_refused oid op)
  with assms(2) kind_count_pos [where P = is_rotation, OF settle_rotation_refused(2,3)] show ?thesis
    by (auto simp: flags_ok_def kind_count_changes dest: kinds_exclusive)
next
  case (settle_allocation oid op)
  with assms(2) kind_count_pos [where P = is_allocation, OF settle_allocation(2,3)] show ?thesis
    by (auto simp: flags_ok_def kind_count_changes kinds_exclusive)
qed (use assms(2) in \<open>auto simp: flags_ok_def kind_count_changes le_Suc_eq kinds_exclusive\<close>)

lemma flags_ok_deployed: "deployed s \<Longrightarrow> flags_ok s"
  unfolding deployed_def by (elim exE instantiate_ok) (simp add: flags_ok_def kind_count_changes)

interpretation flags: bridge_invariant flags_ok
  using flags_ok_deployed flags_ok_transition
  by unfold_locales (blast | simp add: flags_ok_def)+

section \<open>Token registry\<close>

text \<open>
  A token is stored under its own key, denoms and currencies identify tokens, sending precisions
  are in range, and a token waits in state \<open>Processing\<close> exactly while one trust set operation
  for it is pending.
\<close>

definition trust_set_of :: "string \<Rightarrow> operation_type \<Rightarrow> bool" where
  "trust_set_of key ty \<longleftrightarrow> trust_set_key ty = Some key"

definition registry_ok :: "storage \<Rightarrow> bool" where
  "registry_ok s \<longleftrightarrow>
     index_unique xt_cosmos_denom (XRPL_TOKENS s) \<and> index_unique ct_xrpl_currency (COSMOS_TOKENS s) \<and>
     (\<forall>key tok. kv_load key (XRPL_TOKENS s) = Some tok \<longrightarrow>
        key = build_xrpl_token_key (xt_issuer tok) (xt_currency tok) \<and>
        precision_in_range (xt_sending_precision tok)) \<and>
     (\<forall>d tok. kv_load d (COSMOS_TOKENS s) = Some tok \<longrightarrow>
        d = ct_denom tok \<and> unat (ct_decimals tok) \<le> 100 \<and>
        validate_sending_precision (ct_sending_precision tok) (ct_decimals tok) = Inr () \<and>
        validate_xrpl_currency (ct_xrpl_currency tok) = Inr ())"

definition trust_sets_ok :: "storage \<Rightarrow> bool" where
  "trust_sets_ok s \<longleftrightarrow>
     (\<forall>key. pending_kind (trust_set_of key) s =
        (case kv_load key (XRPL_TOKENS s) of None \<Rightarrow> 0 | Some tok \<Rightarrow> of_bool (xt_state tok = Processing)))"

lemma registry_ok_transition:
  assumes "transition p fin s s'" and "registry_ok s"
  shows "registry_ok s'"
  using assms(1)
proof (cases rule: transition.cases)
  case books
  with assms(2) show ?thesis by (simp add: registry_ok_def only_books_def)
next
  case vote
  from handle_evidence_frame [OF vote(1)] assms(2) show ?thesis by (auto simp: registry_ok_def)
qed (use assms(2) in \<open>auto simp: registry_ok_def index_unique_save split: if_splits\<close>)

lemma registry_ok_deployed: "deployed s \<Longrightarrow> registry_ok s"
  unfolding deployed_def
  by (elim exE instantiate_ok)
    (auto simp: registry_ok_def index_unique_def xrp_token_def token_consts precision_in_range_def split: if_splits)

interpretation registry: bridge_invariant registry_ok
  using registry_ok_deployed registry_ok_transition
  by unfold_locales (blast | simp add: registry_ok_def)+

lemma trust_set_of_other:
  "is_transfer ty \<Longrightarrow> \<not> trust_set_of k ty" "is_allocation ty \<Longrightarrow> \<not> trust_set_of k ty"
  "is_rotation ty \<Longrightarrow> \<not> trust_set_of k ty"
  by (cases ty; simp add: trust_set_of_def)+

lemma trust_sets_ok_transition:
  assumes "transition p fin s s'" and "trust_sets_ok s"
  shows "trust_sets_ok s'"
  using assms(1)
proof (cases rule: transition.cases)
  case books
  with assms(2) show ?thesis by (simp add: trust_sets_ok_def only_books_def)
next
  case vote
  from handle_evidence_frame [OF vote(1)] assms(2) show ?thesis by (auto simp: trust_sets_ok_def)
next
  case (renew m f)
  have "kind_count P m = pending_kind P s" for P using renew(2,3) by (rule kind_count_renew)
  with renew(1) assms(2) show ?thesis by (simp add: trust_sets_ok_def)
next
  case (queue_registration oid op tok limit key)
  with assms(2) show ?thesis by (auto simp: trust_sets_ok_def kind_count_changes trust_set_of_def)
next
  case (queue_recovery oid op key tok)
  with assms(2) show ?thesis by (auto simp: trust_sets_ok_def kind_count_changes trust_set_of_def)
next
  case (settle_trust_set oid op key tok st)
  with assms(2) show ?thesis by (auto simp: trust_sets_ok_def kind_count_changes trust_set_of_def)
qed (use assms(2) in \<open>auto simp: trust_sets_ok_def kind_count_changes trust_set_of_other token_states_adjustable_def\<close>)

lemma trust_sets_ok_deployed: "deployed s \<Longrightarrow> trust_sets_ok s"
  unfolding deployed_def
  by (elim exE instantiate_ok) (auto simp: trust_sets_ok_def kind_count_changes xrp_token_def)

interpretation trust_sets: bridge_invariant trust_sets_ok
  using trust_sets_ok_deployed trust_sets_ok_transition
  by unfold_locales (blast | simp add: trust_sets_ok_def)+

section \<open>Votes\<close>

text \<open>
  Recorded votes come from distinct relayers of the current set and have not reached the current
  threshold.
\<close>

definition votes_ok :: "storage \<Rightarrow> bool" where
  "votes_ok s \<longleftrightarrow>
     (\<forall>c h vs. CONFIG s = Some c \<longrightarrow> kv_load h (TX_EVIDENCES s) = Some vs \<longrightarrow>
        vs \<noteq> [] \<and> distinct vs \<and> set vs \<subseteq> rl_cosmos_address ` set (cf_relayers c) \<and>
        length vs < unat (cf_evidence_threshold c))"

lemma votes_ok_recorded:
  assumes "votes_ok s" and "CONFIG s = Some c"
  shows "distinct (votes p s ev) \<and> set (votes p s ev) \<subseteq> rl_cosmos_address ` set (cf_relayers c)"
  using assms by (auto simp: votes_ok_def votes_def split: sum.splits option.splits)

lemma votes_ok_vote:
  assumes "handle_evidence p s a ev = Inr (reached, s')" and "a \<in> set (relayer_addresses s)" and "votes_ok s"
  shows "votes_ok s'"
  using assms(1)
proof (rule handle_evidence_cases)
  fix h c
  assume c: "CONFIG s = Some c" and a: "a \<notin> set (votes p s ev)"
    and r: "reached \<longleftrightarrow> unat (cf_evidence_threshold c) \<le> length (votes p s ev) + 1"
    and n: "\<not> reached \<Longrightarrow> s' = s\<lparr>TX_EVIDENCES := kv_save h (votes p s ev @ [a]) (TX_EVIDENCES s)\<rparr>"
    and y: "reached \<Longrightarrow> s' = s\<lparr>PROCESSED_TXS := processed_after ev (PROCESSED_TXS s),
      TX_EVIDENCES := (if votes p s ev = [] then TX_EVIDENCES s else kv_remove h (TX_EVIDENCES s))\<rparr>"
  show ?thesis
  proof (cases reached)
    case True
    with y assms(3) show ?thesis by (auto simp: votes_ok_def split: if_splits)
  next
    case False
    from assms(2) c have "a \<in> rl_cosmos_address ` set (cf_relayers c)" by (simp add: relayer_addresses_def)
    with False n r a c assms(3) votes_ok_recorded [OF assms(3) c, of p ev] show ?thesis
      by (auto simp: votes_ok_def split: if_splits)
  qed
qed

lemma votes_ok_transition:
  assumes "transition p fin s s'" and "votes_ok s"
  shows "votes_ok s'"
  using assms(1)
proof (cases rule: transition.cases)
  case books
  with assms(2) show ?thesis by (simp add: votes_ok_def only_books_def)
next
  case vote
  with assms(2) show ?thesis by (blast intro: votes_ok_vote)
qed (use assms(2) in \<open>auto simp: votes_ok_def\<close>)

lemma votes_ok_deployed: "deployed s \<Longrightarrow> votes_ok s"
  unfolding deployed_def by (elim exE instantiate_ok) (simp add: votes_ok_def)

interpretation votes: bridge_invariant votes_ok
  using votes_ok_deployed votes_ok_transition
  by unfold_locales (blast | simp add: votes_ok_def)+

section \<open>Items and the prohibited addresses\<close>

definition items_ok :: "storage \<Rightarrow> bool" where
  "items_ok s \<longleftrightarrow>
     CONTRACT_INFO s = Some (CONTRACT_NAME, CONTRACT_VERSION) \<and> TEMP_UNIVERSAL_SWAP s = None \<and>
     AVAILABLE_TICKETS s \<noteq> None \<and> USED_TICKETS_COUNTER s \<noteq> None \<and>
     (\<exists>c. CONFIG s = Some c \<and> kv_has (cf_bridge_xrpl_address c) (PROHIBITED_XRPL_ADDRESSES s))"

lemma items_ok_transition:
  assumes "transition p fin s s'" and "items_ok s"
  shows "items_ok s'"
  using assms(1)
proof (cases rule: transition.cases)
  case books
  with assms(2) show ?thesis by (auto simp: items_ok_def only_books_def)
next
  case vote
  from handle_evidence_frame [OF vote(1)] assms(2) show ?thesis by (auto simp: items_ok_def)
qed (use assms(2) in \<open>auto simp: items_ok_def\<close>)

lemma items_ok_deployed: "deployed s \<Longrightarrow> items_ok s"
  unfolding deployed_def by (elim exE instantiate_ok) (simp add: items_ok_def initial_config_def)

interpretation items: bridge_invariant items_ok
  using items_ok_deployed items_ok_transition
  by unfold_locales (blast | simp add: items_ok_def)+

section \<open>Refunds\<close>

text \<open>Every refund is stored under its own address and identifier.\<close>

definition refunds_ok :: "storage \<Rightarrow> bool" where
  "refunds_ok s \<longleftrightarrow> refund_keys (PENDING_REFUNDS s)"

lemma refunds_ok_transition:
  assumes "transition p fin s s'" and "refunds_ok s"
  shows "refunds_ok s'"
  using assms(1)
proof (cases rule: transition.cases)
  case vote
  from handle_evidence_frame [OF vote(1)] assms(2) show ?thesis by (auto simp: refunds_ok_def)
qed (use assms(2) in \<open>auto simp: refunds_ok_def only_books_def\<close>)

lemma refunds_ok_deployed: "deployed s \<Longrightarrow> refunds_ok s"
  unfolding deployed_def by (elim exE instantiate_ok) (simp add: refunds_ok_def empty_storage_def)

interpretation refunds: bridge_invariant refunds_ok
  using refunds_ok_deployed refunds_ok_transition
  by unfold_locales (blast | simp add: refunds_ok_def)+

section \<open>Processed transactions\<close>

text \<open>A transaction marked as processed stays marked.\<close>

definition processed_grows :: "storage \<Rightarrow> storage \<Rightarrow> bool" where
  "processed_grows s s' \<longleftrightarrow> (\<forall>h. kv_has h (PROCESSED_TXS s) \<longrightarrow> kv_has h (PROCESSED_TXS s'))"

lemma processed_grows_vote:
  assumes "handle_evidence p s a ev = Inr (reached, s')"
  shows "processed_grows s s'"
  using assms
  by (rule handle_evidence_cases)
    (cases reached; auto simp: processed_grows_def processed_after_def split: sum.splits)

lemma processed_grows_transition:
  assumes "transition p fin s s'"
  shows "processed_grows s s'"
  using assms
proof (cases rule: transition.cases)
  case vote
  then show ?thesis by (rule_tac processed_grows_vote)
qed (auto simp: processed_grows_def only_books_def)

interpretation processed_by_transition: respected_by "transition p fin" processed_grows for p fin
  by unfold_locales (auto simp: processed_grows_def dest!: processed_grows_transition)

lemmas processed_grows_transitions = processed_by_transition.steps_rel

interpretation processed: respected_by bridge_step processed_grows
proof unfold_locales
  show "bridge_step s s' \<Longrightarrow> processed_grows s s'" for s s'
    by (erule bridge_step.cases)
      (auto simp: processed_grows_def dest: reply_ok dest!: execute_transitions processed_grows_transitions)
qed (auto simp: processed_grows_def)

end
