(* ===== verification/Liabilities.thy ===== *)
theory Liabilities
  imports Bridge_Invariants
begin

text \<open>
  What the contract owes: the fees collected for relayers, the pending refunds and the transfers on
  their way to the XRPL, which are burned or refunded when they are settled. The amount owed for a
  pending transfer depends on the token registry; it is stable because tokens are never removed
  and a token issued by the bridge's own account can never be registered as a token issued on the
  XRPL.
\<close>

section \<open>Amounts owed\<close>

definition coin_value :: "string \<Rightarrow> coin option \<Rightarrow> nat" where
  "coin_value d co = (case co of None \<Rightarrow> 0 | Some c \<Rightarrow> if c_denom c = d then unat (c_amount c) else 0)"

definition type_sum :: "(operation_type \<Rightarrow> nat) \<Rightarrow> (u64, operation) kv \<Rightarrow> nat" where
  "type_sum g m = kv_sum (\<lambda>_ op. g (op_operation_type op)) m"

definition in_transit :: "string \<Rightarrow> storage \<Rightarrow> nat" where
  "in_transit d s = type_sum (\<lambda>ty. coin_value d (refund_coin s ty)) (PENDING_OPERATIONS s)"

definition liabilities :: "string \<Rightarrow> storage \<Rightarrow> nat" where
  "liabilities d s = fee_pool d s + refunds_owed d s + in_transit d s"

lemma refund_coin_transfer: "refund_coin s ty \<noteq> None \<Longrightarrow> is_transfer ty"
  by (cases ty) (simp_all add: refund_coin_def)

lemma coin_value_other [simp]: "\<not> is_transfer ty \<Longrightarrow> coin_value d (refund_coin s ty) = 0"
  using refund_coin_transfer [of s ty] by (auto simp: coin_value_def split: option.splits)

lemma type_sum_changes:
  "queueable s oid op \<Longrightarrow>
     type_sum g (kv_save oid op (PENDING_OPERATIONS s)) = type_sum g (PENDING_OPERATIONS s) + g (op_operation_type op)"
  "kv_load oid m = Some op \<Longrightarrow> type_sum g (kv_remove oid m) + g (op_operation_type op) = type_sum g m"
  "kv_load oid m = Some op \<Longrightarrow> type_sum g (kv_save oid (op\<lparr>op_signatures := x\<rparr>) m) = type_sum g m"
  using kv_sum_remove [of "\<lambda>_ op. g (op_operation_type op)" oid m]
    kv_sum_save [of "\<lambda>_ op. g (op_operation_type op)" oid "op\<lparr>op_signatures := x\<rparr>" m]
  by (simp_all add: type_sum_def queueable_def kv_sum_save_new)

lemma type_sum_renew:
  assumes "\<And>oid. (kv_load oid m = None) = (kv_load oid m0 = None)"
    and "\<And>oid op op'. kv_load oid m0 = Some op \<Longrightarrow> kv_load oid m = Some op' \<Longrightarrow> renewed f op op'"
  shows "type_sum g m = type_sum g m0"
  unfolding type_sum_def
proof (rule kv_sum_eq)
  fix k v w
  assume "kv_load k m = Some v" and "kv_load k m0 = Some w"
  then show "g (op_operation_type v) = g (op_operation_type w)" using assms(2) [of k w v] renewed_type by simp
qed (rule assms(1))

section \<open>The registry only grows\<close>

text \<open>What a refund reads of a token never changes.\<close>

definition xrpl_view :: "xrpl_token \<Rightarrow> string \<times> string \<times> string" where
  "xrpl_view tok = (xt_cosmos_denom tok, xt_issuer tok, xt_currency tok)"

definition cosmos_view :: "cosmos_token \<Rightarrow> string \<times> u32 \<times> string" where
  "cosmos_view tok = (ct_denom tok, ct_decimals tok, ct_xrpl_currency tok)"

definition kv_kept :: "('v \<Rightarrow> 'w) \<Rightarrow> ('k::linorder, 'v) kv \<Rightarrow> ('k, 'v) kv \<Rightarrow> bool" where
  "kv_kept view m m' \<longleftrightarrow> (\<forall>k v. kv_load k m = Some v \<longrightarrow> map_option view (kv_load k m') = Some (view v))"

definition tokens_kept :: "storage \<Rightarrow> storage \<Rightarrow> bool" where
  "tokens_kept s s' \<longleftrightarrow>
     kv_kept xrpl_view (XRPL_TOKENS s) (XRPL_TOKENS s') \<and> kv_kept cosmos_view (COSMOS_TOKENS s) (COSMOS_TOKENS s') \<and>
     map_option cf_bridge_xrpl_address (CONFIG s') = map_option cf_bridge_xrpl_address (CONFIG s)"

lemma kv_kept_refl [simp]: "kv_kept view m m"
  by (simp add: kv_kept_def)

lemma kv_kept_trans: "kv_kept view m m' \<Longrightarrow> kv_kept view m' m'' \<Longrightarrow> kv_kept view m m''"
  unfolding kv_kept_def by (metis map_option_eq_Some)

lemma kv_kept_save_new: "kv_load k m = None \<Longrightarrow> kv_kept view m (kv_save k v m)"
  by (auto simp: kv_kept_def)

lemma kv_kept_save_same: "kv_load k m = Some w \<Longrightarrow> view v = view w \<Longrightarrow> kv_kept view m (kv_save k v m)"
  by (auto simp: kv_kept_def)

lemma kv_keptE:
  assumes "kv_kept view m m'" and "kv_load k m = Some v"
  obtains v' where "kv_load k m' = Some v'" and "view v' = view v"
  using assms unfolding kv_kept_def by (metis map_option_eq_Some)

lemma kv_kept_has: "kv_kept view m m' \<Longrightarrow> kv_has k m \<Longrightarrow> kv_has k m'"
  by (auto simp: kv_has_def elim!: kv_keptE)

lemma tokens_kept_transition:
  assumes "transition p fin s s'"
  shows "tokens_kept s s'"
  using assms
proof (cases rule: transition.cases)
  case vote
  from handle_evidence_frame [OF vote(1)] show ?thesis by (auto simp: tokens_kept_def)
qed (auto simp: tokens_kept_def only_books_def xrpl_view_def cosmos_view_def
    intro: kv_kept_save_new kv_kept_save_same)

interpretation kept: respected_by "transition p fin" tokens_kept for p fin
proof unfold_locales
  show "tokens_kept s s' \<Longrightarrow> tokens_kept s' s'' \<Longrightarrow> tokens_kept s s''" for s s' s''
    by (auto simp: tokens_kept_def intro: kv_kept_trans)
qed (simp_all add: tokens_kept_def tokens_kept_transition [unfolded tokens_kept_def])

section \<open>Keys of tokens\<close>

text \<open>
  A string that decodes to 25 bytes in base58 has between 25 and 35 characters. With currencies of
  3 or 40 characters, the key of a token then determines issuer and currency.
\<close>

definition address_length :: "string \<Rightarrow> bool" where
  "address_length a \<longleftrightarrow> 25 \<le> length a \<and> length a \<le> 35"

definition base58_lengths :: "platform \<Rightarrow> bool" where
  "base58_lengths p \<longleftrightarrow>
     (\<forall>a data. bs58_decode p a = Some data \<longrightarrow> length data = 25 \<longrightarrow> address_length a)"

definition addresses_ok :: "storage \<Rightarrow> bool" where
  "addresses_ok s \<longleftrightarrow>
     (\<exists>c. CONFIG s = Some c \<and> address_length (cf_bridge_xrpl_address c) \<and>
        (\<forall>key tok. kv_load key (XRPL_TOKENS s) = Some tok \<longrightarrow>
           address_length (xt_issuer tok) \<and>
           (xt_currency tok = XRP_CURRENCY \<or>
            validate_xrpl_currency (xt_currency tok) = Inr () \<and> xt_issuer tok \<noteq> cf_bridge_xrpl_address c)))"

lemma valid_address_length:
  "base58_lengths p \<Longrightarrow> validate_xrpl_address_format p a = Inr u \<Longrightarrow> address_length a"
  by (auto simp: base58_lengths_def validate_xrpl_address_format_ok)

lemma addresses_ok_same:
  assumes "addresses_ok s" and "XRPL_TOKENS s' = XRPL_TOKENS s"
    and "map_option cf_bridge_xrpl_address (CONFIG s') = map_option cf_bridge_xrpl_address (CONFIG s)"
  shows "addresses_ok s'"
  using assms by (auto simp: addresses_ok_def)

lemma addresses_ok_save:
  assumes "addresses_ok s" and "CONFIG s' = CONFIG s" and "XRPL_TOKENS s' = kv_save key tok (XRPL_TOKENS s)"
    and "\<And>c. CONFIG s = Some c \<Longrightarrow> address_length (xt_issuer tok) \<and>
      (xt_currency tok = XRP_CURRENCY \<or>
       validate_xrpl_currency (xt_currency tok) = Inr () \<and> xt_issuer tok \<noteq> cf_bridge_xrpl_address c)"
  shows "addresses_ok s'"
  using assms unfolding addresses_ok_def by auto

lemma addresses_ok_adjust:
  assumes "addresses_ok s" and "CONFIG s' = CONFIG s" and "kv_load key (XRPL_TOKENS s) = Some old"
    and "XRPL_TOKENS s' = kv_save key new (XRPL_TOKENS s)"
    and "xt_issuer new = xt_issuer old" "xt_currency new = xt_currency old"
  shows "addresses_ok s'"
  using assms(1,2,4)
proof (rule addresses_ok_save)
  show "address_length (xt_issuer new) \<and> (xt_currency new = XRP_CURRENCY \<or>
       validate_xrpl_currency (xt_currency new) = Inr () \<and> xt_issuer new \<noteq> cf_bridge_xrpl_address c)"
    if "CONFIG s = Some c" for c
    using assms(1,3,5,6) that unfolding addresses_ok_def by auto
qed

lemma addresses_ok_transition:
  assumes "transition p fin s s'" and "base58_lengths p" and "items_ok s" and "addresses_ok s"
  shows "addresses_ok s'"
  using assms(1)
proof (cases rule: transition.cases)
  case books
  with assms(4) show ?thesis by (intro addresses_ok_same [OF assms(4)]) (auto simp: only_books_def)
next
  case vote
  from handle_evidence_frame [OF vote(1)] show ?thesis by (auto intro: addresses_ok_same [OF assms(4)])
next
  case (queue_registration oid op tok limit key)
  have "address_length (xt_issuer tok)"
    using queue_registration(9) valid_address_length [OF assms(2)] by (simp add: validate_xrpl_address_ok)
  moreover have "xt_issuer tok \<noteq> cf_bridge_xrpl_address c" if "CONFIG s = Some c" for c
    using queue_registration(9) assms(3) that by (auto simp: validate_xrpl_address_ok items_ok_def)
  ultimately show ?thesis
    using queue_registration by (intro addresses_ok_save [OF assms(4)]) auto
next
  case (adjust_xrpl_token key old st sp new fee mx)
  then show ?thesis by (intro addresses_ok_adjust [OF assms(4) _ adjust_xrpl_token(2), of s' new]) auto
next
  case (queue_recovery oid op key tok)
  then show ?thesis
    by (intro addresses_ok_adjust [OF assms(4) _ queue_recovery(4), of s' "tok\<lparr>xt_state := Processing\<rparr>"]) auto
next
  case (settle_trust_set oid op key tok st)
  then show ?thesis
    by (intro addresses_ok_adjust [OF assms(4) _ settle_trust_set(4), of s' "tok\<lparr>xt_state := st\<rparr>"]) auto
qed (auto intro: addresses_ok_same [OF assms(4)])

lemma bridge_key_free:
  assumes "addresses_ok s" and "registry_ok s" and "CONFIG s = Some c" and "validate_xrpl_currency cur = Inr ()"
  shows "kv_load (build_xrpl_token_key (cf_bridge_xrpl_address c) cur) (XRPL_TOKENS s) = None"
proof (rule ccontr)
  let ?key = "build_xrpl_token_key (cf_bridge_xrpl_address c) cur"
  assume "kv_load ?key (XRPL_TOKENS s) \<noteq> None"
  then obtain tok where tok: "kv_load ?key (XRPL_TOKENS s) = Some tok" by blast
  have key: "?key = build_xrpl_token_key (xt_issuer tok) (xt_currency tok)"
    using assms(2) tok unfolding registry_ok_def by blast
  have a: "address_length (cf_bridge_xrpl_address c)" "address_length (xt_issuer tok)"
    and b: "xt_currency tok = XRP_CURRENCY \<or>
       validate_xrpl_currency (xt_currency tok) = Inr () \<and> xt_issuer tok \<noteq> cf_bridge_xrpl_address c"
    using assms(1,3) tok unfolding addresses_ok_def by auto
  have "length cur = 3 \<or> length cur = 40" using assms(4) by (rule validate_xrpl_currency_length)
  moreover have "length (xt_currency tok) = 3 \<or> length (xt_currency tok) = 40"
    using b validate_xrpl_currency_length by (auto simp: XRP_CURRENCY_def)
  ultimately have "cf_bridge_xrpl_address c = xt_issuer tok \<and> cur = xt_currency tok"
    using token_key_lengths_inject [OF _ _ _ _ _ _ key] a by (auto simp: address_length_def)
  with b assms(4) show False by (auto simp: validate_xrpl_currency_def XRP_CURRENCY_def)
qed

section \<open>Transfers on their way\<close>

text \<open>
  The token of a pending transfer is registered: one issued on the XRPL, or one issued on Cosmos
  and sent under the bridge's own XRPL address, with the amount as maximum amount, and an amount that
  the token's decimals can express.
\<close>

definition transfer_backed :: "storage \<Rightarrow> operation_type \<Rightarrow> bool" where
  "transfer_backed s ty \<longleftrightarrow>
     (\<exists>i cur am mx sn rc. ty = CosmosToXRPLTransfer i cur am mx sn rc \<and>
        (kv_has (build_xrpl_token_key i cur) (XRPL_TOKENS s) \<or>
         (\<exists>c d tok. CONFIG s = Some c \<and> i = cf_bridge_xrpl_address c \<and>
            kv_load d (COSMOS_TOKENS s) = Some tok \<and> ct_xrpl_currency tok = cur \<and> mx = Some am \<and>
            10 ^ (15 - unat (ct_decimals tok)) dvd unat am)))"

definition transfers_ok :: "storage \<Rightarrow> bool" where
  "transfers_ok s \<longleftrightarrow>
     (\<forall>oid op. kv_load oid (PENDING_OPERATIONS s) = Some op \<longrightarrow> is_transfer (op_operation_type op) \<longrightarrow>
        transfer_backed s (op_operation_type op) \<and> refund_coin s (op_operation_type op) \<noteq> None)"

definition refund_cosmos :: "operation_type \<Rightarrow> cosmos_token \<Rightarrow> coin option" where
  "refund_cosmos ty tok =
     (case ty of CosmosToXRPLTransfer _ _ _ (Some m) _ _ \<Rightarrow>
        (case convert_amount_decimals XRPL_TOKENS_DECIMALS (ct_decimals tok) m of
           Inr x \<Rightarrow> Some (coin_of x (ct_denom tok)) | Inl _ \<Rightarrow> None)
      | _ \<Rightarrow> None)"

lemma refund_coin_xrpl:
  assumes "kv_load (build_xrpl_token_key i cur) (XRPL_TOKENS s) = Some tok"
  shows "refund_coin s (CosmosToXRPLTransfer i cur am mx sn rc) =
    Some (coin_of (case mx of Some m \<Rightarrow> m | None \<Rightarrow> am) (xt_cosmos_denom tok))"
  using assms by (simp add: refund_coin_def)

lemma refund_coin_cosmos:
  assumes "addresses_ok s" and "registry_ok s" and "CONFIG s = Some c" and "i = cf_bridge_xrpl_address c"
    and "kv_load d (COSMOS_TOKENS s) = Some tok" and "ct_xrpl_currency tok = cur"
  shows "refund_coin s (CosmosToXRPLTransfer i cur am mx sn rc) =
    refund_cosmos (CosmosToXRPLTransfer i cur am mx sn rc) tok"
proof -
  from assms(2,5,6) have v: "validate_xrpl_currency cur = Inr ()" and u: "index_unique ct_xrpl_currency (COSMOS_TOKENS s)"
    unfolding registry_ok_def by blast+
  have "kv_load (build_xrpl_token_key i cur) (XRPL_TOKENS s) = None"
    unfolding assms(4) by (rule bridge_key_free [OF assms(1-3) v])
  moreover have "index_item ct_xrpl_currency cur (COSMOS_TOKENS s) = Some (d, tok)"
    using index_item_unique [OF u assms(5)] assms(6) by simp
  ultimately show ?thesis by (simp add: refund_coin_def refund_cosmos_def split: option.splits)
qed

lemma refund_coin_kept:
  assumes "transfer_backed s ty" and "tokens_kept s s'" and "registry_ok s" "registry_ok s'"
    and "addresses_ok s" "addresses_ok s'"
  shows "refund_coin s' ty = refund_coin s ty \<and> transfer_backed s' ty"
proof -
  from assms(1) obtain i cur am mx sn rc where ty: "ty = CosmosToXRPLTransfer i cur am mx sn rc"
    and "kv_has (build_xrpl_token_key i cur) (XRPL_TOKENS s) \<or>
      (\<exists>c d tok. CONFIG s = Some c \<and> i = cf_bridge_xrpl_address c \<and>
         kv_load d (COSMOS_TOKENS s) = Some tok \<and> ct_xrpl_currency tok = cur \<and> mx = Some am \<and>
         10 ^ (15 - unat (ct_decimals tok)) dvd unat am)"
    unfolding transfer_backed_def by blast
  then consider (xrpl) tok where "kv_load (build_xrpl_token_key i cur) (XRPL_TOKENS s) = Some tok"
    | (cosmos) c d tok where "CONFIG s = Some c" "i = cf_bridge_xrpl_address c"
      "kv_load d (COSMOS_TOKENS s) = Some tok" "ct_xrpl_currency tok = cur" "mx = Some am"
      "10 ^ (15 - unat (ct_decimals tok)) dvd unat am"
    by (auto simp: kv_has_def)
  then show ?thesis
  proof cases
    case xrpl
    from assms(2) xrpl obtain tok' where tok': "kv_load (build_xrpl_token_key i cur) (XRPL_TOKENS s') = Some tok'"
      "xrpl_view tok' = xrpl_view tok"
      unfolding tokens_kept_def by (blast elim: kv_keptE)
    with refund_coin_xrpl [OF xrpl] refund_coin_xrpl [OF tok'(1)] show ?thesis
      by (simp add: ty xrpl_view_def transfer_backed_def kv_has_def)
  next
    case cosmos
    from assms(2) cosmos(3) obtain tok' where tok': "kv_load d (COSMOS_TOKENS s') = Some tok'"
      "cosmos_view tok' = cosmos_view tok"
      unfolding tokens_kept_def by (blast elim: kv_keptE)
    from assms(2) cosmos(1,2) obtain c' where c': "CONFIG s' = Some c'" "i = cf_bridge_xrpl_address c'"
      unfolding tokens_kept_def by (metis map_option_eq_Some)
    have cur': "ct_xrpl_currency tok' = cur" "ct_decimals tok' = ct_decimals tok"
      using tok'(2) cosmos(4) by (simp_all add: cosmos_view_def)
    have "refund_cosmos ty tok' = refund_cosmos ty tok"
      using tok'(2) by (cases ty) (simp_all add: refund_cosmos_def cosmos_view_def split: option.split sum.split)
    then have "refund_coin s' ty = refund_coin s ty"
      using refund_coin_cosmos [OF assms(5,3) cosmos(1,2,3,4)] refund_coin_cosmos [OF assms(6,4) c' tok'(1) cur'(1)]
      by (simp add: ty)
    moreover have "transfer_backed s' ty"
      unfolding transfer_backed_def ty using c' tok'(1) cur' cosmos(5,6) by metis
    ultimately show ?thesis by simp
  qed
qed

text \<open>
  The state of the books that the accounting relies on, and what every transition that moves no
  money keeps.
\<close>

definition books_ok :: "storage \<Rightarrow> bool" where
  "books_ok s \<longleftrightarrow> operations_ok s \<and> registry_ok s \<and> items_ok s \<and> addresses_ok s \<and> transfers_ok s"

lemma transfers_ok_kept:
  assumes "transfers_ok s" and "tokens_kept s s'" and "registry_ok s" "registry_ok s'"
    and "addresses_ok s" "addresses_ok s'"
    and "\<And>oid op. kv_load oid (PENDING_OPERATIONS s') = Some op \<Longrightarrow> is_transfer (op_operation_type op) \<Longrightarrow>
      \<exists>op0. kv_load oid (PENDING_OPERATIONS s) = Some op0 \<and> op_operation_type op0 = op_operation_type op"
  shows "transfers_ok s'"
    and "in_transit d s' = type_sum (\<lambda>ty. coin_value d (refund_coin s ty)) (PENDING_OPERATIONS s')"
proof -
  have *: "refund_coin s' (op_operation_type op) = refund_coin s (op_operation_type op) \<and>
      transfer_backed s' (op_operation_type op) \<and> refund_coin s (op_operation_type op) \<noteq> None"
    if "kv_load oid (PENDING_OPERATIONS s') = Some op" "is_transfer (op_operation_type op)" for oid op
    using assms(7) [OF that] assms(1) that refund_coin_kept [OF _ assms(2-6)] unfolding transfers_ok_def by metis
  then show "transfers_ok s'" unfolding transfers_ok_def by metis
  show "in_transit d s' = type_sum (\<lambda>ty. coin_value d (refund_coin s ty)) (PENDING_OPERATIONS s')"
    unfolding in_transit_def type_sum_def
  proof (rule kv_sum_cong)
    fix k op
    assume "kv_load k (PENDING_OPERATIONS s') = Some op"
    with * show "coin_value d (refund_coin s' (op_operation_type op)) = coin_value d (refund_coin s (op_operation_type op))"
      by (cases "is_transfer (op_operation_type op)") auto
  qed
qed

lemma not_transfer:
  "is_allocation ty \<Longrightarrow> \<not> is_transfer ty" "is_rotation ty \<Longrightarrow> \<not> is_transfer ty"
  "trust_set_key ty = Some k \<Longrightarrow> \<not> is_transfer ty"
  by (cases ty; simp)+

lemma quiet_operations:
  assumes "transition p False s s'"
  shows "(\<forall>oid op. kv_load oid (PENDING_OPERATIONS s') = Some op \<longrightarrow> is_transfer (op_operation_type op) \<longrightarrow>
      (\<exists>op0. kv_load oid (PENDING_OPERATIONS s) = Some op0 \<and> op_operation_type op0 = op_operation_type op)) \<and>
    ((\<forall>ty. \<not> is_transfer ty \<longrightarrow> g ty = 0) \<longrightarrow>
      type_sum g (PENDING_OPERATIONS s') = type_sum g (PENDING_OPERATIONS s)) \<and> same_accounts s s'"
  using assms
proof (cases rule: transition.cases)
  case vote
  from handle_evidence_frame [OF vote(1)] show ?thesis by (auto simp: same_accounts_def)
next
  case (renew m f)
  have "\<exists>op0. kv_load oid (PENDING_OPERATIONS s) = Some op0 \<and> op_operation_type op0 = op_operation_type op"
    if "kv_load oid m = Some op" for oid op
    using renew(2) [of oid] renew(3) [of oid _ op] that renewed_type
    by (cases "kv_load oid (PENDING_OPERATIONS s)") fastforce+
  with renew type_sum_renew [OF renew(2,3), where g = g] show ?thesis by (simp add: same_accounts_def)
qed (auto simp: only_books_def same_accounts_def type_sum_changes not_transfer split: if_splits
    dest: type_sum_changes(2) [where g = g])

lemma same_accounts_owed:
  assumes "same_accounts s s'"
  shows "fee_pool d s' = fee_pool d s" and "refunds_owed d s' = refunds_owed d s"
  using assms by (simp_all add: same_accounts_def fee_pool_def fees_owed_def remainder_owed_def refunds_owed_def)

lemma quiet_transition:
  assumes "transition p False s s'" and "base58_lengths p" and "books_ok s"
  shows "books_ok s' \<and> liabilities d s' = liabilities d s"
proof -
  from assms(3) have ok: "operations_ok s" "registry_ok s" "items_ok s" "addresses_ok s" "transfers_ok s"
    by (simp_all add: books_ok_def)
  have ok': "operations_ok s'" "registry_ok s'" "items_ok s'" "addresses_ok s'"
    using operations_ok_transition registry_ok_transition items_ok_transition
      addresses_ok_transition [OF assms(1,2)] assms(1) ok by blast+
  note q = quiet_operations [OF assms(1), where g = "\<lambda>ty. coin_value d (refund_coin s ty)"]
  note kept = tokens_kept_transition [OF assms(1)]
  have "transfers_ok s'" and "in_transit d s' = type_sum (\<lambda>ty. coin_value d (refund_coin s ty)) (PENDING_OPERATIONS s')"
    by (rule transfers_ok_kept [OF ok(5) kept ok(2) ok'(2) ok(4) ok'(4)]; use q in blast)+
  with ok' q same_accounts_owed [of s s'] show ?thesis
    by (simp add: books_ok_def liabilities_def in_transit_def)
qed

lemma quiet_transitions:
  assumes "transitions p False s s'" and "base58_lengths p" and "books_ok s"
  shows "books_ok s' \<and> liabilities d s' = liabilities d s"
  using assms(1,3) by (induction rule: rtranclp_induct) (use quiet_transition [OF _ assms(2)] in auto)

end
