(* ===== verification/Bridge_Access.thy ===== *)
theory Bridge_Access
  imports Bridge_Machine
begin

text \<open>
  Who may call what, and when: the role every message of \<open>execute\<close> requires, the messages a
  halted bridge refuses, and the rule that an evidence below the threshold only records a vote.
\<close>

section \<open>Roles\<close>

text \<open>The action each handler checks; the others check no role.\<close>

fun required_action :: "execute_msg \<Rightarrow> contract_actions option" where
  "required_action (Msg_UpdateOwnership _) = None"
| "required_action (Msg_CreateCosmosToken _ _) = Some CA_CreateCosmosToken"
| "required_action (Msg_MintCosmosToken _ _) = Some CA_MintCosmosToken"
| "required_action (Msg_RegisterCosmosToken _ _ _ _ _) = Some CA_RegisterCosmosToken"
| "required_action (Msg_RegisterXRPLToken _ _ _ _ _) = Some CA_RegisterXRPLToken"
| "required_action (Msg_RecoverTickets _ _) = Some CA_RecoverTickets"
| "required_action (Msg_RecoverXRPLTokenRegistration _ _) = Some CA_RecoverXRPLTokenRegistration"
| "required_action (Msg_SaveSignature _ _ _) = Some CA_SaveSignature"
| "required_action (Msg_SaveEvidence _) = Some CA_SaveEvidence"
| "required_action (Msg_SendToXRPL _ _) = None"
| "required_action (Msg_UpdateXRPLToken _ _ _ _ _ _) = Some CA_UpdateXRPLToken"
| "required_action (Msg_UpdateCosmosToken _ _ _ _ _) = Some CA_UpdateCosmosToken"
| "required_action (Msg_UpdateXRPLBaseFee _) = Some CA_UpdateXRPLBaseFee"
| "required_action (Msg_ClaimRefund _) = None"
| "required_action (Msg_ClaimRelayerFees _) = None"
| "required_action Msg_HaltBridge = Some CA_HaltBridge"
| "required_action Msg_ResumeBridge = Some CA_ResumeBridge"
| "required_action (Msg_RotateKeys _ _) = Some CA_RotateKeys"
| "required_action (Msg_UpdateProhibitedXRPLAddresses _) = Some CA_UpdateProhibitedXRPLAddresses"
| "required_action (Msg_CancelPendingOperation _) = Some CA_CancelPendingOperation"
| "required_action (Msg_UpdateUsedTicketSequenceThreshold _) = Some CA_UpdateUsedTicketSequenceThreshold"
| "required_action (Msg_AddRateLimit _ _) = Some CA_AddRateLimit"
| "required_action (Msg_RemoveRateLimit _) = Some CA_RemoveRateLimit"
| "required_action (Msg_ResetRateLimitQuota _ _) = Some CA_ResetRateLimitQuota"

lemmas handler_defs =
  create_cosmos_token_def mint_cosmos_token_def register_cosmos_token_def register_xrpl_token_def
  recover_xrpl_token_registration_def update_xrpl_token_def update_cosmos_token_def recover_tickets_def
  save_signature_def update_xrpl_base_fee_def update_used_ticket_sequence_threshold_def
  update_prohibited_xrpl_addresses_def rotate_keys_def cancel_pending_operation_def
  execute_add_rate_limit_def execute_remove_rate_limit_def execute_reset_rate_limit_quota_def
  halt_bridge_def resume_bridge_def save_evidence_def

lemma execute_checks_role:
  assumes "execute p e info s msg = Inr (r, s')" and "required_action msg = Some act"
  shows "check_authorization p s (mi_sender info) act = Inr ()"
  using assms by (cases msg) (auto simp: handler_defs elim!: and_thenE)

section \<open>Halting\<close>

fun allowed_when_halted :: "execute_msg \<Rightarrow> bool" where
  "allowed_when_halted (Msg_RegisterCosmosToken _ _ _ _ _) = False"
| "allowed_when_halted (Msg_RegisterXRPLToken _ _ _ _ _) = False"
| "allowed_when_halted (Msg_RecoverXRPLTokenRegistration _ _) = False"
| "allowed_when_halted (Msg_SendToXRPL _ _) = False"
| "allowed_when_halted (Msg_UpdateXRPLToken _ _ _ _ _ _) = False"
| "allowed_when_halted (Msg_UpdateCosmosToken _ _ _ _ _) = False"
| "allowed_when_halted (Msg_ClaimRefund _) = False"
| "allowed_when_halted (Msg_ClaimRelayerFees _) = False"
| "allowed_when_halted Msg_HaltBridge = False"
| "allowed_when_halted (Msg_SaveEvidence (XRPLToCosmosTransfer _ _ _ _ _ _)) = False"
| "allowed_when_halted _ = True"

lemma create_when_halted:
  assumes "create_pending_operation s ts ticket account ty = Inr s'" and "CONFIG s = Some c"
    and "cf_bridge_state c = Halted"
  shows "halt_allows ty (PENDING_ROTATE_KEYS s)"
  using assms by (auto elim!: create_pending_operation_ok)


lemma halted_refuses:
  assumes "execute p e info s msg = Inr (r, s')" and c: "CONFIG s = Some c" and h: "cf_bridge_state c = Halted"
  shows "allowed_when_halted msg"
proof (cases msg)
  case (Msg_RegisterXRPLToken i cur sp mx fee)
  with assms(1) have "register_xrpl_token p e info s i cur sp mx fee = Inr (r, s')" by simp
  then show ?thesis
    by (rule register_xrpl_token_ok) (use c h in \<open>auto dest: create_when_halted\<close>)
next
  case (Msg_RecoverXRPLTokenRegistration i cur)
  with assms(1) have "recover_xrpl_token_registration p s (ev_time_seconds e) (mi_sender info) i cur = Inr (r, s')" by simp
  then show ?thesis
    by (rule recover_xrpl_token_registration_ok) (use c h in \<open>auto dest: create_when_halted\<close>)
next
  case (Msg_SaveEvidence ev)
  show ?thesis
  proof (cases ev)
    case (XRPLToCosmosTransfer hx i cur am rcp memo)
    with Msg_SaveEvidence assms show ?thesis
      by (auto simp: save_evidence_def receive_transfer_def Let_def and_then_eq_Inr item_load_eq_Inr)
  qed (simp add: Msg_SaveEvidence)
qed (use assms in \<open>auto simp: handler_defs send_to_xrpl_def claim_pending_refund_def claim_relayer_fees_def
      and_then_eq_Inr assert_bridge_active_ok\<close>)

section \<open>Votes below the threshold\<close>

lemma save_evidence_ok:
  assumes "save_evidence p e s a ev = Inr (r, s')"
  obtains c reached s1 resp where "CONFIG s = Some c" and "a \<in> set (relayer_addresses s)"
    and "validate_basic ev = Inr ()" and "handle_evidence p s a ev = Inr (reached, s1)"
    and "rs_messages resp = []"
    and "(case ev of
        XRPLToCosmosTransfer h i cur am rcp memo \<Rightarrow> receive_transfer p e s1 c h i cur am rcp memo reached resp
      | XRPLTransactionResult h acc tick res ores \<Rightarrow>
          receive_transaction_result e s1 c h acc tick res ores reached resp) = Inr (r, s')"
proof -
  from assms obtain u v c reached s1 where "check_authorization p s a CA_SaveEvidence = Inr u"
    and "CONFIG s = Some c" "validate_basic ev = Inr v" "handle_evidence p s a ev = Inr (reached, s1)"
    "(case ev of
        XRPLToCosmosTransfer h i cur am rcp memo \<Rightarrow> receive_transfer p e s1 c h i cur am rcp memo reached
          (add_attributes [(''action'', action_as_str CA_SaveEvidence), (''sender'', as_str a)] response_new)
      | XRPLTransactionResult h acc tick res ores \<Rightarrow>
          receive_transaction_result e s1 c h acc tick res ores reached
          (add_attributes [(''action'', action_as_str CA_SaveEvidence), (''sender'', as_str a)] response_new)) = Inr (r, s')"
    unfolding save_evidence_def Let_def
    by (simp only: and_then_eq_Inr item_load_eq_Inr split_paired_Ex prod.case) blast
  then show thesis by (intro that) (auto simp: check_authorization_ok)
qed

lemma below_threshold_receive:
  "receive_transfer p e s c h i cur am rcp memo False resp = Inr (r, s') \<Longrightarrow>
     s' = s \<and> rs_messages r = rs_messages resp"
  "receive_transaction_result e s c h' acc tick res ores False resp = Inr (r, s') \<Longrightarrow>
     s' = s \<and> rs_messages r = rs_messages resp"
proof -
  assume "receive_transfer p e s c h i cur am rcp memo False resp = Inr (r, s')"
  then show "s' = s \<and> rs_messages r = rs_messages resp"
    by (auto simp: receive_transfer_def receive_xrpl_originated_def receive_cosmos_originated_def Let_def
        and_then_eq_Inr if_Inl_eq_Inr split: if_splits option.splits)
next
  assume "receive_transaction_result e s c h' acc tick res ores False resp = Inr (r, s')"
  then show "s' = s \<and> rs_messages r = rs_messages resp"
    by (auto simp: receive_transaction_result_def and_then_eq_Inr if_Inl_eq_Inr)
qed

lemma save_evidence_below_threshold:
  assumes "save_evidence p e s a ev = Inr (r, s')" and c: "CONFIG s = Some c"
    and "length (votes p s ev) + 1 < unat (cf_evidence_threshold c)"
  obtains h where "get_hash p ev = Inr h" and "rs_messages r = []"
    and "s' = s\<lparr>TX_EVIDENCES := kv_save h (votes p s ev @ [a]) (TX_EVIDENCES s)\<rparr>"
  using assms(1)
proof (rule save_evidence_ok)
  fix c' reached s1 resp
  assume v: "handle_evidence p s a ev = Inr (reached, s1)" and r0: "rs_messages resp = []"
    and rest: "(case ev of
        XRPLToCosmosTransfer h i cur am rcp memo \<Rightarrow> receive_transfer p e s1 c' h i cur am rcp memo reached resp
      | XRPLTransactionResult h acc tick res ores \<Rightarrow>
          receive_transaction_result e s1 c' h acc tick res ores reached resp) = Inr (r, s')"
  from v show thesis
  proof (rule handle_evidence_cases)
    fix h c1
    assume h: "get_hash p ev = Inr h" and "CONFIG s = Some c1"
      and "reached \<longleftrightarrow> unat (cf_evidence_threshold c1) \<le> length (votes p s ev) + 1"
      and s1: "\<not> reached \<Longrightarrow> s1 = s\<lparr>TX_EVIDENCES := kv_save h (votes p s ev @ [a]) (TX_EVIDENCES s)\<rparr>"
    with c assms(3) have nr: "\<not> reached" by simp
    with rest below_threshold_receive have "s' = s1 \<and> rs_messages r = rs_messages resp"
      by (cases ev) auto
    with that [OF h] s1 [OF nr] r0 show thesis by simp
  qed
qed

text \<open>The evidence whose vote reaches the threshold.\<close>

definition decides :: "platform \<Rightarrow> storage \<Rightarrow> evidence \<Rightarrow> bool" where
  "decides p s ev \<longleftrightarrow>
     (\<exists>c. CONFIG s = Some c \<and> unat (cf_evidence_threshold c) \<le> length (votes p s ev) + 1)"

end
