(* ===== verification/Accounting.thy ===== *)
theory Accounting
  imports Liabilities Bridge_Access
begin

text \<open>
  Every handler balances its books: a call brings in the attached funds; the messages of its
  response make the token factory mint to or burn from the contract and make the bank take coins
  out; what the contract owes afterwards and pays out is covered by what it owed before, the funds
  and what is minted for it. Coins of a Cosmos originated token also become backing of what the
  bridge's account has issued on the XRPL, when a transfer to the XRPL is accepted, and are
  redeemed again when the relayers report a payment to the bridge there.
\<close>

section \<open>Effects of messages on the contract's balance\<close>

fun minted_by :: "addr \<Rightarrow> string \<Rightarrow> cosmos_msg \<Rightarrow> nat" where
  "minted_by a d (WasmExecute _ (TokenFactory (MintTokens den amount to_address)) _) =
     (if den = d \<and> to_address = as_str a then unat amount else 0)"
| "minted_by a d _ = 0"

fun burned_by :: "addr \<Rightarrow> string \<Rightarrow> cosmos_msg \<Rightarrow> nat" where
  "burned_by a d (WasmExecute _ (TokenFactory (BurnTokens den amount from_address)) _) =
     (if den = d \<and> from_address = as_str a then unat amount else 0)"
| "burned_by a d _ = 0"

fun sent_by :: "string \<Rightarrow> cosmos_msg \<Rightarrow> nat" where
  "sent_by d (WasmExecute _ _ cs) = denom_total d cs"
| "sent_by d (BankSend _ cs) = denom_total d cs"

definition minted_total :: "addr \<Rightarrow> string \<Rightarrow> cosmos_msg list \<Rightarrow> nat" where
  "minted_total a d ms = sum_list (map (minted_by a d) ms)"

definition spent_total :: "addr \<Rightarrow> string \<Rightarrow> cosmos_msg list \<Rightarrow> nat" where
  "spent_total a d ms = sum_list (map (\<lambda>m. burned_by a d m + sent_by d m) ms)"

definition coins_in :: "addr \<Rightarrow> string \<Rightarrow> response \<Rightarrow> nat" where
  "coins_in a d r = minted_total a d (map sm_msg (rs_messages r))"

definition coins_out :: "addr \<Rightarrow> string \<Rightarrow> response \<Rightarrow> nat" where
  "coins_out a d r = spent_total a d (map sm_msg (rs_messages r))"

lemma sm_msg_simps [simp]:
  "sm_msg (plain_msg m) = m" "sm_msg (reply_on_error m i) = m" "map (sm_msg \<circ> plain_msg) ms = ms"
  by (simp_all add: plain_msg_def reply_on_error_def comp_def)

lemma totals [simp]:
  "minted_total a d [] = 0" "minted_total a d (m # ms) = minted_by a d m + minted_total a d ms"
  "minted_total a d (ms @ ns) = minted_total a d ms + minted_total a d ns"
  "spent_total a d [] = 0" "spent_total a d (m # ms) = burned_by a d m + sent_by d m + spent_total a d ms"
  "spent_total a d (ms @ ns) = spent_total a d ms + spent_total a d ns"
  by (simp_all add: minted_total_def spent_total_def)

lemma coins_of_messages [simp]:
  "coins_in a d (add_attributes kvs r) = coins_in a d r" "coins_out a d (add_attributes kvs r) = coins_out a d r"
  "coins_in a d (add_attribute k v r) = coins_in a d r" "coins_out a d (add_attribute k v r) = coins_out a d r"
  "coins_in a d response_new = 0" "coins_out a d response_new = 0"
  "coins_in a d (add_messages ms r) = coins_in a d r + minted_total a d ms"
  "coins_out a d (add_messages ms r) = coins_out a d r + spent_total a d ms"
  "coins_in a d (add_message m r) = coins_in a d r + minted_total a d [m]"
  "coins_out a d (add_message m r) = coins_out a d r + spent_total a d [m]"
  "coins_in a d (add_submessages ss r) = coins_in a d r + minted_total a d (map sm_msg ss)"
  "coins_out a d (add_submessages ss r) = coins_out a d r + spent_total a d (map sm_msg ss)"
  by (simp_all add: coins_in_def coins_out_def)

lemma rate_limit_coins [simp]:
  "minted_total a d (undo_send_msgs c key x) = 0" "spent_total a d (undo_send_msgs c key x) = 0"
  "minted_total a d (send_packet_msgs c key x) = 0" "spent_total a d (send_packet_msgs c key x) = 0"
  by (simp_all add: undo_send_msgs_def send_packet_msgs_def split: option.split)

lemma recv_packet_coins:
  "recv_packet_msgs c key am = Inr ms \<Longrightarrow> minted_total a d ms = 0 \<and> spent_total a d ms = 0"
  by (auto simp: recv_packet_msgs_def and_then_eq_Inr split: option.splits)

lemma mint_messages_coins [simp]: "spent_total a d (mint_messages tf den bs) = 0"
  by (induction bs) (simp_all add: mint_messages_def)

lemma universal_swap_coins [simp]:
  "minted_total a d (map sm_msg (universal_swap_msgs c memo x den)) = 0"
  "spent_total a d (map sm_msg (universal_swap_msgs c memo x den)) =
     (if is_universal_swap c memo \<and> den = d then unat x else 0)"
  by (auto simp: universal_swap_msgs_def is_universal_swap_def split: option.split)

text \<open>
  What a call does to the books: what the contract owes and pays out, and the coins \<open>x\<close> that
  become backing of the bridge's obligations on the XRPL, are covered by what it owed, the attached
  funds, what is minted for it and the coins \<open>y\<close> that cease to be backing.
\<close>

definition balanced :: "addr \<Rightarrow> string \<Rightarrow> nat \<Rightarrow> nat \<Rightarrow> coin list \<Rightarrow> storage \<Rightarrow> response \<Rightarrow> storage \<Rightarrow> bool" where
  "balanced a d x y funds s r s' \<longleftrightarrow>
     books_ok s' \<and>
     liabilities d s' + coins_out a d r + x \<le> liabilities d s + denom_total d funds + coins_in a d r + y"

abbreviation covered :: "addr \<Rightarrow> string \<Rightarrow> coin list \<Rightarrow> storage \<Rightarrow> response \<Rightarrow> storage \<Rightarrow> bool" where
  "covered a d \<equiv> balanced a d 0 0"

lemma covered_quiet:
  assumes "transitions p False s s'" and "base58_lengths p" and "books_ok s"
    and "coins_out a d r \<le> denom_total d funds"
  shows "covered a d funds s r s'"
  using quiet_transitions [OF assms(1-3), of d] assms(4) by (simp add: balanced_def)

lemma balanced_then:
  assumes "balanced a d x y funds s r s1" and "transitions p False s1 s'" and "base58_lengths p"
  shows "balanced a d x y funds s r s'"
  using assms(1) quiet_transitions [OF assms(2,3), of d] by (simp add: balanced_def)

lemma balanced_after:
  assumes "transitions p False s s1" and "base58_lengths p" and "books_ok s" and "balanced a d x y funds s1 r s'"
  shows "balanced a d x y funds s r s'"
  using assms(4) quiet_transitions [OF assms(1-3), of d] by (simp add: balanced_def)

lemma balanced_cong:
  "coins_in a d r' = coins_in a d r \<Longrightarrow> coins_out a d r' = coins_out a d r \<Longrightarrow>
   balanced a d x y funds s r' s' = balanced a d x y funds s r s'"
  by (simp add: balanced_def)

lemma transitions_books_ok:
  assumes "transitions p fin s s'" and "base58_lengths p" and "books_ok s"
  shows "operations_ok s' \<and> registry_ok s' \<and> items_ok s' \<and> addresses_ok s' \<and> tokens_kept s s'"
  using assms(1)
proof (induction rule: rtranclp_induct)
  case base
  then show ?case using assms(3) by (simp add: books_ok_def kept.rel_refl)
next
  case (step t u)
  then show ?case
    using operations_ok_transition registry_ok_transition items_ok_transition
      addresses_ok_transition [OF step(2) assms(2)] kept.rel_trans tokens_kept_transition by blast
qed

section \<open>Fees and claims\<close>

text \<open>What does not depend on the three account fields.\<close>

lemma refund_coin_cong:
  assumes "XRPL_TOKENS s' = XRPL_TOKENS s" and "COSMOS_TOKENS s' = COSMOS_TOKENS s"
  shows "refund_coin s' ty = refund_coin s ty"
  unfolding refund_coin_def assms by (rule refl)

lemma refund_coin_accounts [simp]:
  "refund_coin (s\<lparr>FEES_COLLECTED := x\<rparr>) ty = refund_coin s ty" "refund_coin (s\<lparr>FEE_REMAINDERS := y\<rparr>) ty = refund_coin s ty"
  "refund_coin (s\<lparr>PENDING_REFUNDS := z\<rparr>) ty = refund_coin s ty"
  by (rule refund_coin_cong; simp)+

lemma accounts_frame [simp]:
  "books_ok (s\<lparr>FEES_COLLECTED := x\<rparr>) = books_ok s" "books_ok (s\<lparr>FEE_REMAINDERS := y\<rparr>) = books_ok s"
  "books_ok (s\<lparr>PENDING_REFUNDS := z\<rparr>) = books_ok s"
  "in_transit d (s\<lparr>FEES_COLLECTED := x\<rparr>) = in_transit d s" "in_transit d (s\<lparr>FEE_REMAINDERS := y\<rparr>) = in_transit d s"
  "in_transit d (s\<lparr>PENDING_REFUNDS := z\<rparr>) = in_transit d s"
  "refunds_owed d (s\<lparr>FEES_COLLECTED := x\<rparr>) = refunds_owed d s"
  "refunds_owed d (s\<lparr>FEE_REMAINDERS := y\<rparr>) = refunds_owed d s"
  "fee_pool d (s\<lparr>PENDING_REFUNDS := z\<rparr>) = fee_pool d s"
  by (simp_all add: books_ok_def operations_ok_def registry_ok_def items_ok_def addresses_ok_def transfers_ok_def
      transfer_backed_def in_transit_def refunds_owed_def fee_pool_def fees_owed_def remainder_owed_def)

lemma books_ok_relayers: "books_ok s \<Longrightarrow> relayer_count s < 2 ^ 128"
proof -
  assume "books_ok s"
  then have "relayer_count s \<le> 32"
    by (auto simp: books_ok_def operations_ok_def proposal_ok_def relayer_count_def split: option.splits)
  also have "(32 :: nat) < 2 ^ 128" by simp
  finally show ?thesis .
qed

lemma collected:
  assumes "handle_fee_collection s fee den rem = Inr (c, s')" and "books_ok s"
  shows "books_ok s'" and "liabilities d s' = liabilities d s + (if d = den then unat fee + unat rem else 0)"
    and "unat c = unat fee + unat rem"
proof -
  note pool = handle_fee_collection_pool [OF assms(1) books_ok_relayers [OF assms(2)]]
  show "unat c = unat fee + unat rem" by (rule pool(1))
  from pool(3) obtain fc fr where s': "s' = s\<lparr>FEES_COLLECTED := fc, FEE_REMAINDERS := fr\<rparr>" by blast
  with assms(2) show "books_ok s'" by simp
  have "in_transit d s' = in_transit d s" "refunds_owed d s' = refunds_owed d s" by (simp_all add: s')
  with pool(1) pool(2) [of d] show "liabilities d s' = liabilities d s + (if d = den then unat fee + unat rem else 0)"
    by (simp add: liabilities_def)
qed

lemma claim_relayer_fees_covered:
  assumes "claim_relayer_fees s x amts = Inr (r, s')" and "books_ok s"
  shows "covered a d funds s r s'"
proof -
  from assms(1) have sub: "substract_relayer_fees s x amts = Inr s'" and r: "coins_out a d r = denom_total d amts"
    by (auto simp: claim_relayer_fees_def and_then_eq_Inr if_Inl_eq_Inr)
  from substract_relayer_fees_effect(4) [OF sub] obtain fc where s': "s' = s\<lparr>FEES_COLLECTED := fc\<rparr>" by blast
  have "liabilities d s = liabilities d s' + denom_total d amts"
    using substract_relayer_fees_effect(1) [OF sub, of d] by (simp add: liabilities_def fee_pool_def s' remainder_owed_def)
  with assms(2) r show ?thesis by (simp add: balanced_def s')
qed

lemma claim_pending_refund_covered:
  assumes "claim_pending_refund s x i = Inr (r, s')" and "books_ok s"
  shows "covered a d funds s r s'"
proof -
  from assms(1) obtain c where rem: "remove_pending_refund s x i = Inr (c, s')"
    and r: "coins_out a d r = (if c_denom c = d then unat (c_amount c) else 0)"
    by (auto simp: claim_pending_refund_def and_then_eq_Inr)
  note eff = remove_pending_refund_owed [OF rem]
  have "liabilities d s = liabilities d s' + coins_out a d r"
    using eff(1) [of d] r by (simp add: liabilities_def eff(2))
  with assms(2) show ?thesis by (simp add: balanced_def eff(2))
qed

section \<open>Transfers from the XRPL\<close>

lemma xrpl_originated_coins:
  assumes "xrpl_originated_msgs e c tok dec key am fee x rcp memo = Inr (ms, sms)" and "x \<noteq> 0"
  defines "a \<equiv> ev_contract_address e"
  shows "spent_total a d ms + spent_total a d (map sm_msg sms) + (if d = xt_cosmos_denom tok then unat fee else 0)
    \<le> minted_total a d ms + minted_total a d (map sm_msg sms)"
proof -
  let ?a = "ev_contract_address e" and ?den = "xt_cosmos_denom tok"
  from assms(1,2) obtain rate where rate: "recv_packet_msgs c key (and_then (truncate_amount (xt_sending_precision tok) dec am)
      (\<lambda>(truncated, _). Inr truncated)) = Inr rate"
    and ms: "ms = (if fee \<noteq> 0 then [mint_msg (cf_token_factory_addr c) ?den fee ?a] else []) @
      [mint_msg (cf_token_factory_addr c) ?den x (if is_universal_swap c memo then ?a else rcp)] @ rate"
    and sms: "sms = universal_swap_msgs c memo x ?den"
    unfolding xrpl_originated_msgs_def Let_def
    by (simp only: and_then_eq_Inr if_True not_False_eq_True prod.inject sum.inject) blast
  show ?thesis
    unfolding ms sms a_def using recv_packet_coins [OF rate, of ?a d] by (auto simp: mint_msg_def)
qed

lemma receive_xrpl_originated_covered:
  assumes "receive_xrpl_originated p e s c i cur am rcp memo True resp = Inr (r, s')" and "books_ok s"
    and "coins_in (ev_contract_address e) d resp = 0" "coins_out (ev_contract_address e) d resp = 0"
  shows "covered (ev_contract_address e) d funds s r s'"
proof -
  from assms(1) obtain tok :: xrpl_token and af x rem fee ms sms dec where
    tr: "truncate_amount (xt_sending_precision tok) dec af = Inr (x, rem)"
    and col: "handle_fee_collection s (xt_bridging_fee tok) (xt_cosmos_denom tok) rem = Inr (fee, s')"
    and ms: "xrpl_originated_msgs e c tok dec (build_xrpl_token_key i cur) am fee x rcp memo = Inr (ms, sms)"
    and r: "r = add_submessages sms (add_messages ms resp)"
    unfolding receive_xrpl_originated_def Let_def
    by (simp only: and_then_eq_Inr if_Inl_eq_Inr if_True split_paired_Ex prod.case prod.inject sum.inject) blast
  have "x \<noteq> 0" using truncate_amount_ok(2) [OF tr] by auto
  from xrpl_originated_coins [where d = d, OF ms this] collected(1,3) [OF col assms(2)] collected(2) [OF col assms(2), of d] assms(3,4)
  show ?thesis by (cases "d = xt_cosmos_denom tok") (simp_all add: balanced_def r)
qed

text \<open>The coins of a denom that a payment to the bridge's XRPL account redeems.\<close>

definition redeemed :: "storage \<Rightarrow> string \<Rightarrow> u128 \<Rightarrow> string \<Rightarrow> nat" where
  "redeemed s cur am d =
     (case index_item ct_xrpl_currency cur (COSMOS_TOKENS s) of
        None \<Rightarrow> 0
      | Some (_, tok) \<Rightarrow>
          (case convert_amount_decimals XRPL_TOKENS_DECIMALS (ct_decimals tok) am of
             Inl _ \<Rightarrow> 0 | Inr x \<Rightarrow> if ct_denom tok = d then unat x else 0))"

lemma redeemed_unregistered:
  assumes "registry_ok s" and "\<not> kv_has d (COSMOS_TOKENS s)"
  shows "redeemed s cur am d = 0"
proof (cases "index_item ct_xrpl_currency cur (COSMOS_TOKENS s)")
  case (Some kt)
  obtain k tok where kt: "kt = (k, tok)" by (cases kt)
  with Some have "kv_load k (COSMOS_TOKENS s) = Some tok" using index_item_Some by fastforce
  with assms have "ct_denom tok \<noteq> d" unfolding registry_ok_def kv_has_def by auto
  with Some kt show ?thesis by (simp add: redeemed_def split: sum.split)
qed (simp add: redeemed_def)

lemma receive_cosmos_originated_balanced:
  assumes "receive_cosmos_originated s c i cur am rcp memo True resp = Inr (r, s')" and "books_ok s"
    and "coins_in a d resp = 0" "coins_out a d resp = 0"
  shows "balanced a d 0 (redeemed s cur am d) funds s r s'"
proof -
  from assms(1) obtain k tok where tok: "index_item ct_xrpl_currency cur (COSMOS_TOKENS s) = Some (k, tok)"
    by (auto simp: receive_cosmos_originated_def split: option.splits)
  with assms(1) obtain x rem fee ms sms where
    ct: "convert_and_truncate_amount (ct_sending_precision tok) XRPL_TOKENS_DECIMALS (ct_decimals tok) am
      (ct_bridging_fee tok) = Inr (x, rem)"
    and col: "handle_fee_collection s (ct_bridging_fee tok) (ct_denom tok) rem = Inr (fee, s')"
    and ms: "cosmos_originated_msgs c tok (build_xrpl_token_key i cur) am x rcp memo = Inr (ms, sms)"
    and r: "r = add_submessages sms (add_messages ms resp)"
    by (auto simp: receive_cosmos_originated_def and_then_eq_Inr if_Inl_eq_Inr)
  from ct obtain conv af where conv: "convert_amount_decimals XRPL_TOKENS_DECIMALS (ct_decimals tok) am = Inr conv"
    and af: "amount_after_bridge_fees conv (ct_bridging_fee tok) = Inr af"
    and tr: "truncate_amount (ct_sending_precision tok) (ct_decimals tok) af = Inr (x, rem)"
    by (auto simp: convert_and_truncate_amount_def and_then_eq_Inr)
  have "unat conv = unat x + (unat (ct_bridging_fee tok) + unat rem)"
    using af truncate_amount_ok(1) [OF tr] by (simp add: amount_after_bridge_fees_eq_Inr)
  moreover from ms obtain rate where "recv_packet_msgs c (build_xrpl_token_key i cur)
      (convert_amount_decimals XRPL_TOKENS_DECIMALS (ct_decimals tok) am) = Inr rate"
    and "ms = (if is_universal_swap c memo then [] else [BankSend (as_str rcp) [coin_of x (ct_denom tok)]]) @ rate"
    and "sms = universal_swap_msgs c memo x (ct_denom tok)"
    unfolding cosmos_originated_msgs_def Let_def by (simp only: and_then_eq_Inr prod.inject sum.inject) blast
  moreover have "redeemed s cur am d = (if ct_denom tok = d then unat conv else 0)" by (simp add: redeemed_def tok conv)
  ultimately show ?thesis
    using recv_packet_coins [where ms = rate and a = a and d = d] collected(1,3) [OF col assms(2)]
      collected(2) [OF col assms(2), of d] assms(3,4)
    by (auto simp: balanced_def r)
qed

lemma receive_transfer_balanced:
  assumes "receive_transfer p e s c h i cur am rcp memo reached resp = Inr (r, s')" and "books_ok s"
    and "coins_in (ev_contract_address e) d resp = 0" "coins_out (ev_contract_address e) d resp = 0"
  shows "balanced (ev_contract_address e) d 0
    (if reached \<and> i = cf_bridge_xrpl_address c then redeemed s cur am d else 0) funds s r s'"
proof (cases reached)
  case True
  let ?a = "ev_contract_address e"
  from assms(1) True obtain m r0 where
    r0: "(if i \<noteq> cf_bridge_xrpl_address c then receive_xrpl_originated p e s c i cur am rcp m True resp
      else receive_cosmos_originated s c i cur am rcp m True resp) = Inr (r0, s')"
    and r: "coins_in ?a d r = coins_in ?a d r0" "coins_out ?a d r = coins_out ?a d r0"
    by (auto simp: receive_transfer_def Let_def and_then_eq_Inr if_Inl_eq_Inr)
  show ?thesis
  proof (cases "i = cf_bridge_xrpl_address c")
    case bridge: True
    with r0 have "receive_cosmos_originated s c i cur am rcp m True resp = Inr (r0, s')" by simp
    from receive_cosmos_originated_balanced [OF this assms(2-4)] show ?thesis
      using True bridge balanced_cong [OF r] by simp
  next
    case other: False
    with r0 have "receive_xrpl_originated p e s c i cur am rcp m True resp = Inr (r0, s')" by simp
    from receive_xrpl_originated_covered [OF this assms(2-4)] show ?thesis
      using other balanced_cong [OF r] by simp
  qed
next
  case False
  with assms(1) have "s' = s \<and> rs_messages r = rs_messages resp"
    by (intro below_threshold_receive(1)) simp
  with assms(2-4) False show ?thesis by (simp add: balanced_def coins_in_def coins_out_def)
qed

section \<open>Settlement of transfers to the XRPL\<close>

text \<open>
  The coins of an accepted transfer: those of a token issued on the XRPL are burned, those of a Cosmos
  originated token stay with the contract as backing.
\<close>

definition moved_out :: "storage \<Rightarrow> operation_type \<Rightarrow> string \<Rightarrow> nat" where
  "moved_out s ty d =
     (case transfer_key ty of
        None \<Rightarrow> 0
      | Some key \<Rightarrow> if kv_has key (XRPL_TOKENS s) then 0 else coin_value d (refund_coin s ty))"

lemma moved_out_other [simp]: "\<not> is_transfer ty \<Longrightarrow> moved_out s ty d = 0"
  by (cases ty) (simp_all add: moved_out_def transfer_key_def)

lemma burn_coins:
  assumes "is_transfer ty"
  shows "spent_total a d (burn_msgs s tf a ty) + moved_out s ty d = coin_value d (refund_coin s ty)"
    and "minted_total a d (burn_msgs s tf a ty) = 0"
  using assms
  by (cases ty; simp add: burn_msgs_def moved_out_def transfer_key_def coin_value_def split: option.split)+

lemma store_refund_owed:
  "refunds_owed d (s\<lparr>PENDING_REFUNDS := kv_save k r (PENDING_REFUNDS s)\<rparr>) \<le> refunds_owed d s + coin_value d (Some (pr_coin r))"
  using kv_sum_save [of "\<lambda>_ r. if c_denom (pr_coin r) = d then unat (c_amount (pr_coin r)) else 0" k r "PENDING_REFUNDS s"]
  by (simp add: refunds_owed_def coin_value_def)

lemma drop_transfer:
  assumes "books_ok s" and "kv_load oid (PENDING_OPERATIONS s) = Some op"
  shows "transfers_ok (drop_operation oid s)"
    and "in_transit d (drop_operation oid s) + coin_value d (refund_coin s (op_operation_type op)) = in_transit d s"
    and "fee_pool d (drop_operation oid s) = fee_pool d s" "refunds_owed d (drop_operation oid s) = refunds_owed d s"
proof -
  have rc: "refund_coin (drop_operation oid s) ty = refund_coin s ty" for ty by (rule refund_coin_cong) simp_all
  show "transfers_ok (drop_operation oid s)"
    using assms(1) by (auto simp: books_ok_def transfers_ok_def transfer_backed_def rc split: if_splits)
  show "in_transit d (drop_operation oid s) + coin_value d (refund_coin s (op_operation_type op)) = in_transit d s"
    using type_sum_changes(2) [OF assms(2), of "\<lambda>ty. coin_value d (refund_coin s ty)"] by (simp add: in_transit_def rc)
qed (simp_all add: fee_pool_def fees_owed_def remainder_owed_def refunds_owed_def)

lemma settle_transfer_balanced:
  assumes "handle_cosmos_to_xrpl_transfer_confirmation s res h oid tf a resp = Inr (m, r, s1)"
    and op: "kv_load oid (PENDING_OPERATIONS s) = Some op" "is_transfer (op_operation_type op)"
    and "base58_lengths p" and ok: "books_ok s"
    and "coins_in a d resp = 0" "coins_out a d resp = 0"
  shows "balanced a d (if res = Accepted then moved_out s (op_operation_type op) d else 0) 0 funds s
    (add_messages m r) (drop_operation oid s1)"
proof -
  let ?v = "coin_value d (refund_coin s (op_operation_type op))"
  have "operations_ok (drop_operation oid s1) \<and> registry_ok (drop_operation oid s1) \<and> items_ok (drop_operation oid s1) \<and>
      addresses_ok (drop_operation oid s1)"
    using transitions_books_ok [OF settle_transfer_transitions [OF op assms(1)] assms(4) ok] by blast
  note parts = this
  show ?thesis
  proof (cases "res = Accepted")
    case True
    with assms(1) op(1) have "m = [] \<and> s1 = s \<and> r = add_messages (burn_msgs s tf a (op_operation_type op)) resp"
      using transfer_accepted by blast
    with burn_coins [OF op(2), of a d s tf] drop_transfer(1,3,4) [OF ok op(1)] drop_transfer(2) [OF ok op(1), of d]
      parts assms(6,7) True
    show ?thesis by (simp add: balanced_def books_ok_def liabilities_def)
  next
    case False
    obtain coin key sn cfg where
      c: "refund_coin s (op_operation_type op) = Some coin" and m: "m = undo_send_msgs cfg key (c_amount coin)" "r = resp"
      and s1: "s1 = s\<lparr>PENDING_REFUNDS := kv_save (sn, op_id op)
        \<lparr>pr_address = sn, pr_id = op_id op, pr_xrpl_tx_hash = h, pr_coin = coin\<rparr> (PENDING_REFUNDS s)\<rparr>"
      by (rule transfer_refused [OF assms(1) False op(1)])
    have "books_ok s1" and op1: "kv_load oid (PENDING_OPERATIONS s1) = Some op" using ok op(1) by (simp_all add: s1)
    note dr = drop_transfer [OF this]
    have "refunds_owed d s1 \<le> refunds_owed d s + ?v"
      using store_refund_owed [where r = "\<lparr>pr_address = sn, pr_id = op_id op, pr_xrpl_tx_hash = h, pr_coin = coin\<rparr>"]
      by (simp add: s1 c)
    moreover have "in_transit d s1 = in_transit d s" "fee_pool d s1 = fee_pool d s" by (simp_all add: s1)
    moreover have "refund_coin s1 (op_operation_type op) = refund_coin s (op_operation_type op)" by (simp add: s1)
    ultimately show ?thesis
      using dr(1) dr(2-4) [of d] parts assms(6,7) False by (simp add: balanced_def books_ok_def liabilities_def m)
  qed
qed

section \<open>Transfers to the XRPL\<close>

text \<open>
  The coins a user sends split exactly: what the fee pool gains and the coin that the pending
  operation burns or gives back.
\<close>

lemma refund_of_converted:
  assumes "truncate_amount sp dec am = Inr (t, rem)" and "convert_amount_decimals dec XRPL_TOKENS_DECIMALS t = Inr x"
    and "validate_sending_precision sp dec = Inr ()" and "unat dec \<le> 100"
  shows "convert_amount_decimals XRPL_TOKENS_DECIMALS dec x = Inr t"
proof -
  have "(100 :: nat) < 2 ^ 31" by simp
  with assms(4) have "unat dec < 2 ^ 31" by (rule le_less_trans)
  with assms(3) have "int (truncation_exponent sp dec) = int (unat dec) - sint sp"
    by (rule truncation_exponent_valid)
  moreover have "sint sp \<le> 15" using assms(3) by (simp add: validate_sending_precision_ok)
  ultimately have "unat dec \<le> 15 + truncation_exponent sp dec" by linarith
  with convert_back [of dec t x] assms(2) truncate_amount_ok(3) [OF assms(1)] show ?thesis
    by (simp add: XRPL_TOKENS_DECIMALS_def)
qed

lemma converted_exact:
  assumes "convert_amount_decimals dec XRPL_TOKENS_DECIMALS t = Inr x"
  shows "10 ^ (15 - unat dec) dvd unat x"
  using assms convert_amount_decimals_up [of dec XRPL_TOKENS_DECIMALS t x]
  by (cases "unat dec \<le> 15") (simp_all add: XRPL_TOKENS_DECIMALS_def)

definition transfer_of :: "transfer_plan \<Rightarrow> addr \<Rightarrow> string \<Rightarrow> operation_type" where
  "transfer_of plan sender recipient =
     CosmosToXRPLTransfer (tp_issuer plan) (tp_currency plan) (tp_amount plan) (tp_max_amount plan) sender recipient"

lemma plan_xrpl_split:
  assumes "plan_xrpl_originated s tok (c_amount funds) dl = Inr (plan, s1)" and ok: "books_ok s"
    and tok: "index_item xt_cosmos_denom (c_denom funds) (XRPL_TOKENS s) = Some (k, tok)"
  obtains coin x where "refund_coin s (transfer_of plan sn rc) = Some coin" and "c_denom coin = c_denom funds"
    and "unat (c_amount funds) = unat (c_amount coin) + x" and "transfer_backed s (transfer_of plan sn rc)"
    and "\<And>d. fee_pool d s1 = fee_pool d s + (if d = c_denom funds then x else 0)"
proof -
  from tok have ld: "kv_load k (XRPL_TOKENS s) = Some tok" and den: "xt_cosmos_denom tok = c_denom funds"
    using index_item_Some by fastforce+
  with ok have key: "k = build_xrpl_token_key (xt_issuer tok) (xt_currency tok)"
    unfolding books_ok_def registry_ok_def by blast
  from assms(1) obtain af t rem am mx fee lim dec where
    af: "amount_after_bridge_fees (c_amount funds) (xt_bridging_fee tok) = Inr af"
    and t: "truncate_amount (xt_sending_precision tok) dec af = Inr (t, rem)"
    and mx: "(case dl of
           Some deliver_amount \<Rightarrow>
             if deliver_amount > af then fail InvalidDeliverAmount else
             and_then (truncate_amount (xt_sending_precision tok) dec deliver_amount) (\<lambda>(truncated_amount, _).
             Inr (truncated_amount, Some t))
         | None \<Rightarrow> Inr (t, if is_token_xrp (xt_issuer tok) (xt_currency tok) then None else Some t)) = Inr (am, mx)"
    and col: "handle_fee_collection s (xt_bridging_fee tok) (xt_cosmos_denom tok) rem = Inr (fee, s1)"
    and plan: "plan = \<lparr>tp_issuer = xt_issuer tok, tp_currency = xt_currency tok, tp_amount = am, tp_max_amount = mx,
      tp_limit_amount = lim\<rparr>"
    unfolding plan_xrpl_originated_def Let_def
    by (simp only: and_then_eq_Inr if_Inl_eq_Inr split_paired_Ex prod.case prod.inject sum.inject) blast
  have "(case mx of Some m \<Rightarrow> m | None \<Rightarrow> am) = t"
    using mx by (auto simp: and_then_eq_Inr if_Inl_eq_Inr split: option.splits if_splits)
  then have rc: "refund_coin s (transfer_of plan sn rc) = Some (coin_of t (c_denom funds))"
    using ld by (simp add: transfer_of_def plan refund_coin_def key den)
  have "unat (c_amount funds) = unat t + (unat (xt_bridging_fee tok) + unat rem)"
    using af truncate_amount_ok(1) [OF t] by (simp add: amount_after_bridge_fees_eq_Inr)
  moreover have "transfer_backed s (transfer_of plan sn rc)"
    using ld by (simp add: transfer_backed_def transfer_of_def plan kv_has_def key)
  ultimately show thesis
    using handle_fee_collection_pool(1,2) [OF col books_ok_relayers [OF ok]] rc
    by (intro that [of "coin_of t (c_denom funds)" "unat fee"]) (auto simp: den)
qed

lemma plan_cosmos_split:
  assumes "plan_cosmos_originated p e s funds dl = Inr (plan, s1)" and ok: "books_ok s"
  obtains coin x where "refund_coin s (transfer_of plan sn rc) = Some coin" and "c_denom coin = c_denom funds"
    and "unat (c_amount funds) = unat (c_amount coin) + x" and "transfer_backed s (transfer_of plan sn rc)"
    and "\<And>d. fee_pool d s1 = fee_pool d s + (if d = c_denom funds then x else 0)"
proof -
  from assms(1) obtain tok :: cosmos_token and c :: config and x rem fee lim where
    ld: "kv_load (c_denom funds) (COSMOS_TOKENS s) = Some tok" and c: "CONFIG s = Some c"
    and tc: "truncate_and_convert_amount (ct_sending_precision tok) (ct_decimals tok) XRPL_TOKENS_DECIMALS
      (c_amount funds) (ct_bridging_fee tok) = Inr (x, rem)"
    and col: "handle_fee_collection s (ct_bridging_fee tok) (ct_denom tok) rem = Inr (fee, s1)"
    and plan: "plan = \<lparr>tp_issuer = cf_bridge_xrpl_address c, tp_currency = ct_xrpl_currency tok, tp_amount = x,
      tp_max_amount = Some x, tp_limit_amount = lim\<rparr>"
    unfolding plan_cosmos_originated_def Let_def
    by (simp only: and_then_eq_Inr if_Inl_eq_Inr map_err_eq_Inr item_load_eq_Inr split_paired_Ex prod.case
        prod.inject sum.inject) blast
  from ok have reg: "registry_ok s" and adr: "addresses_ok s" by (simp_all add: books_ok_def)
  from reg ld have den: "ct_denom tok = c_denom funds" and dec: "unat (ct_decimals tok) \<le> 100"
    and sp: "validate_sending_precision (ct_sending_precision tok) (ct_decimals tok) = Inr ()"
    unfolding registry_ok_def by auto
  from tc obtain af t where af: "amount_after_bridge_fees (c_amount funds) (ct_bridging_fee tok) = Inr af"
    and t: "truncate_amount (ct_sending_precision tok) (ct_decimals tok) af = Inr (t, rem)"
    and x: "convert_amount_decimals (ct_decimals tok) XRPL_TOKENS_DECIMALS t = Inr x"
    by (auto simp: truncate_and_convert_amount_def and_then_eq_Inr)
  have "convert_amount_decimals XRPL_TOKENS_DECIMALS (ct_decimals tok) x = Inr t"
    by (rule refund_of_converted [OF t x sp dec])
  then have rc: "refund_coin s (transfer_of plan sn rc) = Some (coin_of t (c_denom funds))"
    using refund_coin_cosmos [OF adr reg c refl ld refl] by (simp add: transfer_of_def plan refund_cosmos_def den)
  have "unat (c_amount funds) = unat t + (unat (ct_bridging_fee tok) + unat rem)"
    using af truncate_amount_ok(1) [OF t] by (simp add: amount_after_bridge_fees_eq_Inr)
  moreover have "transfer_backed s (transfer_of plan sn rc)"
    using ld c converted_exact [OF x] by (auto simp: transfer_backed_def transfer_of_def plan)
  ultimately show thesis
    using handle_fee_collection_pool(1,2) [OF col books_ok_relayers [OF ok]] rc
    by (intro that [of "coin_of t (c_denom funds)" "unat fee"]) (auto simp: den)
qed

lemma plan_split:
  assumes "plan_transfer p e s funds dl = Inr (plan, s1)" and "books_ok s"
  obtains coin x where "refund_coin s (transfer_of plan sn rc) = Some coin" and "c_denom coin = c_denom funds"
    and "unat (c_amount funds) = unat (c_amount coin) + x" and "transfer_backed s (transfer_of plan sn rc)"
    and "\<And>d. fee_pool d s1 = fee_pool d s + (if d = c_denom funds then x else 0)"
proof (cases "index_item xt_cosmos_denom (c_denom funds) (XRPL_TOKENS s)")
  case None
  with assms(1) have "plan_cosmos_originated p e s funds dl = Inr (plan, s1)" by (simp add: plan_transfer_def)
  from plan_cosmos_split [OF this assms(2)] that show thesis by blast
next
  case (Some kt)
  obtain k tok where kt: "kt = (k, tok)" by (cases kt)
  with Some assms(1) have "plan_xrpl_originated s tok (c_amount funds) dl = Inr (plan, s1)"
    by (simp add: plan_transfer_def)
  from plan_xrpl_split [OF this assms(2) Some [unfolded kt]] that show thesis by blast
qed

lemma send_to_xrpl_split:
  assumes "send_to_xrpl p e info s rcp dl = Inr (r, s')" and ok: "books_ok s" and p: "base58_lengths p"
  obtains funds oid op coin x where "one_coin p (mi_funds info) = Inr funds"
    and "kv_load oid (PENDING_OPERATIONS s) = None" and "kv_load oid (PENDING_OPERATIONS s') = Some op"
    and "refund_coin s' (op_operation_type op) = Some coin" and "c_denom coin = c_denom funds"
    and "transfer_sender (op_operation_type op) = Some (mi_sender info)"
    and "unat (c_amount funds) = unat (c_amount coin) + x"
    and "\<And>d. fee_pool d s' = fee_pool d s + (if d = c_denom funds then x else 0)"
    and "\<And>d. refunds_owed d s' = refunds_owed d s"
    and "\<And>d. in_transit d s' = in_transit d s + coin_value d (Some coin)"
    and "books_ok s'" and "\<And>a d. coins_out a d r = 0"
  using assms(1)
proof (rule send_to_xrpl_ok)
  fix c funds plan s1 ticket rest
  assume f: "one_coin p (mi_funds info) = Inr funds" and pl: "plan_transfer p e s funds dl = Inr (plan, s1)"
    and cr: "create_pending_operation (s1\<lparr>AVAILABLE_TICKETS := Some rest\<rparr>) (ev_time_seconds e) (Some ticket) None
      (CosmosToXRPLTransfer (tp_issuer plan) (tp_currency plan) (tp_amount plan) (tp_max_amount plan)
        (mi_sender info) rcp) = Inr s'"
    and r: "r = add_messages (send_packet_msgs c (build_xrpl_token_key (tp_issuer plan) (tp_currency plan))
        (tp_limit_amount plan))
      (add_attributes [(''action'', action_as_str CA_SendToXRPL), (''sender'', as_str (mi_sender info)),
        (''recipient'', rcp), (''coin'', coin_to_string funds)] response_new)"
  let ?ty = "transfer_of plan (mi_sender info) rcp"
  obtain coin x where sp: "refund_coin s ?ty = Some coin" "c_denom coin = c_denom funds"
    "unat (c_amount funds) = unat (c_amount coin) + x" "transfer_backed s ?ty"
    and pool: "\<And>d. fee_pool d s1 = fee_pool d s + (if d = c_denom funds then x else 0)"
    by (rule plan_split [OF pl ok]) blast
  from plan_transfer_frame [OF pl] obtain fc fr where s1: "s1 = s\<lparr>FEES_COLLECTED := fc, FEE_REMAINDERS := fr\<rparr>" by blast
  let ?s = "s1\<lparr>AVAILABLE_TICKETS := Some rest\<rparr>"
  from cr obtain op where q0: "queueable ?s ticket op" and ty: "op_operation_type op =
      CosmosToXRPLTransfer (tp_issuer plan) (tp_currency plan) (tp_amount plan) (tp_max_amount plan) (mi_sender info) rcp"
    and s': "s' = ?s\<lparr>PENDING_OPERATIONS := kv_save ticket op (PENDING_OPERATIONS ?s)\<rparr>"
    by (rule create_with_ticket)
  have q: "queueable s ticket op" "op_operation_type op = ?ty"
    using q0 ty by (simp_all add: s1 queueable_def transfer_of_def)
  have rc: "refund_coin s' ty = refund_coin s ty" for ty by (rule refund_coin_cong) (simp_all add: s' s1)
  have po: "PENDING_OPERATIONS s' = kv_save ticket op (PENDING_OPERATIONS s)" by (simp add: s' s1)
  have parts: "operations_ok s' \<and> registry_ok s' \<and> items_ok s' \<and> addresses_ok s'"
    using transitions_books_ok [OF send_to_xrpl_transitions [OF assms(1)] p ok] by blast
  have "transfers_ok s'"
    unfolding transfers_ok_def rc using ok sp(1,4) q(2)
    by (auto simp: books_ok_def transfers_ok_def transfer_backed_def s' s1 split: if_splits)
  with parts have ok': "books_ok s'" by (simp add: books_ok_def)
  have tr: "in_transit d s' = in_transit d s + coin_value d (Some coin)" for d
    using type_sum_changes(1) [OF q(1), of "\<lambda>ty. coin_value d (refund_coin s ty)"]
    by (simp add: in_transit_def rc po q(2) sp(1))
  show thesis
  proof (rule that [OF f _ _ _ sp(2) _ sp(3) _ _ tr ok'])
    show "kv_load ticket (PENDING_OPERATIONS s) = None" using q(1) by (simp add: queueable_def)
    show "kv_load ticket (PENDING_OPERATIONS s') = Some op" by (simp add: s')
    show "refund_coin s' (op_operation_type op) = Some coin" by (simp add: rc q(2) sp(1))
    show "transfer_sender (op_operation_type op) = Some (mi_sender info)"
      by (simp add: q(2) transfer_of_def transfer_sender_def)
    show "fee_pool d s' = fee_pool d s + (if d = c_denom funds then x else 0)" for d
      using pool [of d] by (simp add: s' fee_pool_def fees_owed_def remainder_owed_def)
    show "refunds_owed d s' = refunds_owed d s" for d by (simp add: s' s1 refunds_owed_def)
    show "coins_out a d r = 0" for a d by (simp add: r)
  qed
qed

section \<open>Every call\<close>

text \<open>What the accounting relies on of the platform: the lengths of addresses and the only coin of a call.\<close>

definition platform_laws :: "platform \<Rightarrow> bool" where
  "platform_laws p \<longleftrightarrow> base58_lengths p \<and> (\<forall>cs c. one_coin p cs = Inr c \<longrightarrow> cs = [c])"

lemma send_to_xrpl_covered:
  assumes "send_to_xrpl p e info s rcp dl = Inr (r, s')" and "books_ok s" and "platform_laws p"
  shows "covered a d (mi_funds info) s r s'"
proof -
  have p: "base58_lengths p" using assms(3) by (simp add: platform_laws_def)
  show ?thesis
  proof (rule send_to_xrpl_split [OF assms(1,2) p])
    fix funds coin x
    assume f: "one_coin p (mi_funds info) = Inr funds" and c: "c_denom coin = c_denom funds"
      and am: "unat (c_amount funds) = unat (c_amount coin) + x"
      and "\<And>d. fee_pool d s' = fee_pool d s + (if d = c_denom funds then x else 0)"
      and "\<And>d. refunds_owed d s' = refunds_owed d s"
      and "\<And>d. in_transit d s' = in_transit d s + coin_value d (Some coin)"
      and "books_ok s'" and "\<And>a d. coins_out a d r = 0"
    moreover have "mi_funds info = [funds]" using f assms(3) by (simp add: platform_laws_def)
    ultimately show ?thesis by (simp add: balanced_def liabilities_def coin_value_def)
  qed
qed

lemma handle_operation_balanced:
  assumes op: "kv_load oid (PENDING_OPERATIONS s) = Some op"
    and "handle_operation s op ores res h oid tick tf a resp = Inr (m, r, s')"
    and p: "base58_lengths p" and ok: "books_ok s"
    and resp: "coins_in a d resp = 0" "coins_out a d resp = 0"
  shows "balanced a d (if res = Accepted then moved_out s (op_operation_type op) d else 0) 0 funds s (add_messages m r) s'"
proof -
  have quiet: "balanced a d (if res = Accepted then moved_out s (op_operation_type op) d else 0) 0 funds s (add_messages m r) s'"
    if "transitions p False s (drop_operation oid s1)" "released oid tick res s1 s'" "m = []" "r = resp"
      "\<not> is_transfer (op_operation_type op)" for s1
    using covered_quiet [OF released_transitions [OF that(1,2)] p ok, of a d "add_messages m r"] resp that by simp
  from assms(2) show ?thesis
  proof (cases rule: handle_operation_cases)
    case (allocation n ts s1)
    from settle_allocation_transitions [OF op allocation(1,4)] allocation(5,2,3) show ?thesis
      by (rule quiet) (simp add: allocation(1))
  next
    case (trust_set i c n s1)
    from settle_trust_set_transitions [OF op trust_set(1,4)] trust_set(5,2,3) show ?thesis
      by (rule quiet) (simp add: trust_set(1))
  next
    case (rotation rs t s1)
    from settle_rotation_transitions [OF op rotation(1,4)] rotation(5,2,3) show ?thesis
      by (rule quiet) (simp add: rotation(1))
  next
    case (transfer s1)
    have "transitions p False (drop_operation oid s1) s'"
      by (rule released_transitions [OF rtranclp.rtrancl_refl transfer(3)])
    with settle_transfer_balanced [OF transfer(2) op transfer(1) p ok resp] show ?thesis
      using p by (rule balanced_then)
  qed
qed

lemma cancel_pending_operation_covered:
  assumes "cancel_pending_operation p e s x oid = Inr (r, s')" and "books_ok s" and "base58_lengths p"
  shows "covered (ev_contract_address e) d funds s r s'"
proof -
  from assms(1) obtain op ores m r0 and c :: config where op: "kv_load oid (PENDING_OPERATIONS s) = Some op"
    "handle_operation s op ores Invalid None oid (op_ticket_sequence op) (cf_token_factory_addr c)
      (ev_contract_address e) response_new = Inr (m, r0, s')"
    and r: "r = add_messages m (add_attributes [(''action'', action_as_str CA_CancelPendingOperation),
        (''sender'', as_str x)] r0)"
    unfolding cancel_pending_operation_def Let_def
    by (simp only: and_then_eq_Inr check_operation_exists_ok split_paired_Ex prod.case prod.inject sum.inject) blast
  have "covered (ev_contract_address e) d funds s (add_messages m r0) s'"
    using handle_operation_balanced [OF op assms(3,2), of d funds] by simp
  then show ?thesis by (subst balanced_cong) (simp_all add: r)
qed

definition result_out :: "storage \<Rightarrow> u64 option \<Rightarrow> u64 option \<Rightarrow> transaction_result \<Rightarrow> string \<Rightarrow> nat" where
  "result_out s acc tick res d =
     (case sequence_or acc tick of
        Inl _ \<Rightarrow> 0
      | Inr oid \<Rightarrow>
          (case kv_load oid (PENDING_OPERATIONS s) of
             None \<Rightarrow> 0
           | Some op \<Rightarrow> if res = Accepted then moved_out s (op_operation_type op) d else 0))"

lemma receive_transaction_result_balanced:
  assumes "receive_transaction_result e s c h acc tick res ores reached resp = Inr (r, s')"
    and p: "base58_lengths p" and ok: "books_ok s"
    and resp: "coins_in (ev_contract_address e) d resp = 0" "coins_out (ev_contract_address e) d resp = 0"
  shows "balanced (ev_contract_address e) d (if reached then result_out s acc tick res d else 0) 0 funds s r s'"
proof -
  let ?a = "ev_contract_address e"
  from assms(1) obtain oid op m r0 where oid: "sequence_or acc tick = Inr oid"
    and op: "kv_load oid (PENDING_OPERATIONS s) = Some op"
    and ap: "(if reached then apply_transaction_result e s c op h oid tick res ores resp else Inr ([], resp, s)) = Inr (m, r0, s')"
    and r: "coins_in ?a d r = coins_in ?a d (add_messages m r0)" "coins_out ?a d r = coins_out ?a d (add_messages m r0)"
    by (auto simp: receive_transaction_result_def and_then_eq_Inr if_Inl_eq_Inr check_operation_exists_ok)
  have "balanced ?a d (if reached then result_out s acc tick res d else 0) 0 funds s (add_messages m r0) s'"
  proof (cases reached)
    case True
    with ap obtain r1 s1 where ho: "handle_operation s op ores res h oid tick (cf_token_factory_addr c)
        (ev_contract_address e) resp = Inr (m, r1, s1)"
      and r1: "coins_in ?a d r0 = coins_in ?a d r1" "coins_out ?a d r0 = coins_out ?a d r1"
      and rest: "transitions p False s1 s'"
      using register_used_ticket_transitions
      by (auto simp: apply_transaction_result_def and_then_eq_Inr split: if_splits)
    have "result_out s acc tick res d = (if res = Accepted then moved_out s (op_operation_type op) d else 0)"
      by (simp add: result_out_def oid op)
    with balanced_then [OF handle_operation_balanced [OF op ho p ok resp, of funds] rest p]
    have "balanced ?a d (result_out s acc tick res d) 0 funds s (add_messages m r1) s'" by simp
    with True show ?thesis by (subst balanced_cong) (simp_all add: r1)
  next
    case False
    with ap have "s' = s" "m = []" "r0 = resp" by simp_all
    with ok resp False show ?thesis by (simp add: balanced_def)
  qed
  then show ?thesis by (subst balanced_cong) (simp_all add: r)
qed

text \<open>What a deciding evidence moves between the contract's liabilities and the backing.\<close>

definition evidence_out :: "platform \<Rightarrow> storage \<Rightarrow> evidence \<Rightarrow> string \<Rightarrow> nat" where
  "evidence_out p s ev d =
     (case ev of
        XRPLToCosmosTransfer _ _ _ _ _ _ \<Rightarrow> 0
      | XRPLTransactionResult _ acc tick res _ \<Rightarrow> if decides p s ev then result_out s acc tick res d else 0)"

definition evidence_in :: "platform \<Rightarrow> storage \<Rightarrow> evidence \<Rightarrow> string \<Rightarrow> nat" where
  "evidence_in p s ev d =
     (case ev of
        XRPLToCosmosTransfer _ i cur am _ _ \<Rightarrow>
          if decides p s ev \<and> Some i = map_option cf_bridge_xrpl_address (CONFIG s) then redeemed s cur am d else 0
      | XRPLTransactionResult _ _ _ _ _ \<Rightarrow> 0)"

lemma evidence_reads:
  assumes "handle_evidence p s x ev = Inr (reached, s1)"
  shows "redeemed s1 = redeemed s" and "result_out s1 = result_out s" and "CONFIG s1 = CONFIG s"
    and "reached = decides p s ev"
proof -
  from handle_evidence_frame [OF assms] obtain te pt where s1: "s1 = s\<lparr>TX_EVIDENCES := te, PROCESSED_TXS := pt\<rparr>" by blast
  have "refund_coin s1 ty = refund_coin s ty" for ty by (rule refund_coin_cong) (simp_all add: s1)
  then have mo: "moved_out s1 ty d = moved_out s ty d" for ty d by (simp add: moved_out_def s1 split: option.split)
  show "redeemed s1 = redeemed s" "CONFIG s1 = CONFIG s" by (simp_all add: fun_eq_iff redeemed_def s1)
  show "result_out s1 = result_out s"
    using mo unfolding s1 by (simp add: fun_eq_iff result_out_def split: sum.split option.split)
  show "reached = decides p s ev" by (rule handle_evidence_cases [OF assms]) (auto simp: decides_def)
qed

lemma save_evidence_balanced:
  assumes "save_evidence p e s x ev = Inr (r, s')" and p: "base58_lengths p" and ok: "books_ok s"
  shows "balanced (ev_contract_address e) d (evidence_out p s ev d) (evidence_in p s ev d) funds s r s'"
  using assms(1)
proof (rule save_evidence_ok)
  fix c reached s1 resp
  assume c: "CONFIG s = Some c" and rel: "x \<in> set (relayer_addresses s)" and v: "handle_evidence p s x ev = Inr (reached, s1)"
    and r0: "rs_messages resp = []"
    and rest: "(case ev of
        XRPLToCosmosTransfer h i cur am rcp memo \<Rightarrow> receive_transfer p e s1 c h i cur am rcp memo reached resp
      | XRPLTransactionResult h acc tick res ores \<Rightarrow>
          receive_transaction_result e s1 c h acc tick res ores reached resp) = Inr (r, s')"
  have tr: "transitions p False s s1" using v rel by (intro transitions_step transition.vote)
  have ok1: "books_ok s1" using quiet_transitions [OF tr p ok] by blast
  have resp: "coins_in (ev_contract_address e) d resp = 0" "coins_out (ev_contract_address e) d resp = 0"
    using r0 by (simp_all add: coins_in_def coins_out_def)
  note reads = evidence_reads [OF v]
  have "balanced (ev_contract_address e) d (evidence_out p s ev d) (evidence_in p s ev d) funds s1 r s'"
  proof (cases ev)
    case (XRPLToCosmosTransfer h i cur am rcp memo)
    with rest have "receive_transfer p e s1 c h i cur am rcp memo reached resp = Inr (r, s')" by simp
    from receive_transfer_balanced [OF this ok1 resp, of funds, unfolded reads] show ?thesis
      using c by (auto simp: XRPLToCosmosTransfer evidence_out_def evidence_in_def split: if_splits)
  next
    case (XRPLTransactionResult h acc tick res ores)
    with rest have "receive_transaction_result e s1 c h acc tick res ores reached resp = Inr (r, s')" by simp
    from receive_transaction_result_balanced [OF this p ok1 resp, of funds, unfolded reads] show ?thesis
      by (auto simp: XRPLTransactionResult evidence_out_def evidence_in_def split: if_splits)
  qed
  with tr p ok show ?thesis by (rule balanced_after)
qed

text \<open>The handlers that move no money: their messages carry at most the attached funds.\<close>

lemma register_xrpl_token_coins:
  assumes "register_xrpl_token p e info s i c sp mx fee = Inr (r, s')"
  shows "coins_out a d r = denom_total d (mi_funds info)"
proof -
  from assms obtain tf sub kvs where
    "r = add_attributes kvs (add_message (WasmExecute tf (TokenFactory (CreateDenom sub)) (mi_funds info)) response_new)"
    unfolding register_xrpl_token_def Let_def
    by (simp only: and_then_eq_Inr if_Inl_eq_Inr split_paired_Ex prod.case prod.inject sum.inject) blast
  then show ?thesis by simp
qed

lemma create_cosmos_token_coins:
  "create_cosmos_token p info s sub bs = Inr (r, s') \<Longrightarrow> coins_out a d r = denom_total d (mi_funds info)"
  by (auto simp: create_cosmos_token_def Let_def and_then_eq_Inr)

lemma no_coins:
  "mint_cosmos_token p s x den bs = Inr (r, s') \<Longrightarrow> coins_out a d r = 0"
  "execute_add_rate_limit p info s den qs = Inr (r, s') \<Longrightarrow> coins_out a d r = 0"
  "execute_remove_rate_limit p info s den = Inr (r, s') \<Longrightarrow> coins_out a d r = 0"
  "execute_reset_rate_limit_quota p info s den q = Inr (r, s') \<Longrightarrow> coins_out a d r = 0"
  "register_cosmos_token p e s x den dec sp mx fee = Inr (r, s') \<Longrightarrow> coins_out a d r = 0"
  "recover_tickets p s ts x acc n = Inr (r, s') \<Longrightarrow> coins_out a d r = 0"
  "recover_xrpl_token_registration p s ts x i cur = Inr (r, s') \<Longrightarrow> coins_out a d r = 0"
  "save_signature p s x oid ver sig = Inr (r, s') \<Longrightarrow> coins_out a d r = 0"
  "update_xrpl_token p s x i cur st osp ofee omx = Inr (r, s') \<Longrightarrow> coins_out a d r = 0"
  "update_cosmos_token p e s x den st osp ofee omx = Inr (r, s') \<Longrightarrow> coins_out a d r = 0"
  "update_xrpl_base_fee p s x f = Inr (r, s') \<Longrightarrow> coins_out a d r = 0"
  "update_used_ticket_sequence_threshold p s x t = Inr (r, s') \<Longrightarrow> coins_out a d r = 0"
  "halt_bridge p s x = Inr (r, s') \<Longrightarrow> coins_out a d r = 0"
  "resume_bridge p s x = Inr (r, s') \<Longrightarrow> coins_out a d r = 0"
  "rotate_keys p e s x rs t = Inr (r, s') \<Longrightarrow> coins_out a d r = 0"
  "update_prohibited_xrpl_addresses p s x l = Inr (r, s') \<Longrightarrow> coins_out a d r = 0"
  "update_ownership p e info s act = Inr (r, s') \<Longrightarrow> coins_out a d r = 0"
  by (auto simp: handler_defs update_ownership_def Let_def split: option.splits sum.splits if_splits elim!: and_thenE)

fun moves_money :: "execute_msg \<Rightarrow> bool" where
  "moves_money (Msg_SaveEvidence _) = True"
| "moves_money (Msg_SendToXRPL _ _) = True"
| "moves_money (Msg_ClaimRefund _) = True"
| "moves_money (Msg_ClaimRelayerFees _) = True"
| "moves_money (Msg_CancelPendingOperation _) = True"
| "moves_money _ = False"

lemma quiet_execute:
  assumes "execute p e info s msg = Inr (r, s')" and "\<not> moves_money msg"
  shows "transitions p False s s'" and "coins_out a d r \<le> denom_total d (mi_funds info)"
proof -
  show "transitions p False s s'"
    using assms by (cases msg) (auto intro: handler_transitions dest!: unchanged_transitions)
  show "coins_out a d r \<le> denom_total d (mi_funds info)"
    using assms by (cases msg) (auto simp: no_coins create_cosmos_token_coins register_xrpl_token_coins)
qed

fun message_out :: "platform \<Rightarrow> storage \<Rightarrow> execute_msg \<Rightarrow> string \<Rightarrow> nat" where
  "message_out p s (Msg_SaveEvidence ev) d = evidence_out p s ev d"
| "message_out p s _ d = 0"

fun message_in :: "platform \<Rightarrow> storage \<Rightarrow> execute_msg \<Rightarrow> string \<Rightarrow> nat" where
  "message_in p s (Msg_SaveEvidence ev) d = evidence_in p s ev d"
| "message_in p s _ d = 0"

lemma quiet_moves: "\<not> moves_money msg \<Longrightarrow> message_out p s msg d = 0 \<and> message_in p s msg d = 0"
  by (cases msg) simp_all

lemma execute_balanced:
  assumes "execute p e info s msg = Inr (r, s')" and p: "platform_laws p" and ok: "books_ok s"
  shows "balanced (ev_contract_address e) d (message_out p s msg d) (message_in p s msg d) (mi_funds info) s r s'"
proof (cases "moves_money msg")
  case False
  have "base58_lengths p" using p by (simp add: platform_laws_def)
  with quiet_execute [OF assms(1) False] ok quiet_moves [OF False] show ?thesis by (simp add: covered_quiet)
next
  case True
  have p': "base58_lengths p" using p by (simp add: platform_laws_def)
  from True assms(1) show ?thesis
    by (cases msg)
      (auto intro: save_evidence_balanced [OF _ p' ok] send_to_xrpl_covered [OF _ ok p] claim_pending_refund_covered [OF _ ok]
        claim_relayer_fees_covered [OF _ ok] cancel_pending_operation_covered [OF _ ok p'])
qed

text \<open>Without redemptions the call is covered, for every denom that is no Cosmos originated token's.\<close>

lemma message_in_unregistered:
  assumes "registry_ok s" and "\<not> kv_has d (COSMOS_TOKENS s)"
  shows "message_in p s msg d = 0"
  using redeemed_unregistered [OF assms] by (cases msg) (simp_all add: evidence_in_def split: evidence.split)

lemma execute_covered:
  assumes "execute p e info s msg = Inr (r, s')" and "platform_laws p" and ok: "books_ok s"
    and "\<not> kv_has d (COSMOS_TOKENS s)"
  shows "covered (ev_contract_address e) d (mi_funds info) s r s'"
proof -
  have "message_in p s msg d = 0" using ok assms(4) by (intro message_in_unregistered) (simp add: books_ok_def)
  with execute_balanced [OF assms(1-3), of d] show ?thesis by (simp add: balanced_def)
qed

end
