(* ===== verification/Bridge_Ledger.thy ===== *)
theory Bridge_Ledger
  imports Accounting
begin

text \<open>
  The contract together with the coins it holds, as a state machine, and its solvency: the contract
  always holds what it owes in every denom that is not registered as a Cosmos originated token.
\<close>

section \<open>The ledger\<close>

text \<open>
  The contract together with the coins it holds. A call changes the balances by the attached funds
  and the effects of its messages, and fails as a whole when a balance does not suffice. Anybody can
  send coins to the contract. A reply that fails reverts the whole transaction; a reply that
  succeeds is a step.
\<close>

type_synonym balances = "string \<Rightarrow> nat"

definition settles :: "addr \<Rightarrow> coin list \<Rightarrow> response \<Rightarrow> balances \<Rightarrow> balances \<Rightarrow> bool" where
  "settles a funds r bal bal' \<longleftrightarrow>
     (\<forall>d. bal' d + coins_out a d r = bal d + denom_total d funds + coins_in a d r)"

definition ledger_start :: "storage \<times> balances \<Rightarrow> bool" where
  "ledger_start w \<longleftrightarrow>
     (\<exists>p info msg r. platform_laws p \<and> instantiate p info empty_storage msg = Inr (r, fst w))"

inductive ledger_step :: "addr \<Rightarrow> storage \<times> balances \<Rightarrow> storage \<times> balances \<Rightarrow> bool" for a :: addr where
  call: "execute p e info s msg = Inr (r, s') \<Longrightarrow> platform_laws p \<Longrightarrow> ev_contract_address e = a \<Longrightarrow>
     settles a (mi_funds info) r bal bal' \<Longrightarrow> ledger_step a (s, bal) (s', bal')"
| deposit: "(\<And>d. bal d \<le> bal' d) \<Longrightarrow> ledger_step a (s, bal) (s, bal')"
| answer: "reply s rm = Inr (r, s') \<Longrightarrow> settles a [] r bal bal' \<Longrightarrow> ledger_step a (s, bal) (s', bal')"

abbreviation ledger_reachable :: "addr \<Rightarrow> storage \<times> balances \<Rightarrow> bool" where
  "ledger_reachable a \<equiv> reach ledger_start (ledger_step a)"

definition solvent :: "storage \<times> balances \<Rightarrow> bool" where
  "solvent w \<longleftrightarrow>
     books_ok (fst w) \<and> (\<forall>d. \<not> kv_has d (COSMOS_TOKENS (fst w)) \<longrightarrow> liabilities d (fst w) \<le> snd w d)"

lemma books_ok_start:
  assumes "instantiate p info empty_storage msg = Inr (r, s)" and "platform_laws p"
  shows "books_ok s" and "liabilities d s = 0"
proof -
  have dep: "deployed s" using assms(1) by (auto simp: deployed_def)
  have inv: "operations_ok s" "registry_ok s" "items_ok s"
    using operations_ok_deployed [OF dep] registry.holds_initially [OF dep] items_ok_deployed [OF dep] .
  show "books_ok s"
    using assms(1)
  proof (rule instantiate_ok)
    fix own proh
    assume s: "s = empty_storage\<lparr>CONTRACT_INFO := Some (CONTRACT_NAME, CONTRACT_VERSION), OWNERSHIP := own,
        PROHIBITED_XRPL_ADDRESSES := kv_save (im_bridge_xrpl_address msg) () proh,
        USED_TICKETS_COUNTER := Some 0, PENDING_TICKET_UPDATE := Some False,
        PENDING_ROTATE_KEYS := Some False, AVAILABLE_TICKETS := Some [],
        CONFIG := Some (initial_config msg),
        XRPL_TOKENS := kv_save (build_xrpl_token_key XRP_ISSUER XRP_CURRENCY)
          (xrp_token (im_token_factory_addr msg)) kv_empty\<rparr>"
      and "validate_xrpl_address_format p (im_bridge_xrpl_address msg) = Inr ()"
    then have "address_length (im_bridge_xrpl_address msg)"
      using assms(2) by (intro valid_address_length) (simp_all add: platform_laws_def)
    then have "addresses_ok s"
      by (auto simp: s addresses_ok_def initial_config_def xrp_token_def address_length_def token_consts split: if_splits)
    with inv show ?thesis by (simp add: books_ok_def transfers_ok_def s)
  qed
  show "liabilities d s = 0"
    using assms(1)
    by (rule instantiate_ok)
      (simp add: liabilities_def fee_pool_def fees_owed_def remainder_owed_def refunds_owed_def in_transit_def type_sum_def
        empty_storage_def)
qed

lemma reply_books:
  assumes "reply s rm = Inr (r, s')" and "books_ok s"
  shows "s' = s" and "rs_messages r = []"
  using assms by (auto simp: reply_def books_ok_def items_ok_def item_load_def split: sum.splits if_splits)

lemma solvent_call:
  assumes "execute p e info s msg = Inr (r, s')" and "platform_laws p"
    and "settles (ev_contract_address e) (mi_funds info) r bal bal'" and "solvent (s, bal)"
  shows "books_ok s'" and "\<not> kv_has d (COSMOS_TOKENS s) \<Longrightarrow> liabilities d s' \<le> bal' d"
proof -
  have ok: "books_ok s" using assms(4) by (simp add: solvent_def)
  show "books_ok s'" using execute_balanced [OF assms(1,2) ok] by (simp add: balanced_def)
  show "liabilities d s' \<le> bal' d" if d: "\<not> kv_has d (COSMOS_TOKENS s)"
  proof -
    have "liabilities d s \<le> bal d" using assms(4) d by (simp add: solvent_def)
    moreover have "bal' d + coins_out (ev_contract_address e) d r =
        bal d + denom_total d (mi_funds info) + coins_in (ev_contract_address e) d r"
      using assms(3) by (simp add: settles_def)
    ultimately show ?thesis using execute_covered [OF assms(1,2) ok d] by (simp add: balanced_def)
  qed
qed

lemma registered_stays:
  assumes "execute p e info s msg = Inr (r, s')" and "kv_has d (COSMOS_TOKENS s)"
  shows "kv_has d (COSMOS_TOKENS s')"
  using kept.steps_rel [OF execute_transitions [OF assms(1)]] assms(2)
  by (auto simp: tokens_kept_def dest: kv_kept_has)

lemma solvent_step: "ledger_step a w w' \<Longrightarrow> solvent w \<Longrightarrow> solvent w'"
proof (induction rule: ledger_step.induct)
  case (call p e info s msg r s' bal bal')
  from call(3,4) have "settles (ev_contract_address e) (mi_funds info) r bal bal'" by simp
  from solvent_call [OF call(1,2) this call(5)] registered_stays [OF call(1)] show ?case
    unfolding solvent_def fst_conv snd_conv by blast
next
  case (deposit bal bal' s)
  then show ?case by (auto simp: solvent_def intro: order_trans)
next
  case (answer s rm r s' bal bal')
  have "books_ok s" using answer(3) by (simp add: solvent_def)
  from reply_books [OF answer(1) this] have "s' = s" "coins_in a d r = 0" "coins_out a d r = 0" for d
    by (simp_all add: coins_in_def coins_out_def)
  with answer(2,3) show ?case by (simp add: solvent_def settles_def)
qed

interpretation ledger: invariant_of ledger_start "ledger_step a" solvent for a
proof unfold_locales
  show "ledger_start w \<Longrightarrow> solvent w" for w
    by (auto simp: ledger_start_def solvent_def books_ok_start)
qed (rule solvent_step)

text \<open>The storage of a reachable ledger is a reachable state of the contract.\<close>

lemma ledger_reachable_storage: "ledger_reachable a w \<Longrightarrow> reachable (fst w)"
proof (induction rule: reach.induct)
  case (reach_init w)
  then show ?case by (auto simp: ledger_start_def deployed_def intro!: reach.reach_init)
next
  case (reach_step w w')
  from reach_step(2) show ?case
    by cases (use reach_step in \<open>auto intro: reach.reach_step bridge_step.executed bridge_step.replied\<close>)
qed

end
