(* ===== verification/Bridge_Progress.thy ===== *)
theory Bridge_Progress
  imports Bridge_Ledger
begin

text \<open>
  Nothing gets stuck: the handler of every pending operation returns for every outcome that a
  well-formed evidence can report, so the owner can cancel any operation, and a refund can always be
  claimed while the bridge is active.
\<close>

lemma index_free_kept:
  assumes "index_unique idx m" and "kv_load k m = Some v" and "idx v' = idx v"
  shows "index_free idx k v' m"
  using assms unfolding index_free_iff index_unique_def by metis

lemma trust_set_token:
  assumes "trust_sets_ok s" and "kv_load oid (PENDING_OPERATIONS s) = Some op"
    and "trust_set_key (op_operation_type op) = Some key"
  obtains tok where "kv_load key (XRPL_TOKENS s) = Some tok"
proof -
  have "0 < pending_kind (trust_set_of key) s"
    by (rule kind_count_pos [OF assms(2)]) (simp add: trust_set_of_def assms(3))
  with assms(1) have "kv_load key (XRPL_TOKENS s) \<noteq> None"
    by (auto simp: trust_sets_ok_def split: option.splits)
  then show thesis using that by blast
qed

lemma handle_trust_set_total:
  assumes "registry_ok s" and "kv_load (build_xrpl_token_key i c) (XRPL_TOKENS s) = Some tok"
  shows "\<exists>s'. handle_trust_set_confirmation s i c res = Inr s'"
proof -
  let ?new = "tok\<lparr>xt_state := (if res = Accepted then Enabled else Inactive)\<rparr>"
  from assms have "index_free xt_cosmos_denom (build_xrpl_token_key i c) ?new (XRPL_TOKENS s)"
    by (intro index_free_kept [OF _ assms(2)]) (simp_all add: registry_ok_def)
  with assms(2) show ?thesis
    by (simp add: handle_trust_set_confirmation_def index_save_def map_err_def item_load_def Let_def)
qed

lemma transfer_confirmation_total:
  assumes "kv_load oid (PENDING_OPERATIONS s) = Some op" and "is_transfer (op_operation_type op)"
    and "refund_coin s (op_operation_type op) \<noteq> None" and "CONFIG s = Some c"
  shows "\<exists>m r s'. handle_cosmos_to_xrpl_transfer_confirmation s res h oid tf a resp = Inr (m, r, s')"
proof (cases "op_operation_type op")
  case (CosmosToXRPLTransfer i cur am mx sn rc)
  with assms show ?thesis
    by (auto simp: handle_cosmos_to_xrpl_transfer_confirmation_def map_err_def item_load_def refund_coin_def
        store_pending_refund_def Let_def split: option.splits sum.splits)
qed (use assms(2) in simp_all)

lemma released_total:
  assumes "AVAILABLE_TICKETS s1 \<noteq> None"
  shows "\<exists>s'. (case tick of
      Some t \<Rightarrow> if res = Invalid then return_ticket (drop_operation oid s1) t else Inr (drop_operation oid s1)
    | None \<Rightarrow> Inr (drop_operation oid s1)) = Inr s'"
  using assms by (auto simp: return_ticket_def item_load_def split: option.splits)

text \<open>The result a handler expects with an outcome: tickets exactly for an accepted allocation.\<close>

definition result_fits :: "operation_type \<Rightarrow> transaction_result \<Rightarrow> operation_result option \<Rightarrow> bool" where
  "result_fits ty res ores \<longleftrightarrow>
     is_allocation ty \<longrightarrow> (\<exists>ts. ores = Some (TicketsAllocation ts) \<and> (res = Accepted \<longrightarrow> ts \<noteq> None))"

text \<open>The first stage of \<open>handle_operation\<close>: the handler of the operation's type.\<close>

definition handler_stage ::
  "storage \<Rightarrow> operation \<Rightarrow> operation_result option \<Rightarrow> transaction_result \<Rightarrow> string option \<Rightarrow> u64 \<Rightarrow> addr \<Rightarrow> addr \<Rightarrow>
   response \<Rightarrow> (cosmos_msg list \<times> response \<times> storage) result" where
  "handler_stage s op ores res h oid tf a resp =
     (case op_operation_type op of
        AllocateTickets _ \<Rightarrow>
          (case ores of
             Some (TicketsAllocation tickets) \<Rightarrow>
               and_then (handle_ticket_allocation_confirmation s tickets res) (\<lambda>s. Inr ([], resp, s))
           | None \<Rightarrow> fail InvalidOperationResult)
      | TrustSet issuer currency _ \<Rightarrow>
          and_then (handle_trust_set_confirmation s issuer currency res) (\<lambda>s. Inr ([], resp, s))
      | RotateKeys new_relayers new_evidence_threshold \<Rightarrow>
          and_then (handle_rotate_keys_confirmation s new_relayers new_evidence_threshold res) (\<lambda>s. Inr ([], resp, s))
      | CosmosToXRPLTransfer _ _ _ _ _ _ \<Rightarrow>
          handle_cosmos_to_xrpl_transfer_confirmation s res h oid tf a resp)"

lemma trust_set_stage_total:
  assumes "registry_ok s" "trust_sets_ok s" and "kv_load oid (PENDING_OPERATIONS s) = Some op"
    and "op_operation_type op = TrustSet i cur lim"
  shows "\<exists>s1. handle_trust_set_confirmation s i cur res = Inr s1 \<and> AVAILABLE_TICKETS s1 = AVAILABLE_TICKETS s"
proof -
  have "trust_set_key (op_operation_type op) = Some (build_xrpl_token_key i cur)" by (simp add: assms(4))
  from trust_set_token [OF assms(2,3) this] obtain tok where
    "kv_load (build_xrpl_token_key i cur) (XRPL_TOKENS s) = Some tok" .
  from handle_trust_set_total [OF assms(1) this] obtain s1 where
    s1: "handle_trust_set_confirmation s i cur res = Inr s1" by blast
  then have "AVAILABLE_TICKETS s1 = AVAILABLE_TICKETS s"
    by (auto simp: handle_trust_set_confirmation_def Let_def and_then_eq_Inr)
  with s1 show ?thesis by blast
qed

lemma handler_stage_total:
  assumes ok: "books_ok s" "trust_sets_ok s" and op: "kv_load oid (PENDING_OPERATIONS s) = Some op"
    and fits: "result_fits (op_operation_type op) res ores"
  shows "\<exists>m r s1. handler_stage s op ores res h oid tf a resp = Inr (m, r, s1) \<and> AVAILABLE_TICKETS s1 \<noteq> None"
proof -
  from ok(1) obtain c where items: "AVAILABLE_TICKETS s \<noteq> None" "USED_TICKETS_COUNTER s \<noteq> None" "CONFIG s = Some c"
    by (auto simp: books_ok_def items_ok_def)
  show ?thesis
  proof (cases "op_operation_type op")
    case (AllocateTickets n)
    with fits obtain ts where "ores = Some (TicketsAllocation ts)" "res = Accepted \<longrightarrow> ts \<noteq> None"
      by (auto simp: result_fits_def)
    with AllocateTickets items show ?thesis
      by (auto simp: handler_stage_def handle_ticket_allocation_confirmation_def item_load_def Let_def split: option.splits)
  next
    case (TrustSet i cur lim)
    have "registry_ok s" using ok(1) by (simp add: books_ok_def)
    from trust_set_stage_total [OF this ok(2) op TrustSet, of res] items show ?thesis
      by (auto simp: handler_stage_def TrustSet)
  next
    case (RotateKeys rs t)
    with items show ?thesis
      by (auto simp: handler_stage_def handle_rotate_keys_confirmation_def item_load_def)
  next
    case (CosmosToXRPLTransfer i cur am mx sn rc)
    then have tr: "is_transfer (op_operation_type op)" by simp
    then have "refund_coin s (op_operation_type op) \<noteq> None"
      using ok(1) op by (auto simp: books_ok_def transfers_ok_def)
    from transfer_confirmation_total [OF op tr this items(3)] obtain m r s1 where
      h: "handle_cosmos_to_xrpl_transfer_confirmation s res h oid tf a resp = Inr (m, r, s1)" by blast
    with items transfer_confirmation_frame [OF h] show ?thesis by (auto simp: handler_stage_def CosmosToXRPLTransfer)
  qed
qed

lemma handle_operation_total:
  assumes "books_ok s" "trust_sets_ok s" and "kv_load oid (PENDING_OPERATIONS s) = Some op"
    and "result_fits (op_operation_type op) res ores"
  shows "\<exists>m r s'. handle_operation s op ores res h oid tick tf a resp = Inr (m, r, s')"
proof -
  from handler_stage_total [OF assms] obtain m r s1 where
    f: "handler_stage s op ores res h oid tf a resp = Inr (m, r, s1)" and av: "AVAILABLE_TICKETS s1 \<noteq> None" by blast
  from released_total [OF av, where tick = tick and res = res and oid = oid] obtain s' where
    "(case tick of
      Some t \<Rightarrow> if res = Invalid then return_ticket (drop_operation oid s1) t else Inr (drop_operation oid s1)
    | None \<Rightarrow> Inr (drop_operation oid s1)) = Inr s'" by blast
  then show ?thesis
    unfolding handle_operation_def handler_stage_def [symmetric] f by (simp add: Let_def)
qed

lemma cancel_total:
  assumes "books_ok s" "trust_sets_ok s" and "kv_load oid (PENDING_OPERATIONS s) = Some op"
    and "check_authorization p s x CA_CancelPendingOperation = Inr ()"
  shows "\<exists>r s'. cancel_pending_operation p e s x oid = Inr (r, s')"
proof -
  from assms(1) obtain c where c: "CONFIG s = Some c" by (auto simp: books_ok_def items_ok_def)
  let ?ores = "case op_operation_type op of AllocateTickets _ \<Rightarrow> Some (TicketsAllocation None) | _ \<Rightarrow> None"
  have "result_fits (op_operation_type op) Invalid ?ores"
    by (cases "op_operation_type op") (simp_all add: result_fits_def)
  from handle_operation_total [OF assms(1-3) this] obtain m r s' where
    "handle_operation s op ?ores Invalid None oid (op_ticket_sequence op) (cf_token_factory_addr c)
      (ev_contract_address e) response_new = Inr (m, r, s')" by blast
  with assms(3,4) c show ?thesis
    by (simp add: cancel_pending_operation_def check_operation_exists_def map_err_def item_load_def Let_def)
qed

section \<open>After a settlement\<close>

lemma handle_operation_drops:
  assumes "handle_operation s op ores res h oid tick tf b resp = Inr (m, r, s')"
  shows "kv_load oid (PENDING_OPERATIONS s') = None"
proof -
  have "kv_load oid (PENDING_OPERATIONS s') = None" if "released oid tick res s1 s'" for s1
    using that by (auto simp: released_def return_ticket_ok split: option.splits if_splits)
  with assms show ?thesis by (auto elim: handle_operation_cases)
qed

lemma cancel_drops:
  assumes "cancel_pending_operation p e s x oid = Inr (r, s')"
  shows "kv_load oid (PENDING_OPERATIONS s') = None"
proof -
  from assms obtain op ores tick tf m r0 where
    "handle_operation s op ores Invalid None oid tick tf (ev_contract_address e) response_new = Inr (m, r0, s')"
    unfolding cancel_pending_operation_def Let_def
    by (simp only: and_then_eq_Inr split_paired_Ex prod.case prod.inject sum.inject) blast
  then show ?thesis by (rule handle_operation_drops)
qed

lemma refund_owed:
  assumes "kv_load k (PENDING_REFUNDS s) = Some rf"
  shows "unat (c_amount (pr_coin rf)) \<le> refunds_owed (c_denom (pr_coin rf)) s"
  using kv_sum_remove [of "\<lambda>_ r. if c_denom (pr_coin r) = c_denom (pr_coin rf) then unat (c_amount (pr_coin r)) else 0"
        k "PENDING_REFUNDS s", symmetric] assms
    by (simp add: refunds_owed_def)

end
