(* ===== verification/Token_Lifecycle.thy ===== *)
theory Token_Lifecycle
  imports Liabilities
begin

text \<open>
  The life of a token issued on the XRPL: it is registered in state \<open>Processing\<close>, its trust set
  operation enables it or leaves it inactive, an inactive one can be processed again, and the owner
  switches an enabled one off and on. The contract's runs follow this machine, and what identifies a
  token never changes.
\<close>

section \<open>The machine\<close>

inductive lifecycle :: "token_state option \<Rightarrow> token_state option \<Rightarrow> bool" where
  register: "lifecycle None (Some Processing)"
| confirm: "lifecycle (Some Processing) (Some Enabled)"
| give_up: "lifecycle (Some Processing) (Some Inactive)"
| retry: "lifecycle (Some Inactive) (Some Processing)"
| switch_off: "lifecycle (Some Enabled) (Some Disabled)"
| switch_on: "lifecycle (Some Disabled) (Some Enabled)"

code_pred lifecycle .

inductive_simps lifecycle_from [simp]:
  "lifecycle None x" "lifecycle (Some Processing) x" "lifecycle (Some Inactive) x"
  "lifecycle (Some Enabled) x" "lifecycle (Some Disabled) x"

definition xrpl_token_state :: "string \<Rightarrow> storage \<Rightarrow> token_state option" where
  "xrpl_token_state key s = map_option xt_state (kv_load key (XRPL_TOKENS s))"

abbreviation live :: "token_state option \<Rightarrow> bool" where
  "live st \<equiv> st = Some Enabled \<or> st = Some Disabled"

lemma live_forever: "lifecycle\<^sup>*\<^sup>* st st' \<Longrightarrow> live st \<Longrightarrow> live st'"
  by (induction rule: rtranclp_induct) auto

section \<open>Runs follow the machine\<close>

lemma settled_token_processing:
  assumes "trust_sets_ok s" and "kv_load oid (PENDING_OPERATIONS s) = Some op"
    and "trust_set_key (op_operation_type op) = Some key" and "kv_load key (XRPL_TOKENS s) = Some tok"
  shows "xt_state tok = Processing"
proof (rule ccontr)
  assume "xt_state tok \<noteq> Processing"
  with assms(1,4) have "pending_kind (trust_set_of key) s = 0" by (simp add: trust_sets_ok_def)
  moreover have "0 < pending_kind (trust_set_of key) s"
    by (rule kind_count_pos [OF assms(2)]) (simp add: trust_set_of_def assms(3))
  ultimately show False by simp
qed

lemma adjusted_state: "token_states_adjustable st st' \<Longrightarrow> st' = st \<or> lifecycle (Some st) (Some st')"
  by (cases st; cases st') (auto simp: token_states_adjustable_def)

lemma lifecycle_transition:
  assumes "transition p fin s s'" and "trust_sets_ok s"
  shows "xrpl_token_state key s' = xrpl_token_state key s \<or> lifecycle (xrpl_token_state key s) (xrpl_token_state key s')"
  using assms(1)
proof (cases rule: transition.cases)
  case vote
  from handle_evidence_frame [OF vote(1)] show ?thesis by (auto simp: xrpl_token_state_def)
next
  case (adjust_xrpl_token k old st sp new fee mx)
  with adjusted_state [OF adjust_xrpl_token(3)] show ?thesis by (auto simp: xrpl_token_state_def)
next
  case (settle_trust_set oid op k tok st)
  have "xt_state tok = Processing" by (rule settled_token_processing [OF assms(2) settle_trust_set(2-4)])
  with settle_trust_set show ?thesis by (auto simp: xrpl_token_state_def)
qed (auto simp: xrpl_token_state_def only_books_def)

lemma lifecycle_transitions:
  assumes "transitions p fin s s'" and "trust_sets_ok s"
  shows "lifecycle\<^sup>*\<^sup>* (xrpl_token_state key s) (xrpl_token_state key s')"
  using assms(1)
proof (induction rule: rtranclp_induct)
  case (step t u)
  from trust_sets.inv_transitions [OF step(1) assms(2)] lifecycle_transition [OF step(2)]
  have "xrpl_token_state key u = xrpl_token_state key t \<or> lifecycle (xrpl_token_state key t) (xrpl_token_state key u)"
    by blast
  with step(3) show ?case by (auto intro: rtranclp.rtrancl_into_rtrancl)
qed simp

lemma lifecycle_runs:
  assumes "bridge_step\<^sup>*\<^sup>* s s'" and "trust_sets_ok s"
  shows "lifecycle\<^sup>*\<^sup>* (xrpl_token_state key s) (xrpl_token_state key s')"
  using assms(1)
proof (induction rule: rtranclp_induct)
  case (step t u)
  have "trust_sets_ok t" by (rule trust_sets.kept_by_steps [OF step(1) assms(2)])
  with step(2) have "lifecycle\<^sup>*\<^sup>* (xrpl_token_state key t) (xrpl_token_state key u)"
  proof cases
    case executed
    then show ?thesis using lifecycle_transitions [OF execute_transitions \<open>trust_sets_ok t\<close>] by blast
  next
    case replied
    from reply_ok [OF this] show ?thesis by (auto simp: xrpl_token_state_def)
  qed
  with step(3) show ?case by (rule rtranclp_trans)
qed simp

section \<open>Identity of tokens\<close>

lemma tokens_kept_reply: "reply s rm = Inr (r, s') \<Longrightarrow> tokens_kept s s'"
  by (auto dest!: reply_ok simp: tokens_kept_def)

interpretation kept_by_step: respected_by bridge_step tokens_kept
proof unfold_locales
  show "bridge_step s s' \<Longrightarrow> tokens_kept s s'" for s s'
    by (erule bridge_step.cases) (use kept.steps_rel execute_transitions tokens_kept_reply in blast)+
qed (rule kept.rel_refl, rule kept.rel_trans)

lemma token_identity:
  assumes "bridge_step\<^sup>*\<^sup>* s s'"
  shows "kv_load key (XRPL_TOKENS s) = Some tok \<Longrightarrow>
      \<exists>tok'. kv_load key (XRPL_TOKENS s') = Some tok' \<and> xt_issuer tok' = xt_issuer tok \<and>
        xt_currency tok' = xt_currency tok \<and> xt_cosmos_denom tok' = xt_cosmos_denom tok"
    and "kv_load d (COSMOS_TOKENS s) = Some ctok \<Longrightarrow>
      \<exists>ctok'. kv_load d (COSMOS_TOKENS s') = Some ctok' \<and> ct_denom ctok' = ct_denom ctok \<and>
        ct_decimals ctok' = ct_decimals ctok \<and> ct_xrpl_currency ctok' = ct_xrpl_currency ctok"
  using kept_by_step.steps_rel [OF assms] unfolding tokens_kept_def
  by (auto elim!: kv_keptE simp: xrpl_view_def cosmos_view_def)

end
