(* ===== verification/Bridge_Effects.thy ===== *)
theory Bridge_Effects
  imports Bridge_Progress Token_Lifecycle
begin

text \<open>
  What the messages that decide something do, seen at \<open>execute\<close>: the deciding evidence of a
  transfer from the XRPL, the deciding evidence about one of the bridge's own transactions, and a
  cancellation.
\<close>

section \<open>The deciding vote\<close>

lemma deciding_evidence:
  assumes "execute p e info s (Msg_SaveEvidence ev) = Inr (r, s')" and "decides p s ev"
  obtains c s1 resp where "CONFIG s = Some c" and "rs_messages resp = []"
    and "\<exists>te pt. s1 = s\<lparr>TX_EVIDENCES := te, PROCESSED_TXS := pt\<rparr>"
    and "(case ev of
        XRPLToCosmosTransfer h i cur am rcp memo \<Rightarrow> receive_transfer p e s1 c h i cur am rcp memo True resp
      | XRPLTransactionResult h acc tick res ores \<Rightarrow>
          receive_transaction_result e s1 c h acc tick res ores True resp) = Inr (r, s')"
proof -
  from assms(1) have "save_evidence p e s (mi_sender info) ev = Inr (r, s')" by simp
  then show thesis
  proof (rule save_evidence_ok)
    fix c reached s1 resp
    assume *: "CONFIG s = Some c" "rs_messages resp = []"
      and v: "handle_evidence p s (mi_sender info) ev = Inr (reached, s1)"
      and rest: "(case ev of
        XRPLToCosmosTransfer h i cur am rcp memo \<Rightarrow> receive_transfer p e s1 c h i cur am rcp memo reached resp
      | XRPLTransactionResult h acc tick res ores \<Rightarrow>
          receive_transaction_result e s1 c h acc tick res ores reached resp) = Inr (r, s')"
    have "reached = True" by (rule handle_evidence_cases [OF v]) (use assms(2) in \<open>auto simp: decides_def\<close>)
    from that [OF * handle_evidence_frame [OF v] rest [unfolded this]] show thesis .
  qed
qed

section \<open>Transfers from the XRPL\<close>

text \<open>All that a response mints of a denom, whoever receives it.\<close>

fun mint_amount :: "string \<Rightarrow> cosmos_msg \<Rightarrow> nat" where
  "mint_amount d (WasmExecute _ (TokenFactory (MintTokens den amount _)) _) = (if den = d then unat amount else 0)"
| "mint_amount d _ = 0"

definition minted_supply :: "string \<Rightarrow> response \<Rightarrow> nat" where
  "minted_supply d r = sum_list (map (mint_amount d) (map sm_msg (rs_messages r)))"

lemma recv_packet_mints: "recv_packet_msgs c key am = Inr ms \<Longrightarrow> sum_list (map (mint_amount d) ms) = 0"
  by (auto simp: recv_packet_msgs_def and_then_eq_Inr split: option.splits)

lemma universal_swap_mints: "sum_list (map (mint_amount d \<circ> sm_msg) (universal_swap_msgs c memo x den)) = 0"
  by (auto simp: universal_swap_msgs_def split: option.split)

lemma xrpl_originated_mints:
  assumes "xrpl_originated_msgs e c tok dec key am fee x rcp memo = Inr (ms, sms)"
  shows "sum_list (map (mint_amount (xt_cosmos_denom tok)) ms) + sum_list (map (mint_amount (xt_cosmos_denom tok) \<circ> sm_msg) sms) =
    unat fee + unat x"
proof (cases "x = 0")
  case True
  with assms show ?thesis by (auto simp: xrpl_originated_msgs_def mint_msg_def Let_def split: if_splits)
next
  case False
  let ?a = "ev_contract_address e" and ?den = "xt_cosmos_denom tok"
  from assms False obtain rate where rate: "recv_packet_msgs c key (and_then (truncate_amount (xt_sending_precision tok) dec am)
      (\<lambda>(truncated, _). Inr truncated)) = Inr rate"
    and ms: "ms = (if fee \<noteq> 0 then [mint_msg (cf_token_factory_addr c) ?den fee ?a] else []) @
      [mint_msg (cf_token_factory_addr c) ?den x (if is_universal_swap c memo then ?a else rcp)] @ rate"
    and sms: "sms = universal_swap_msgs c memo x ?den"
    unfolding xrpl_originated_msgs_def Let_def
    by (simp only: and_then_eq_Inr if_True not_False_eq_True prod.inject sum.inject) blast
  show ?thesis
    unfolding ms sms using recv_packet_mints [OF rate, of ?den] universal_swap_mints [of ?den] by (simp add: mint_msg_def)
qed

lemma receive_xrpl_originated_mints:
  assumes "receive_xrpl_originated p e s c i cur am rcp memo True resp = Inr (r, s')" and "rs_messages resp = []"
    and "relayer_count s < 2 ^ 128"
  obtains tok sup where "kv_load (build_xrpl_token_key i cur) (XRPL_TOKENS s) = Some tok" and "xt_state tok = Enabled"
    and "query_supply p (xt_cosmos_denom tok) = Inr sup"
    and "unat sup + unat am \<le> unat (xt_max_holding_amount tok)"
    and "minted_supply (xt_cosmos_denom tok) r = unat am"
proof -
  from assms(1) obtain tok :: xrpl_token and af x rem fee ms sms dec sup total where
    tok: "kv_load (build_xrpl_token_key i cur) (XRPL_TOKENS s) = Some tok" "xt_state tok = Enabled"
    and af: "amount_after_bridge_fees am (xt_bridging_fee tok) = Inr af"
    and tr: "truncate_amount (xt_sending_precision tok) dec af = Inr (x, rem)"
    and sp: "from_std (query_supply p (xt_cosmos_denom tok)) = Inr sup"
    and tot: "checked_add am sup = Inr total" "\<not> total > xt_max_holding_amount tok"
    and col: "handle_fee_collection s (xt_bridging_fee tok) (xt_cosmos_denom tok) rem = Inr (fee, s')"
    and ms: "xrpl_originated_msgs e c tok dec (build_xrpl_token_key i cur) am fee x rcp memo = Inr (ms, sms)"
    and r: "r = add_submessages sms (add_messages ms resp)"
    unfolding receive_xrpl_originated_def Let_def
    by (simp only: and_then_eq_Inr if_Inl_eq_Inr if_True split_paired_Ex prod.case prod.inject sum.inject
        map_err_eq_Inr item_load_eq_Inr not_not) blast
  have "unat fee = unat (xt_bridging_fee tok) + unat rem"
    by (rule handle_fee_collection_pool(1) [OF col assms(3)])
  moreover have "unat am = unat af + unat (xt_bridging_fee tok)" using af by (simp add: amount_after_bridge_fees_eq_Inr)
  moreover have "unat x + unat rem = unat af" by (rule truncate_amount_ok(1) [OF tr])
  ultimately have "minted_supply (xt_cosmos_denom tok) r = unat am"
    using xrpl_originated_mints [OF ms] by (simp add: minted_supply_def r assms(2))
  moreover have "unat sup + unat am \<le> unat (xt_max_holding_amount tok)"
    using tot by (simp add: checked_add_eq_Inr word_less_nat_alt)
  ultimately show thesis using that tok sp by (simp add: from_std_eq_Inr)
qed

lemma deciding_transfer:
  assumes "execute p e info s (Msg_SaveEvidence (XRPLToCosmosTransfer h i cur am rcp memo)) = Inr (r, s')"
    and "decides p s (XRPLToCosmosTransfer h i cur am rcp memo)" and c: "CONFIG s = Some c"
    and "i \<noteq> cf_bridge_xrpl_address c" and n: "relayer_count s < 2 ^ 128"
  obtains tok sup where "kv_load (build_xrpl_token_key i cur) (XRPL_TOKENS s) = Some tok" and "xt_state tok = Enabled"
    and "query_supply p (xt_cosmos_denom tok) = Inr sup"
    and "unat sup + unat am \<le> unat (xt_max_holding_amount tok)"
    and "minted_supply (xt_cosmos_denom tok) r = unat am"
  using assms(1,2)
proof (rule deciding_evidence)
  fix c' s1 resp
  assume c': "CONFIG s = Some c'" and resp: "rs_messages resp = []"
    and "\<exists>te pt. s1 = s\<lparr>TX_EVIDENCES := te, PROCESSED_TXS := pt\<rparr>"
    and rest: "(case XRPLToCosmosTransfer h i cur am rcp memo of
        XRPLToCosmosTransfer h i cur am rcp memo \<Rightarrow> receive_transfer p e s1 c' h i cur am rcp memo True resp
      | XRPLTransactionResult h acc tick res ores \<Rightarrow>
          receive_transaction_result e s1 c' h acc tick res ores True resp) = Inr (r, s')"
  then obtain te pt where s1: "s1 = s\<lparr>TX_EVIDENCES := te, PROCESSED_TXS := pt\<rparr>" by blast
  from rest assms(4) c c' obtain r0 m where
    r0: "receive_xrpl_originated p e s1 c i cur am rcp m True resp = Inr (r0, s')" and r: "rs_messages r = rs_messages r0"
    by (auto simp: receive_transfer_def Let_def and_then_eq_Inr if_Inl_eq_Inr)
  have n1: "relayer_count s1 < 2 ^ 128" using n by (simp add: s1 relayer_count_def)
  from r0 resp n1 show thesis
    by (rule receive_xrpl_originated_mints) (use that r in \<open>simp add: s1 minted_supply_def\<close>)
qed

section \<open>Results of the bridge's transactions\<close>

lemma register_used_ticket_frame:
  assumes "register_used_ticket s ts = Inr (ok, s')"
  shows "CONFIG s' = CONFIG s \<and> TX_EVIDENCES s' = TX_EVIDENCES s \<and> PENDING_ROTATE_KEYS s' = PENDING_ROTATE_KEYS s \<and>
    PENDING_REFUNDS s' = PENDING_REFUNDS s \<and> XRPL_TOKENS s' = XRPL_TOKENS s"
  using assms by (rule register_used_ticket_cases) (auto elim: create_pending_operation_ok)

lemma deciding_result:
  assumes "execute p e info s (Msg_SaveEvidence (XRPLTransactionResult h acc tick res ores)) = Inr (r, s')"
    and "decides p s (XRPLTransactionResult h acc tick res ores)" and c: "CONFIG s = Some c"
    and oid: "sequence_or acc tick = Inr oid" and op: "kv_load oid (PENDING_OPERATIONS s) = Some op"
  obtains s1 m r0 resp s2 where "\<exists>te pt. s1 = s\<lparr>TX_EVIDENCES := te, PROCESSED_TXS := pt\<rparr>"
    and "rs_messages resp = []"
    and "handle_operation s1 op ores res h oid tick (cf_token_factory_addr c) (ev_contract_address e) resp = Inr (m, r0, s2)"
    and "s' = s2 \<or> (\<exists>ok. register_used_ticket s2 (ev_time_seconds e) = Inr (ok, s'))"
    and "rs_messages r = rs_messages r0 @ map plain_msg m"
  using assms(1,2)
proof (rule deciding_evidence)
  fix c' s1 resp
  assume c': "CONFIG s = Some c'" and resp: "rs_messages resp = []"
    and s1: "\<exists>te pt. s1 = s\<lparr>TX_EVIDENCES := te, PROCESSED_TXS := pt\<rparr>"
    and res: "(case XRPLTransactionResult h acc tick res ores of
        XRPLToCosmosTransfer h i cur am rcp memo \<Rightarrow> receive_transfer p e s1 c' h i cur am rcp memo True resp
      | XRPLTransactionResult h acc tick res ores \<Rightarrow>
          receive_transaction_result e s1 c' h acc tick res ores True resp) = Inr (r, s')"
  have "kv_load oid (PENDING_OPERATIONS s1) = Some op" using s1 op by auto
  with res oid obtain m r1 where
    ap: "apply_transaction_result e s1 c' op h oid tick res ores resp = Inr (m, r1, s')"
    and r: "rs_messages r = rs_messages r1 @ map plain_msg m"
    by (auto simp: receive_transaction_result_def and_then_eq_Inr if_Inl_eq_Inr check_operation_exists_ok)
  show thesis
  proof (cases "res \<noteq> Invalid \<and> tick \<noteq> None")
    case True
    with ap obtain r0 s2 ok where "handle_operation s1 op ores res h oid tick (cf_token_factory_addr c')
        (ev_contract_address e) resp = Inr (m, r0, s2)" "register_used_ticket s2 (ev_time_seconds e) = Inr (ok, s')"
      "rs_messages r1 = rs_messages r0"
      unfolding apply_transaction_result_def by (auto simp: and_then_eq_Inr split: if_splits)
    with that [OF s1 resp] c c' r show thesis by auto
  next
    case False
    with ap have "handle_operation s1 op ores res h oid tick (cf_token_factory_addr c')
        (ev_contract_address e) resp = Inr (m, r1, s')"
      unfolding apply_transaction_result_def by (auto simp: and_then_eq_Inr split: if_splits)
    with that [OF s1 resp] c c' r show thesis by auto
  qed
qed

lemma released_frame:
  assumes "released oid tick res s1 s'"
  shows "CONFIG s' = CONFIG s1 \<and> TX_EVIDENCES s' = TX_EVIDENCES s1 \<and> PENDING_ROTATE_KEYS s' = PENDING_ROTATE_KEYS s1 \<and>
    PENDING_REFUNDS s' = PENDING_REFUNDS s1 \<and> XRPL_TOKENS s' = XRPL_TOKENS s1"
  using assms by (auto simp: released_def return_ticket_ok split: option.splits if_splits)

lemma accepted_rotation:
  assumes "execute p e info s (Msg_SaveEvidence (XRPLTransactionResult h acc tick Accepted ores)) = Inr (r, s')"
    and "decides p s (XRPLTransactionResult h acc tick Accepted ores)" and c: "CONFIG s = Some c"
    and "sequence_or acc tick = Inr oid"
    and "kv_load oid (PENDING_OPERATIONS s) = Some op" and ty: "op_operation_type op = RotateKeys rs t"
  shows "CONFIG s' = Some (c\<lparr>cf_relayers := rs, cf_evidence_threshold := t\<rparr>) \<and>
    TX_EVIDENCES s' = kv_empty \<and> PENDING_ROTATE_KEYS s' = Some False"
  using assms(1-5)
proof (rule deciding_result)
  fix s1 m r0 resp s2
  assume s1: "\<exists>te pt. s1 = s\<lparr>TX_EVIDENCES := te, PROCESSED_TXS := pt\<rparr>"
    and ho: "handle_operation s1 op ores Accepted h oid tick (cf_token_factory_addr c) (ev_contract_address e) resp = Inr (m, r0, s2)"
    and rest: "s' = s2 \<or> (\<exists>ok. register_used_ticket s2 (ev_time_seconds e) = Inr (ok, s'))"
  from s1 c have c1: "CONFIG s1 = Some c" by auto
  from ho show ?thesis
  proof (cases rule: handle_operation_cases)
    case (rotation rs' t' s3)
    with ty c1 released_frame [OF rotation(5)]
    have "CONFIG s2 = Some (c\<lparr>cf_relayers := rs, cf_evidence_threshold := t\<rparr>) \<and> TX_EVIDENCES s2 = kv_empty \<and>
        PENDING_ROTATE_KEYS s2 = Some False"
      by (auto simp: handle_rotate_keys_confirmation_def)
    with rest register_used_ticket_frame show ?thesis by metis
  qed (use ty in simp_all)
qed

text \<open>The settlement of a transfer by the deciding evidence about it.\<close>

lemma settled_transfer:
  assumes "execute p e info s (Msg_SaveEvidence (XRPLTransactionResult h acc tick res ores)) = Inr (r, s')"
    and "decides p s (XRPLTransactionResult h acc tick res ores)" and "sequence_or acc tick = Inr oid"
    and "kv_load oid (PENDING_OPERATIONS s) = Some op" and tr: "is_transfer (op_operation_type op)"
    and c: "CONFIG s = Some c"
  shows "res = Accepted \<Longrightarrow> PENDING_REFUNDS s' = PENDING_REFUNDS s \<and>
      map sm_msg (rs_messages r) = burn_msgs s (cf_token_factory_addr c) (ev_contract_address e) (op_operation_type op)"
    and "res \<noteq> Accepted \<Longrightarrow> \<exists>coin key sender. refund_coin s (op_operation_type op) = Some coin \<and>
      transfer_key (op_operation_type op) = Some key \<and> transfer_sender (op_operation_type op) = Some sender \<and>
      PENDING_REFUNDS s' = kv_save (sender, op_id op)
        \<lparr>pr_address = sender, pr_id = op_id op, pr_xrpl_tx_hash = h, pr_coin = coin\<rparr> (PENDING_REFUNDS s) \<and>
      map sm_msg (rs_messages r) = undo_send_msgs c key (c_amount coin)"
proof -
  obtain s1 m r0 resp s2 where
    s1: "\<exists>te pt. s1 = s\<lparr>TX_EVIDENCES := te, PROCESSED_TXS := pt\<rparr>" and resp: "rs_messages resp = []"
    and ho: "handle_operation s1 op ores res h oid tick (cf_token_factory_addr c) (ev_contract_address e) resp = Inr (m, r0, s2)"
    and rest: "s' = s2 \<or> (\<exists>ok. register_used_ticket s2 (ev_time_seconds e) = Inr (ok, s'))"
    and r: "rs_messages r = rs_messages r0 @ map plain_msg m"
    by (rule deciding_result [OF assms(1,2) c assms(3,4)])
  from ho obtain s3 where
    s3: "handle_cosmos_to_xrpl_transfer_confirmation s1 res h oid (cf_token_factory_addr c) (ev_contract_address e) resp =
      Inr (m, r0, s3)" "released oid tick res s3 s2"
    by (cases rule: handle_operation_cases) (use tr in auto)
  have rf: "refund_coin s1 ty = refund_coin s ty" for ty using s1 by (auto intro: refund_coin_cong)
  have burn: "burn_msgs s1 tf b ty = burn_msgs s tf b ty" for tf b ty
    using s1 by (auto simp: burn_msgs_def rf split: option.split)
  have op1: "kv_load oid (PENDING_OPERATIONS s1) = Some op" and fr: "PENDING_REFUNDS s1 = PENDING_REFUNDS s"
    and c1: "CONFIG s1 = Some c" using s1 assms(4) c by auto
  have fin: "PENDING_REFUNDS s' = PENDING_REFUNDS s3"
    using rest released_frame [OF s3(2)] register_used_ticket_frame by metis
  show "PENDING_REFUNDS s' = PENDING_REFUNDS s \<and>
      map sm_msg (rs_messages r) = burn_msgs s (cf_token_factory_addr c) (ev_contract_address e) (op_operation_type op)"
    if "res = Accepted"
    using transfer_accepted [OF s3(1) [unfolded that] op1] fin fr r resp
    by (simp add: burn)
  show "\<exists>coin key sender. refund_coin s (op_operation_type op) = Some coin \<and>
      transfer_key (op_operation_type op) = Some key \<and> transfer_sender (op_operation_type op) = Some sender \<and>
      PENDING_REFUNDS s' = kv_save (sender, op_id op)
        \<lparr>pr_address = sender, pr_id = op_id op, pr_xrpl_tx_hash = h, pr_coin = coin\<rparr> (PENDING_REFUNDS s) \<and>
      map sm_msg (rs_messages r) = undo_send_msgs c key (c_amount coin)"
    if "res \<noteq> Accepted"
    by (rule transfer_refused [OF s3(1) that op1]) (use fin fr r resp c1 rf in auto)
qed

section \<open>Cancellation\<close>

lemma transfer_ticket:
  assumes "operations_ok s" and "kv_load oid (PENDING_OPERATIONS s) = Some op" and "is_transfer (op_operation_type op)"
  shows "op_ticket_sequence op = Some oid"
  using assms not_transfer(1) unfolding operations_ok_def operation_ok_def by blast

lemma cancelled_transfer:
  assumes "cancel_pending_operation p e s x oid = Inr (r, s')" and "operations_ok s"
    and op: "kv_load oid (PENDING_OPERATIONS s) = Some op" and tr: "is_transfer (op_operation_type op)"
  obtains coin sender where "refund_coin s (op_operation_type op) = Some coin"
    and "transfer_sender (op_operation_type op) = Some sender"
    and "s' = s\<lparr>PENDING_OPERATIONS := kv_remove oid (PENDING_OPERATIONS s),
      AVAILABLE_TICKETS := Some (oid # ticket_queue s), PENDING_REFUNDS := kv_save (sender, op_id op)
        \<lparr>pr_address = sender, pr_id = op_id op, pr_xrpl_tx_hash = None, pr_coin = coin\<rparr> (PENDING_REFUNDS s)\<rparr>"
proof -
  have tick: "op_ticket_sequence op = Some oid" by (rule transfer_ticket [OF assms(2) op tr])
  from assms(1) op obtain op' ores tf m r0 where
    "handle_operation s op' ores Invalid None oid (op_ticket_sequence op') tf (ev_contract_address e) response_new = Inr (m, r0, s')"
    and "check_operation_exists s oid = Inr op'"
    unfolding cancel_pending_operation_def Let_def
    by (simp only: and_then_eq_Inr split_paired_Ex prod.case prod.inject sum.inject) blast
  with op tick have
    "handle_operation s op ores Invalid None oid (Some oid) tf (ev_contract_address e) response_new = Inr (m, r0, s')"
    by (simp add: check_operation_exists_ok)
  then obtain s1 where s1: "handle_cosmos_to_xrpl_transfer_confirmation s Invalid None oid tf (ev_contract_address e) response_new =
      Inr (m, r0, s1)" and rel: "released oid (Some oid) Invalid s1 s'"
    by (cases rule: handle_operation_cases) (use tr in auto)
  show thesis
    by (rule transfer_refused [OF s1 _ op], simp)
      (use rel that in \<open>auto simp: released_def return_ticket_ok ticket_queue_def\<close>)
qed

section \<open>Amounts of a plan\<close>

lemma truncated_part:
  assumes "truncate_amount sp dec a = Inr (t, r)"
  shows "unat t = unat a div 10 ^ truncation_exponent sp dec * 10 ^ truncation_exponent sp dec"
proof -
  let ?e = "10 ^ truncation_exponent sp dec :: nat"
  from truncate_amount_ok(3) [OF assms] obtain k where k: "unat t = ?e * k" by (rule dvdE)
  from truncate_amount_ok(1,4) [OF assms] have "unat a = ?e * k + unat r" "unat r < ?e" by (simp_all add: k)
  then have "unat a div ?e = k" by simp
  then show ?thesis by (simp add: k)
qed

lemma truncate_amount_mono:
  assumes "truncate_amount sp dec a = Inr (t, r)" and "truncate_amount sp dec b = Inr (u, q)" and "a \<le> b"
  shows "unat t \<le> unat u"
proof -
  let ?e = "10 ^ truncation_exponent sp dec :: nat"
  have t: "unat t = unat a div ?e * ?e" and u: "unat u = unat b div ?e * ?e"
    using truncated_part [OF assms(1)] truncated_part [OF assms(2)] by simp_all
  from assms(3) have "unat a div ?e \<le> unat b div ?e" by (simp add: word_le_nat_alt div_le_mono)
  then show ?thesis by (simp add: t u)
qed

lemma plan_amounts_ordered:
  assumes "plan_transfer p e s funds dl = Inr (plan, s1)" and "tp_max_amount plan = Some mx"
  shows "unat (tp_amount plan) \<le> unat mx"
proof (cases "index_item xt_cosmos_denom (c_denom funds) (XRPL_TOKENS s)")
  case None
  with assms show ?thesis
    by (auto simp: plan_transfer_def plan_cosmos_originated_def and_then_eq_Inr if_Inl_eq_Inr Let_def)
next
  case (Some kt)
  obtain k tok where kt: "kt = (k, tok)" by (cases kt)
  with Some assms(1) have pl: "plan_xrpl_originated s tok (c_amount funds) dl = Inr (plan, s1)"
    by (simp add: plan_transfer_def)
  show ?thesis
  proof (cases dl)
    case None
    with pl assms(2) show ?thesis
      by (auto simp: plan_xrpl_originated_def and_then_eq_Inr if_Inl_eq_Inr Let_def split: if_splits)
  next
    case (Some d)
    with pl assms(2) obtain dec af t r where "truncate_amount (xt_sending_precision tok) dec af = Inr (mx, r)"
      "truncate_amount (xt_sending_precision tok) dec d = Inr (tp_amount plan, t)" "d \<le> af"
      by (auto simp: plan_xrpl_originated_def and_then_eq_Inr if_Inl_eq_Inr Let_def not_less)
    then show ?thesis using truncate_amount_mono by blast
  qed
qed

end
