(* ===== verification/Bridge_Escrow.thy ===== *)
theory Bridge_Escrow
  imports Bridge_Ledger
begin

text \<open>
  The coins of Cosmos originated tokens: the contract holds them in escrow while the bridge's XRPL
  account has issued the same amount there. The obligations of that account, in XRPL units per
  currency, are part of the state; they grow when a transfer to the XRPL is accepted and shrink when
  somebody pays the bridge back. As long as the relayers report only payments of amounts that were
  issued, the contract holds what it owes and what backs the obligations.
\<close>

section \<open>Obligations\<close>

type_synonym obligations = "string \<Rightarrow> nat"

text \<open>The XRPL amounts that a deciding evidence reports as paid out and paid back, per currency.\<close>

definition issued_by :: "platform \<Rightarrow> storage \<Rightarrow> evidence \<Rightarrow> obligations" where
  "issued_by p s ev cur =
     (case ev of
        XRPLToCosmosTransfer _ _ _ _ _ _ \<Rightarrow> 0
      | XRPLTransactionResult _ acc tick res _ \<Rightarrow>
          if decides p s ev \<and> res = Accepted then
            (case sequence_or acc tick of
               Inl _ \<Rightarrow> 0
             | Inr oid \<Rightarrow>
                 (case kv_load oid (PENDING_OPERATIONS s) of
                    None \<Rightarrow> 0
                  | Some op \<Rightarrow>
                      (case op_operation_type op of
                         CosmosToXRPLTransfer i c am mx sn rc \<Rightarrow>
                           if c = cur \<and> \<not> kv_has (build_xrpl_token_key i c) (XRPL_TOKENS s) then unat am else 0
                       | _ \<Rightarrow> 0)))
          else 0)"

definition paid_back :: "platform \<Rightarrow> storage \<Rightarrow> evidence \<Rightarrow> obligations" where
  "paid_back p s ev cur =
     (case ev of
        XRPLToCosmosTransfer _ i c am _ _ \<Rightarrow>
          if decides p s ev \<and> Some i = map_option cf_bridge_xrpl_address (CONFIG s) \<and> c = cur then unat am else 0
      | XRPLTransactionResult _ _ _ _ _ \<Rightarrow> 0)"

fun issued_msg :: "platform \<Rightarrow> storage \<Rightarrow> execute_msg \<Rightarrow> obligations" where
  "issued_msg p s (Msg_SaveEvidence ev) = issued_by p s ev"
| "issued_msg p s _ = (\<lambda>_. 0)"

fun paid_msg :: "platform \<Rightarrow> storage \<Rightarrow> execute_msg \<Rightarrow> obligations" where
  "paid_msg p s (Msg_SaveEvidence ev) = paid_back p s ev"
| "paid_msg p s _ = (\<lambda>_. 0)"

inductive escrow_step ::
  "addr \<Rightarrow> storage \<times> balances \<times> obligations \<Rightarrow> storage \<times> balances \<times> obligations \<Rightarrow> bool" for a :: addr where
  call: "execute p e info s msg = Inr (r, s') \<Longrightarrow> platform_laws p \<Longrightarrow> ev_contract_address e = a \<Longrightarrow>
     settles a (mi_funds info) r bal bal' \<Longrightarrow> (\<And>cur. paid_msg p s msg cur \<le> obl cur) \<Longrightarrow>
     escrow_step a (s, bal, obl) (s', bal', \<lambda>cur. obl cur - paid_msg p s msg cur + issued_msg p s msg cur)"
| deposit: "(\<And>d. bal d \<le> bal' d) \<Longrightarrow> escrow_step a (s, bal, obl) (s, bal', obl)"
| answer: "reply s rm = Inr (r, s') \<Longrightarrow> settles a [] r bal bal' \<Longrightarrow> escrow_step a (s, bal, obl) (s', bal', obl)"

definition escrow_start :: "storage \<times> balances \<times> obligations \<Rightarrow> bool" where
  "escrow_start w \<longleftrightarrow> ledger_start (fst w, fst (snd w)) \<and> snd (snd w) = (\<lambda>_. 0)"

abbreviation escrow_reachable :: "addr \<Rightarrow> storage \<times> balances \<times> obligations \<Rightarrow> bool" where
  "escrow_reachable a \<equiv> reach escrow_start (escrow_step a)"

section \<open>Amounts on both sides\<close>

text \<open>An amount of a token with \<open>dec\<close> decimals against an XRPL amount, which has 15.\<close>

lemma power_split: "k \<le> n \<Longrightarrow> (10 :: nat) ^ n = 10 ^ (n - k) * 10 ^ k"
  by (simp flip: power_add)

lemma exact_conversion:
  assumes "convert_amount_decimals XRPL_TOKENS_DECIMALS dec x = Inr t" and "10 ^ (15 - unat dec) dvd unat x"
  shows "10 ^ 15 * unat t = unat x * 10 ^ unat dec"
proof (cases "15 \<le> unat dec")
  case True
  with assms(1) have "unat t = unat x * 10 ^ (unat dec - 15)"
    using convert_amount_decimals_up [of XRPL_TOKENS_DECIMALS dec x t] by (simp add: XRPL_TOKENS_DECIMALS_def)
  with power_split [OF True] show ?thesis by simp
next
  case False
  with assms(1) have "unat t = unat x div 10 ^ (15 - unat dec)"
    using convert_amount_decimals_down [of dec XRPL_TOKENS_DECIMALS x t] by (simp add: XRPL_TOKENS_DECIMALS_def)
  with assms(2) have x: "unat x = unat t * 10 ^ (15 - unat dec)" by simp
  from False have "(10 :: nat) ^ 15 = 10 ^ (15 - unat dec) * 10 ^ unat dec" by (intro power_split) simp
  then show ?thesis unfolding x by simp
qed

lemma conversion_rounds_down:
  assumes "convert_amount_decimals XRPL_TOKENS_DECIMALS dec x = Inr t"
  shows "10 ^ 15 * unat t \<le> unat x * 10 ^ unat dec"
proof (cases "15 \<le> unat dec")
  case True
  then have "10 ^ (15 - unat dec) dvd unat x" by simp
  from exact_conversion [OF assms this] show ?thesis by simp
next
  case False
  with assms(1) have t: "unat t = unat x div 10 ^ (15 - unat dec)"
    using convert_amount_decimals_down [of dec XRPL_TOKENS_DECIMALS x t] by (simp add: XRPL_TOKENS_DECIMALS_def)
  from False have "(10 :: nat) ^ 15 = 10 ^ (15 - unat dec) * 10 ^ unat dec" by (intro power_split) simp
  then have "10 ^ 15 * unat t = (unat x div 10 ^ (15 - unat dec) * 10 ^ (15 - unat dec)) * 10 ^ unat dec"
    unfolding t by simp
  also have "\<dots> \<le> unat x * 10 ^ unat dec" by (intro mult_right_mono div_times_less_eq_dividend) simp
  finally show ?thesis .
qed

lemma cosmos_token_found:
  assumes "registry_ok s" and "kv_load d (COSMOS_TOKENS s) = Some tok"
  shows "index_item ct_xrpl_currency (ct_xrpl_currency tok) (COSMOS_TOKENS s) = Some (d, tok)" and "ct_denom tok = d"
  using assms index_item_unique [of ct_xrpl_currency "COSMOS_TOKENS s" d tok] unfolding registry_ok_def by auto

lemma redeemed_value:
  assumes "registry_ok s" and "kv_load d (COSMOS_TOKENS s) = Some tok"
  shows "10 ^ 15 * redeemed s cur am d \<le> (if cur = ct_xrpl_currency tok then unat am else 0) * 10 ^ unat (ct_decimals tok)"
proof (cases "index_item ct_xrpl_currency cur (COSMOS_TOKENS s)")
  case (Some kt)
  obtain k tok' where kt: "kt = (k, tok')" by (cases kt)
  with Some have k: "kv_load k (COSMOS_TOKENS s) = Some tok'" "ct_xrpl_currency tok' = cur" using index_item_Some by fastforce+
  show ?thesis
  proof (cases "ct_denom tok' = d")
    case True
    with cosmos_token_found(2) [OF assms(1) k(1)] assms(2) k(1) have "tok' = tok" by simp
    with Some kt k(2) True show ?thesis
      using conversion_rounds_down [of "ct_decimals tok" am] by (auto simp: redeemed_def split: sum.split)
  next
    case False
    with Some kt show ?thesis by (simp add: redeemed_def split: sum.split)
  qed
qed (simp add: redeemed_def)

lemma moved_out_value:
  assumes ok: "books_ok s" and op: "kv_load oid (PENDING_OPERATIONS s) = Some op"
    and ty: "op_operation_type op = CosmosToXRPLTransfer i cur am mx sn rc"
    and nk: "\<not> kv_has (build_xrpl_token_key i cur) (XRPL_TOKENS s)"
  obtains d tok where "kv_load d (COSMOS_TOKENS s) = Some tok" and "ct_xrpl_currency tok = cur"
    and "10 ^ 15 * moved_out s (op_operation_type op) d = unat am * 10 ^ unat (ct_decimals tok)"
proof -
  have "is_transfer (op_operation_type op)" by (simp add: ty)
  with ok op have b: "transfer_backed s (op_operation_type op)" and n: "refund_coin s (op_operation_type op) \<noteq> None"
    unfolding books_ok_def transfers_ok_def by blast+
  from b nk obtain c d tok where c: "CONFIG s = Some c" "i = cf_bridge_xrpl_address c"
    and tok: "kv_load d (COSMOS_TOKENS s) = Some tok" "ct_xrpl_currency tok = cur"
    and mx: "mx = Some am" and dv: "10 ^ (15 - unat (ct_decimals tok)) dvd unat am"
    unfolding transfer_backed_def ty by auto
  from ok have reg: "registry_ok s" and adr: "addresses_ok s" by (simp_all add: books_ok_def)
  have rc: "refund_coin s (op_operation_type op) = refund_cosmos (op_operation_type op) tok"
    using refund_coin_cosmos [OF adr reg c tok] by (simp add: ty)
  with n obtain t where t: "convert_amount_decimals XRPL_TOKENS_DECIMALS (ct_decimals tok) am = Inr t"
    by (auto simp: refund_cosmos_def ty mx split: sum.splits)
  have "refund_coin s (op_operation_type op) = Some (coin_of t d)"
    unfolding rc using cosmos_token_found(2) [OF reg tok(1)] by (simp add: refund_cosmos_def ty mx t)
  then have "moved_out s (op_operation_type op) d = unat t" using nk by (simp add: moved_out_def transfer_key_def ty coin_value_def)
  with exact_conversion [OF t dv] tok that show thesis by simp
qed

lemma currency_unique:
  assumes "registry_ok s" and "kv_load d (COSMOS_TOKENS s) = Some tok" and "kv_load d' (COSMOS_TOKENS s) = Some tok'"
    and "ct_xrpl_currency tok' = ct_xrpl_currency tok"
  shows "d' = d \<and> tok' = tok"
  using cosmos_token_found(1) [OF assms(1,2)] cosmos_token_found(1) [OF assms(1,3)] assms(4) by simp

text \<open>What is issued against the coins that become backing, and what is paid back against those redeemed.\<close>

lemma issued_bySome:
  assumes "issued_by p s ev cur \<noteq> 0"
  obtains h acc tick ores oid op i am mx sn rc where "ev = XRPLTransactionResult h acc tick Accepted ores"
    and "decides p s ev" and "sequence_or acc tick = Inr oid" and "kv_load oid (PENDING_OPERATIONS s) = Some op"
    and "op_operation_type op = CosmosToXRPLTransfer i cur am mx sn rc"
    and "\<not> kv_has (build_xrpl_token_key i cur) (XRPL_TOKENS s)" and "issued_by p s ev cur = unat am"
  using assms unfolding issued_by_def
  by (auto split: evidence.splits if_splits sum.splits option.splits operation_type.splits)

lemma issued_by_value:
  assumes "books_ok s" and "kv_load d (COSMOS_TOKENS s) = Some tok"
  shows "issued_by p s ev (ct_xrpl_currency tok) * 10 ^ unat (ct_decimals tok) \<le> 10 ^ 15 * evidence_out p s ev d"
proof (cases "issued_by p s ev (ct_xrpl_currency tok) = 0")
  case False
  then show ?thesis
  proof (rule issued_bySome)
    fix h acc tick ores oid op i am mx sn rc
    assume ev: "ev = XRPLTransactionResult h acc tick Accepted ores" "decides p s ev" "sequence_or acc tick = Inr oid"
      and op: "kv_load oid (PENDING_OPERATIONS s) = Some op"
      "op_operation_type op = CosmosToXRPLTransfer i (ct_xrpl_currency tok) am mx sn rc"
      "\<not> kv_has (build_xrpl_token_key i (ct_xrpl_currency tok)) (XRPL_TOKENS s)"
      and am: "issued_by p s ev (ct_xrpl_currency tok) = unat am"
    from moved_out_value [OF assms(1) op] obtain d' tok' where d': "kv_load d' (COSMOS_TOKENS s) = Some tok'"
      "ct_xrpl_currency tok' = ct_xrpl_currency tok"
      and v: "10 ^ 15 * moved_out s (op_operation_type op) d' = unat am * 10 ^ unat (ct_decimals tok')"
      by blast
    have "registry_ok s" using assms(1) by (simp add: books_ok_def)
    from currency_unique [OF this assms(2) d'] v have "10 ^ 15 * moved_out s (op_operation_type op) d = unat am * 10 ^ unat (ct_decimals tok)"
      by simp
    moreover have "evidence_out p s ev d = moved_out s (op_operation_type op) d"
      using ev op(1) by (simp add: evidence_out_def result_out_def)
    ultimately show ?thesis by (simp add: am)
  qed
qed simp

lemma issued_by_unregistered:
  assumes "books_ok s" and "\<And>d tok. kv_load d (COSMOS_TOKENS s) = Some tok \<Longrightarrow> ct_xrpl_currency tok \<noteq> cur"
  shows "issued_by p s ev cur = 0"
proof (rule ccontr)
  assume "issued_by p s ev cur \<noteq> 0"
  then show False
  proof (rule issued_bySome)
    fix oid op i am mx sn rc
    assume "kv_load oid (PENDING_OPERATIONS s) = Some op" "op_operation_type op = CosmosToXRPLTransfer i cur am mx sn rc"
      "\<not> kv_has (build_xrpl_token_key i cur) (XRPL_TOKENS s)"
    from moved_out_value [OF assms(1) this] assms(2) show False by metis
  qed
qed

lemma paid_back_value:
  assumes "registry_ok s" and "kv_load d (COSMOS_TOKENS s) = Some tok"
  shows "10 ^ 15 * evidence_in p s ev d \<le> paid_back p s ev (ct_xrpl_currency tok) * 10 ^ unat (ct_decimals tok)"
proof (cases ev)
  case (XRPLToCosmosTransfer h i cur am rcp memo)
  with redeemed_value [OF assms, of cur am] show ?thesis
    by (auto simp: evidence_in_def paid_back_def XRPLToCosmosTransfer split: if_splits)
qed (simp add: evidence_in_def)

lemma obligations_value:
  assumes "books_ok s" and "kv_load d (COSMOS_TOKENS s) = Some tok"
  shows "issued_msg p s msg (ct_xrpl_currency tok) * 10 ^ unat (ct_decimals tok) \<le> 10 ^ 15 * message_out p s msg d"
    and "10 ^ 15 * message_in p s msg d \<le> paid_msg p s msg (ct_xrpl_currency tok) * 10 ^ unat (ct_decimals tok)"
  using issued_by_value [OF assms] paid_back_value [OF _ assms(2)] assms(1)
  by (cases msg; simp add: books_ok_def)+

lemma issued_msg_unregistered:
  assumes "books_ok s" and "\<And>d tok. kv_load d (COSMOS_TOKENS s) = Some tok \<Longrightarrow> ct_xrpl_currency tok \<noteq> cur"
  shows "issued_msg p s msg cur = 0"
  using issued_by_unregistered [OF assms] by (cases msg) simp_all

section \<open>Escrow\<close>

definition currency_used :: "string \<Rightarrow> storage \<Rightarrow> bool" where
  "currency_used cur s \<longleftrightarrow> (\<exists>d tok. kv_load d (COSMOS_TOKENS s) = Some tok \<and> ct_xrpl_currency tok = cur)"

definition escrowed :: "storage \<times> balances \<times> obligations \<Rightarrow> bool" where
  "escrowed w \<longleftrightarrow>
     (case w of (s, bal, obl) \<Rightarrow>
        solvent (s, bal) \<and>
        (\<forall>d tok. kv_load d (COSMOS_TOKENS s) = Some tok \<longrightarrow>
           10 ^ 15 * liabilities d s + obl (ct_xrpl_currency tok) * 10 ^ unat (ct_decimals tok) \<le> 10 ^ 15 * bal d) \<and>
        (\<forall>cur. \<not> currency_used cur s \<longrightarrow> obl cur = 0))"

text \<open>The arithmetic of one call: \<open>k\<close> is the scale of the token, \<open>u\<close> that of the XRPL.\<close>

lemma escrow_arith:
  fixes u k l l' b b' :: nat
  assumes "l' + out + x \<le> l + f + inn + y" and "b' + out = b + f + inn" and "iss * k \<le> u * x"
    and "u * y \<le> pd * k" and "pd \<le> obl" and "u * l + obl * k \<le> u * b"
  shows "u * l' + (obl - pd + iss) * k \<le> u * b'"
proof -
  have "(obl - pd) * k + pd * k = obl * k" using assms(5) by (simp flip: add_mult_distrib)
  moreover have "u * l' + u * out + u * x \<le> u * l + u * f + u * inn + u * y"
    using mult_le_mono2 [OF assms(1), of u] by (simp add: add_mult_distrib2)
  moreover have "u * b' + u * out = u * b + u * f + u * inn"
    using arg_cong [OF assms(2), of "(*) u"] by (simp add: add_mult_distrib2)
  ultimately show ?thesis using assms(3,4,6) by (simp add: add_mult_distrib)
qed

lemma kept_currencies:
  assumes "execute p e info s msg = Inr (r, s')" and "kv_load d (COSMOS_TOKENS s) = Some tok"
  obtains tok' where "kv_load d (COSMOS_TOKENS s') = Some tok'"
    and "ct_xrpl_currency tok' = ct_xrpl_currency tok" and "ct_decimals tok' = ct_decimals tok"
  using kept.steps_rel [OF execute_transitions [OF assms(1)]] assms(2)
  unfolding tokens_kept_def by (auto elim!: kv_keptE simp: cosmos_view_def)

lemma new_currency:
  assumes ex: "execute p e info s msg = Inr (r, s')" and "registry_ok s'" and tok': "kv_load d (COSMOS_TOKENS s') = Some tok'"
    and "kv_load d (COSMOS_TOKENS s) = None"
  shows "\<not> currency_used (ct_xrpl_currency tok') s"
proof
  assume "currency_used (ct_xrpl_currency tok') s"
  then obtain d2 tok2 where d2: "kv_load d2 (COSMOS_TOKENS s) = Some tok2" "ct_xrpl_currency tok2 = ct_xrpl_currency tok'"
    by (auto simp: currency_used_def)
  from kept_currencies [OF ex d2(1)] obtain tok3 where "kv_load d2 (COSMOS_TOKENS s') = Some tok3"
    "ct_xrpl_currency tok3 = ct_xrpl_currency tok2" by blast
  with currency_unique [OF assms(2) tok', of d2 tok3] d2 have "d2 = d" by simp
  with d2 assms(4) show False by simp
qed

lemma escrowed_call:
  assumes ex: "execute p e info s msg = Inr (r, s')" and p: "platform_laws p"
    and st: "settles (ev_contract_address e) (mi_funds info) r bal bal'"
    and pd: "\<And>cur. paid_msg p s msg cur \<le> obl cur" and esc: "escrowed (s, bal, obl)"
  shows "escrowed (s', bal', \<lambda>cur. obl cur - paid_msg p s msg cur + issued_msg p s msg cur)"
proof -
  have sol: "solvent (s, bal)" and ok: "books_ok s" using esc by (simp_all add: escrowed_def solvent_def)
  have ok': "books_ok s'" and unreg: "\<And>d. \<not> kv_has d (COSMOS_TOKENS s) \<Longrightarrow> liabilities d s' \<le> bal' d"
    using solvent_call [OF ex p st sol] by blast+
  then have sol': "solvent (s', bal')" using registered_stays [OF ex] by (auto simp: solvent_def)
  have new: "obl cur - paid_msg p s msg cur + issued_msg p s msg cur = 0" if "\<not> currency_used cur s" for cur
    using that esc issued_msg_unregistered [OF ok, of cur] by (auto simp: escrowed_def currency_used_def)
  have used: "currency_used cur s'" if "currency_used cur s" for cur
    using that kept_currencies [OF ex] unfolding currency_used_def by metis
  have "10 ^ 15 * liabilities d s' +
      (obl (ct_xrpl_currency tok') - paid_msg p s msg (ct_xrpl_currency tok') + issued_msg p s msg (ct_xrpl_currency tok')) *
      10 ^ unat (ct_decimals tok') \<le> 10 ^ 15 * bal' d"
    if tok': "kv_load d (COSMOS_TOKENS s') = Some tok'" for d tok'
  proof (cases "kv_load d (COSMOS_TOKENS s)")
    case (Some tok)
    from kept_currencies [OF ex Some] tok' have same: "ct_xrpl_currency tok' = ct_xrpl_currency tok"
      "ct_decimals tok' = ct_decimals tok" by auto
    show ?thesis
      unfolding same
    proof (rule escrow_arith)
      show "liabilities d s' + coins_out (ev_contract_address e) d r + message_out p s msg d \<le>
          liabilities d s + denom_total d (mi_funds info) + coins_in (ev_contract_address e) d r + message_in p s msg d"
        using execute_balanced [OF ex p ok, of d] by (simp add: balanced_def)
      show "bal' d + coins_out (ev_contract_address e) d r = bal d + denom_total d (mi_funds info) + coins_in (ev_contract_address e) d r"
        using st by (simp add: settles_def)
      show "10 ^ 15 * liabilities d s + obl (ct_xrpl_currency tok) * 10 ^ unat (ct_decimals tok) \<le> 10 ^ 15 * bal d"
        using esc Some by (simp add: escrowed_def)
    qed (rule obligations_value [OF ok Some] pd)+
  next
    case None
    have "\<not> currency_used (ct_xrpl_currency tok') s"
      using ok' by (intro new_currency [OF ex _ tok' None]) (simp add: books_ok_def)
    with new unreg [of d] None show ?thesis by (simp add: kv_has_def)
  qed
  with sol' new used show ?thesis unfolding escrowed_def prod.case by metis
qed

lemma escrowed_step: "escrow_step a w w' \<Longrightarrow> escrowed w \<Longrightarrow> escrowed w'"
proof (induction rule: escrow_step.induct)
  case (call p e info s msg r s' bal bal' obl)
  then show ?case using escrowed_call by blast
next
  case (deposit bal bal' s obl)
  have "solvent (s, bal')" using solvent_step [OF ledger_step.deposit [OF deposit(1)], of s] deposit(2) by (simp add: escrowed_def)
  moreover have "10 ^ 15 * bal d \<le> 10 ^ 15 * bal' d" for d using deposit(1) by simp
  ultimately show ?case using deposit(2) unfolding escrowed_def prod.case by (meson le_trans)
next
  case (answer s rm r s' bal bal' obl)
  have ok: "books_ok s" using answer(3) by (simp add: escrowed_def solvent_def)
  from reply_books [OF answer(1) ok] have "s' = s" "rs_messages r = []" by simp_all
  with answer(2) have "bal' = bal" by (simp add: settles_def coins_in_def coins_out_def fun_eq_iff)
  with answer(3) \<open>s' = s\<close> show ?case by simp
qed

interpretation escrow: invariant_of escrow_start "escrow_step a" escrowed for a
proof unfold_locales
  show "escrowed w" if "escrow_start w" for w
  proof -
    obtain s bal obl where w: "w = (s, bal, obl)" by (cases w)
    with that have st: "ledger_start (s, bal)" and obl: "obl = (\<lambda>_. 0)" by (simp_all add: escrow_start_def)
    then obtain p info msg r where pi: "platform_laws p" "instantiate p info empty_storage msg = Inr (r, s)"
      by (auto simp: ledger_start_def)
    from ledger.holds_initially [OF st] books_ok_start(2) [OF pi(2,1)] show ?thesis by (simp add: w escrowed_def obl)
  qed
qed (rule escrowed_step)

text \<open>Every run with obligations is a run of the ledger.\<close>

lemma escrow_reachable_ledger: "escrow_reachable a w \<Longrightarrow> ledger_reachable a (fst w, fst (snd w))"
proof (induction rule: reach.induct)
  case (reach_init w)
  then show ?case by (auto simp: escrow_start_def intro: reach.reach_init)
next
  case (reach_step w w')
  from reach_step(2) have "ledger_step a (fst w, fst (snd w)) (fst w', fst (snd w'))"
    by cases (auto intro: ledger_step.intros)
  with reach_step(3) show ?case by (rule reach.reach_step)
qed

text \<open>So in such a run the contract holds what it owes in every denom.\<close>

lemma escrow_covers_liabilities:
  assumes "escrow_reachable a (s, bal, obl)"
  shows "liabilities d s \<le> bal d"
proof (cases "kv_load d (COSMOS_TOKENS s)")
  case None
  with escrow.holds_when_reached [OF assms] show ?thesis by (simp add: escrowed_def solvent_def kv_has_def)
next
  case (Some tok)
  with escrow.holds_when_reached [OF assms]
  have "10 ^ 15 * liabilities d s + obl (ct_xrpl_currency tok) * 10 ^ unat (ct_decimals tok) \<le> 10 ^ 15 * bal d"
    by (simp add: escrowed_def)
  then have "10 ^ 15 * liabilities d s \<le> 10 ^ 15 * bal d" by (rule add_leD1)
  then show ?thesis by simp
qed

end
