(* ===== verification/Bridge_Example.thy ===== *)
theory Bridge_Example
  imports Queries Bridge_Effects Bridge_Escrow
begin

text \<open>
  A concrete platform and a concrete deployment, on which the witnesses evaluate the contract: an
  owner, two relayers with evidence threshold 2, the XRP token and a Cosmos originated token.
  The platform's functions satisfy what the properties assume of them.
\<close>

text \<open>The decoded form every address has on this platform: 25 zero bytes, with a zero checksum.\<close>

definition zeros :: bytes where
  "zeros = [0, 0, 0, 0, 0, 0, 0, 0, 0, 0, 0, 0, 0, 0, 0, 0, 0, 0, 0, 0, 0, 0, 0, 0, 0]"

definition ex_platform :: platform where
  "ex_platform =
     \<lparr>addr_validate = (\<lambda>a. if a = [] then Inl (StdGenericErr ''empty address'') else Inr (Addr a)),
      bs58_decode = (\<lambda>a. if take 1 a = ''r'' \<and> 25 \<le> length a \<and> length a \<le> 35 then Some zeros else None),
      sha256_digest = (\<lambda>bs. [0, 0, 0, 0, 0]),
      to_hex = hex_of_bytes,
      to_json_vec = (\<lambda>ev. Inr []),
      one_coin = (\<lambda>cs. case cs of [] \<Rightarrow> Inl NoFunds | [c] \<Rightarrow> Inr c | _ \<Rightarrow> Inl MultipleDenoms),
      initialize_owner = (\<lambda>a. Inr (as_bytes a)),
      is_owner = (\<lambda>own a. Inr (own = as_bytes (as_str a))),
      ownable_update = (\<lambda>own e a act. if own = as_bytes (as_str a) then Inr act else Inl ''not owner''),
      ownership_attributes = (\<lambda>own. []),
      get_ownership = (\<lambda>own. Inr own),
      query_supply = (\<lambda>d. Inr 0),
      query_balance = (\<lambda>a d. Inr 0)\<rparr>"

definition ex_env :: env where
  "ex_env = \<lparr>ev_height = 1, ev_time_seconds = 1000, ev_contract_address = Addr ''bridge''\<rparr>"

definition ex_relayers :: "relayer list" where
  "ex_relayers =
     [\<lparr>rl_cosmos_address = Addr ''rel1'', rl_xrpl_address = ''rRelayerOneAccount11111111'', rl_xrpl_pub_key = ''k1''\<rparr>,
      \<lparr>rl_cosmos_address = Addr ''rel2'', rl_xrpl_address = ''rRelayerTwoAccount11111111'', rl_xrpl_pub_key = ''k2''\<rparr>]"

definition ex_msg :: instantiate_msg where
  "ex_msg =
     \<lparr>im_owner = Addr ''owner'', im_relayers = ex_relayers, im_evidence_threshold = 2,
      im_used_ticket_sequence_threshold = 3, im_trust_set_limit_amount = 1000,
      im_bridge_xrpl_address = ''rBridgeMultisigAccount1111'', im_xrpl_base_fee = 10, im_token_factory_addr = Addr ''tf'',
      im_issue_token = False, im_rate_limit_addr = None, im_osor_entry_point = None\<rparr>"

definition info_of :: "string \<Rightarrow> coin list \<Rightarrow> message_info" where
  "info_of a cs = \<lparr>mi_sender = Addr a, mi_funds = cs\<rparr>"

definition ok_state :: "outcome \<Rightarrow> storage" where
  "ok_state out = (case out of Inr (_, s) \<Rightarrow> s | Inl _ \<Rightarrow> empty_storage)"

definition ex_start :: storage where
  "ex_start = ok_state (instantiate ex_platform (info_of ''owner'' []) empty_storage ex_msg)"

text \<open>
  A running bridge: a token issued on the XRPL, a token issued on Cosmos, three tickets, and one
  vote already given for a transfer.
\<close>

definition ex_usd :: xrpl_token where
  "ex_usd =
     \<lparr>xt_issuer = ''rIssuerOfUsdAccount1111111'', xt_currency = ''USD'', xt_cosmos_denom = ''factory/tf/XRPLUSD'',
      xt_sending_precision = 15, xt_max_holding_amount = 1000000, xt_state = Enabled, xt_bridging_fee = 5\<rparr>"

definition ex_currency :: string where
  "ex_currency = ''636F736D6F73303030303030303030300000'' @ ''0000''"

definition ex_ucosmos :: cosmos_token where
  "ex_ucosmos =
     \<lparr>ct_denom = ''ucosmos'', ct_decimals = 6, ct_xrpl_currency = ex_currency,
      ct_sending_precision = 4, ct_max_holding_amount = 1000000000, ct_state = Enabled, ct_bridging_fee = 10\<rparr>"

definition ex_transfer :: evidence where
  "ex_transfer = XRPLToCosmosTransfer ''abc'' ''rIssuerOfUsdAccount1111111'' ''USD'' 100 (Addr ''alice'') None"

definition ex_usd_operation :: operation where
  "ex_usd_operation =
     \<lparr>op_id = operation_unique_id 900 9, op_version = 1, op_ticket_sequence = Some 9, op_account_sequence = None,
      op_signatures = [], op_operation_type =
        CosmosToXRPLTransfer ''rIssuerOfUsdAccount1111111'' ''USD'' 40 (Some 40) (Addr ''bob'') ''rBobAccount111111111111111'',
      op_xrpl_base_fee = 10\<rparr>"

definition ex_state :: storage where
  "ex_state =
     empty_storage
       \<lparr>CONFIG := Some (initial_config ex_msg),
        TX_EVIDENCES := kv_save ''0000000000'' [Addr ''rel2''] kv_empty,
        PROCESSED_TXS := kv_save ''DONE'' () kv_empty,
        COSMOS_TOKENS := kv_save ''ucosmos'' ex_ucosmos kv_empty,
        XRPL_TOKENS := kv_save (build_xrpl_token_key ''rIssuerOfUsdAccount1111111'' ''USD'') ex_usd
          (kv_save (build_xrpl_token_key XRP_ISSUER XRP_CURRENCY) (xrp_token (Addr ''tf'')) kv_empty),
        AVAILABLE_TICKETS := Some [10, 11, 12],
        USED_TICKETS_COUNTER := Some 0,
        PENDING_OPERATIONS := kv_save 9 ex_usd_operation kv_empty,
        PENDING_TICKET_UPDATE := Some False,
        PENDING_ROTATE_KEYS := Some False,
        PENDING_REFUNDS := kv_save (Addr ''carol'', ''800-8'')
          \<lparr>pr_address = Addr ''carol'', pr_id = ''800-8'', pr_xrpl_tx_hash = None, pr_coin = coin_of 70 ''ucosmos''\<rparr> kv_empty,
        FEES_COLLECTED := kv_save (Addr ''rel1'') [coin_of 30 ''ucosmos''] kv_empty,
        PROHIBITED_XRPL_ADDRESSES := kv_save ''rBridgeMultisigAccount1111'' () kv_empty,
        CONTRACT_INFO := Some (CONTRACT_NAME, CONTRACT_VERSION),
        OWNERSHIP := as_bytes ''owner''\<rparr>"

definition ex_halted :: storage where
  "ex_halted = ex_state\<lparr>CONFIG := Some ((initial_config ex_msg)\<lparr>cf_bridge_state := Halted\<rparr>)\<rparr>"

definition ok :: "'e + 'a \<Rightarrow> bool" where
  "ok m = (case m of Inl _ \<Rightarrow> False | Inr _ \<Rightarrow> True)"

text \<open>The definitions that evaluation by rewriting unfolds.\<close>

lemmas example_defs =
  ex_platform_def ex_env_def ex_relayers_def ex_msg_def info_of_def ex_usd_def ex_ucosmos_def
  ex_currency_def ex_transfer_def ex_usd_operation_def ex_state_def ex_halted_def ok_def zeros_def
  initial_config_def empty_storage_def xrp_token_def

lemmas helper_defs =
  hash_bytes_def get_hash_def as_bytes_def hex_of_bytes_def hex_digit_def to_uppercase_def upper_char_def
  is_ascii_lowercase_def char_code_def checked_arith_defs from_std_def map_err_def item_load_def kv_has_def
  index_save_def index_free_def index_item_def kv_find_def kv_save.rep_eq kv_remove.rep_eq kv_empty.rep_eq
  from_payment_def truncate_amount_cases exponent_in_range_def truncation_exponent_def
  amount_after_bridge_fees_def convert_amount_decimals_def truncate_and_convert_amount_def
  convert_and_truncate_amount_def build_xrpl_token_key_def full_denom_def is_token_xrp_def checksum_def
  validate_xrpl_address_def validate_xrpl_address_format_def validate_xrpl_address_is_not_prohibited_def
  token_consts amount_consts validate_xrpl_amount_def trim_end_zeros_def show_nat.simps digit_char_def
  sequence_or_def create_pending_operation_def check_valid_operation_if_halt_def check_operation_exists_def
  store_pending_refund_def remove_pending_refund_def handle_fee_collection_def collect_fees_def credit_relayer_def
  substract_relayer_fees_def reserve_ticket_def allocate_ticket_def return_ticket_def register_used_ticket_def
  handle_ticket_allocation_confirmation_def handle_trust_set_confirmation_def
  handle_rotate_keys_confirmation_def handle_cosmos_to_xrpl_transfer_confirmation_def handle_operation_def
  undo_send_msgs_def validate_relayers_def is_relayer_def MAX_RELAYERS_def validate_signature_def
  MAX_SIGNATURE_LENGTH_def add_signature_def handle_evidence_def

lemmas contract_defs =
  check_authorization_def assert_bridge_active_def update_bridge_state_def handler_defs send_to_xrpl_def
  claim_pending_refund_def claim_relayer_fees_def update_ownership_def renew_operation_def
  receive_transfer_def receive_xrpl_originated_def xrpl_originated_msgs_def recv_packet_msgs_def
  receive_cosmos_originated_def cosmos_originated_msgs_def receive_transaction_result_def
  apply_transaction_result_def plan_xrpl_originated_def plan_cosmos_originated_def validate_plan_def
  send_packet_msgs_def is_universal_swap_def universal_swap_msgs_def MAX_TICKETS_def instantiate_def
  INITIAL_PROHIBITED_XRPL_ADDRESSES_def account_sequence_allowed_def

lemmas validation_defs =
  validate_xrpl_currency_def validate_sending_precision_def validate_cosmos_denom_def hash_prefix_def
  is_ascii_alphanumeric_def is_ascii_alphabetic_def is_ascii_uppercase_def is_ascii_digit_def
  is_ascii_hexdigit_def validate_cosmos_token_decimals_def

lemmas eval_simps = example_defs helper_defs contract_defs char_of_def bit_Suc_0_iff word_le_nat_alt word_less_nat_alt Let_def

lemma ex_start_runs:
  "\<exists>r. instantiate ex_platform (info_of ''owner'' []) empty_storage ex_msg = Inr (r, ex_start)"
proof -
  have "ok (instantiate ex_platform (info_of ''owner'' []) empty_storage ex_msg)"
    by (simp add: eval_simps)
  then show ?thesis by (auto simp: ok_def ex_start_def ok_state_def split: sum.splits)
qed


lemma ex_start_reachable: "reachable ex_start"
  using ex_start_runs unfolding deployed_def [abs_def] by (intro reach_init) blast

lemma ex_start_config: "CONFIG ex_start = Some (initial_config ex_msg)"
  by (simp add: eval_simps ex_start_def ok_state_def)

lemma ok_execute:
  "ok (execute p e info s msg) \<Longrightarrow> \<exists>r. execute p e info s msg = Inr (r, ok_state (execute p e info s msg))"
  by (auto simp: ok_def ok_state_def split: sum.splits)

section \<open>A run\<close>

text \<open>
  From the deployment: the owner asks for tickets, the two relayers confirm the allocation, and the
  owner registers a token.
\<close>

definition ex_run :: "string \<Rightarrow> execute_msg \<Rightarrow> storage \<Rightarrow> storage" where
  "ex_run a msg s = ok_state (execute ex_platform ex_env (info_of a []) s msg)"

definition ex_tickets :: evidence where
  "ex_tickets = XRPLTransactionResult (Some ''t1'') (Some 1) None Accepted
     (Some (TicketsAllocation (Some [10, 11, 12])))"

definition ex_allocating :: storage where
  "ex_allocating = ex_run ''owner'' (Msg_RecoverTickets 1 (Some 5)) ex_start"
definition ex_voted :: storage where
  "ex_voted = ex_run ''rel1'' (Msg_SaveEvidence ex_tickets) ex_allocating"
definition ex_ready :: storage where
  "ex_ready = ex_run ''rel2'' (Msg_SaveEvidence ex_tickets) ex_voted"
definition ex_registering :: storage where
  "ex_registering = ex_run ''owner'' (Msg_RegisterXRPLToken ''rIssuerOfUsdAccount1111111'' ''USD'' 15 1000000 5) ex_ready"

lemma ex_start_eq:
  "ex_start = empty_storage\<lparr>CONTRACT_INFO := Some (CONTRACT_NAME, CONTRACT_VERSION), OWNERSHIP := as_bytes ''owner'',
      PROHIBITED_XRPL_ADDRESSES := kv_save ''rBridgeMultisigAccount1111'' ()
        (fold (\<lambda>a. kv_save a ()) INITIAL_PROHIBITED_XRPL_ADDRESSES kv_empty),
      USED_TICKETS_COUNTER := Some 0, PENDING_TICKET_UPDATE := Some False,
      PENDING_ROTATE_KEYS := Some False, AVAILABLE_TICKETS := Some [],
      CONFIG := Some (initial_config ex_msg),
      XRPL_TOKENS := kv_save (build_xrpl_token_key XRP_ISSUER XRP_CURRENCY) (xrp_token (Addr ''tf'')) kv_empty\<rparr>"
  by (simp add: eval_simps ex_start_def ok_state_def)

lemma ex_allocating_eq:
  "ex_allocating = ex_start\<lparr>PENDING_TICKET_UPDATE := Some True,
     PENDING_OPERATIONS := kv_save 1 \<lparr>op_id = ''1000-1'', op_version = 1, op_ticket_sequence = None,
       op_account_sequence = Some 1, op_signatures = [], op_operation_type = AllocateTickets 5,
       op_xrpl_base_fee = 10\<rparr> kv_empty\<rparr>"
  by (simp add: eval_simps ex_start_eq ex_allocating_def ex_run_def ok_state_def operation_unique_id_def)

lemma ex_voted_eq: "ex_voted = ex_allocating\<lparr>TX_EVIDENCES := kv_save ''0000000000'' [Addr ''rel1''] kv_empty\<rparr>"
  by (simp add: eval_simps ex_start_eq ex_allocating_eq ex_voted_def ex_run_def ok_state_def ex_tickets_def
      kv.remove_save)

lemma ex_ready_eq: "ex_ready = ex_start\<lparr>AVAILABLE_TICKETS := Some [10, 11, 12], PROCESSED_TXS := kv_save ''T1'' () kv_empty\<rparr>"
  by (simp add: eval_simps ex_start_eq ex_allocating_eq ex_voted_eq ex_ready_def ex_run_def ok_state_def ex_tickets_def
      kv.remove_save)

lemma ex_registering_eq:
  "ex_registering = ex_ready\<lparr>AVAILABLE_TICKETS := Some [11, 12],
     XRPL_TOKENS := kv_save ''rIssuerOfUsdAccount1111111USD'' (ex_usd\<lparr>xt_cosmos_denom := ''factory/tf/XRPL0000000000'', xt_state := Processing\<rparr>)
       (XRPL_TOKENS ex_start),
     PENDING_OPERATIONS := kv_save 10 \<lparr>op_id = ''1000-10'', op_version = 1, op_ticket_sequence = Some 10,
       op_account_sequence = None, op_signatures = [], op_operation_type = TrustSet ''rIssuerOfUsdAccount1111111'' ''USD'' 1000,
       op_xrpl_base_fee = 10\<rparr> kv_empty\<rparr>"
  by (simp add: eval_simps validation_defs ex_start_eq ex_ready_eq ex_registering_def ex_run_def ok_state_def
      operation_unique_id_def)

lemmas run_eqs = ex_start_eq ex_allocating_eq ex_voted_eq ex_ready_eq

lemma reachable_run:
  assumes "reachable s" and "ok (execute ex_platform ex_env (info_of a []) s msg)"
  shows "reachable (ex_run a msg s)"
  using assms ok_execute [OF assms(2)] unfolding ex_run_def by (blast intro: reach_step bridge_step.executed)

lemma ex_allocating_reachable: "reachable ex_allocating"
  unfolding ex_allocating_def by (rule reachable_run [OF ex_start_reachable]) (simp add: eval_simps run_eqs)

lemma ex_voted_reachable: "reachable ex_voted"
  unfolding ex_voted_def
  by (rule reachable_run [OF ex_allocating_reachable]) (simp add: eval_simps run_eqs ex_tickets_def)

lemma ex_ready_reachable: "reachable ex_ready"
  unfolding ex_ready_def
  by (rule reachable_run [OF ex_voted_reachable]) (simp add: eval_simps run_eqs ex_tickets_def)

lemma ex_registering_reachable: "reachable ex_registering"
  unfolding ex_registering_def
  by (rule reachable_run [OF ex_ready_reachable]) (simp add: eval_simps validation_defs run_eqs)


lemma replicate_8: "replicate 8 x = [x, x, x, x, x, x, x, x]"
  by (simp add: numeral_eq_Suc)

text \<open>The same deployment with a registered Cosmos token.\<close>

definition ex_listed :: storage where
  "ex_listed = ex_run ''owner'' (Msg_RegisterCosmosToken ''ucosmos'' 6 4 1000000000 10) ex_ready"

lemma ex_listed_eq: "ex_listed = ex_ready\<lparr>COSMOS_TOKENS := kv_save ''ucosmos'' ex_ucosmos kv_empty\<rparr>"
  by (simp add: eval_simps validation_defs run_eqs ex_listed_def ex_run_def ok_state_def
      convert_currency_to_xrpl_hexadecimal_def pad_right_def replicate_8)

lemma ex_listed_reachable: "reachable ex_listed"
  unfolding ex_listed_def
  by (rule reachable_run [OF ex_ready_reachable])
    (simp add: eval_simps validation_defs run_eqs convert_currency_to_xrpl_hexadecimal_def pad_right_def replicate_8)

section \<open>A run of the ledger\<close>

text \<open>The run with the contract's balances, up to a transfer of 7 units of XRP by a user.\<close>

definition ok_response :: "outcome \<Rightarrow> response" where
  "ok_response out = (case out of Inr (r, _) \<Rightarrow> r | Inl _ \<Rightarrow> response_new)"

lemma ok_outcome: "ok out \<Longrightarrow> out = Inr (ok_response out, ok_state out)"
  by (auto simp: ok_def ok_response_def ok_state_def split: sum.splits)

abbreviation ex_bridge :: addr where
  "ex_bridge \<equiv> Addr ''bridge''"

definition no_coins_held :: balances where
  "no_coins_held = (\<lambda>_. 0)"

lemma ex_platform_laws: "platform_laws ex_platform"
  by (auto simp: platform_laws_def base58_lengths_def address_length_def ex_platform_def split: list.splits if_splits)

lemma ledger_run:
  assumes "ledger_reachable ex_bridge (s, bal)" and "ok (execute ex_platform ex_env (info_of x cs) s msg)"
    and "rs_messages (ok_response (execute ex_platform ex_env (info_of x cs) s msg)) = []"
  shows "ledger_reachable ex_bridge (ok_state (execute ex_platform ex_env (info_of x cs) s msg), \<lambda>d. bal d + denom_total d cs)"
proof -
  obtain r where r: "execute ex_platform ex_env (info_of x cs) s msg =
      Inr (r, ok_state (execute ex_platform ex_env (info_of x cs) s msg))"
    using ok_execute [OF assms(2)] by blast
  have "ok_response (execute ex_platform ex_env (info_of x cs) s msg) = r"
    unfolding ok_response_def by (subst r) simp
  with assms(3) have "settles ex_bridge (mi_funds (info_of x cs)) r bal (\<lambda>d. bal d + denom_total d cs)"
    by (simp add: settles_def coins_in_def coins_out_def info_of_def)
  with r assms(1) ex_platform_laws show ?thesis
    by (intro reach_step [OF assms(1)]) (rule ledger_step.call, auto simp: ex_env_def)
qed

lemma ex_ready_ledger: "ledger_reachable ex_bridge (ex_ready, no_coins_held)"
proof -
  have 0: "ledger_reachable ex_bridge (ex_start, no_coins_held)"
    using ex_start_runs ex_platform_laws unfolding ledger_start_def [abs_def] by (intro reach_init) (simp, blast)
  have 1: "ledger_reachable ex_bridge (ex_allocating, no_coins_held)"
    using ledger_run [OF 0, of "''owner''" "[]" "Msg_RecoverTickets 1 (Some 5)"]
    by (simp add: ex_allocating_def ex_run_def, simp add: eval_simps run_eqs ok_response_def no_coins_held_def)
  have 2: "ledger_reachable ex_bridge (ex_voted, no_coins_held)"
    using ledger_run [OF 1, of "''rel1''" "[]" "Msg_SaveEvidence ex_tickets"]
    by (simp add: ex_voted_def ex_run_def, simp add: eval_simps run_eqs ok_response_def no_coins_held_def ex_tickets_def)
  show ?thesis
    using ledger_run [OF 2, of "''rel2''" "[]" "Msg_SaveEvidence ex_tickets"]
    by (simp add: ex_ready_def ex_run_def, simp add: eval_simps run_eqs ok_response_def no_coins_held_def ex_tickets_def)
qed

definition ex_sent :: storage where
  "ex_sent = ok_state (execute ex_platform ex_env (info_of ''alice'' [coin_of 7 ''factory/tf/XRP'']) ex_ready
     (Msg_SendToXRPL ''rBobAccount111111111111111'' None))"

lemma ex_sent_runs:
  "ok (execute ex_platform ex_env (info_of ''alice'' [coin_of 7 ''factory/tf/XRP'']) ex_ready
     (Msg_SendToXRPL ''rBobAccount111111111111111'' None))"
  by (simp add: eval_simps run_eqs)

lemma ex_sent_eq:
  "ex_sent = ex_ready\<lparr>AVAILABLE_TICKETS := Some [11, 12],
     PENDING_OPERATIONS := kv_save 10 \<lparr>op_id = ''1000-10'', op_version = 1, op_ticket_sequence = Some 10,
       op_account_sequence = None, op_signatures = [], op_operation_type =
         CosmosToXRPLTransfer XRP_ISSUER XRP_CURRENCY 7 None (Addr ''alice'') ''rBobAccount111111111111111'',
       op_xrpl_base_fee = 10\<rparr> kv_empty\<rparr>"
  by (simp add: eval_simps run_eqs ex_sent_def ok_state_def operation_unique_id_def)

lemma ex_sent_ledger:
  "ledger_reachable ex_bridge (ex_sent, \<lambda>d. no_coins_held d + denom_total d [coin_of 7 ''factory/tf/XRP''])"
  unfolding ex_sent_def
  by (rule ledger_run [OF ex_ready_ledger ex_sent_runs]) (simp add: eval_simps run_eqs ok_response_def)

lemma ex_sent_reachable: "reachable ex_sent"
  using ledger_reachable_storage [OF ex_sent_ledger] by simp

lemma ex_sent_in_transit: "in_transit ''factory/tf/XRP'' ex_sent = 7"
  by (simp add: in_transit_def type_sum_def ex_sent_eq run_eqs kv_sum_save_new refund_coin_def coin_value_def
      xrp_token_def full_denom_def token_consts build_xrpl_token_key_def)

text \<open>The owner cancels the transfer.\<close>

definition ex_cancelled :: storage where
  "ex_cancelled = ok_state (execute ex_platform ex_env (info_of ''owner'' []) ex_sent (Msg_CancelPendingOperation 10))"

lemma ex_cancelled_eq:
  "ex_cancelled = ex_sent\<lparr>PENDING_OPERATIONS := kv_empty, AVAILABLE_TICKETS := Some [10, 11, 12],
     PENDING_REFUNDS := kv_save (Addr ''alice'', ''1000-10'')
       \<lparr>pr_address = Addr ''alice'', pr_id = ''1000-10'', pr_xrpl_tx_hash = None, pr_coin = coin_of 7 ''factory/tf/XRP''\<rparr> kv_empty\<rparr>"
  by (simp add: eval_simps run_eqs ex_sent_eq ex_cancelled_def ok_state_def kv.remove_save)

lemma ex_cancelled_ledger:
  "ledger_reachable ex_bridge (ex_cancelled,
     \<lambda>d. no_coins_held d + denom_total d [coin_of 7 ''factory/tf/XRP''] + denom_total d [])"
  unfolding ex_cancelled_def
  by (rule ledger_run [OF ex_sent_ledger]) (simp_all add: eval_simps run_eqs ex_sent_eq ok_response_def)

text \<open>A transfer of XRP from the XRPL, reported by the first relayer.\<close>

definition ex_xrp_transfer :: evidence where
  "ex_xrp_transfer = XRPLToCosmosTransfer ''x1'' XRP_ISSUER XRP_CURRENCY 100 (Addr ''alice'') None"

definition ex_reported :: storage where
  "ex_reported = ex_run ''rel1'' (Msg_SaveEvidence ex_xrp_transfer) ex_ready"

lemma ex_reported_eq: "ex_reported = ex_ready\<lparr>TX_EVIDENCES := kv_save ''0000000000'' [Addr ''rel1''] kv_empty\<rparr>"
  by (simp add: eval_simps run_eqs ex_reported_def ex_run_def ok_state_def ex_xrp_transfer_def kv.remove_save)

lemma ex_reported_reachable: "reachable ex_reported"
  unfolding ex_reported_def
  by (rule reachable_run [OF ex_ready_reachable]) (simp add: eval_simps run_eqs ex_xrp_transfer_def)

lemma ex_reported_runs: "ok (execute ex_platform ex_env (info_of ''rel2'' []) ex_reported (Msg_SaveEvidence ex_xrp_transfer))"
  by (simp add: eval_simps run_eqs ex_reported_eq ex_xrp_transfer_def)

text \<open>A key rotation on its way, with one vote for its acceptance.\<close>

definition ex_new_relayers :: "relayer list" where
  "ex_new_relayers = [\<lparr>rl_cosmos_address = Addr ''rel3'', rl_xrpl_address = ''rRelayerTwoAccount11111111'', rl_xrpl_pub_key = ''k3''\<rparr>]"

definition ex_rotated :: evidence where
  "ex_rotated = XRPLTransactionResult (Some ''r1'') None (Some 10) Accepted None"

definition ex_rotating :: storage where
  "ex_rotating = (ex_run ''owner'' (Msg_RotateKeys ex_new_relayers 1) ex_ready)
     \<lparr>TX_EVIDENCES := kv_save ''0000000000'' [Addr ''rel1''] kv_empty\<rparr>"

lemma ex_rotating_eq:
  "ex_rotating = ex_ready\<lparr>PENDING_ROTATE_KEYS := Some True, AVAILABLE_TICKETS := Some [11, 12],
     CONFIG := Some ((initial_config ex_msg)\<lparr>cf_bridge_state := Halted\<rparr>),
     PENDING_OPERATIONS := kv_save 10 \<lparr>op_id = ''1000-10'', op_version = 1, op_ticket_sequence = Some 10,
       op_account_sequence = None, op_signatures = [], op_operation_type = RotateKeys ex_new_relayers 1,
       op_xrpl_base_fee = 10\<rparr> kv_empty,
     TX_EVIDENCES := kv_save ''0000000000'' [Addr ''rel1''] kv_empty\<rparr>"
  by (simp add: eval_simps run_eqs ex_rotating_def ex_run_def ok_state_def operation_unique_id_def ex_new_relayers_def)

lemma ex_rotating_runs: "ok (execute ex_platform ex_env (info_of ''rel2'' []) ex_rotating (Msg_SaveEvidence ex_rotated))"
  by (simp add: eval_simps run_eqs ex_rotating_eq ex_rotated_def)

section \<open>A run with obligations\<close>

text \<open>
  The owner registers a Cosmos originated token, a user sends 1234567 units of it to the XRPL, and
  the two relayers report that the transfer was accepted.
\<close>

lemma escrow_run:
  assumes "escrow_reachable ex_bridge (s, bal, obl)" and "ok (execute ex_platform ex_env (info_of x cs) s msg)"
    and "rs_messages (ok_response (execute ex_platform ex_env (info_of x cs) s msg)) = []"
    and "\<And>cur. paid_msg ex_platform s msg cur \<le> obl cur"
  shows "escrow_reachable ex_bridge (ok_state (execute ex_platform ex_env (info_of x cs) s msg), \<lambda>d. bal d + denom_total d cs,
    \<lambda>cur. obl cur - paid_msg ex_platform s msg cur + issued_msg ex_platform s msg cur)"
proof -
  obtain r where r: "execute ex_platform ex_env (info_of x cs) s msg =
      Inr (r, ok_state (execute ex_platform ex_env (info_of x cs) s msg))"
    using ok_execute [OF assms(2)] by blast
  have "ok_response (execute ex_platform ex_env (info_of x cs) s msg) = r"
    unfolding ok_response_def by (subst r) simp
  with assms(3) have "settles ex_bridge (mi_funds (info_of x cs)) r bal (\<lambda>d. bal d + denom_total d cs)"
    by (simp add: settles_def coins_in_def coins_out_def info_of_def)
  with r assms(4) ex_platform_laws show ?thesis
    by (intro reach_step [OF assms(1)]) (rule escrow_step.call, auto simp: ex_env_def)
qed

definition no_obligations :: obligations where
  "no_obligations = (\<lambda>_. 0)"

lemma escrow_quiet_run:
  assumes "escrow_reachable ex_bridge (s, bal, no_obligations)" and "ok (execute ex_platform ex_env (info_of x cs) s msg)"
    and "rs_messages (ok_response (execute ex_platform ex_env (info_of x cs) s msg)) = []"
    and "paid_msg ex_platform s msg = no_obligations" and "issued_msg ex_platform s msg = no_obligations"
  shows "escrow_reachable ex_bridge (ok_state (execute ex_platform ex_env (info_of x cs) s msg), \<lambda>d. bal d + denom_total d cs,
    no_obligations)"
  using escrow_run [OF assms(1-3)] assms(4,5) by (simp add: no_obligations_def)

lemma votes_issue_nothing:
  "\<not> decides p s ev \<Longrightarrow> paid_msg p s (Msg_SaveEvidence ev) = no_obligations \<and> issued_msg p s (Msg_SaveEvidence ev) = no_obligations"
  by (cases ev) (simp_all add: paid_back_def issued_by_def no_obligations_def fun_eq_iff)

lemma ex_ready_escrow: "escrow_reachable ex_bridge (ex_ready, no_coins_held, no_obligations)"
proof -
  have 0: "escrow_reachable ex_bridge (ex_start, no_coins_held, no_obligations)"
    using ex_start_runs ex_platform_laws unfolding escrow_start_def [abs_def] ledger_start_def
    by (intro reach_init) (simp add: no_obligations_def, blast)
  have 1: "escrow_reachable ex_bridge (ex_allocating, no_coins_held, no_obligations)"
    using escrow_quiet_run [OF 0, of "''owner''" "[]" "Msg_RecoverTickets 1 (Some 5)"]
    by (simp add: ex_allocating_def ex_run_def no_obligations_def,
        simp add: eval_simps run_eqs ok_response_def no_coins_held_def)
  have 2: "escrow_reachable ex_bridge (ex_voted, no_coins_held, no_obligations)"
    using escrow_quiet_run [OF 1, of "''rel1''" "[]" "Msg_SaveEvidence ex_tickets"]
    by (simp add: ex_voted_def ex_run_def paid_back_def issued_by_def no_obligations_def ex_tickets_def fun_eq_iff,
        simp add: eval_simps run_eqs ok_response_def no_coins_held_def ex_tickets_def decides_def)
  show ?thesis
    using escrow_quiet_run [OF 2, of "''rel2''" "[]" "Msg_SaveEvidence ex_tickets"]
    by (simp add: ex_ready_def ex_run_def paid_back_def issued_by_def no_obligations_def ex_tickets_def fun_eq_iff,
        simp add: eval_simps run_eqs ok_response_def no_coins_held_def ex_tickets_def decides_def)
qed

lemma ex_listed_escrow: "escrow_reachable ex_bridge (ex_listed, no_coins_held, no_obligations)"
proof -
  let ?msg = "Msg_RegisterCosmosToken ''ucosmos'' 6 4 1000000000 10"
  let ?out = "execute ex_platform ex_env (info_of ''owner'' []) ex_ready ?msg"
  have "ok ?out"
    by (simp add: eval_simps validation_defs run_eqs convert_currency_to_xrpl_hexadecimal_def pad_right_def replicate_8)
  moreover have "rs_messages (ok_response ?out) = []"
    by (simp add: eval_simps validation_defs run_eqs ok_response_def convert_currency_to_xrpl_hexadecimal_def pad_right_def
        replicate_8)
  ultimately have "escrow_reachable ex_bridge (ok_state ?out, \<lambda>d. no_coins_held d + denom_total d [], no_obligations)"
    by (rule escrow_quiet_run [OF ex_ready_escrow]) (simp_all add: no_obligations_def)
  then show ?thesis by (simp add: ex_listed_def ex_run_def del: execute.simps)
qed

definition ex_cosmos_sent :: storage where
  "ex_cosmos_sent = ok_state (execute ex_platform ex_env (info_of ''alice'' [coin_of 1234567 ''ucosmos'']) ex_listed
     (Msg_SendToXRPL ''rBobAccount111111111111111'' None))"

lemma ex_cosmos_sent_eq:
  "ex_cosmos_sent = ex_listed\<lparr>AVAILABLE_TICKETS := Some [11, 12],
     FEES_COLLECTED := kv_save (Addr ''rel2'') [coin_of 33 ''ucosmos''] (kv_save (Addr ''rel1'') [coin_of 33 ''ucosmos''] kv_empty),
     FEE_REMAINDERS := kv_save ''ucosmos'' 1 kv_empty,
     PENDING_OPERATIONS := kv_save 10 \<lparr>op_id = ''1000-10'', op_version = 1, op_ticket_sequence = Some 10,
       op_account_sequence = None, op_signatures = [], op_operation_type =
         CosmosToXRPLTransfer ''rBridgeMultisigAccount1111'' ex_currency 1234500000000000 (Some 1234500000000000)
           (Addr ''alice'') ''rBobAccount111111111111111'',
       op_xrpl_base_fee = 10\<rparr> kv_empty\<rparr>"
  by (simp add: eval_simps run_eqs ex_listed_eq ex_cosmos_sent_def ok_state_def operation_unique_id_def)

lemma ex_cosmos_sent_escrow:
  "escrow_reachable ex_bridge (ex_cosmos_sent, \<lambda>d. no_coins_held d + denom_total d [coin_of 1234567 ''ucosmos''], no_obligations)"
  unfolding ex_cosmos_sent_def
  by (rule escrow_quiet_run [OF ex_listed_escrow])
    (simp add: eval_simps run_eqs ex_listed_eq, simp add: eval_simps run_eqs ex_listed_eq ok_response_def,
      simp_all add: no_obligations_def)

definition ex_accepted :: evidence where
  "ex_accepted = XRPLTransactionResult (Some ''a1'') None (Some 10) Accepted None"

definition ex_settling :: storage where
  "ex_settling = ok_state (execute ex_platform ex_env (info_of ''rel1'' []) ex_cosmos_sent (Msg_SaveEvidence ex_accepted))"

lemma ex_settling_eq: "ex_settling = ex_cosmos_sent\<lparr>TX_EVIDENCES := kv_save ''0000000000'' [Addr ''rel1''] kv_empty\<rparr>"
  by (simp add: eval_simps run_eqs ex_listed_eq ex_cosmos_sent_eq ex_settling_def ok_state_def ex_accepted_def)

lemma ex_settling_escrow:
  "escrow_reachable ex_bridge (ex_settling, \<lambda>d. no_coins_held d + denom_total d [coin_of 1234567 ''ucosmos''] + denom_total d [],
     no_obligations)"
proof -
  have d: "\<not> decides ex_platform ex_cosmos_sent ex_accepted"
    by (simp add: decides_def votes_def eval_simps run_eqs ex_listed_eq ex_cosmos_sent_eq ex_accepted_def)
  show ?thesis
    unfolding ex_settling_def
    by (rule escrow_quiet_run [OF ex_cosmos_sent_escrow])
      (simp add: eval_simps run_eqs ex_listed_eq ex_cosmos_sent_eq ex_accepted_def,
        simp add: eval_simps run_eqs ex_listed_eq ex_cosmos_sent_eq ex_accepted_def ok_response_def,
        simp_all only: votes_issue_nothing [OF d])
qed

definition ex_backing :: storage where
  "ex_backing = ok_state (execute ex_platform ex_env (info_of ''rel2'' []) ex_settling (Msg_SaveEvidence ex_accepted))"

definition ex_obligations :: obligations where
  "ex_obligations = (\<lambda>cur. if cur = ex_currency then 1234500000000000 else 0)"

lemma ex_backing_tokens: "COSMOS_TOKENS ex_backing = kv_save ''ucosmos'' ex_ucosmos kv_empty"
  by (simp add: eval_simps run_eqs ex_listed_eq ex_cosmos_sent_eq ex_settling_eq ex_backing_def ok_state_def ex_accepted_def)

lemma ex_backing_escrow:
  "escrow_reachable ex_bridge (ex_backing,
     \<lambda>d. no_coins_held d + denom_total d [coin_of 1234567 ''ucosmos''] + denom_total d [] + denom_total d [], ex_obligations)"
proof -
  have d: "decides ex_platform ex_settling ex_accepted"
    by (simp add: decides_def votes_def eval_simps run_eqs ex_listed_eq ex_cosmos_sent_eq ex_settling_eq ex_accepted_def)
  have pd: "paid_msg ex_platform ex_settling (Msg_SaveEvidence ex_accepted) = no_obligations"
    by (simp add: paid_back_def ex_accepted_def no_obligations_def fun_eq_iff)
  have op: "issued_msg ex_platform ex_settling (Msg_SaveEvidence ex_accepted) = ex_obligations"
    using d by (simp add: issued_by_def ex_accepted_def ex_obligations_def fun_eq_iff sequence_or_def ex_settling_eq
        ex_cosmos_sent_eq ex_listed_eq run_eqs kv_has_def build_xrpl_token_key_def token_consts)
  have "escrow_reachable ex_bridge (ex_backing,
     \<lambda>d. no_coins_held d + denom_total d [coin_of 1234567 ''ucosmos''] + denom_total d [] + denom_total d [],
     \<lambda>cur. no_obligations cur - paid_msg ex_platform ex_settling (Msg_SaveEvidence ex_accepted) cur +
       issued_msg ex_platform ex_settling (Msg_SaveEvidence ex_accepted) cur)"
    unfolding ex_backing_def
    by (rule escrow_run [OF ex_settling_escrow])
      (simp add: eval_simps run_eqs ex_listed_eq ex_cosmos_sent_eq ex_settling_eq ex_accepted_def,
        simp add: eval_simps run_eqs ex_listed_eq ex_cosmos_sent_eq ex_settling_eq ex_accepted_def ok_response_def,
        simp only: pd no_obligations_def order_refl)
  then show ?thesis by (simp only: pd op no_obligations_def diff_0_eq_0 add_0)
qed

text \<open>The same transfer, cancelled by the owner.\<close>

definition ex_cosmos_cancelled :: storage where
  "ex_cosmos_cancelled =
     ok_state (execute ex_platform ex_env (info_of ''owner'' []) ex_cosmos_sent (Msg_CancelPendingOperation 10))"

lemma ex_cosmos_cancelled_eq:
  "ex_cosmos_cancelled = ex_cosmos_sent\<lparr>PENDING_OPERATIONS := kv_empty, AVAILABLE_TICKETS := Some [10, 11, 12],
     PENDING_REFUNDS := kv_save (Addr ''alice'', ''1000-10'')
       \<lparr>pr_address = Addr ''alice'', pr_id = ''1000-10'', pr_xrpl_tx_hash = None, pr_coin = coin_of 1234500 ''ucosmos''\<rparr> kv_empty\<rparr>"
  by (simp add: eval_simps run_eqs ex_listed_eq ex_cosmos_sent_eq ex_cosmos_cancelled_def ok_state_def kv.remove_save)

lemma ex_cosmos_cancelled_escrow:
  "escrow_reachable ex_bridge (ex_cosmos_cancelled,
     \<lambda>d. no_coins_held d + denom_total d [coin_of 1234567 ''ucosmos''] + denom_total d [], no_obligations)"
  unfolding ex_cosmos_cancelled_def
  by (rule escrow_quiet_run [OF ex_cosmos_sent_escrow])
    (simp add: eval_simps run_eqs ex_listed_eq ex_cosmos_sent_eq,
      simp add: eval_simps run_eqs ex_listed_eq ex_cosmos_sent_eq ok_response_def,
      simp_all add: no_obligations_def)

text \<open>The results of the pending transfer of USD, on a bridge with a rate limiter.\<close>

definition ex_limited_config :: config where
  "ex_limited_config = (initial_config ex_msg)\<lparr>cf_rate_limit_addr := Some (Addr ''limiter'')\<rparr>"

definition ex_limited :: storage where
  "ex_limited = ex_state\<lparr>CONFIG := Some ex_limited_config\<rparr>"

definition ex_result :: "transaction_result \<Rightarrow> evidence" where
  "ex_result res = XRPLTransactionResult (Some ''f'') None (Some 9) res None"

lemma ex_result_runs:
  "ok (execute ex_platform ex_env (info_of ''rel1'' []) ex_limited (Msg_SaveEvidence (ex_result Accepted)))"
  "ok (execute ex_platform ex_env (info_of ''rel1'' []) ex_limited (Msg_SaveEvidence (ex_result Rejected)))"
  by (simp_all add: eval_simps ex_limited_def ex_limited_config_def ex_result_def)

lemma ex_result_decides: "decides ex_platform ex_limited (ex_result res)"
  by (simp add: decides_def votes_def eval_simps ex_limited_def ex_limited_config_def ex_result_def)

lemma ex_usd_operation_facts:
  "op_operation_type ex_usd_operation =
     CosmosToXRPLTransfer ''rIssuerOfUsdAccount1111111'' ''USD'' 40 (Some 40) (Addr ''bob'') ''rBobAccount111111111111111''"
  "op_id ex_usd_operation = ''900-9''"
  "kv_load 9 (PENDING_OPERATIONS ex_limited) = Some ex_usd_operation"
  "kv_load (build_xrpl_token_key ''rIssuerOfUsdAccount1111111'' ''USD'') (XRPL_TOKENS ex_limited) = Some ex_usd"
  "CONFIG ex_limited = Some ex_limited_config"
  by (simp_all add: ex_usd_operation_def operation_unique_id_def show_nat.simps digit_char_def char_of_def bit_Suc_0_iff
      ex_limited_def ex_state_def)

lemma ex_backing_runs:
  "ok (execute ex_platform ex_env (info_of ''rel2'' []) ex_settling (Msg_SaveEvidence ex_accepted))"
  "decides ex_platform ex_settling ex_accepted"
  by (simp_all add: decides_def votes_def eval_simps run_eqs ex_listed_eq ex_cosmos_sent_eq ex_settling_eq ex_accepted_def)

end
