(* ===== verification/Signing.thy ===== *)
theory Signing
  imports Bridge_Effects
begin

text \<open>
  The life of a signature: from its acceptance until the operation is settled or cancelled, or
  until a change of the base fee starts a new version, no call removes it. Every handler keeps the
  pending operations it does not settle, up to further signatures.
\<close>

section \<open>Calls that end a version\<close>

text \<open>The operation whose result an evidence reports.\<close>

definition reported_operation :: "evidence \<Rightarrow> u64 option" where
  "reported_operation ev =
     (case ev of
        XRPLToCosmosTransfer _ _ _ _ _ _ \<Rightarrow> None
      | XRPLTransactionResult _ acc tick _ _ \<Rightarrow>
          (case sequence_or acc tick of Inl _ \<Rightarrow> None | Inr oid \<Rightarrow> Some oid))"

fun ends_version :: "platform \<Rightarrow> storage \<Rightarrow> u64 \<Rightarrow> execute_msg \<Rightarrow> bool" where
  "ends_version p s oid (Msg_UpdateXRPLBaseFee _) = True"
| "ends_version p s oid (Msg_CancelPendingOperation oid') = (oid' = oid)"
| "ends_version p s oid (Msg_SaveEvidence ev) = (decides p s ev \<and> reported_operation ev = Some oid)"
| "ends_version p s oid _ = False"

inductive same_version_step :: "u64 \<Rightarrow> storage \<Rightarrow> storage \<Rightarrow> bool" for oid :: u64 where
  executed: "execute p e info s msg = Inr (r, s') \<Longrightarrow> \<not> ends_version p s oid msg \<Longrightarrow> same_version_step oid s s'"
| replied: "reply s rm = Inr (r, s') \<Longrightarrow> same_version_step oid s s'"

section \<open>Operations that are kept\<close>

definition operation_kept :: "u64 \<Rightarrow> storage \<Rightarrow> storage \<Rightarrow> bool" where
  "operation_kept oid s s' \<longleftrightarrow>
     (\<forall>op. kv_load oid (PENDING_OPERATIONS s) = Some op \<longrightarrow>
        (\<exists>op'. kv_load oid (PENDING_OPERATIONS s') = Some op' \<and> op_version op' = op_version op \<and>
           set (signers op) \<subseteq> set (signers op')))"

lemma kept_refl [simp]: "operation_kept oid s s"
  by (simp add: operation_kept_def)

lemma kept_trans: "operation_kept oid s s1 \<Longrightarrow> operation_kept oid s1 s2 \<Longrightarrow> operation_kept oid s s2"
  unfolding operation_kept_def by fastforce

lemma kept_same: "PENDING_OPERATIONS s' = PENDING_OPERATIONS s \<Longrightarrow> operation_kept oid s s'"
  by (simp add: operation_kept_def)

lemma kept_created:
  assumes "create_pending_operation s1 ts tick acc ty = Inr s'" and "PENDING_OPERATIONS s1 = PENDING_OPERATIONS s"
  shows "operation_kept oid s s'"
  using assms by (auto simp: operation_kept_def elim!: create_pending_operation_ok)

lemma kept_signed: "add_signature s o' ver x sig = Inr s' \<Longrightarrow> operation_kept oid s s'"
  by (auto simp: operation_kept_def signers_def elim!: add_signature_ok)

lemma kept_prohibited:
  assumes "update_prohibited_xrpl_addresses p s a l = Inr (r, s')"
  shows "PENDING_OPERATIONS s' = PENDING_OPERATIONS s"
proof -
  from assms obtain c :: config where loop: "for_each (add_prohibited_address p) l
      (s\<lparr>PROHIBITED_XRPL_ADDRESSES := kv_save (cf_bridge_xrpl_address c) () kv_empty\<rparr>) = Inr s'"
    by (auto simp: update_prohibited_xrpl_addresses_def Let_def result_simps)
  then show ?thesis
    by (rule for_each_invariant) (auto simp: add_prohibited_address_def result_simps)
qed

section \<open>Evidences\<close>

lemma kept_used_ticket: "register_used_ticket s ts = Inr (ok, s') \<Longrightarrow> operation_kept oid s s'"
  by (erule register_used_ticket_cases) (auto simp: operation_kept_def elim!: create_pending_operation_ok)

lemma kept_released:
  assumes "released o' tick res s1 s'" and "PENDING_OPERATIONS s1 = PENDING_OPERATIONS s" and "o' \<noteq> oid"
  shows "operation_kept oid s s'"
  using assms by (auto simp: operation_kept_def released_def return_ticket_ok split: option.splits if_splits)

lemma kept_handled:
  assumes "handle_operation s op ores res h o' tick tf b resp = Inr (m, r, s')" and "o' \<noteq> oid"
  shows "operation_kept oid s s'"
  using assms(1)
proof (cases rule: handle_operation_cases)
  case (allocation n ts s1)
  from handle_ticket_allocation_frame [OF allocation(4)] show ?thesis
    by (intro kept_released [OF allocation(5) _ assms(2)]) auto
next
  case (trust_set i c n s1)
  then show ?thesis
    by (intro kept_released [OF trust_set(5) _ assms(2)])
      (auto simp: handle_trust_set_confirmation_def Let_def and_then_eq_Inr)
next
  case (rotation rs t s1)
  then show ?thesis
    by (intro kept_released [OF rotation(5) _ assms(2)])
      (auto simp: handle_rotate_keys_confirmation_def result_simps split: if_splits)
next
  case (transfer s1)
  from transfer_confirmation_frame [OF transfer(2)] show ?thesis
    by (intro kept_released [OF transfer(3) _ assms(2)]) auto
qed

lemma kept_received_transfer:
  "receive_transfer p e s c h i cur am rcp memo reached resp = Inr (r, s') \<Longrightarrow> operation_kept oid s s'"
  by (auto intro: kept_same dest!: receive_transfer_frame)

lemma kept_evidence:
  assumes "execute p e info s (Msg_SaveEvidence ev) = Inr (r, s')" and "\<not> ends_version p s oid (Msg_SaveEvidence ev)"
  shows "operation_kept oid s s'"
proof (cases "decides p s ev")
  case dec: True
  show ?thesis
  proof (cases ev)
    case ev: (XRPLToCosmosTransfer h i cur am rcp memo)
    have "operation_kept oid s s1" if "\<exists>te pt. s1 = s\<lparr>TX_EVIDENCES := te, PROCESSED_TXS := pt\<rparr>" for s1
      using that by (auto intro: kept_same)
    with assms(1) dec show ?thesis
      by (elim deciding_evidence) (auto simp: ev simp del: execute.simps intro: kept_trans kept_received_transfer)
  next
    case ev: (XRPLTransactionResult h acc tick res ores)
    from assms(1) dec show ?thesis
    proof (rule deciding_evidence)
      fix c s1 resp
      assume s1: "\<exists>te pt. s1 = s\<lparr>TX_EVIDENCES := te, PROCESSED_TXS := pt\<rparr>"
        and rest: "(case ev of
            XRPLToCosmosTransfer h i cur am rcp memo \<Rightarrow> receive_transfer p e s1 c h i cur am rcp memo True resp
          | XRPLTransactionResult h acc tick res ores \<Rightarrow>
              receive_transaction_result e s1 c h acc tick res ores True resp) = Inr (r, s')"
      then obtain o' op m r0 where o': "sequence_or acc tick = Inr o'"
        and ap: "apply_transaction_result e s1 c op h o' tick res ores resp = Inr (m, r0, s')"
        by (auto simp: ev receive_transaction_result_def and_then_eq_Inr if_Inl_eq_Inr)
      from o' assms(2) dec have ne: "o' \<noteq> oid" by (auto simp: ev reported_operation_def)
      from ap obtain m1 r1 s2 where ho: "handle_operation s1 op ores res h o' tick (cf_token_factory_addr c)
          (ev_contract_address e) resp = Inr (m1, r1, s2)"
        and "s' = s2 \<or> (\<exists>ok. register_used_ticket s2 (ev_time_seconds e) = Inr (ok, s'))"
        by (auto simp: apply_transaction_result_def and_then_eq_Inr split: if_splits)
      then have "operation_kept oid s2 s'" using kept_used_ticket by auto
      moreover have "operation_kept oid s s1" using s1 by (auto intro: kept_same)
      ultimately show ?thesis using kept_handled [OF ho ne] kept_trans by blast
    qed
  qed
next
  case False
  from assms(1) have sv: "save_evidence p e s (mi_sender info) ev = Inr (r, s')" by simp
  then obtain c where c: "CONFIG s = Some c" by (rule save_evidence_ok)
  with False have "length (votes p s ev) + 1 < unat (cf_evidence_threshold c)" by (auto simp: decides_def not_le)
  with sv c show ?thesis by (rule save_evidence_below_threshold) (simp add: kept_same)
qed

section \<open>Every call keeps the operations it does not settle\<close>

lemma kept_sent:
  assumes "send_to_xrpl p e info s rcp dl = Inr (r, s')"
  shows "operation_kept oid s s'"
  using assms
proof (rule send_to_xrpl_ok)
  fix c funds plan s1 ticket rest
  assume "plan_transfer p e s funds dl = Inr (plan, s1)"
    and cr: "create_pending_operation (s1\<lparr>AVAILABLE_TICKETS := Some rest\<rparr>) (ev_time_seconds e) (Some ticket) None
      (CosmosToXRPLTransfer (tp_issuer plan) (tp_currency plan) (tp_amount plan) (tp_max_amount plan)
        (mi_sender info) rcp) = Inr s'"
  from plan_transfer_frame [OF this(1)] show ?thesis by (intro kept_created [OF cr]) auto
qed

lemma kept_registered:
  "register_xrpl_token p e info s i c sp mx fee = Inr (r, s') \<Longrightarrow> operation_kept oid s s'"
  "recover_xrpl_token_registration p s ts a i c = Inr (r, s') \<Longrightarrow> operation_kept oid s s'"
  by (auto elim!: register_xrpl_token_ok recover_xrpl_token_registration_ok intro: kept_created)

lemma kept_queued:
  "recover_tickets p s ts a acc n = Inr (r, s') \<Longrightarrow> operation_kept oid s s'"
  "rotate_keys p e s a rs t = Inr (r, s') \<Longrightarrow> operation_kept oid s s'"
  by (auto simp: recover_tickets_def rotate_keys_def Let_def and_then_eq_Inr if_Inl_eq_Inr item_load_eq_Inr
      update_bridge_state_ok allocate_ticket_ok intro: kept_created)

lemma kept_adjusted:
  "register_cosmos_token p e s a d dec sp mx fee = Inr (r, s') \<Longrightarrow> operation_kept oid s s'"
  "update_xrpl_token p s a i c st sp' fee' mx' = Inr (r, s') \<Longrightarrow> operation_kept oid s s'"
  "update_cosmos_token p e s a d st sp' fee' mx' = Inr (r, s') \<Longrightarrow> operation_kept oid s s'"
  by (auto simp: register_cosmos_token_def update_xrpl_token_def update_cosmos_token_def Let_def and_then_eq_Inr
      if_Inl_eq_Inr intro: kept_same)

lemma kept_configured:
  "halt_bridge p s a = Inr (r, s') \<Longrightarrow> operation_kept oid s s'"
  "resume_bridge p s a = Inr (r, s') \<Longrightarrow> operation_kept oid s s'"
  "update_ownership p e info s act = Inr (r, s') \<Longrightarrow> operation_kept oid s s'"
  "update_used_ticket_sequence_threshold p s a t = Inr (r, s') \<Longrightarrow> operation_kept oid s s'"
  by (auto simp: halt_bridge_def resume_bridge_def update_ownership_def update_used_ticket_sequence_threshold_def
      result_simps split: sum.splits intro: kept_same)

lemma kept_claimed:
  "claim_relayer_fees s a amts = Inr (r, s') \<Longrightarrow> operation_kept oid s s'"
  "claim_pending_refund s a i = Inr (r, s') \<Longrightarrow> operation_kept oid s s'"
  using substract_relayer_fees_effect(4) [of s a amts] remove_pending_refund_owed(2) [of s a i]
  by (auto simp: claim_relayer_fees_def claim_pending_refund_def result_simps intro!: kept_same)

lemma kept_saved_signature: "save_signature p s a o' ver sig = Inr (r, s') \<Longrightarrow> operation_kept oid s s'"
  by (auto simp: save_signature_def and_then_eq_Inr intro: kept_signed)

lemma kept_cancelled:
  assumes "cancel_pending_operation p e s a o' = Inr (r, s')" and "o' \<noteq> oid"
  shows "operation_kept oid s s'"
proof -
  from assms(1) obtain op ores tick tf m r0 where
    "handle_operation s op ores Invalid None o' tick tf (ev_contract_address e) response_new = Inr (m, r0, s')"
    unfolding cancel_pending_operation_def Let_def
    by (simp only: and_then_eq_Inr split_paired_Ex prod.case prod.inject sum.inject) blast
  then show ?thesis using assms(2) by (rule kept_handled)
qed

lemmas kept_handlers =
  kept_sent kept_registered kept_queued kept_adjusted kept_configured kept_claimed kept_saved_signature
  kept_cancelled kept_same [OF kept_prohibited]

lemma execute_keeps_operation:
  assumes "execute p e info s msg = Inr (r, s')" and "\<not> ends_version p s oid msg"
  shows "operation_kept oid s s'"
proof (cases "\<exists>ev. msg = Msg_SaveEvidence ev")
  case True
  with assms kept_evidence show ?thesis by blast
next
  case False
  with assms show ?thesis by (cases msg) (auto intro: kept_handlers dest!: unchanged_transitions)
qed

interpretation signed: respected_by "same_version_step oid" "operation_kept oid" for oid
proof unfold_locales
  show "same_version_step oid s s' \<Longrightarrow> operation_kept oid s s'" for s s'
    by (erule same_version_step.cases) (auto simp del: execute.simps intro: execute_keeps_operation kept_same dest!: reply_ok)
qed (auto intro: kept_trans)

lemma signer_refused:
  assumes "operation_kept oid s s'" and "kv_load oid (PENDING_OPERATIONS s) = Some op" and "x \<in> set (signers op)"
  shows "add_signature s' oid ver x sig \<noteq> Inr s2"
  using assms by (auto simp: operation_kept_def elim!: add_signature_ok)

end
