(* ===== verification/Component_Properties.thy ===== *)
theory Component_Properties
  imports Bridge_Example Signing
begin

text \<open>
  The properties of single components: amounts, tokens, tickets, signatures, fees, queries and the
  entry point \<open>reply\<close>. Each is followed by its evaluation on a concrete input.
\<close>

section \<open>Amounts\<close>

text \<open>
  C28. \<open>truncate_amount\<close> is truncation of integers: with \<open>e\<close> the distance between decimals and
  sending precision, it panics exactly when that distance leaves the range of 32-bit integers or
  \<open>10 ^ e\<close> does not fit 128 bits; otherwise it refuses amounts below \<open>10 ^ e\<close> and splits every
  other amount into the largest multiple of \<open>10 ^ e\<close> and the rest.
\<close>

theorem truncation_is_division:
  "truncate_amount sending_precision decimals amount =
     (let d = sint decimals - sint sending_precision; e = nat \<bar>d\<bar> in
      if d < - (2 ^ 31) \<or> 2 ^ 31 \<le> d \<or> 38 < e then Inl Panic
      else if unat amount < 10 ^ e then fail AmountSentIsZeroAfterTruncation
      else Inr (word_of_nat (10 ^ e * (unat amount div 10 ^ e)), word_of_nat (unat amount mod 10 ^ e)))"
  unfolding truncate_amount_cases exponent_in_range_def truncation_exponent_def Let_def
  by (auto simp: mult.commute)

text \<open>
  C27. Coins of a Cosmos originated token survive the way to the XRPL and back: the amount sent,
  converted to the decimals of the XRPL and back as a refund does, is the amount received less the
  bridging fee and the truncated remainder, with nothing lost in the conversions.
\<close>

theorem cosmos_refund_round_trip:
  assumes "validate_sending_precision sending_precision decimals = Inr ()" and "validate_cosmos_token_decimals decimals = Inr ()"
    and "truncate_and_convert_amount sending_precision decimals XRPL_TOKENS_DECIMALS amount bridging_fee = Inr (sent, remainder)"
  shows "\<exists>back. convert_amount_decimals XRPL_TOKENS_DECIMALS decimals sent = Inr back \<and>
    unat amount = unat back + unat remainder + unat bridging_fee"
proof -
  from assms(3) obtain af t where af: "amount_after_bridge_fees amount bridging_fee = Inr af"
    and t: "truncate_amount sending_precision decimals af = Inr (t, remainder)"
    and c: "convert_amount_decimals decimals XRPL_TOKENS_DECIMALS t = Inr sent"
    by (auto simp: truncate_and_convert_amount_def and_then_eq_Inr)
  have "unat decimals \<le> 100"
    using assms(2) by (simp add: validate_cosmos_token_decimals_def amount_consts word_less_nat_alt split: if_splits)
  from refund_of_converted [OF t c assms(1) this] truncate_amount_ok(1) [OF t] af show ?thesis
    by (simp add: amount_after_bridge_fees_eq_Inr)
qed

theorem cosmos_refund_round_trip_witness:
  "\<exists>back. convert_amount_decimals XRPL_TOKENS_DECIMALS 6 1234500000000000 = Inr back \<and>
    unat (1234567 :: u128) = unat back + unat (57 :: u128) + unat (10 :: u128)"
proof -
  have "truncate_and_convert_amount 4 6 XRPL_TOKENS_DECIMALS 1234567 10 = Inr (1234500000000000, 57)"
    by (simp add: helper_defs Let_def word_less_nat_alt)
  from cosmos_refund_round_trip [OF _ _ this] show ?thesis
    by (simp add: validate_sending_precision_def validate_cosmos_token_decimals_def amount_consts word_less_nat_alt)
qed

text \<open>
  C30. An amount passes \<open>validate_xrpl_amount\<close> exactly when it has at most 16 significant decimal
  digits, which is what the XRPL can represent.
\<close>

theorem xrpl_amount_digits:
  "(validate_xrpl_amount amount = Inr ()) = (\<exists>m k. unat amount = m * 10 ^ k \<and> m < 10 ^ 16)"
  by (rule validate_xrpl_amount_iff)

text \<open>
  C38. Truncating an amount of a registered token issued on the XRPL never panics, in any reachable
  state and for any amount: the decimals and the bounds on sending precisions keep every power of
  ten within 128 bits.
\<close>

theorem xrpl_truncation_never_panics:
  assumes "reachable s" and "kv_load key (XRPL_TOKENS s) = Some tok"
  shows "truncate_amount (xt_sending_precision tok)
    (if is_token_xrp (xt_issuer tok) (xt_currency tok) then XRP_DECIMALS else XRPL_TOKENS_DECIMALS) amount \<noteq> Inl Panic"
proof -
  from registry.holds_when_reached [OF assms(1)] assms(2)
  have "-15 \<le> sint (xt_sending_precision tok)" "sint (xt_sending_precision tok) \<le> 15"
    by (auto simp: registry_ok_def precision_in_range_def)
  then show ?thesis
    by (auto simp: truncate_amount_cases exponent_in_range_def truncation_exponent_def amount_consts Let_def)
qed

theorem xrpl_truncation_never_panics_witness:
  "truncate_amount (xt_sending_precision (xrp_token (Addr ''tf'')))
    (if is_token_xrp (xt_issuer (xrp_token (Addr ''tf''))) (xt_currency (xrp_token (Addr ''tf'')))
     then XRP_DECIMALS else XRPL_TOKENS_DECIMALS) 5 \<noteq> Inl Panic"
  by (rule xrpl_truncation_never_panics [OF ex_ready_reachable, of "build_xrpl_token_key XRP_ISSUER XRP_CURRENCY"])
    (simp add: run_eqs)

text \<open>
  C39. A Cosmos originated token whose decimals exceed its sending precision by more than 38, which
  registration accepts, cannot be sent: in every reachable state in which the denom is not also
  that of a token issued on the XRPL, \<open>SendToXRPL\<close> of its coins never succeeds, whatever the
  amount; on an active bridge, for an enabled token, a valid recipient and no amount to deliver, the
  power of ten overflows and the call panics.
\<close>

theorem distant_precision_unsendable:
  assumes "reachable s" and "kv_load (c_denom funds) (COSMOS_TOKENS s) = Some tok"
    and "38 < int (unat (ct_decimals tok)) - sint (ct_sending_precision tok)"
    and "index_item xt_cosmos_denom (c_denom funds) (XRPL_TOKENS s) = None"
    and "one_coin p (mi_funds info) = Inr funds"
  shows "\<not> (\<exists>r s'. execute p e info s (Msg_SendToXRPL rcp deliver) = Inr (r, s')) \<and>
    (assert_bridge_active s = Inr () \<and> validate_xrpl_address p s rcp = Inr () \<and> ct_state tok = Enabled \<and> deliver = None \<longrightarrow>
      execute p e info s (Msg_SendToXRPL rcp deliver) = Inl Panic)"
proof -
  from registry.holds_when_reached [OF assms(1)] assms(2)
  have "unat (ct_decimals tok) \<le> 100" and v: "validate_sending_precision (ct_sending_precision tok) (ct_decimals tok) = Inr ()"
    by (auto simp: registry_ok_def)
  moreover have "(100 :: nat) < 2 ^ 31" by simp
  ultimately have "unat (ct_decimals tok) < 2 ^ 31" by (metis le_less_trans)
  from truncation_exponent_valid [OF v this] assms(3)
  have tr: "truncate_amount (ct_sending_precision tok) (ct_decimals tok) am = Inl Panic" for am
    by (simp add: truncate_amount_cases exponent_in_range_def)
  from items.holds_when_reached [OF assms(1)] obtain c where "CONFIG s = Some c" by (auto simp: items_ok_def)
  then have "plan_cosmos_originated p e s funds None = Inl Panic" if "ct_state tok = Enabled"
    using that assms(2) tr by (simp add: plan_cosmos_originated_def item_load_def map_err_def Let_def)
  moreover have "\<not> (\<exists>plan s1. plan_cosmos_originated p e s funds deliver = Inr (plan, s1))"
    using assms(2) tr by (auto simp: plan_cosmos_originated_def and_then_eq_Inr if_Inl_eq_Inr Let_def)
  ultimately show ?thesis
    using assms(4,5) by (auto simp: send_to_xrpl_def from_payment_def and_then_eq_Inr if_Inl_eq_Inr)
qed

theorem distant_precision_unsendable_witness:
  "ok (execute ex_platform ex_env (info_of ''owner'' []) ex_ready (Msg_RegisterCosmosToken ''ucosmos'' 60 4 1000000000 10)) \<and>
   execute ex_platform ex_env (info_of ''bob'' [coin_of 500 ''ucosmos''])
     (ex_run ''owner'' (Msg_RegisterCosmosToken ''ucosmos'' 60 4 1000000000 10) ex_ready)
     (Msg_SendToXRPL ''rBobAccount111111111111111'' None) = Inl Panic"
proof -
  let ?reg = "Msg_RegisterCosmosToken ''ucosmos'' 60 4 1000000000 10" and ?funds = "coin_of 500 ''ucosmos''"
  let ?s = "ex_run ''owner'' ?reg ex_ready" and ?tok = "ex_ucosmos\<lparr>ct_decimals := 60\<rparr>"
  have ok: "ok (execute ex_platform ex_env (info_of ''owner'' []) ex_ready ?reg)"
    by (simp add: eval_simps validation_defs run_eqs convert_currency_to_xrpl_hexadecimal_def pad_right_def replicate_8)
  have s: "?s = ex_ready\<lparr>COSMOS_TOKENS := kv_save ''ucosmos'' ?tok kv_empty\<rparr>"
    by (simp add: eval_simps validation_defs run_eqs ex_run_def ok_state_def
        convert_currency_to_xrpl_hexadecimal_def pad_right_def replicate_8)
  have "kv_load (c_denom ?funds) (COSMOS_TOKENS ?s) = Some ?tok"
    and "index_item xt_cosmos_denom (c_denom ?funds) (XRPL_TOKENS ?s) = None"
    by (simp_all only: s) (simp_all add: eval_simps run_eqs)
  moreover have "38 < int (unat (ct_decimals ?tok)) - sint (ct_sending_precision ?tok)" by (simp add: ex_ucosmos_def)
  moreover have "one_coin ex_platform (mi_funds (info_of ''bob'' [?funds])) = Inr ?funds" by (simp add: eval_simps)
  moreover have "assert_bridge_active ?s = Inr ()" "ct_state ?tok = Enabled"
    "validate_xrpl_address ex_platform ?s ''rBobAccount111111111111111'' = Inr ()"
    by (simp_all only: s) (simp_all add: eval_simps run_eqs)
  ultimately have "execute ex_platform ex_env (info_of ''bob'' [?funds]) ?s (Msg_SendToXRPL ''rBobAccount111111111111111'' None) = Inl Panic"
    using distant_precision_unsendable [OF reachable_run [OF ex_ready_reachable ok]] by blast
  with ok show ?thesis ..
qed

text \<open>
  C29. Every transfer that \<open>send_to_xrpl\<close> queues carries amounts the XRPL can represent: the
  amount and the maximum amount have at most 16 significant digits, and the amount to deliver never
  exceeds the maximum amount.
\<close>

theorem sent_amounts_representable:
  assumes "execute p e info s (Msg_SendToXRPL recipient deliver) = Inr (r, s')"
  shows "\<exists>oid op issuer currency amount max_amount.
    kv_load oid (PENDING_OPERATIONS s) = None \<and> kv_load oid (PENDING_OPERATIONS s') = Some op \<and>
    op_operation_type op = CosmosToXRPLTransfer issuer currency amount max_amount (mi_sender info) recipient \<and>
    (\<exists>m k. unat amount = m * 10 ^ k \<and> m < 10 ^ 16) \<and>
    (\<forall>mx. max_amount = Some mx \<longrightarrow> unat amount \<le> unat mx \<and> (\<exists>m k. unat mx = m * 10 ^ k \<and> m < 10 ^ 16))"
proof -
  from assms have "send_to_xrpl p e info s recipient deliver = Inr (r, s')" by simp
  then show ?thesis
  proof (rule send_to_xrpl_ok)
    fix c funds plan s1 ticket rest
    assume pl: "plan_transfer p e s funds deliver = Inr (plan, s1)" and va: "validate_plan plan = Inr ()"
      and cr: "create_pending_operation (s1\<lparr>AVAILABLE_TICKETS := Some rest\<rparr>) (ev_time_seconds e) (Some ticket) None
        (CosmosToXRPLTransfer (tp_issuer plan) (tp_currency plan) (tp_amount plan) (tp_max_amount plan)
          (mi_sender info) recipient) = Inr s'"
    from cr obtain op where op: "kv_load ticket (PENDING_OPERATIONS s1) = None" "kv_load ticket (PENDING_OPERATIONS s') = Some op"
      "op_operation_type op = CosmosToXRPLTransfer (tp_issuer plan) (tp_currency plan) (tp_amount plan) (tp_max_amount plan)
        (mi_sender info) recipient"
      by (rule create_pending_operation_ok) auto
    have "PENDING_OPERATIONS s1 = PENDING_OPERATIONS s" using plan_transfer_frame [OF pl] by auto
    moreover from va have "validate_xrpl_amount (tp_amount plan) = Inr ()"
      and "\<And>mx. tp_max_amount plan = Some mx \<Longrightarrow> validate_xrpl_amount mx = Inr ()"
      by (auto simp: validate_plan_def and_then_eq_Inr)
    moreover have "\<And>mx. tp_max_amount plan = Some mx \<Longrightarrow> unat (tp_amount plan) \<le> unat mx"
      using pl by (rule plan_amounts_ordered)
    ultimately show ?thesis
      using op unfolding validate_xrpl_amount_iff
      by (intro exI [of _ ticket] exI [of _ op] exI [of _ "tp_issuer plan"] exI [of _ "tp_currency plan"]
          exI [of _ "tp_amount plan"] exI [of _ "tp_max_amount plan"]) simp
  qed
qed

theorem sent_amounts_representable_witness:
  "\<exists>oid op issuer currency amount max_amount. kv_load oid (PENDING_OPERATIONS ex_sent) = Some op \<and>
    op_operation_type op = CosmosToXRPLTransfer issuer currency amount max_amount (Addr ''alice'') ''rBobAccount111111111111111'' \<and>
    (\<exists>m k. unat amount = m * 10 ^ k \<and> m < 10 ^ 16)"
proof -
  from ok_execute [OF ex_sent_runs] obtain r where
    "execute ex_platform ex_env (info_of ''alice'' [coin_of 7 ''factory/tf/XRP'']) ex_ready
       (Msg_SendToXRPL ''rBobAccount111111111111111'' None) = Inr (r, ex_sent)"
    unfolding ex_sent_def by blast
  from sent_amounts_representable [OF this] show ?thesis by (simp only: info_of_def message_info.simps) blast
qed

section \<open>Tokens\<close>

text \<open>
  C37. The key of a token, the concatenation of issuer and currency, identifies the token: valid
  addresses and valid currencies with equal keys are equal. The platform's base58 decoding
  yields 25 bytes only for strings of 25 to 35 characters.
\<close>

theorem token_key_identifies:
  assumes "base58_lengths p"
    and "validate_xrpl_address_format p issuer = Inr ()" and "validate_xrpl_address_format p issuer' = Inr ()"
    and "validate_xrpl_currency currency = Inr ()" and "validate_xrpl_currency currency' = Inr ()"
    and "build_xrpl_token_key issuer currency = build_xrpl_token_key issuer' currency'"
  shows "issuer = issuer' \<and> currency = currency'"
  using token_key_inject [OF assms(4,5) _ _ _ _ assms(6)] valid_address_length [OF assms(1,2)]
    valid_address_length [OF assms(1,3)] by (simp add: address_length_def)

theorem token_key_identifies_witness:
  "''rIssuerOfUsdAccount1111111'' = ''rIssuerOfUsdAccount111111'' @ ''1'' \<and> ''USD'' = take 3 ''USDX''"
  by (rule token_key_identifies [of ex_platform])
    (use ex_platform_laws in \<open>simp_all add: platform_laws_def eval_simps validation_defs\<close>)

section \<open>Tickets\<close>

text \<open>
  C33. A ticket that was allocated and is given back restores the pool exactly: the same tickets
  in the same order, and nothing else of the state changed. The last ticket is never allocated.
\<close>

theorem ticket_round_trip:
  assumes "allocate_ticket s = Inr (ticket, s1)"
  shows "return_ticket s1 ticket = Inr s \<and> ticket_queue s = ticket # ticket_queue s1 \<and> ticket_queue s1 \<noteq> []"
proof -
  from assms obtain rest where r: "AVAILABLE_TICKETS s = Some (ticket # rest)" "rest \<noteq> []"
    and s1: "s1 = s\<lparr>AVAILABLE_TICKETS := Some rest\<rparr>"
    by (auto simp: allocate_ticket_ok)
  then have res: "reserve_ticket s = Inr (ticket, s1)" by (simp add: reserve_ticket_ok)
  obtain s2 :: storage where given: "return_ticket s1 ticket = Inr s2" by (simp add: s1 return_ticket_ok)
  have "s2 = s" by (rule pool.reserve_give_back [OF res given])
  moreover have "ticket_queue s1 = rest" by (simp add: s1 ticket_queue_def)
  ultimately show ?thesis using given r by (simp add: ticket_queue_def)
qed

theorem ticket_round_trip_witness:
  "return_ticket (ex_ready\<lparr>AVAILABLE_TICKETS := Some [11, 12]\<rparr>) 10 = Inr ex_ready"
  using ticket_round_trip [of ex_ready 10 "ex_ready\<lparr>AVAILABLE_TICKETS := Some [11, 12]\<rparr>"]
  by (simp add: allocate_ticket_ok run_eqs)

text \<open>
  C34. A used ticket is counted, and the count triggers an allocation of new tickets once it has
  reached the threshold (the specification of the bridge speaks of a count greater than the
  threshold): nothing more happens below it or while an allocation is pending; otherwise the next
  ticket, even the last one, is used for an operation that allocates the threshold's number of
  tickets, or, with no ticket left, \<open>False\<close> is reported.
\<close>

theorem used_ticket_outcomes:
  assumes "register_used_ticket s timestamp = Inr (success, s')"
  shows "\<exists>used c n. USED_TICKETS_COUNTER s = Some used \<and> CONFIG s = Some c \<and>
    unat n = unat used + 1 \<and> USED_TICKETS_COUNTER s' = Some n \<and>
    (if n < cf_used_ticket_sequence_threshold c \<or> PENDING_TICKET_UPDATE s = Some True
     then success \<and> s' = s\<lparr>USED_TICKETS_COUNTER := Some n\<rparr>
     else case ticket_queue s of
       [] \<Rightarrow> \<not> success \<and> s' = s\<lparr>USED_TICKETS_COUNTER := Some n\<rparr>
     | t # rest \<Rightarrow> success \<and> AVAILABLE_TICKETS s' = Some rest \<and> PENDING_TICKET_UPDATE s' = Some True \<and>
         (\<exists>op. kv_load t (PENDING_OPERATIONS s') = Some op \<and>
            op_operation_type op = AllocateTickets (cf_used_ticket_sequence_threshold c)))"
  using assms
proof (rule register_used_ticket_cases)
  fix used c n
  assume *: "USED_TICKETS_COUNTER s = Some used" "CONFIG s = Some c" "unat n = unat used + 1"
    and "(success \<and> s' = s\<lparr>USED_TICKETS_COUNTER := Some n\<rparr> \<and>
           (n < cf_used_ticket_sequence_threshold c \<or> PENDING_TICKET_UPDATE s = Some True)) \<or>
         (\<not> success \<and> s' = s\<lparr>USED_TICKETS_COUNTER := Some n\<rparr> \<and> AVAILABLE_TICKETS s = Some [] \<and>
           n \<ge> cf_used_ticket_sequence_threshold c \<and> PENDING_TICKET_UPDATE s = Some False) \<or>
         (\<exists>t rest s1. success \<and> n \<ge> cf_used_ticket_sequence_threshold c \<and>
           PENDING_TICKET_UPDATE s = Some False \<and> AVAILABLE_TICKETS s = Some (t # rest) \<and>
           create_pending_operation
             (s\<lparr>USED_TICKETS_COUNTER := Some n, AVAILABLE_TICKETS := Some rest\<rparr>) timestamp (Some t) None
             (AllocateTickets (cf_used_ticket_sequence_threshold c)) = Inr s1 \<and>
           s' = s1\<lparr>PENDING_TICKET_UPDATE := Some True\<rparr>)"
  then show ?thesis
    by (intro exI [of _ used] exI [of _ c] exI [of _ n])
      (auto simp: ticket_queue_def not_less elim!: create_pending_operation_ok)
qed

theorem used_ticket_outcomes_witness:
  "\<exists>s'. register_used_ticket (ex_ready\<lparr>USED_TICKETS_COUNTER := Some 2\<rparr>) 1000 = Inr (True, s') \<and>
     AVAILABLE_TICKETS s' = Some [11, 12] \<and> PENDING_TICKET_UPDATE s' = Some True"
proof -
  let ?s = "ex_ready\<lparr>USED_TICKETS_COUNTER := Some 2\<rparr>"
  have "ok (register_used_ticket ?s 1000)" by (simp add: eval_simps run_eqs)
  then obtain b s' where r: "register_used_ticket ?s 1000 = Inr (b, s')"
    by (auto simp: ok_def split: sum.splits)
  have q: "ticket_queue ?s = [10, 11, 12]" "PENDING_TICKET_UPDATE ?s = Some False"
    "CONFIG ?s = Some (initial_config ex_msg)" "cf_used_ticket_sequence_threshold (initial_config ex_msg) = 3"
    "USED_TICKETS_COUNTER ?s = Some 2"
    by (simp_all add: ticket_queue_def run_eqs initial_config_def ex_msg_def)
  from used_ticket_outcomes [OF r] have "b \<and> AVAILABLE_TICKETS s' = Some [11, 12] \<and> PENDING_TICKET_UPDATE s' = Some True"
    by (auto simp: q word_less_nat_alt split: if_splits)
  with r show ?thesis by (intro exI [of _ s']) simp
qed

section \<open>Signatures\<close>

text \<open>
  C35. A relayer signs a version of an operation once: an accepted signature comes from a current
  relayer who has not signed, is for the operation's current version and is appended to the
  operation, which changes nothing else; afterwards, in every run in which the operation is not
  settled by a deciding evidence, not cancelled and not given a new version by a change of the base
  fee, no further signature of the same sender for the operation is accepted.
\<close>

theorem signature_once:
  assumes "execute p e info s (Msg_SaveSignature oid version signature) = Inr (r, s')"
    and "(same_version_step oid)\<^sup>*\<^sup>* s' s2"
  shows "\<exists>op. kv_load oid (PENDING_OPERATIONS s) = Some op \<and> version = op_version op \<and>
    mi_sender info \<in> set (relayer_addresses s) \<and> mi_sender info \<notin> set (signers op) \<and>
    s' = s\<lparr>PENDING_OPERATIONS := kv_save oid (op\<lparr>op_signatures := op_signatures op @
      [\<lparr>sg_relayer_cosmos_address = mi_sender info, sg_signature = signature\<rparr>]\<rparr>) (PENDING_OPERATIONS s)\<rparr> \<and>
    \<not> (\<exists>p2 e2 info2 v2 sig2 r3 s3. mi_sender info2 = mi_sender info \<and>
      execute p2 e2 info2 s2 (Msg_SaveSignature oid v2 sig2) = Inr (r3, s3))"
proof -
  from assms(1) have add: "add_signature s oid version (mi_sender info) signature = Inr s'"
    and au: "check_authorization p s (mi_sender info) CA_SaveSignature = Inr ()"
    by (auto simp: save_signature_def and_then_eq_Inr)
  from au have rel: "mi_sender info \<in> set (relayer_addresses s)" by (auto simp: check_authorization_ok)
  from add show ?thesis
  proof (rule add_signature_ok)
    fix op :: operation and c :: config
    let ?op = "op\<lparr>op_signatures := op_signatures op @
      [\<lparr>sg_relayer_cosmos_address = mi_sender info, sg_signature = signature\<rparr>]\<rparr>"
    assume op: "kv_load oid (PENDING_OPERATIONS s) = Some op" "version = op_version op" "mi_sender info \<notin> set (signers op)"
      and s': "s' = s\<lparr>PENDING_OPERATIONS := kv_save oid ?op (PENDING_OPERATIONS s)\<rparr>"
    have "add_signature s2 oid v2 (mi_sender info) sig2 \<noteq> Inr s3" for v2 sig2 s3
      by (rule signer_refused [OF signed.steps_rel [OF assms(2)], where op = ?op]) (simp_all add: s' signers_def)
    with op s' rel show ?thesis by (auto simp: save_signature_def and_then_eq_Inr)
  qed
qed

theorem signature_once_witness:
  "\<not> (\<exists>r2 s2. execute ex_platform ex_env (info_of ''rel1'' [])
        (ex_run ''rel2'' (Msg_SaveSignature 9 1 ''EF'') (ex_run ''rel1'' (Msg_SaveSignature 9 1 ''AB'') ex_state))
        (Msg_SaveSignature 9 1 ''CD'') = Inr (r2, s2))"
proof -
  let ?s = "ex_run ''rel1'' (Msg_SaveSignature 9 1 ''AB'') ex_state"
  have "ok (execute ex_platform ex_env (info_of ''rel1'' []) ex_state (Msg_SaveSignature 9 1 ''AB''))"
    by (simp add: eval_simps)
  from ok_execute [OF this] obtain r where
    1: "execute ex_platform ex_env (info_of ''rel1'' []) ex_state (Msg_SaveSignature 9 1 ''AB'') = Inr (r, ?s)"
    unfolding ex_run_def by blast
  have "ok (execute ex_platform ex_env (info_of ''rel2'' []) ?s (Msg_SaveSignature 9 1 ''EF''))"
    by (simp add: eval_simps ex_run_def ok_state_def)
  from ok_execute [OF this] have "same_version_step 9 ?s (ex_run ''rel2'' (Msg_SaveSignature 9 1 ''EF'') ?s)"
    unfolding ex_run_def [of "''rel2''"] by (elim exE) (rule same_version_step.executed, assumption, simp)
  then have "(same_version_step 9)\<^sup>*\<^sup>* ?s (ex_run ''rel2'' (Msg_SaveSignature 9 1 ''EF'') ?s)" by (rule r_into_rtranclp)
  from signature_once [OF 1 this] show ?thesis by blast
qed

section \<open>Fees\<close>

text \<open>
  C31. A collected fee is shared out without loss: with the remainder of earlier collections it is
  divided by the number of relayers, every relayer is credited the quotient once per entry in
  the relayer list, what cannot be shared is the new remainder, and other denoms are untouched.
\<close>

theorem fee_shared_out:
  assumes "collect_fees s fee = Inr s'" and "c_amount fee \<noteq> 0" and "CONFIG s = Some c" and "length (cf_relayers c) \<le> 32"
  shows "let n = length (cf_relayers c); total = unat (c_amount fee) + remainder_owed (c_denom fee) s in
    relayer_fees x d s' = relayer_fees x d s +
      (if d = c_denom fee then count_list (map rl_cosmos_address (cf_relayers c)) x * (total div n) else 0) \<and>
    remainder_owed d s' = (if d = c_denom fee then total mod n else remainder_owed d s) \<and>
    fee_pool d s' = fee_pool d s + (if d = c_denom fee then unat (c_amount fee) else 0)"
proof -
  have n: "relayer_count s = length (cf_relayers c)"
    "times_listed x s = count_list (map rl_cosmos_address (cf_relayers c)) x"
    by (simp_all add: relayer_count_def times_listed_def assms(3))
  have "(32 :: nat) < 2 ^ 128" by simp
  with assms(4) have "relayer_count s < 2 ^ 128" unfolding n(1) by (rule le_less_trans)
  note eff = collect_fees_effect [OF assms(1,2) this]
  show ?thesis
    using eff(1) [of d] eff(2) [of d] eff(3) [of x d] unfolding n Let_def
    by (auto simp: fee_pool_def simp flip: mult.commute)
qed

theorem fee_shared_out_witness:
  "\<exists>s'. collect_fees ex_state (coin_of 7 ''ucosmos'') = Inr s' \<and>
     relayer_fees (Addr ''rel1'') ''ucosmos'' s' = relayer_fees (Addr ''rel1'') ''ucosmos'' ex_state + 3 \<and>
     remainder_owed ''ucosmos'' s' = 1"
proof -
  have "ok (collect_fees ex_state (coin_of 7 ''ucosmos''))" by (simp add: eval_simps)
  then obtain s' where s': "collect_fees ex_state (coin_of 7 ''ucosmos'') = Inr s'"
    by (auto simp: ok_def split: sum.splits)
  have c: "CONFIG ex_state = Some (initial_config ex_msg)" by (simp add: ex_state_def)
  have "cf_relayers (initial_config ex_msg) = ex_relayers" by (simp add: initial_config_def ex_msg_def)
  moreover have "remainder_owed ''ucosmos'' ex_state = 0" by (simp add: remainder_owed_def ex_state_def empty_storage_def)
  ultimately show ?thesis
    using fee_shared_out [OF s' _ c, of "Addr ''rel1''" "''ucosmos''"] s' by (simp add: ex_relayers_def Let_def numeral_2_eq_2 [symmetric])
qed

text \<open>
  C32. A claim of fees pays out exactly what it takes from the claimer's account: the response
  sends the claimed coins to the sender and nothing else, the sender's collected fees shrink by
  these coins in every denom, and nobody else's fees change.
\<close>

theorem fee_claim_exact:
  assumes "execute p e info s (Msg_ClaimRelayerFees amounts) = Inr (r, s')"
  shows "map sm_msg (rs_messages r) = [BankSend (as_str (mi_sender info)) amounts] \<and>
    relayer_fees (mi_sender info) d s = relayer_fees (mi_sender info) d s' + denom_total d amounts \<and>
    (x = mi_sender info \<or> relayer_fees x d s' = relayer_fees x d s)"
proof -
  from assms have sub: "substract_relayer_fees s (mi_sender info) amounts = Inr s'"
    and r: "map sm_msg (rs_messages r) = [BankSend (as_str (mi_sender info)) amounts]"
    by (auto simp: claim_relayer_fees_def and_then_eq_Inr if_Inl_eq_Inr)
  from substract_relayer_fees_effect(2) [OF sub, of d] substract_relayer_fees_effect(3) [OF sub, of x d] r show ?thesis by blast
qed

theorem fee_claim_exact_witness:
  "relayer_fees (Addr ''rel1'') ''ucosmos'' ex_state =
     relayer_fees (Addr ''rel1'') ''ucosmos'' (ex_run ''rel1'' (Msg_ClaimRelayerFees [coin_of 10 ''ucosmos'']) ex_state) + 10"
proof -
  have "ok (execute ex_platform ex_env (info_of ''rel1'' []) ex_state (Msg_ClaimRelayerFees [coin_of 10 ''ucosmos'']))"
    by (simp add: eval_simps)
  from ok_execute [OF this] obtain r where
    r: "execute ex_platform ex_env (info_of ''rel1'' []) ex_state (Msg_ClaimRelayerFees [coin_of 10 ''ucosmos'']) =
      Inr (r, ex_run ''rel1'' (Msg_ClaimRelayerFees [coin_of 10 ''ucosmos'']) ex_state)"
    unfolding ex_run_def by blast
  have "mi_sender (info_of ''rel1'' []) = Addr ''rel1''" by (simp add: info_of_def)
  with fee_claim_exact [OF r, of "''ucosmos''"] show ?thesis by simp
qed

section \<open>Queries\<close>

text \<open>
  C36. Following the pages of a paginated query ends and is complete: a client that asks, with no
  limit or a positive one, for the page after the last key until a page has none gets every entry
  exactly once and in order, after one page more than there are entries at the latest. This holds for
  the tokens of both kinds, the pending operations, the recorded votes, the processed transactions
  and, in every reachable state, the refunds of an address. No page of any of these queries has more
  than 250 entries, whatever the limit.
\<close>

theorem pages_are_complete:
  "(limit \<noteq> Some 0 \<longrightarrow>
      follow_pages (query_xrpl_tokens s) limit (Suc (length (kv_entries (XRPL_TOKENS s)))) None =
        Some (map snd (kv_entries (XRPL_TOKENS s))) \<and>
      follow_pages (query_cosmos_tokens s) limit (Suc (length (kv_entries (COSMOS_TOKENS s)))) None =
        Some (map snd (kv_entries (COSMOS_TOKENS s))) \<and>
      follow_pages (query_pending_operations s) limit (Suc (length (kv_entries (PENDING_OPERATIONS s)))) None =
        Some (map snd (kv_entries (PENDING_OPERATIONS s))) \<and>
      follow_pages (query_transaction_evidences s) limit (Suc (length (kv_entries (TX_EVIDENCES s)))) None =
        Some (kv_entries (TX_EVIDENCES s)) \<and>
      follow_pages (query_processed_txs s) limit (Suc (length (kv_entries (PROCESSED_TXS s)))) None =
        Some (map fst (kv_entries (PROCESSED_TXS s))) \<and>
      (reachable s \<longrightarrow>
        follow_pages (query_pending_refunds s a) limit (Suc (length (refunds_of a s))) None =
          Some (map (\<lambda>e. refund_view_of (snd e)) (refunds_of a s)))) \<and>
    length (snd (query_xrpl_tokens s key limit)) \<le> 250 \<and> length (snd (query_cosmos_tokens s key limit)) \<le> 250 \<and>
    length (snd (query_pending_operations s oid limit)) \<le> 250 \<and>
    length (snd (query_transaction_evidences s key limit)) \<le> 250 \<and>
    length (snd (query_processed_txs s key limit)) \<le> 250 \<and>
    length (snd (query_pending_refunds s a rkey limit)) \<le> 250"
proof -
  have "follow_pages (query_pending_refunds s a) limit (Suc (length (refunds_of a s))) None =
      Some (map (\<lambda>e. refund_view_of (snd e)) (refunds_of a s))"
    if "reachable s" and "0 < page_size limit"
    using refunds.holds_when_reached [OF that(1)] that(2)
    by (intro pending_refunds_pages) (simp_all add: refunds_ok_def)
  then show ?thesis
    by (simp add: xrpl_tokens.follow_all_pages cosmos_tokens.follow_all_pages pending_operations.follow_all_pages
        transaction_evidences.follow_all_pages processed_txs.follow_all_pages xrpl_tokens.page_bounded
        cosmos_tokens.page_bounded pending_operations.page_bounded transaction_evidences.page_bounded
        processed_txs.page_bounded pending_refunds_bounded page_size_pos del: follow_pages.simps)
qed

theorem pages_are_complete_witness:
  "follow_pages (query_pending_operations ex_sent) (Some 1) 2 None = Some (map snd (kv_entries (PENDING_OPERATIONS ex_sent))) \<and>
   follow_pages (query_pending_refunds ex_cancelled (Addr ''alice'')) (Some 1) 2 None =
     Some [\<lparr>rv_id = ''1000-10'', rv_xrpl_tx_hash = None, rv_coin = coin_of 7 ''factory/tf/XRP''\<rparr>]"
proof
  have "length (kv_entries (PENDING_OPERATIONS ex_sent)) = 1"
    by (simp add: ex_sent_eq kv_save.rep_eq kv_empty.rep_eq)
  then show "follow_pages (query_pending_operations ex_sent) (Some 1) 2 None = Some (map snd (kv_entries (PENDING_OPERATIONS ex_sent)))"
    using pages_are_complete [of "Some 1" ex_sent] by (simp add: numeral_2_eq_2 del: follow_pages.simps)
  have "reachable ex_cancelled" using ledger_reachable_storage [OF ex_cancelled_ledger] by simp
  moreover have "refunds_of (Addr ''alice'') ex_cancelled = [((Addr ''alice'', ''1000-10''),
      \<lparr>pr_address = Addr ''alice'', pr_id = ''1000-10'', pr_xrpl_tx_hash = None, pr_coin = coin_of 7 ''factory/tf/XRP''\<rparr>)]"
    by (simp add: refunds_of_def ex_cancelled_eq kv_save.rep_eq kv_empty.rep_eq)
  ultimately show "follow_pages (query_pending_refunds ex_cancelled (Addr ''alice'')) (Some 1) 2 None =
      Some [\<lparr>rv_id = ''1000-10'', rv_xrpl_tx_hash = None, rv_coin = coin_of 7 ''factory/tf/XRP''\<rparr>]"
    using pages_are_complete [of "Some 1" ex_cancelled "Addr ''alice''"]
    by (simp add: refund_view_of_def numeral_2_eq_2 del: follow_pages.simps)
qed

section \<open>Replies\<close>

text \<open>
  C40. A failed swap reverts the transfer that carried it: in every reachable state the contract
  has no swap to recover, so a reply that reports an error always fails, with which the whole
  transaction is reverted; a reply that reports success changes nothing.
\<close>

theorem failed_swap_reverts:
  assumes "reachable s"
  shows "(\<forall>err. ry_result m = Inl err \<longrightarrow> \<not> (\<exists>r s'. reply s m = Inr (r, s'))) \<and>
    (ry_result m = Inr () \<longrightarrow> reply s m = Inr (response_new, s))"
  using items.holds_when_reached [OF assms] by (auto simp: reply_def items_ok_def item_load_def)

theorem failed_swap_reverts_witness:
  "\<not> (\<exists>r s'. reply ex_ready \<lparr>ry_id = 1, ry_result = Inl ''slippage''\<rparr> = Inr (r, s'))"
  using failed_swap_reverts [OF ex_ready_reachable, of "\<lparr>ry_id = 1, ry_result = Inl ''slippage''\<rparr>"] by simp

end
