(* ===== verification/Spec2Isabelle.thy ===== *)
theory Spec2Isabelle
  imports Component_Properties
begin

text \<open>
  A verification of the contract \<open>cw-xrpl\<close> (\<open>src/contracts/cw-xrpl/src\<close>), the Cosmos
  side of a bridge between a CosmWasm chain and the XRP Ledger.

  The program. Relayers watch the bridge's multisig account on the XRPL and report what happens there
  as evidences; an evidence takes effect when the votes of as many relayers as the evidence
  threshold agree. Tokens issued on the XRPL are minted and burned on the Cosmos side through a token
  factory; tokens issued on Cosmos are held in escrow and sent out again. Users send coins to the
  XRPL: the contract queues an operation, which the relayers sign and submit, using one of the XRPL
  tickets the contract keeps in a pool; the result comes back as an evidence and settles the operation,
  with a refund when it was not accepted. The owner registers tokens, rotates the relayers' keys,
  cancels operations and halts the bridge. Transfers pay a fee, which is split among the relayers.

  The model is a shallow embedding: one definition per function of the source, with its guards in
  the order of the source, on a record \<open>storage\<close> with one field per storage item. Fallible code
  returns \<open>failure + 'a\<close>: every variant of \<open>ContractError\<close>, and \<open>Panic\<close> for the
  overflow of an operator, an \<open>unwrap\<close> of nothing and a slice out of range. Integers are words of their
  width. A failed call has no successor state, as a failed transaction is reverted.

  The theories, in the order of the components:

  \<^item> \<open>Bridge_Prelude\<close>, \<open>Kv_Store\<close>, \<open>Checked_Arith\<close>: results and their inversion, printing
    of numbers, ordered key-value maps as the store iterates them (\<open>cw-storage-plus\<close> maps and unique
    indexes) with their contract as a locale, and the checked, saturating and panicking operators.
  \<^item> \<open>Bridge_Errors\<close> (\<open>error.rs\<close>), \<open>Bridge_Types\<close> (\<open>state.rs\<close>, the data types of
    \<open>operation.rs\<close>, \<open>evidence.rs\<close>, \<open>relayer.rs\<close>, messages and responses) with the record
    \<open>platform\<close>: what the contract calls and this repository does not contain, base58, SHA-256, hex,
    JSON, address validation, \<open>cw_utils::one_coin\<close>, \<open>cw_ownable\<close> and the bank's queries.
  \<^item> \<open>Amounts\<close> (truncation and conversion in \<open>contract.rs\<close>), \<open>Addresses\<close>
    (\<open>address.rs\<close>), \<open>Tokens\<close> (\<open>token.rs\<close> and the validation of currencies and denoms),
    \<open>Fees\<close> (\<open>fees.rs\<close>), \<open>Pending_Operations\<close> and \<open>Operations\<close>
    (\<open>operation.rs\<close>), \<open>Tickets\<close> (\<open>tickets.rs\<close>), \<open>Relayers\<close> (\<open>relayer.rs\<close>),
    \<open>Signatures\<close> (\<open>signatures.rs\<close>), \<open>Evidences\<close> (\<open>evidence.rs\<close>).
  \<^item> \<open>Contract_Admin\<close>, \<open>Contract_Transfer\<close>, \<open>Contract\<close>: the handlers and the entry
    points of \<open>contract.rs\<close> and \<open>migration.rs\<close>; \<open>save_evidence\<close> and \<open>send_to_xrpl\<close> are
    split into the definitions of their branches. \<open>Queries\<close>: the queries.
  \<^item> \<open>Reachability\<close>: invariants and respected relations of state machines, as locales.
    \<open>Bridge_Machine\<close>: an abstract machine of nineteen transitions, and that every handler is a
    sequence of them. \<open>Bridge_Invariants\<close>: the invariants, each proved once on the machine and
    interpreted for the runs of the contract. \<open>Bridge_Access\<close>: roles and halting.
  \<^item> \<open>Liabilities\<close>, \<open>Accounting\<close>, \<open>Bridge_Ledger\<close>: what the contract owes, that each
    handler balances its books, and the machine of contract and balances with its solvency.
    \<open>Bridge_Escrow\<close>: the same with the obligations of the bridge's XRPL account.
    \<open>Bridge_Progress\<close>: the handlers of pending operations always return. \<open>Token_Lifecycle\<close>:
    the life of a token. \<open>Bridge_Effects\<close>: what a deciding evidence and a cancellation do.
    \<open>Signing\<close>: every call keeps the operations it does not settle and their signatures.
  \<^item> \<open>Bridge_Example\<close>: a concrete platform and concrete runs, on which the witnesses evaluate the
    contract. \<open>Component_Properties\<close>: the properties of single components. This theory: the
    properties that span components.

  What is shown. Money: the contract holds what it owes in every denom that is not a Cosmos
  originated token's, whatever the relayers do; coins of Cosmos originated tokens leave on the relayers'
  word about the XRPL, which the contract cannot check, so for them the contract is shown to hold what
  it owes and what backs the amounts issued on the XRPL as long as the relayers report only payments of
  issued amounts. Transfers in both directions, settlements, cancellations, fees and claims neither
  lose nor create coins. Evidences: votes are counted once per current relayer, a transaction is
  processed once, and nothing happens below the threshold. State: flags, operations, tokens and relayer
  sets stay consistent with each other in every reachable state. Access: who can do what, also while
  halted. Progress: every pending operation can be cancelled, refunds can be claimed, a relayer signs
  each version of an operation once, pages of queries end.

  Assumptions on the platform occur as hypotheses where they are used (\<open>platform_laws\<close>,
  \<open>base58_lengths\<close>): a string that decodes to 25 bytes in base58 has 25 to 35 characters, and
  \<open>one_coin\<close> returns the only attached coin. No property bounds the number of calls. The only fuel
  is the number of pages a client follows in \<open>follow_pages\<close>; one more than the number of entries is
  shown to be enough.

  Runs start from \<open>instantiate\<close> and consist of calls of \<open>execute\<close> and \<open>reply\<close>. A migration
  replaces the configuration without any check and always activates the bridge, so no invariant can
  hold across it; \<open>migrate\<close> is modelled and not part of the runs.

  Strings are lists of characters below 256; \<open>to_uppercase\<close> changes the ASCII letters only, where the
  source applies the Unicode mapping. Transaction hashes, hex digests and currencies, to which it is
  applied, are ASCII.

  Not modelled: \<open>lib.rs\<close> and \<open>bin/schema.rs\<close> (module declarations and the generator of JSON
  schemas), the tests and the binaries they load, the two messages that exist only in test builds, the
  JSON form of messages and storage, gas, and the contracts the bridge calls (token factory, rate
  limiter, swap entry point), whose messages are values here.
\<close>

section \<open>Money\<close>

text \<open>
  C1. The contract is solvent: in every state of the ledger that runs of the contract reach, for
  every denom that is not registered as a Cosmos originated token, the contract holds at least the
  fees collected for relayers, the pending refunds and the coins of the transfers on their way to the
  XRPL together. Balances change by the funds attached to calls, by the messages of the responses
  (mints, burns, sends) and by deposits of others.
\<close>

theorem bridge_solvent:
  assumes "ledger_reachable a (s, bal)" and "\<not> kv_has d (COSMOS_TOKENS s)"
  shows "fee_pool d s + refunds_owed d s + in_transit d s \<le> bal d"
  using ledger.holds_when_reached [OF assms(1)] assms(2) by (simp add: solvent_def liabilities_def)

theorem bridge_solvent_witness:
  "fee_pool ''factory/tf/XRP'' ex_sent + refunds_owed ''factory/tf/XRP'' ex_sent + in_transit ''factory/tf/XRP'' ex_sent \<le> 7 \<and>
   in_transit ''factory/tf/XRP'' ex_sent = 7"
proof -
  have "\<not> kv_has ''factory/tf/XRP'' (COSMOS_TOKENS ex_sent)" by (simp add: ex_sent_eq run_eqs empty_storage_def)
  from bridge_solvent [OF ex_sent_ledger this] show ?thesis
    by (simp only: ex_sent_in_transit no_coins_held_def denom_total_simps) simp
qed

text \<open>
  C2. Cosmos originated tokens are fully backed: when the relayers report only payments of
  amounts that the bridge's XRPL account has issued, then in every reachable state the contract holds
  the coins it owes, fees, refunds and transfers on their way, and the whole amount issued on the XRPL
  for the token, compared at the decimals of the token and the 15 decimals of the XRPL.
\<close>

theorem escrow_backs_obligations:
  assumes "escrow_reachable a (s, bal, obl)" and "kv_load d (COSMOS_TOKENS s) = Some tok"
  shows "10 ^ 15 * (fee_pool d s + refunds_owed d s + in_transit d s) +
    obl (ct_xrpl_currency tok) * 10 ^ unat (ct_decimals tok) \<le> 10 ^ 15 * bal d"
  using escrow.holds_when_reached [OF assms(1)] assms(2) by (simp add: escrowed_def liabilities_def)

theorem escrow_backs_obligations_witness:
  "10 ^ 15 * (fee_pool ''ucosmos'' ex_backing + refunds_owed ''ucosmos'' ex_backing + in_transit ''ucosmos'' ex_backing) +
     1234500000000000 * 10 ^ 6 \<le> (10 ^ 15 * 1234567 :: nat)"
proof -
  have "kv_load ''ucosmos'' (COSMOS_TOKENS ex_backing) = Some ex_ucosmos" by (simp add: ex_backing_tokens)
  from escrow_backs_obligations [OF ex_backing_escrow this] show ?thesis
    by (simp add: no_coins_held_def ex_obligations_def ex_ucosmos_def)
qed

text \<open>
  C6. A transfer to the XRPL splits the coins attached to it exactly: the call has one coin, queues
  one new operation in the sender's name, and the coin's amount is what the operation would refund
  plus what the fee pool of the denom grows by; refunds and other denoms do not change.
\<close>

theorem sent_coins_split:
  assumes "ledger_reachable a (s, bal)" and "platform_laws p"
    and "execute p e info s (Msg_SendToXRPL rcp deliver) = Inr (r, s')"
  shows "\<exists>funds oid op coin fee. mi_funds info = [funds] \<and>
    kv_load oid (PENDING_OPERATIONS s) = None \<and> kv_load oid (PENDING_OPERATIONS s') = Some op \<and>
    transfer_sender (op_operation_type op) = Some (mi_sender info) \<and>
    refund_coin s' (op_operation_type op) = Some coin \<and> c_denom coin = c_denom funds \<and>
    unat (c_amount funds) = unat (c_amount coin) + fee \<and>
    (\<forall>d. fee_pool d s' = fee_pool d s + (if d = c_denom funds then fee else 0)) \<and>
    (\<forall>d. in_transit d s' = in_transit d s + (if d = c_denom funds then unat (c_amount coin) else 0)) \<and>
    (\<forall>d. refunds_owed d s' = refunds_owed d s)"
proof -
  have ok: "books_ok s" using ledger.holds_when_reached [OF assms(1)] by (simp add: solvent_def)
  have p: "base58_lengths p" and one: "\<And>cs c. one_coin p cs = Inr c \<Longrightarrow> cs = [c]"
    using assms(2) by (auto simp: platform_laws_def)
  from assms(3) have "send_to_xrpl p e info s rcp deliver = Inr (r, s')" by simp
  then show ?thesis
  proof (rule send_to_xrpl_split [OF _ ok p])
    fix funds oid op coin x
    assume f: "one_coin p (mi_funds info) = Inr funds"
      "kv_load oid (PENDING_OPERATIONS s) = None" "kv_load oid (PENDING_OPERATIONS s') = Some op"
      "refund_coin s' (op_operation_type op) = Some coin" "c_denom coin = c_denom funds"
      "transfer_sender (op_operation_type op) = Some (mi_sender info)"
      "unat (c_amount funds) = unat (c_amount coin) + x"
      "\<And>d. fee_pool d s' = fee_pool d s + (if d = c_denom funds then x else 0)"
      "\<And>d. refunds_owed d s' = refunds_owed d s"
      "\<And>d. in_transit d s' = in_transit d s + coin_value d (Some coin)"
    have "mi_funds info = [funds]" using one f(1) by blast
    with f show ?thesis
      by (intro exI [of _ funds] exI [of _ oid] exI [of _ op] exI [of _ coin] exI [of _ x]) (simp add: coin_value_def)
  qed
qed

theorem sent_coins_split_witness:
  "\<exists>funds oid op coin fee. [coin_of 7 ''factory/tf/XRP''] = [funds] \<and>
    kv_load oid (PENDING_OPERATIONS ex_ready) = None \<and> kv_load oid (PENDING_OPERATIONS ex_sent) = Some op \<and>
    transfer_sender (op_operation_type op) = Some (Addr ''alice'') \<and>
    refund_coin ex_sent (op_operation_type op) = Some coin \<and> c_denom coin = c_denom funds \<and>
    unat (c_amount funds) = unat (c_amount coin) + fee"
proof -
  from ok_execute [OF ex_sent_runs] obtain r where
    "execute ex_platform ex_env (info_of ''alice'' [coin_of 7 ''factory/tf/XRP'']) ex_ready
       (Msg_SendToXRPL ''rBobAccount111111111111111'' None) = Inr (r, ex_sent)"
    unfolding ex_sent_def by blast
  from sent_coins_split [OF ex_ready_ledger ex_platform_laws this] show ?thesis
    by (simp only: info_of_def message_info.simps) metis
qed

text \<open>
  C5. The evidence that decides a transfer of a token issued on the XRPL mints exactly the
  transferred amount, the fee for the contract included: no more and no less is minted of the token's
  denom, the token is registered and enabled, and the supply after it respects the token's
  maximum holding amount.
\<close>

theorem minted_equals_transferred:
  assumes "reachable s" and "CONFIG s = Some c"
    and "execute p e info s (Msg_SaveEvidence (XRPLToCosmosTransfer h i cur am rcp memo)) = Inr (r, s')"
    and "decides p s (XRPLToCosmosTransfer h i cur am rcp memo)" and "i \<noteq> cf_bridge_xrpl_address c"
  shows "\<exists>tok amount_held. kv_load (build_xrpl_token_key i cur) (XRPL_TOKENS s) = Some tok \<and> xt_state tok = Enabled \<and>
    minted_supply (xt_cosmos_denom tok) r = unat am \<and>
    query_supply p (xt_cosmos_denom tok) = Inr amount_held \<and>
    unat amount_held + unat am \<le> unat (xt_max_holding_amount tok)"
proof -
  from operations.holds_when_reached [OF assms(1)] assms(2) have "relayer_count s \<le> 32"
    by (simp add: operations_ok_def proposal_ok_def relayer_count_def)
  also have "(32 :: nat) < 2 ^ 128" by simp
  finally show ?thesis by (rule deciding_transfer [OF assms(3,4,2,5)]) blast
qed

theorem minted_equals_transferred_witness:
  "\<exists>tok amount_held. kv_load (build_xrpl_token_key XRP_ISSUER XRP_CURRENCY) (XRPL_TOKENS ex_reported) = Some tok \<and>
    xt_state tok = Enabled \<and>
    minted_supply (xt_cosmos_denom tok)
      (ok_response (execute ex_platform ex_env (info_of ''rel2'' []) ex_reported (Msg_SaveEvidence ex_xrp_transfer))) = 100 \<and>
    query_supply ex_platform (xt_cosmos_denom tok) = Inr amount_held \<and>
    unat amount_held + 100 \<le> unat (xt_max_holding_amount tok)"
proof -
  let ?out = "execute ex_platform ex_env (info_of ''rel2'' []) ex_reported (Msg_SaveEvidence ex_xrp_transfer)"
  obtain r s' where r: "?out = Inr (r, s')" using ex_reported_runs ok_execute by blast
  have c: "CONFIG ex_reported = Some (initial_config ex_msg)" by (simp add: ex_reported_eq run_eqs)
  have "decides ex_platform ex_reported ex_xrp_transfer"
    by (simp add: decides_def votes_def eval_simps run_eqs ex_reported_eq ex_xrp_transfer_def)
  moreover have "XRP_ISSUER \<noteq> cf_bridge_xrpl_address (initial_config ex_msg)"
    by (simp add: token_consts initial_config_def ex_msg_def)
  moreover have "ok_response ?out = r" unfolding ok_response_def r by simp
  ultimately show ?thesis
    using minted_equals_transferred [OF ex_reported_reachable c r [unfolded ex_xrp_transfer_def]]
    by (simp add: ex_xrp_transfer_def del: execute.simps)
qed

text \<open>
  C7. The evidence that decides the outcome of a transfer to the XRPL settles it. An accepted
  transfer leaves no refund: for a token issued on the XRPL the only message burns exactly the amount
  the transfer carried, for a Cosmos originated token there is no message and the coins stay in escrow. Any
  other outcome stores a refund of exactly the coins the transfer carried for the sender, under the
  identifier of the operation; its only message, sent when a rate limiter is configured, is an
  \<open>UndoSend\<close> of the refunded amount.
\<close>

theorem transfer_settlement:
  assumes "execute p e info s (Msg_SaveEvidence (XRPLTransactionResult h acc tick res ores)) = Inr (r, s')"
    and "decides p s (XRPLTransactionResult h acc tick res ores)" and "CONFIG s = Some c"
    and "sequence_or acc tick = Inr oid" and "kv_load oid (PENDING_OPERATIONS s) = Some op"
    and "op_operation_type op = CosmosToXRPLTransfer issuer currency amount max_amount sender recipient"
  shows "if res = Accepted
    then PENDING_REFUNDS s' = PENDING_REFUNDS s \<and>
      map sm_msg (rs_messages r) =
        (case kv_load (build_xrpl_token_key issuer currency) (XRPL_TOKENS s) of
           Some tok \<Rightarrow> [WasmExecute (as_str (cf_token_factory_addr c))
             (TokenFactory (BurnTokens (xt_cosmos_denom tok) (case max_amount of Some m \<Rightarrow> m | None \<Rightarrow> amount)
               (as_str (ev_contract_address e)))) []]
         | None \<Rightarrow> [])
    else \<exists>coin. refund_coin s (op_operation_type op) = Some coin \<and>
      PENDING_REFUNDS s' = kv_save (sender, op_id op)
        \<lparr>pr_address = sender, pr_id = op_id op, pr_xrpl_tx_hash = h, pr_coin = coin\<rparr> (PENDING_REFUNDS s) \<and>
      map sm_msg (rs_messages r) =
        (case cf_rate_limit_addr c of
           None \<Rightarrow> []
         | Some limiter \<Rightarrow> [WasmExecute (as_str limiter) (RateLimiter (UndoSend
             \<lparr>pk_channel = CHANNEL, pk_denom = build_xrpl_token_key issuer currency, pk_amount = c_amount coin\<rparr>)) []])"
proof -
  have "is_transfer (op_operation_type op)" "transfer_sender (op_operation_type op) = Some sender"
    "transfer_key (op_operation_type op) = Some (build_xrpl_token_key issuer currency)"
    by (simp_all add: assms(6) transfer_sender_def transfer_key_def)
  moreover have "burn_msgs s tf b (op_operation_type op) =
      (case kv_load (build_xrpl_token_key issuer currency) (XRPL_TOKENS s) of
         Some tok \<Rightarrow> [WasmExecute (as_str tf) (TokenFactory (BurnTokens (xt_cosmos_denom tok)
           (case max_amount of Some m \<Rightarrow> m | None \<Rightarrow> amount) (as_str b))) []]
       | None \<Rightarrow> [])" for tf b
    by (simp add: burn_msgs_def transfer_key_def refund_coin_def assms(6) kv_has_def split: option.split)
  ultimately show ?thesis
    using settled_transfer [OF assms(1,2,4,5) _ assms(3)] unfolding undo_send_msgs_def by auto
qed

theorem transfer_settlement_witness:
  "map sm_msg (rs_messages (ok_response (execute ex_platform ex_env (info_of ''rel1'' []) ex_limited
      (Msg_SaveEvidence (ex_result Accepted))))) =
     [WasmExecute ''tf'' (TokenFactory (BurnTokens ''factory/tf/XRPLUSD'' 40 ''bridge'')) []] \<and>
   map sm_msg (rs_messages (ok_response (execute ex_platform ex_env (info_of ''rel1'' []) ex_limited
      (Msg_SaveEvidence (ex_result Rejected))))) =
     [WasmExecute ''limiter'' (RateLimiter (UndoSend
        \<lparr>pk_channel = CHANNEL, pk_denom = build_xrpl_token_key ''rIssuerOfUsdAccount1111111'' ''USD'', pk_amount = 40\<rparr>)) []] \<and>
   kv_load (Addr ''bob'', ''900-9'') (PENDING_REFUNDS (ex_run ''rel1'' (Msg_SaveEvidence (ex_result Rejected)) ex_limited)) =
     Some \<lparr>pr_address = Addr ''bob'', pr_id = ''900-9'', pr_xrpl_tx_hash = Some ''f'', pr_coin = coin_of 40 ''factory/tf/XRPLUSD''\<rparr> \<and>
   map sm_msg (rs_messages (ok_response (execute ex_platform ex_env (info_of ''rel2'' []) ex_settling
      (Msg_SaveEvidence ex_accepted)))) = []"
proof -
  have sq: "sequence_or None (Some t) = Inr t" for t by (simp add: sequence_or_def)
  have rf: "refund_coin ex_limited (op_operation_type ex_usd_operation) = Some (coin_of 40 ''factory/tf/XRPLUSD'')"
    by (simp add: ex_usd_operation_facts refund_coin_def ex_usd_def)
  obtain op where op: "kv_load 10 (PENDING_OPERATIONS ex_settling) = Some op" "op_operation_type op =
      CosmosToXRPLTransfer ''rBridgeMultisigAccount1111'' ex_currency 1234500000000000 (Some 1234500000000000)
        (Addr ''alice'') ''rBobAccount111111111111111''"
    by (simp add: ex_settling_eq ex_cosmos_sent_eq)
  have st: "CONFIG ex_settling = Some (initial_config ex_msg)"
    "kv_load (build_xrpl_token_key ''rBridgeMultisigAccount1111'' ex_currency) (XRPL_TOKENS ex_settling) = None"
    by (simp_all add: ex_settling_eq ex_cosmos_sent_eq ex_listed_eq run_eqs build_xrpl_token_key_def token_consts ex_currency_def)
  have n: "ev_contract_address ex_env = Addr ''bridge''" "cf_token_factory_addr ex_limited_config = Addr ''tf''"
    "cf_rate_limit_addr ex_limited_config = Some (Addr ''limiter'')" "xt_cosmos_denom ex_usd = ''factory/tf/XRPLUSD''"
    by (simp_all add: ex_env_def ex_limited_config_def initial_config_def ex_msg_def ex_usd_def)
  note settle = transfer_settlement [OF ok_outcome _ _ sq]
  from settle [OF ex_result_runs(1) [unfolded ex_result_def] ex_result_decides [unfolded ex_result_def]
      ex_usd_operation_facts(5,3,1)]
    settle [OF ex_result_runs(2) [unfolded ex_result_def] ex_result_decides [unfolded ex_result_def]
      ex_usd_operation_facts(5,3,1)]
    settle [OF ex_backing_runs [unfolded ex_accepted_def] st(1) op]
  show ?thesis
    by (simp add: ex_result_def ex_accepted_def ex_usd_operation_facts(2,4) rf st(2) n ex_run_def del: execute.simps)
qed

text \<open>
  C13. Cancelling a transfer gives everything back: in every reachable state a successful
  cancellation of a transfer removes the operation, returns its ticket to the front of the pool and
  stores a refund of the coins it carried for its sender, and changes nothing else.
\<close>

theorem cancelled_transfer_refunded:
  assumes "reachable s" and "kv_load oid (PENDING_OPERATIONS s) = Some op" and "is_transfer (op_operation_type op)"
    and "execute p e info s (Msg_CancelPendingOperation oid) = Inr (r, s')"
  shows "\<exists>coin sender. refund_coin s (op_operation_type op) = Some coin \<and>
    transfer_sender (op_operation_type op) = Some sender \<and>
    s' = s\<lparr>PENDING_OPERATIONS := kv_remove oid (PENDING_OPERATIONS s),
      AVAILABLE_TICKETS := Some (oid # ticket_queue s), PENDING_REFUNDS := kv_save (sender, op_id op)
        \<lparr>pr_address = sender, pr_id = op_id op, pr_xrpl_tx_hash = None, pr_coin = coin\<rparr> (PENDING_REFUNDS s)\<rparr>"
proof -
  from assms(4) have "cancel_pending_operation p e s (mi_sender info) oid = Inr (r, s')" by simp
  from cancelled_transfer [OF this operations.holds_when_reached [OF assms(1)] assms(2,3)] show ?thesis by blast
qed

theorem cancelled_transfer_refunded_witness:
  "\<exists>coin sender. c_amount coin = 7 \<and> sender = Addr ''alice'' \<and>
     kv_load (sender, ''1000-10'') (PENDING_REFUNDS (ex_run ''owner'' (Msg_CancelPendingOperation 10) ex_sent)) =
       Some \<lparr>pr_address = sender, pr_id = ''1000-10'', pr_xrpl_tx_hash = None, pr_coin = coin\<rparr> \<and>
     AVAILABLE_TICKETS (ex_run ''owner'' (Msg_CancelPendingOperation 10) ex_sent) = Some [10, 11, 12]"
proof -
  have "ok (execute ex_platform ex_env (info_of ''owner'' []) ex_sent (Msg_CancelPendingOperation 10))"
    by (simp add: eval_simps ex_sent_eq run_eqs)
  from ok_execute [OF this] obtain r where r: "execute ex_platform ex_env (info_of ''owner'' []) ex_sent (Msg_CancelPendingOperation 10) =
      Inr (r, ex_run ''owner'' (Msg_CancelPendingOperation 10) ex_sent)"
    unfolding ex_run_def by blast
  obtain op where op: "kv_load 10 (PENDING_OPERATIONS ex_sent) = Some op" "op_id op = ''1000-10''"
    "op_operation_type op = CosmosToXRPLTransfer XRP_ISSUER XRP_CURRENCY 7 None (Addr ''alice'') ''rBobAccount111111111111111''"
    by (simp add: ex_sent_eq)
  then have "is_transfer (op_operation_type op)" by simp
  from cancelled_transfer_refunded [OF ex_sent_reachable op(1) this r]
  obtain coin sender where 1: "refund_coin ex_sent (op_operation_type op) = Some coin"
    "transfer_sender (op_operation_type op) = Some sender"
    and 2: "ex_run ''owner'' (Msg_CancelPendingOperation 10) ex_sent = ex_sent\<lparr>PENDING_OPERATIONS := kv_remove 10 (PENDING_OPERATIONS ex_sent),
      AVAILABLE_TICKETS := Some (10 # ticket_queue ex_sent), PENDING_REFUNDS := kv_save (sender, op_id op)
        \<lparr>pr_address = sender, pr_id = op_id op, pr_xrpl_tx_hash = None, pr_coin = coin\<rparr> (PENDING_REFUNDS ex_sent)\<rparr>"
    by blast
  from 1 have "c_amount coin = 7" "sender = Addr ''alice''"
    by (auto simp: op refund_coin_def transfer_sender_def ex_sent_eq run_eqs)
  then show ?thesis by (intro exI [of _ coin] exI [of _ sender]) (simp only: 2, simp add: op ticket_queue_def ex_sent_eq)
qed

text \<open>
  C12. A pending refund can be claimed, once: while the bridge is active the claim succeeds for its
  owner, its only message sends exactly the refunded coin, and a second claim fails. The contract holds
  enough for it: always when the denom is not a Cosmos originated token's, and for every denom in a
  run in which the relayers report only payments of amounts issued on the XRPL.
\<close>

theorem refund_claimable:
  assumes "ledger_reachable a (s, bal)" and "CONFIG s = Some c" and "cf_bridge_state c = Active"
    and "kv_load (mi_sender info, i) (PENDING_REFUNDS s) = Some rf"
  shows "\<exists>r s'. execute p e info s (Msg_ClaimRefund i) = Inr (r, s') \<and>
    map sm_msg (rs_messages r) = [BankSend (as_str (mi_sender info)) [pr_coin rf]] \<and>
    (\<not> kv_has (c_denom (pr_coin rf)) (COSMOS_TOKENS s) \<or> (\<exists>obl. escrow_reachable a (s, bal, obl)) \<longrightarrow>
      unat (c_amount (pr_coin rf)) \<le> bal (c_denom (pr_coin rf))) \<and>
    \<not> (\<exists>r2 s2. execute p e info s' (Msg_ClaimRefund i) = Inr (r2, s2))"
proof -
  let ?d = "c_denom (pr_coin rf)"
  have "liabilities ?d s \<le> bal ?d" if "\<not> kv_has ?d (COSMOS_TOKENS s) \<or> (\<exists>obl. escrow_reachable a (s, bal, obl))"
    using that ledger.holds_when_reached [OF assms(1)] escrow_covers_liabilities by (auto simp: solvent_def)
  then have "\<not> kv_has ?d (COSMOS_TOKENS s) \<or> (\<exists>obl. escrow_reachable a (s, bal, obl)) \<longrightarrow> unat (c_amount (pr_coin rf)) \<le> bal ?d"
    using refund_owed [OF assms(4)] by (force simp: liabilities_def)
  then show ?thesis
    using assms(2-4)
    by (simp add: claim_pending_refund_def remove_pending_refund_def assert_bridge_active_def item_load_def map_err_def)
qed

theorem refund_claimable_witness:
  "(\<exists>r s'. execute ex_platform ex_env (info_of ''alice'' []) ex_cancelled (Msg_ClaimRefund ''1000-10'') = Inr (r, s') \<and>
     map sm_msg (rs_messages r) = [BankSend ''alice'' [coin_of 7 ''factory/tf/XRP'']] \<and>
     \<not> (\<exists>r2 s2. execute ex_platform ex_env (info_of ''alice'' []) s' (Msg_ClaimRefund ''1000-10'') = Inr (r2, s2))) \<and>
   (\<exists>r s'. execute ex_platform ex_env (info_of ''alice'' []) ex_cosmos_cancelled (Msg_ClaimRefund ''1000-10'') = Inr (r, s') \<and>
     map sm_msg (rs_messages r) = [BankSend ''alice'' [coin_of 1234500 ''ucosmos'']] \<and>
     unat (1234500 :: u128) \<le> no_coins_held ''ucosmos'' + denom_total ''ucosmos'' [coin_of 1234567 ''ucosmos''] + denom_total ''ucosmos'' [])"
proof
  have c: "CONFIG ex_cancelled = Some (initial_config ex_msg)" "CONFIG ex_cosmos_cancelled = Some (initial_config ex_msg)"
    "cf_bridge_state (initial_config ex_msg) = Active"
    by (simp_all add: ex_cancelled_eq ex_sent_eq ex_cosmos_cancelled_eq ex_cosmos_sent_eq ex_listed_eq run_eqs initial_config_def)
  have "kv_load (mi_sender (info_of ''alice'' []), ''1000-10'') (PENDING_REFUNDS ex_cancelled) =
      Some \<lparr>pr_address = Addr ''alice'', pr_id = ''1000-10'', pr_xrpl_tx_hash = None, pr_coin = coin_of 7 ''factory/tf/XRP''\<rparr>"
    by (simp add: ex_cancelled_eq info_of_def)
  from refund_claimable [OF ex_cancelled_ledger c(1,3) this, of ex_platform ex_env]
  show "\<exists>r s'. execute ex_platform ex_env (info_of ''alice'' []) ex_cancelled (Msg_ClaimRefund ''1000-10'') = Inr (r, s') \<and>
     map sm_msg (rs_messages r) = [BankSend ''alice'' [coin_of 7 ''factory/tf/XRP'']] \<and>
     \<not> (\<exists>r2 s2. execute ex_platform ex_env (info_of ''alice'' []) s' (Msg_ClaimRefund ''1000-10'') = Inr (r2, s2))"
    by (auto simp: info_of_def simp del: execute.simps)
  have "kv_load (mi_sender (info_of ''alice'' []), ''1000-10'') (PENDING_REFUNDS ex_cosmos_cancelled) =
      Some \<lparr>pr_address = Addr ''alice'', pr_id = ''1000-10'', pr_xrpl_tx_hash = None, pr_coin = coin_of 1234500 ''ucosmos''\<rparr>"
    by (simp add: ex_cosmos_cancelled_eq info_of_def)
  from refund_claimable [OF escrow_reachable_ledger [OF ex_cosmos_cancelled_escrow, unfolded fst_conv snd_conv] c(2,3) this,
      of ex_platform ex_env] ex_cosmos_cancelled_escrow
  show "\<exists>r s'. execute ex_platform ex_env (info_of ''alice'' []) ex_cosmos_cancelled (Msg_ClaimRefund ''1000-10'') = Inr (r, s') \<and>
     map sm_msg (rs_messages r) = [BankSend ''alice'' [coin_of 1234500 ''ucosmos'']] \<and>
     unat (1234500 :: u128) \<le> no_coins_held ''ucosmos'' + denom_total ''ucosmos'' [coin_of 1234567 ''ucosmos''] + denom_total ''ucosmos'' []"
    by (elim exE conjE) (auto simp: info_of_def simp del: execute.simps denom_total_simps)
qed

text \<open>
  C11. No operation gets stuck: in every state of the ledger that runs reach, whoever may cancel
  operations can cancel any pending one, of every kind, and it is gone afterwards.
\<close>

theorem operation_can_be_cancelled:
  assumes "ledger_reachable a (s, bal)" and "kv_load oid (PENDING_OPERATIONS s) = Some op"
    and "check_authorization p s (mi_sender info) CA_CancelPendingOperation = Inr ()"
  shows "\<exists>r s'. execute p e info s (Msg_CancelPendingOperation oid) = Inr (r, s') \<and>
    kv_load oid (PENDING_OPERATIONS s') = None"
proof -
  have ok: "books_ok s" using ledger.holds_when_reached [OF assms(1)] by (simp add: solvent_def)
  have "trust_sets_ok s" using ledger_reachable_storage [OF assms(1)] trust_sets.holds_when_reached by simp
  from cancel_total [OF ok this assms(2,3), of e] obtain r s' where
    "cancel_pending_operation p e s (mi_sender info) oid = Inr (r, s')" by blast
  then show ?thesis using cancel_drops by fastforce
qed

theorem operation_can_be_cancelled_witness:
  "\<exists>r s'. execute ex_platform ex_env (info_of ''owner'' []) ex_sent (Msg_CancelPendingOperation 10) = Inr (r, s') \<and>
     kv_load 10 (PENDING_OPERATIONS s') = None"
proof -
  obtain op where op: "kv_load 10 (PENDING_OPERATIONS ex_sent) = Some op" by (simp add: ex_sent_eq)
  have "check_authorization ex_platform ex_sent (mi_sender (info_of ''owner'' [])) CA_CancelPendingOperation = Inr ()"
    by (simp add: eval_simps ex_sent_eq run_eqs)
  from operation_can_be_cancelled [OF ex_sent_ledger op this] show ?thesis .
qed

text \<open>
  C24. Only evidences, transfers, claims and cancellations move money: every other message leaves
  what the contract owes in every denom as it was and spends no more than the funds attached to it.
\<close>

theorem other_messages_keep_liabilities:
  assumes "ledger_reachable a (s, bal)" and "platform_laws p" and "execute p e info s msg = Inr (r, s')"
    and "\<not> moves_money msg"
  shows "liabilities d s' = liabilities d s \<and> coins_out a d r \<le> denom_total d (mi_funds info)"
proof -
  have "books_ok s" using ledger.holds_when_reached [OF assms(1)] by (simp add: solvent_def)
  moreover have "base58_lengths p" using assms(2) by (simp add: platform_laws_def)
  ultimately show ?thesis using quiet_transitions quiet_execute [OF assms(3,4)] by blast
qed

theorem other_messages_keep_liabilities_witness:
  "liabilities ''factory/tf/XRP'' (ex_run ''owner'' Msg_HaltBridge ex_sent) = liabilities ''factory/tf/XRP'' ex_sent"
proof -
  have "ok (execute ex_platform ex_env (info_of ''owner'' []) ex_sent Msg_HaltBridge)"
    by (simp add: eval_simps ex_sent_eq run_eqs)
  from ok_execute [OF this] obtain r where "execute ex_platform ex_env (info_of ''owner'' []) ex_sent Msg_HaltBridge =
      Inr (r, ex_run ''owner'' Msg_HaltBridge ex_sent)"
    unfolding ex_run_def by blast
  from other_messages_keep_liabilities [OF ex_sent_ledger ex_platform_laws this] show ?thesis by simp
qed

section \<open>Evidences\<close>

text \<open>
  C3. A processed XRPL transaction is never processed again: once the hash of a transaction is
  marked as processed, no later call of \<open>execute\<close> accepts an evidence for the same hash,
  whatever calls come in between, whoever sends it and whatever else the evidence claims.
\<close>

theorem replay_rejected:
  assumes "kv_has h (PROCESSED_TXS s)" and "bridge_step\<^sup>*\<^sup>* s s'"
    and "get_tx_hash ev = Inr h" and "is_operation_valid ev"
  shows "\<not> (\<exists>r s''. execute p e info s' (Msg_SaveEvidence ev) = Inr (r, s''))"
proof
  assume "\<exists>r s''. execute p e info s' (Msg_SaveEvidence ev) = Inr (r, s'')"
  then obtain r s'' where "save_evidence p e s' (mi_sender info) ev = Inr (r, s'')" by auto
  then show False
  proof (rule save_evidence_ok)
    fix reached s1
    assume "handle_evidence p s' (mi_sender info) ev = Inr (reached, s1)"
    then have "\<not> processed s' ev" using assms(4) by (auto elim: handle_evidence_cases)
    moreover have "kv_has h (PROCESSED_TXS s')"
      using processed.steps_rel [OF assms(2)] assms(1) by (simp add: processed_grows_def)
    ultimately show False using assms(3) by (auto simp: processed_def)
  qed
qed

theorem replay_rejected_witness:
  "\<not> (\<exists>r s''. execute ex_platform ex_env (info_of ''rel1'' []) ex_state
        (Msg_SaveEvidence (XRPLToCosmosTransfer ''done'' ''rIssuerOfUsdAccount1111111'' ''USD'' 7 (Addr ''eve'') None)) = Inr (r, s''))"
  by (rule replay_rejected [where s = ex_state and h = "''DONE''"]) (simp_all add: eval_simps)

text \<open>
  C4. The vote that reaches the threshold executes the transaction: when an evidence of a valid
  transaction is accepted and the recorded votes with this one reach the evidence threshold, the
  transaction was not processed before and is marked as processed afterwards.
\<close>

theorem deciding_vote_processes:
  assumes "execute p e info s (Msg_SaveEvidence ev) = Inr (r, s')" and "CONFIG s = Some c"
    and "is_operation_valid ev" and "unat (cf_evidence_threshold c) \<le> length (votes p s ev) + 1"
  shows "\<exists>h. get_tx_hash ev = Inr h \<and> \<not> kv_has h (PROCESSED_TXS s) \<and> kv_has h (PROCESSED_TXS s')"
proof -
  from assms(1) have "save_evidence p e s (mi_sender info) ev = Inr (r, s')" by simp
  then show ?thesis
  proof (rule save_evidence_ok)
    fix c' reached s1 resp
    assume v: "handle_evidence p s (mi_sender info) ev = Inr (reached, s1)"
      and rest: "(case ev of
        XRPLToCosmosTransfer h i cur am rcp memo \<Rightarrow> receive_transfer p e s1 c' h i cur am rcp memo reached resp
      | XRPLTransactionResult h acc tick res ores \<Rightarrow>
          receive_transaction_result e s1 c' h acc tick res ores reached resp) = Inr (r, s')"
    have "transitions p True s1 s'" using rest by (rule received_transitions)
    then have grow: "processed_grows s1 s'" by (rule processed_grows_transitions)
    from v show ?thesis
      by (rule handle_evidence_cases)
        (use assms(2-4) grow in \<open>auto simp: processed_def processed_grows_def processed_after_def\<close>)
  qed
qed

theorem deciding_vote_processes_witness:
  "\<exists>h. get_tx_hash ex_transfer = Inr h \<and> \<not> kv_has h (PROCESSED_TXS ex_state) \<and>
     kv_has h (PROCESSED_TXS (ok_state
       (execute ex_platform ex_env (info_of ''rel1'' []) ex_state (Msg_SaveEvidence ex_transfer))))"
proof -
  have "ok (execute ex_platform ex_env (info_of ''rel1'' []) ex_state (Msg_SaveEvidence ex_transfer))"
    by (simp add: eval_simps)
  then obtain r where r: "execute ex_platform ex_env (info_of ''rel1'' []) ex_state (Msg_SaveEvidence ex_transfer) =
      Inr (r, ok_state (execute ex_platform ex_env (info_of ''rel1'' []) ex_state (Msg_SaveEvidence ex_transfer)))"
    using ok_execute by blast
  show ?thesis
    by (rule deciding_vote_processes [OF r, of "initial_config ex_msg"]) (simp_all add: eval_simps votes_def)
qed

text \<open>
  C10. Below the threshold an evidence has no effect but the vote: the sender is appended to the
  recorded votes of the evidence, no other part of the state changes and no message is sent.
\<close>

theorem early_vote_only_recorded:
  assumes "execute p e info s (Msg_SaveEvidence ev) = Inr (r, s')" and "CONFIG s = Some c"
    and "length (votes p s ev) + 1 < unat (cf_evidence_threshold c)"
  shows "\<exists>h. get_hash p ev = Inr h \<and> rs_messages r = [] \<and>
    s' = s\<lparr>TX_EVIDENCES := kv_save h (votes p s ev @ [mi_sender info]) (TX_EVIDENCES s)\<rparr>"
proof -
  from assms(1) have "save_evidence p e s (mi_sender info) ev = Inr (r, s')" by simp
  from save_evidence_below_threshold [OF this assms(2,3)] show ?thesis by blast
qed

theorem early_vote_only_recorded_witness:
  "\<exists>r s' h. execute ex_platform ex_env (info_of ''rel1'' []) (ex_state\<lparr>TX_EVIDENCES := kv_empty\<rparr>)
       (Msg_SaveEvidence ex_transfer) = Inr (r, s') \<and> rs_messages r = [] \<and>
     s' = ex_state\<lparr>TX_EVIDENCES := kv_save h [Addr ''rel1''] kv_empty\<rparr>"
proof -
  let ?s = "ex_state\<lparr>TX_EVIDENCES := kv_empty\<rparr>"
  have "ok (execute ex_platform ex_env (info_of ''rel1'' []) ?s (Msg_SaveEvidence ex_transfer))"
    by (simp add: eval_simps)
  then obtain r s' where r: "execute ex_platform ex_env (info_of ''rel1'' []) ?s (Msg_SaveEvidence ex_transfer) = Inr (r, s')"
    using ok_execute by blast
  have v: "votes ex_platform ?s ex_transfer = []" by (simp add: votes_def eval_simps)
  have "\<exists>h. get_hash ex_platform ex_transfer = Inr h \<and> rs_messages r = [] \<and>
    s' = ?s\<lparr>TX_EVIDENCES := kv_save h (votes ex_platform ?s ex_transfer @ [mi_sender (info_of ''rel1'' [])]) (TX_EVIDENCES ?s)\<rparr>"
    by (rule early_vote_only_recorded [OF r, of "initial_config ex_msg"]) (simp_all add: v, simp_all add: eval_simps)
  with r v show ?thesis by (auto simp: info_of_def)
qed

text \<open>
  C8. In every reachable state the recorded votes of an evidence come from distinct relayers of
  the current relayer set and are fewer than the current threshold; the votes of replaced relayers
  are gone.
\<close>

theorem recorded_votes_valid:
  assumes "reachable s" and "CONFIG s = Some c" and "kv_load h (TX_EVIDENCES s) = Some vs"
  shows "vs \<noteq> [] \<and> distinct vs \<and> set vs \<subseteq> rl_cosmos_address ` set (cf_relayers c) \<and>
    length vs < unat (cf_evidence_threshold c)"
  using votes.holds_when_reached [OF assms(1)] assms(2,3) by (simp add: votes_ok_def)

theorem recorded_votes_valid_witness:
  "[Addr ''rel1''] \<noteq> [] \<and> distinct [Addr ''rel1''] \<and>
   set [Addr ''rel1''] \<subseteq> rl_cosmos_address ` set (cf_relayers (initial_config ex_msg)) \<and>
   length [Addr ''rel1''] < unat (cf_evidence_threshold (initial_config ex_msg))"
  by (rule recorded_votes_valid [OF ex_voted_reachable, of _ "''0000000000''"]) (simp_all add: run_eqs)

section \<open>Invariants of reachable states\<close>

text \<open>
  C9. In every reachable state the flag for a pending ticket update is set exactly when one
  allocation of tickets is pending, the flag for a key rotation exactly when one rotation is
  pending, there is never a second one of either, and the bridge is halted during a rotation.
\<close>

theorem flags_match_operations:
  assumes "reachable s"
  shows "\<exists>c. CONFIG s = Some c \<and>
    PENDING_TICKET_UPDATE s = Some (pending_kind is_allocation s = 1) \<and> pending_kind is_allocation s \<le> 1 \<and>
    PENDING_ROTATE_KEYS s = Some (pending_kind is_rotation s = 1) \<and> pending_kind is_rotation s \<le> 1 \<and>
    (pending_kind is_rotation s = 0 \<or> cf_bridge_state c = Halted)"
  using flags.holds_when_reached [OF assms] by (auto simp: flags_ok_def le_Suc_eq)

theorem flags_match_operations_witness:
  "\<exists>c. CONFIG ex_allocating = Some c \<and>
    PENDING_TICKET_UPDATE ex_allocating = Some (pending_kind is_allocation ex_allocating = 1) \<and>
    pending_kind is_allocation ex_allocating \<le> 1 \<and>
    PENDING_ROTATE_KEYS ex_allocating = Some (pending_kind is_rotation ex_allocating = 1) \<and>
    pending_kind is_rotation ex_allocating \<le> 1 \<and>
    (pending_kind is_rotation ex_allocating = 0 \<or> cf_bridge_state c = Halted)"
  by (rule flags_match_operations [OF ex_allocating_reachable])

text \<open>
  C14. In every reachable state a token issued on the XRPL is in state \<open>Processing\<close> exactly
  when a trust set operation for it is pending, and then exactly one is; no trust set operation is
  pending for a token that is not registered.
\<close>

theorem processing_iff_trust_set:
  assumes "reachable s"
  shows "pending_kind (trust_set_of key) s =
    (case kv_load key (XRPL_TOKENS s) of None \<Rightarrow> 0 | Some tok \<Rightarrow> of_bool (xt_state tok = Processing))"
  using trust_sets.holds_when_reached [OF assms] by (simp add: trust_sets_ok_def)

theorem processing_iff_trust_set_witness:
  "pending_kind (trust_set_of ''rIssuerOfUsdAccount1111111USD'') ex_registering =
    (case kv_load ''rIssuerOfUsdAccount1111111USD'' (XRPL_TOKENS ex_registering) of None \<Rightarrow> 0
     | Some tok \<Rightarrow> of_bool (xt_state tok = Processing))"
  by (rule processing_iff_trust_set [OF ex_registering_reachable])

text \<open>
  C16. In every reachable state a pending operation is stored under its ticket or, for an
  allocation only, its account sequence; its identifier is built from a block time and that number;
  its version is at least one; and its signatures come from distinct relayers and are at most 200
  bytes long.
\<close>

theorem operations_well_formed:
  assumes "reachable s" and "kv_load oid (PENDING_OPERATIONS s) = Some op"
  shows "((op_ticket_sequence op = Some oid \<and> op_account_sequence op = None) \<or>
      (op_ticket_sequence op = None \<and> op_account_sequence op = Some oid \<and> is_allocation (op_operation_type op))) \<and>
    (\<exists>ts. op_id op = operation_unique_id ts oid) \<and> 1 \<le> unat (op_version op) \<and>
    distinct (signers op) \<and> list_all (\<lambda>sg. length (sg_signature sg) \<le> 200) (op_signatures op)"
  using operations.holds_when_reached [OF assms(1)] assms(2)
  unfolding operations_ok_def operation_ok_def list_all_iff by blast

theorem operations_well_formed_witness:
  "\<exists>op. kv_load 10 (PENDING_OPERATIONS ex_registering) = Some op \<and>
     ((op_ticket_sequence op = Some 10 \<and> op_account_sequence op = None) \<or>
      (op_ticket_sequence op = None \<and> op_account_sequence op = Some 10 \<and> is_allocation (op_operation_type op))) \<and>
     (\<exists>ts. op_id op = operation_unique_id ts 10) \<and> 1 \<le> unat (op_version op) \<and>
     distinct (signers op) \<and> list_all (\<lambda>sg. length (sg_signature sg) \<le> 200) (op_signatures op)"
proof -
  obtain op where op: "kv_load 10 (PENDING_OPERATIONS ex_registering) = Some op"
    by (simp add: ex_registering_eq)
  from operations_well_formed [OF ex_registering_reachable op] op show ?thesis by blast
qed

text \<open>
  C17. In every reachable state the relayer set is a valid one: the threshold is positive and at
  most the number of relayers, there are at most 32, and no XRPL address, public key or Cosmos
  address occurs twice. The same holds for the set every pending key rotation proposes.
\<close>

theorem relayer_set_valid:
  assumes "reachable s" and "CONFIG s = Some c"
  shows "0 < unat (cf_evidence_threshold c) \<and> unat (cf_evidence_threshold c) \<le> length (cf_relayers c) \<and>
    length (cf_relayers c) \<le> 32 \<and> distinct (map rl_xrpl_address (cf_relayers c)) \<and>
    distinct (map rl_xrpl_pub_key (cf_relayers c)) \<and> distinct (map rl_cosmos_address (cf_relayers c)) \<and>
    (\<forall>oid op rs t. kv_load oid (PENDING_OPERATIONS s) = Some op \<longrightarrow> op_operation_type op = RotateKeys rs t \<longrightarrow>
       proposal_ok rs t)"
  using operations.holds_when_reached [OF assms(1)] assms(2)
  unfolding operations_ok_def operation_ok_def proposal_ok_def by auto

theorem relayer_set_valid_witness:
  "distinct (map rl_cosmos_address (cf_relayers (initial_config ex_msg))) \<and>
   unat (cf_evidence_threshold (initial_config ex_msg)) \<le> length (cf_relayers (initial_config ex_msg))"
  using relayer_set_valid [OF ex_start_reachable ex_start_config] by blast

text \<open>
  C18. In every reachable state the registry is consistent. Every token issued on the XRPL is
  stored under the key made of its issuer and currency, is the only one with its denom, so that
  looking the denom up finds it, and has a sending precision from -15 to 15. Every Cosmos originated
  token is stored under its denom, is the only one with its generated XRPL currency, so that looking
  the currency up finds it, and has at most 100 decimals and a sending precision that is valid for them.
\<close>

theorem registry_consistent:
  assumes "reachable s"
  shows "(\<forall>key tok. kv_load key (XRPL_TOKENS s) = Some tok \<longrightarrow>
      key = build_xrpl_token_key (xt_issuer tok) (xt_currency tok) \<and>
      index_item xt_cosmos_denom (xt_cosmos_denom tok) (XRPL_TOKENS s) = Some (key, tok) \<and>
      (\<forall>key' tok'. kv_load key' (XRPL_TOKENS s) = Some tok' \<longrightarrow> xt_cosmos_denom tok' = xt_cosmos_denom tok \<longrightarrow> key' = key) \<and>
      -15 \<le> sint (xt_sending_precision tok) \<and> sint (xt_sending_precision tok) \<le> 15) \<and>
    (\<forall>d ctok. kv_load d (COSMOS_TOKENS s) = Some ctok \<longrightarrow>
      d = ct_denom ctok \<and>
      index_item ct_xrpl_currency (ct_xrpl_currency ctok) (COSMOS_TOKENS s) = Some (d, ctok) \<and>
      (\<forall>d' ctok'. kv_load d' (COSMOS_TOKENS s) = Some ctok' \<longrightarrow> ct_xrpl_currency ctok' = ct_xrpl_currency ctok \<longrightarrow> d' = d) \<and>
      unat (ct_decimals ctok) \<le> 100 \<and>
      validate_sending_precision (ct_sending_precision ctok) (ct_decimals ctok) = Inr ())"
proof -
  from registry.holds_when_reached [OF assms] have reg: "registry_ok s" .
  then have u: "index_unique xt_cosmos_denom (XRPL_TOKENS s)" "index_unique ct_xrpl_currency (COSMOS_TOKENS s)"
    by (simp_all add: registry_ok_def)
  note found = index_item_unique [OF u(1)] index_item_unique [OF u(2)]
  have "key' = key" if "kv_load key (XRPL_TOKENS s) = Some tok" "kv_load key' (XRPL_TOKENS s) = Some tok'"
    "xt_cosmos_denom tok' = xt_cosmos_denom tok" for key key' tok tok'
    using found(1) [OF that(1)] found(1) [OF that(2)] that(3) by simp
  moreover have "d' = d" if "kv_load d (COSMOS_TOKENS s) = Some ctok" "kv_load d' (COSMOS_TOKENS s) = Some ctok'"
    "ct_xrpl_currency ctok' = ct_xrpl_currency ctok" for d d' ctok ctok'
    using found(2) [OF that(1)] found(2) [OF that(2)] that(3) by simp
  ultimately show ?thesis
    using reg found unfolding registry_ok_def precision_in_range_def by blast
qed

theorem registry_consistent_witness:
  "index_item xt_cosmos_denom ''factory/tf/XRP'' (XRPL_TOKENS ex_start) =
     Some (build_xrpl_token_key XRP_ISSUER XRP_CURRENCY, xrp_token (Addr ''tf'')) \<and>
   index_item ct_xrpl_currency ex_currency (COSMOS_TOKENS ex_listed) = Some (''ucosmos'', ex_ucosmos)"
proof -
  have x: "kv_load (build_xrpl_token_key XRP_ISSUER XRP_CURRENCY) (XRPL_TOKENS ex_start) = Some (xrp_token (Addr ''tf''))"
    and c: "kv_load ''ucosmos'' (COSMOS_TOKENS ex_listed) = Some ex_ucosmos"
    by (simp_all add: ex_listed_eq run_eqs)
  have n: "xt_cosmos_denom (xrp_token (Addr ''tf'')) = ''factory/tf/XRP''" "ct_xrpl_currency ex_ucosmos = ex_currency"
    by (simp_all add: xrp_token_def ex_ucosmos_def full_denom_def token_consts)
  from registry_consistent [OF ex_start_reachable] x have "index_item xt_cosmos_denom (xt_cosmos_denom (xrp_token (Addr ''tf''))) (XRPL_TOKENS ex_start) =
      Some (build_xrpl_token_key XRP_ISSUER XRP_CURRENCY, xrp_token (Addr ''tf''))" by blast
  moreover from registry_consistent [OF ex_listed_reachable] c have
    "index_item ct_xrpl_currency (ct_xrpl_currency ex_ucosmos) (COSMOS_TOKENS ex_listed) = Some (''ucosmos'', ex_ucosmos)" by blast
  ultimately show ?thesis unfolding n ..
qed

text \<open>
  C22. Coins can never be sent to the bridge's own XRPL account: in every reachable state, also
  after the owner has replaced the list of prohibited addresses, \<open>send_to_xrpl\<close> refuses the
  bridge's address as recipient.
\<close>

theorem no_transfer_to_the_bridge:
  assumes "reachable s" and "CONFIG s = Some c"
  shows "\<not> (\<exists>r s'. execute p e info s (Msg_SendToXRPL (cf_bridge_xrpl_address c) deliver) = Inr (r, s'))"
proof
  assume "\<exists>r s'. execute p e info s (Msg_SendToXRPL (cf_bridge_xrpl_address c) deliver) = Inr (r, s')"
  then obtain r s' where "send_to_xrpl p e info s (cf_bridge_xrpl_address c) deliver = Inr (r, s')" by auto
  then have "validate_xrpl_address p s (cf_bridge_xrpl_address c) = Inr ()" by (rule send_to_xrpl_ok)
  with items.holds_when_reached [OF assms(1)] assms(2) show False
    by (simp add: items_ok_def validate_xrpl_address_ok)
qed

theorem no_transfer_to_the_bridge_witness:
  "\<not> (\<exists>r s'. execute ex_platform ex_env (info_of ''alice'' [coin_of 7 ''factory/tf/XRP'']) ex_ready
        (Msg_SendToXRPL ''rBridgeMultisigAccount1111'' None) = Inr (r, s'))"
proof -
  have "CONFIG ex_ready = Some (initial_config ex_msg)" by (simp add: run_eqs)
  from no_transfer_to_the_bridge [OF ex_ready_reachable this] show ?thesis
    by (simp add: initial_config_def ex_msg_def)
qed

section \<open>Decisions and tokens\<close>

text \<open>
  C19. The evidence that decides an accepted key rotation installs the proposed relayers and
  threshold, removes all recorded votes of the old relayers and clears the flag of the rotation; the
  rest of the configuration, the halted state included, is kept.
\<close>

theorem rotation_takes_effect:
  assumes "execute p e info s (Msg_SaveEvidence (XRPLTransactionResult h acc tick Accepted ores)) = Inr (r, s')"
    and "decides p s (XRPLTransactionResult h acc tick Accepted ores)" and "CONFIG s = Some c"
    and "sequence_or acc tick = Inr oid" and "kv_load oid (PENDING_OPERATIONS s) = Some op"
    and "op_operation_type op = RotateKeys rs t"
  shows "CONFIG s' = Some (c\<lparr>cf_relayers := rs, cf_evidence_threshold := t\<rparr>) \<and>
    TX_EVIDENCES s' = kv_empty \<and> PENDING_ROTATE_KEYS s' = Some False"
  using assms by (rule accepted_rotation)

theorem rotation_takes_effect_witness:
  "CONFIG (ex_run ''rel2'' (Msg_SaveEvidence ex_rotated) ex_rotating) =
     Some ((initial_config ex_msg)\<lparr>cf_bridge_state := Halted, cf_relayers := ex_new_relayers, cf_evidence_threshold := 1\<rparr>)"
proof -
  obtain r where r: "execute ex_platform ex_env (info_of ''rel2'' []) ex_rotating (Msg_SaveEvidence ex_rotated) =
      Inr (r, ex_run ''rel2'' (Msg_SaveEvidence ex_rotated) ex_rotating)"
    using ok_execute [OF ex_rotating_runs] unfolding ex_run_def by blast
  have d: "decides ex_platform ex_rotating ex_rotated"
    by (simp add: decides_def votes_def eval_simps ex_rotating_eq ex_rotated_def)
  have c: "CONFIG ex_rotating = Some ((initial_config ex_msg)\<lparr>cf_bridge_state := Halted\<rparr>)"
    and sq: "sequence_or None (Some 10) = Inr (10 :: u64)" by (simp_all add: ex_rotating_eq sequence_or_def)
  obtain op where op: "kv_load 10 (PENDING_OPERATIONS ex_rotating) = Some op" "op_operation_type op = RotateKeys ex_new_relayers 1"
    by (simp add: ex_rotating_eq)
  from rotation_takes_effect [OF r [unfolded ex_rotated_def] d [unfolded ex_rotated_def] c sq op] show ?thesis
    by (simp add: ex_rotated_def)
qed

text \<open>
  C26. A new base fee renews every pending operation: its version grows by one, its signatures are
  dropped and it carries the new fee, with nothing else changed; no operation is added or lost.
\<close>

theorem base_fee_renews_operations:
  assumes "execute p e info s (Msg_UpdateXRPLBaseFee fee) = Inr (r, s')"
  shows "(kv_load oid (PENDING_OPERATIONS s) = None \<longrightarrow> kv_load oid (PENDING_OPERATIONS s') = None) \<and>
    (\<forall>op. kv_load oid (PENDING_OPERATIONS s) = Some op \<longrightarrow>
      (\<exists>v. unat v = unat (op_version op) + 1 \<and>
        kv_load oid (PENDING_OPERATIONS s') = Some (op\<lparr>op_version := v, op_signatures := [], op_xrpl_base_fee := fee\<rparr>)))"
proof -
  from assms have "update_xrpl_base_fee p s (mi_sender info) fee = Inr (r, s')" by simp
  then show ?thesis
  proof (rule update_xrpl_base_fee_ok)
    fix c m
    assume s': "s' = s\<lparr>CONFIG := Some (c\<lparr>cf_xrpl_base_fee := fee\<rparr>), PENDING_OPERATIONS := m\<rparr>"
      and n: "\<And>k. kv_load k (PENDING_OPERATIONS s) = None \<Longrightarrow> kv_load k m = None"
      and r: "\<And>k op. kv_load k (PENDING_OPERATIONS s) = Some op \<Longrightarrow> \<exists>op'. kv_load k m = Some op' \<and> renewed fee op op'"
    have "\<exists>v. unat v = unat (op_version op) + 1 \<and> kv_load oid m = Some (op\<lparr>op_version := v, op_signatures := [], op_xrpl_base_fee := fee\<rparr>)"
      if "kv_load oid (PENDING_OPERATIONS s) = Some op" for op
      using r [OF that] unfolding renewed_def by metis
    with n show ?thesis by (simp add: s')
  qed
qed

theorem base_fee_renews_operations_witness:
  "\<exists>v. unat v = (2 :: nat) \<and> kv_load 9 (PENDING_OPERATIONS (ex_run ''owner'' (Msg_UpdateXRPLBaseFee 25) ex_state)) =
     Some (ex_usd_operation\<lparr>op_version := v, op_signatures := [], op_xrpl_base_fee := 25\<rparr>)"
proof -
  have "ok (execute ex_platform ex_env (info_of ''owner'' []) ex_state (Msg_UpdateXRPLBaseFee 25))"
    by (simp add: eval_simps)
  from ok_execute [OF this] obtain r where
    r: "execute ex_platform ex_env (info_of ''owner'' []) ex_state (Msg_UpdateXRPLBaseFee 25) = Inr (r, ex_run ''owner'' (Msg_UpdateXRPLBaseFee 25) ex_state)"
    unfolding ex_run_def by blast
  have "kv_load 9 (PENDING_OPERATIONS ex_state) = Some ex_usd_operation" "unat (op_version ex_usd_operation) = 1"
    by (simp_all add: ex_state_def ex_usd_operation_def)
  with base_fee_renews_operations [OF r, of 9] show ?thesis by (auto simp: numeral_2_eq_2)
qed

text \<open>
  C15. The state of every token issued on the XRPL follows its life cycle in every run from a
  reachable state: it is registered as processing, is enabled or left inactive, can be
  processed again when inactive, and is switched off and on when enabled. A token that was enabled
  once never becomes processing or inactive again.
\<close>

theorem token_lifecycle_followed:
  assumes "reachable s" and "bridge_step\<^sup>*\<^sup>* s s'"
  shows "lifecycle\<^sup>*\<^sup>* (xrpl_token_state key s) (xrpl_token_state key s') \<and>
    (live (xrpl_token_state key s) \<longrightarrow> live (xrpl_token_state key s'))"
  using lifecycle_runs [OF assms(2) trust_sets.holds_when_reached [OF assms(1)], of key] live_forever by blast

theorem token_lifecycle_followed_witness:
  "lifecycle\<^sup>*\<^sup>* None (Some Processing) \<and>
   xrpl_token_state ''rIssuerOfUsdAccount1111111USD'' ex_ready = None \<and>
   xrpl_token_state ''rIssuerOfUsdAccount1111111USD'' ex_registering = Some Processing"
proof -
  have "ok (execute ex_platform ex_env (info_of ''owner'' []) ex_ready
      (Msg_RegisterXRPLToken ''rIssuerOfUsdAccount1111111'' ''USD'' 15 1000000 5))"
    by (simp add: eval_simps validation_defs run_eqs)
  from ok_execute [OF this] have "bridge_step ex_ready ex_registering"
    unfolding ex_registering_def ex_run_def by (blast intro: bridge_step.executed)
  then have "bridge_step\<^sup>*\<^sup>* ex_ready ex_registering" by (rule r_into_rtranclp)
  from token_lifecycle_followed [OF ex_ready_reachable this, of "''rIssuerOfUsdAccount1111111USD''"] show ?thesis
    by (simp add: xrpl_token_state_def ex_registering_eq run_eqs ex_usd_def build_xrpl_token_key_def token_consts)
qed

text \<open>
  C25. Tokens are never removed and keep what identifies them: in every run each token issued on
  the XRPL stays registered with the same issuer, currency and denom, and each Cosmos originated token
  with the same denom, decimals and XRPL currency.
\<close>

theorem token_identity_stable:
  assumes "bridge_step\<^sup>*\<^sup>* s s'"
  shows "(\<forall>key tok. kv_load key (XRPL_TOKENS s) = Some tok \<longrightarrow>
      (\<exists>tok'. kv_load key (XRPL_TOKENS s') = Some tok' \<and> xt_issuer tok' = xt_issuer tok \<and>
        xt_currency tok' = xt_currency tok \<and> xt_cosmos_denom tok' = xt_cosmos_denom tok)) \<and>
    (\<forall>d ctok. kv_load d (COSMOS_TOKENS s) = Some ctok \<longrightarrow>
      (\<exists>ctok'. kv_load d (COSMOS_TOKENS s') = Some ctok' \<and> ct_denom ctok' = ct_denom ctok \<and>
        ct_decimals ctok' = ct_decimals ctok \<and> ct_xrpl_currency ctok' = ct_xrpl_currency ctok))"
  using token_identity [OF assms] by blast

theorem token_identity_stable_witness:
  "(\<exists>tok'. kv_load (build_xrpl_token_key XRP_ISSUER XRP_CURRENCY) (XRPL_TOKENS (ex_run ''owner'' Msg_HaltBridge ex_ready)) = Some tok' \<and>
     xt_cosmos_denom tok' = ''factory/tf/XRP'') \<and>
   (\<exists>ctok'. kv_load ''ucosmos'' (COSMOS_TOKENS (ex_run ''owner'' Msg_HaltBridge ex_listed)) = Some ctok' \<and>
     ct_xrpl_currency ctok' = ex_currency)"
proof -
  have run: "bridge_step\<^sup>*\<^sup>* s (ex_run ''owner'' Msg_HaltBridge s)"
    if "ok (execute ex_platform ex_env (info_of ''owner'' []) s Msg_HaltBridge)" for s
    using ok_execute [OF that] unfolding ex_run_def by (blast intro: bridge_step.executed)
  have x: "kv_load (build_xrpl_token_key XRP_ISSUER XRP_CURRENCY) (XRPL_TOKENS ex_ready) = Some (xrp_token (Addr ''tf''))"
    and c: "kv_load ''ucosmos'' (COSMOS_TOKENS ex_listed) = Some ex_ucosmos"
    by (simp_all add: ex_listed_eq run_eqs)
  have n: "xt_cosmos_denom (xrp_token (Addr ''tf'')) = ''factory/tf/XRP''" "ct_xrpl_currency ex_ucosmos = ex_currency"
    by (simp_all add: xrp_token_def ex_ucosmos_def full_denom_def token_consts)
  have "ok (execute ex_platform ex_env (info_of ''owner'' []) ex_ready Msg_HaltBridge)"
    "ok (execute ex_platform ex_env (info_of ''owner'' []) ex_listed Msg_HaltBridge)"
    by (simp_all add: eval_simps ex_listed_eq run_eqs)
  note stable = this [THEN run, THEN token_identity_stable]
  from stable(1) x show ?thesis
    using stable(2) c unfolding n [symmetric] by blast
qed

section \<open>Access\<close>

text \<open>
  C20. Authorisation of \<open>execute\<close>: a message that needs an authorised action succeeds only for
  a sender that is the owner, when the action is the owner's, or one of the current relayers, when
  the action is the relayers'. All messages but \<open>SendToXRPL\<close>, \<open>ClaimRefund\<close>,
  \<open>ClaimRelayerFees\<close> and \<open>UpdateOwnership\<close> need one.
\<close>

theorem execute_authorised:
  assumes "execute p e info s msg = Inr (r, s')" and "required_action msg = Some act"
  shows "(is_owner p (OWNERSHIP s) (mi_sender info) = Inr True \<and> is_authorized Owner act) \<or>
    (mi_sender info \<in> set (relayer_addresses s) \<and> is_authorized Relayer act)"
  using execute_checks_role [OF assms] by (auto simp: check_authorization_ok)

theorem execute_authorised_witness:
  "(is_owner ex_platform (OWNERSHIP ex_state) (Addr ''rel1'') = Inr True \<and> is_authorized Owner CA_SaveEvidence) \<or>
    (Addr ''rel1'' \<in> set (relayer_addresses ex_state) \<and> is_authorized Relayer CA_SaveEvidence)"
proof -
  have "ok (execute ex_platform ex_env (info_of ''rel1'' []) ex_state (Msg_SaveEvidence ex_transfer))"
    by (simp add: eval_simps)
  then obtain r s' where "execute ex_platform ex_env (info_of ''rel1'' []) ex_state (Msg_SaveEvidence ex_transfer) = Inr (r, s')"
    using ok_execute by blast
  from execute_authorised [OF this, of CA_SaveEvidence] show ?thesis by (simp add: info_of_def)
qed

text \<open>
  C21. A halted bridge moves nothing: while the bridge is halted, \<open>execute\<close> refuses transfers in
  both directions, claims of fees and refunds, registrations and updates of tokens, the recovery of
  a registration and a second halt.
\<close>

theorem halted_bridge_refuses:
  assumes "CONFIG s = Some c" and "cf_bridge_state c = Halted" and "\<not> allowed_when_halted msg"
  shows "\<not> (\<exists>r s'. execute p e info s msg = Inr (r, s'))"
  using halted_refuses assms by blast

theorem halted_bridge_refuses_witness:
  "\<not> (\<exists>r s'. execute ex_platform ex_env (info_of ''carol'' []) ex_halted (Msg_ClaimRefund ''800-8'') = Inr (r, s'))"
  by (rule halted_bridge_refuses [of _ "(initial_config ex_msg)\<lparr>cf_bridge_state := Halted\<rparr>"])
    (simp_all add: ex_halted_def)

text \<open>
  C23. Refinement: every successful call of \<open>execute\<close> is a sequence of the elementary
  transitions of the bridge's state machine, in which an operation is queued together with its flag,
  a token's state changes together with its trust set operation, and a relayer set is replaced
  together with the removal of the votes of the old one.
\<close>

theorem execute_refines_machine:
  assumes "execute p e info s msg = Inr (r, s')"
  shows "transitions p True s s'"
  using assms by (rule execute_transitions)

theorem execute_refines_machine_witness: "transitions ex_platform True ex_state (ex_run ''carol'' (Msg_ClaimRefund ''800-8'') ex_state)"
proof -
  have "ok (execute ex_platform ex_env (info_of ''carol'' []) ex_state (Msg_ClaimRefund ''800-8''))"
    by (simp add: eval_simps)
  from ok_execute [OF this] show ?thesis unfolding ex_run_def using execute_refines_machine by blast
qed

end
